(* ===== verification/Prelude.thy ===== *)
theory Prelude
  imports Main "HOL-Library.Word" "HOL-Library.Sublist" "HOL-Library.Multiset"
begin

text \<open>
  What every component of the development shares: the collections its automation is stored in,
  the faults of the C++ runtime as values, the small monad of computations that may fault, and
  generic facts on lists, words and folds.
\<close>

named_theorems fault_simps \<open>rewriting of computations that may fault\<close>
named_theorems mask_simps \<open>reading and writing of bit masks\<close>
named_theorems qt_simps \<open>evaluation of the Qt string operations\<close>

unbundle bit_operations_syntax

section \<open>Computations that may fault\<close>

text \<open>
  Undefined behaviour of the C++ code that the model makes visible: reading through a null
  pointer, reading past the end of a buffer, taking an element of an empty list or one out of
  range, signed integer overflow, and using or freeing memory that was freed. A loop whose number
  of rounds the other side of a connection decides is run with fuel and gives the last value when
  it is used up.
\<close>

datatype fault = Null_Dereference | Buffer_Overread | Empty_List | Index_Out_Of_Range | Signed_Overflow
  | Use_After_Free | Double_Free | Out_Of_Fuel

type_synonym 'a faulty = "fault + 'a"

abbreviation returns :: "'a \<Rightarrow> 'a faulty" where
  "returns x \<equiv> Inr x"

definition bind_faulty :: "'a faulty \<Rightarrow> ('a \<Rightarrow> 'b faulty) \<Rightarrow> 'b faulty" where
  "bind_faulty m f = (case m of Inl e \<Rightarrow> Inl e | Inr x \<Rightarrow> f x)"

fun fold_faulty :: "('a \<Rightarrow> 's \<Rightarrow> 's faulty) \<Rightarrow> 'a list \<Rightarrow> 's \<Rightarrow> 's faulty" where
  "fold_faulty f [] s = Inr s"
| "fold_faulty f (x # xs) s = bind_faulty (f x s) (fold_faulty f xs)"

definition is_ok :: "'a faulty \<Rightarrow> bool" where
  "is_ok m = (case m of Inl _ \<Rightarrow> False | Inr _ \<Rightarrow> True)"

lemma bind_faulty_Inr [simp, fault_simps]: "bind_faulty (Inr x) f = f x"
  by (simp add: bind_faulty_def)

lemma bind_faulty_Inl [simp, fault_simps]: "bind_faulty (Inl e) f = Inl e"
  by (simp add: bind_faulty_def)

lemma bind_faulty_eq_Inr [fault_simps]:
  "bind_faulty m f = Inr y \<longleftrightarrow> (\<exists>x. m = Inr x \<and> f x = Inr y)"
  by (cases m) auto

lemma bind_faulty_assoc: "bind_faulty (bind_faulty m f) g = bind_faulty m (\<lambda>x. bind_faulty (f x) g)"
  by (cases m) auto

lemma is_ok_simps [simp, fault_simps]: "is_ok (Inr x)" "\<not> is_ok (Inl e)"
  by (simp_all add: is_ok_def)

lemma is_ok_iff: "is_ok m \<longleftrightarrow> (\<exists>x. m = Inr x)"
  by (cases m) auto

lemma fold_faulty_append:
  "fold_faulty f (xs @ ys) s = bind_faulty (fold_faulty f xs s) (fold_faulty f ys)"
proof (induction xs arbitrary: s)
  case Nil
  then show ?case by simp
next
  case (Cons x xs)
  then show ?case by (cases "f x s") auto
qed

text \<open>An invariant of every step is an invariant of the whole loop.\<close>

lemma fold_faulty_invariant:
  assumes "fold_faulty f xs s = Inr t" and "P s"
    and "\<And>x s t. x \<in> set xs \<Longrightarrow> P s \<Longrightarrow> f x s = Inr t \<Longrightarrow> P t"
  shows "P t"
  using assms
proof (induction xs arbitrary: s)
  case Nil
  then show ?case by simp
next
  case (Cons x xs)
  from Cons.prems(1) obtain u where u: "f x s = Inr u" "fold_faulty f xs u = Inr t"
    by (auto simp: fault_simps)
  have "P u" using Cons.prems(2,3) u(1) by auto
  with u(2) show ?case using Cons.IH Cons.prems(3) by auto
qed

text \<open>A loop returns when every step does and keeps the precondition of the next.\<close>

lemma fold_faulty_ok:
  assumes "P s" and "\<And>x s. x \<in> set xs \<Longrightarrow> P s \<Longrightarrow> \<exists>t. f x s = Inr t \<and> P t"
  shows "\<exists>t. fold_faulty f xs s = Inr t \<and> P t"
  using assms
proof (induction xs arbitrary: s)
  case Nil
  then show ?case by simp
next
  case (Cons x xs)
  then obtain u where "f x s = Inr u" "P u" by (meson list.set_intros(1))
  with Cons show ?case by auto
qed

lemma fold_faulty_pure:
  assumes "\<And>x s. x \<in> set xs \<Longrightarrow> f x s = Inr (g x s)"
  shows "fold_faulty f xs s = Inr (fold g xs s)"
  using assms by (induction xs arbitrary: s) auto

section \<open>Lists\<close>

text \<open>The elements of a list in order, each once: \<open>QList::removeDuplicates\<close> keeps first occurrences.\<close>

fun dedup :: "'a list \<Rightarrow> 'a list" where
  "dedup [] = []"
| "dedup (x # xs) = x # filter (\<lambda>y. y \<noteq> x) (dedup xs)"

lemma set_dedup [simp]: "set (dedup xs) = set xs"
  by (induction xs) auto

lemma distinct_dedup [simp]: "distinct (dedup xs)"
  by (induction xs) auto

lemma dedup_id: "distinct xs \<Longrightarrow> dedup xs = xs"
  by (induction xs) (auto simp: filter_id_conv)

text \<open>\<open>QList::move\<close> takes the element at one index and inserts it at another.\<close>

definition list_move :: "nat \<Rightarrow> nat \<Rightarrow> 'a list \<Rightarrow> 'a list" where
  "list_move i j xs = (let ys = take i xs @ drop (Suc i) xs in take j ys @ [xs ! i] @ drop j ys)"

lemma mset_list_move: "i < length xs \<Longrightarrow> mset (list_move i j xs) = mset xs"
proof -
  assume i: "i < length xs"
  have "mset (list_move i j xs) = add_mset (xs ! i) (mset (take i xs @ drop (Suc i) xs))"
    unfolding list_move_def Let_def
    by (metis append_Cons append_Nil append_take_drop_id mset_append mset.simps(2) union_mset_add_mset_right)
  also have "\<dots> = mset (take i xs @ [xs ! i] @ drop (Suc i) xs)" by simp
  also have "\<dots> = mset xs" using i by (simp add: id_take_nth_drop [symmetric])
  finally show ?thesis .
qed

lemma set_list_move [simp]: "i < length xs \<Longrightarrow> set (list_move i j xs) = set xs"
  by (metis mset_list_move set_mset_mset)

lemma length_list_move [simp]: "i < length xs \<Longrightarrow> length (list_move i j xs) = length xs"
  by (metis mset_list_move size_mset)

lemma distinct_list_move [simp]: "i < length xs \<Longrightarrow> distinct (list_move i j xs) = distinct xs"
  by (metis mset_list_move mset_eq_imp_distinct_iff)

lemma nth_list_move: "i < length xs \<Longrightarrow> j < length xs \<Longrightarrow> list_move i j xs ! j = xs ! i"
  by (cases "j \<le> i") (auto simp: list_move_def Let_def nth_append)

text \<open>A move by one place is a swap of neighbours.\<close>

lemma list_move_up:
  assumes "Suc i < length xs"
  shows "list_move (Suc i) i xs = take i xs @ [xs ! Suc i, xs ! i] @ drop (Suc (Suc i)) xs"
proof -
  have "take (Suc i) xs = take i xs @ [xs ! i]" using assms by (simp add: take_Suc_conv_app_nth)
  then show ?thesis using assms by (simp add: list_move_def Let_def)
qed

lemma list_move_down:
  assumes "Suc i < length xs"
  shows "list_move i (Suc i) xs = take i xs @ [xs ! Suc i, xs ! i] @ drop (Suc (Suc i)) xs"
proof -
  have "drop (Suc i) xs = xs ! Suc i # drop (Suc (Suc i)) xs"
    using assms by (simp add: Cons_nth_drop_Suc)
  moreover have "length (take i xs) = i" using assms by simp
  ultimately show ?thesis by (simp add: list_move_def Let_def)
qed

text \<open>\<open>QList::indexOf\<close>: the index of the first occurrence, or -1.\<close>

fun list_index :: "'a list \<Rightarrow> 'a \<Rightarrow> int" where
  "list_index [] x = -1"
| "list_index (y # ys) x =
     (if y = x then 0 else let i = list_index ys x in if i < 0 then -1 else i + 1)"

lemma list_index_ge: "-1 \<le> list_index xs x"
  by (induction xs) (auto simp: Let_def)

lemma list_index_less: "list_index xs x < int (length xs)"
proof (induction xs)
  case Nil
  then show ?case by simp
next
  case (Cons y ys)
  then show ?case by (simp add: Let_def)
qed

lemma list_index_nonneg: "0 \<le> list_index xs x \<longleftrightarrow> x \<in> set xs"
  by (induction xs) (auto simp: Let_def)

lemma list_index_neg [simp]: "list_index xs x = -1 \<longleftrightarrow> x \<notin> set xs"
  using list_index_nonneg [of xs x] list_index_ge [of xs x] by auto

lemma nth_list_index: "x \<in> set xs \<Longrightarrow> xs ! nat (list_index xs x) = x"
proof (induction xs)
  case Nil
  then show ?case by simp
next
  case (Cons y ys)
  then show ?case
    using list_index_nonneg [of ys x] by (auto simp: Let_def nat_add_distrib not_less)
qed

lemma list_index_unique:
  "distinct xs \<Longrightarrow> i < length xs \<Longrightarrow> list_index xs (xs ! i) = int i"
proof (induction xs arbitrary: i)
  case Nil
  then show ?case by simp
next
  case (Cons y ys)
  then show ?case by (cases i) (auto simp: Let_def)
qed

section \<open>Masks\<close>

lemma mask_subset_iff [mask_simps]: "(m AND k = k) \<longleftrightarrow> (\<forall>n. bit k n \<longrightarrow> bit m n)"
  for m k :: "'a::len word"
  by (auto simp: bit_eq_iff bit_and_iff dest: bit_imp_le_length)

end
