(* ===== verification/QtCore.thy ===== *)
theory QtCore
  imports Prelude "HOL-Library.Char_ord"
begin

text \<open>
  The operations of \<open>QString\<close>, \<open>QStringList\<close> and \<open>QByteArray\<close> the program uses, as their
  documentation describes them. A string is a \<open>char list\<close>: characters are 8 bit (Latin-1), and
  case is folded on the ASCII letters only, which is all that the LDAP names the code folds
  need. Indices are \<open>int\<close>, as in Qt, where -1 stands for "not found".
\<close>

type_synonym qstring = string

section \<open>Case folding, trimming\<close>

definition to_lower_char :: "char \<Rightarrow> char" where
  "to_lower_char c = (let n = of_char c :: nat in if 65 \<le> n \<and> n \<le> 90 then char_of (n + 32) else c)"

definition to_upper_char :: "char \<Rightarrow> char" where
  "to_upper_char c = (let n = of_char c :: nat in if 97 \<le> n \<and> n \<le> 122 then char_of (n - 32) else c)"

definition to_lower :: "qstring \<Rightarrow> qstring" where
  "to_lower s = map to_lower_char s"

definition to_upper :: "qstring \<Rightarrow> qstring" where
  "to_upper s = map to_upper_char s"

definition is_space_char :: "char \<Rightarrow> bool" where
  "is_space_char c = ((of_char c :: nat) \<in> {9, 10, 11, 12, 13, 32, 133, 160})"

definition trimmed :: "qstring \<Rightarrow> qstring" where
  "trimmed s = rev (dropWhile is_space_char (rev (dropWhile is_space_char s)))"

section \<open>Splitting and joining\<close>

text \<open>\<open>QString::split\<close> on one character, keeping empty parts: an empty string has one empty part.\<close>

fun split_char :: "char \<Rightarrow> qstring \<Rightarrow> qstring list" where
  "split_char c [] = [[]]"
| "split_char c (x # xs) =
     (if x = c then [] # split_char c xs
      else case split_char c xs of [] \<Rightarrow> [[x]] | p # ps \<Rightarrow> (x # p) # ps)"

fun join :: "qstring \<Rightarrow> qstring list \<Rightarrow> qstring" where
  "join sep [] = []"
| "join sep [x] = x"
| "join sep (x # y # ys) = x @ sep @ join sep (y # ys)"

definition remove_char :: "char \<Rightarrow> qstring \<Rightarrow> qstring" where
  "remove_char c s = filter (\<lambda>x. x \<noteq> c) s"

text \<open>\<open>QString::replace\<close> of every occurrence, left to right, not rescanning what it wrote.\<close>

fun replace_all :: "qstring \<Rightarrow> qstring \<Rightarrow> qstring \<Rightarrow> qstring" where
  "replace_all before after [] = []"
| "replace_all before after (x # xs) =
     (if before \<noteq> [] \<and> take (length before) (x # xs) = before
      then after @ replace_all before after (drop (length before - 1) xs)
      else x # replace_all before after xs)"

definition starts_with :: "qstring \<Rightarrow> qstring \<Rightarrow> bool" where
  "starts_with s p = (take (length p) s = p)"

definition ends_with :: "qstring \<Rightarrow> qstring \<Rightarrow> bool" where
  "ends_with s p = starts_with (rev s) (rev p)"

definition contains_char :: "qstring \<Rightarrow> char \<Rightarrow> bool" where
  "contains_char s c = (c \<in> set s)"

fun index_of_str :: "qstring \<Rightarrow> qstring \<Rightarrow> int" where
  "index_of_str [] p = (if p = [] then 0 else -1)"
| "index_of_str (x # xs) p =
     (if starts_with (x # xs) p then 0
      else let i = index_of_str xs p in if i < 0 then -1 else i + 1)"

definition contains_str :: "qstring \<Rightarrow> qstring \<Rightarrow> bool" where
  "contains_str s p = (0 \<le> index_of_str s p)"

definition index_of_char :: "qstring \<Rightarrow> char \<Rightarrow> int" where
  "index_of_char s c = list_index s c"

definition last_index_of_char :: "qstring \<Rightarrow> char \<Rightarrow> int" where
  "last_index_of_char s c =
     (let i = list_index (rev s) c in if i < 0 then -1 else int (length s) - 1 - i)"

text \<open>
  \<open>left\<close> with a length out of range is the whole string. \<open>mid\<close> with a negative length goes to the
  end; a negative position counts the length from before the start.
\<close>

definition left :: "qstring \<Rightarrow> int \<Rightarrow> qstring" where
  "left s n = (if n < 0 \<or> int (length s) \<le> n then s else take (nat n) s)"

definition mid_from :: "qstring \<Rightarrow> int \<Rightarrow> qstring" where
  "mid_from s pos = drop (nat pos) s"

definition mid :: "qstring \<Rightarrow> int \<Rightarrow> int \<Rightarrow> qstring" where
  "mid s pos n =
     (if n < 0 then mid_from s pos
      else if pos < 0 then take (nat (n + pos)) s
      else take (nat n) (drop (nat pos) s))"

section \<open>Numbers\<close>

definition digit_char :: "nat \<Rightarrow> char" where
  "digit_char d = char_of (if d < 10 then 48 + d else 87 + d)"

definition digit_value :: "nat \<Rightarrow> char \<Rightarrow> nat option" where
  "digit_value base c =
     (let n = of_char c :: nat;
          v = (if 48 \<le> n \<and> n \<le> 57 then n - 48
               else if 97 \<le> n \<and> n \<le> 122 then n - 87
               else if 65 \<le> n \<and> n \<le> 90 then n - 55 else 99)
      in if v < base then Some v else None)"

function digits_of :: "nat \<Rightarrow> nat \<Rightarrow> qstring" where
  "digits_of base n =
     (if n < base \<or> base < 2 then [digit_char n]
      else digits_of base (n div base) @ [digit_char (n mod base)])"
  by auto
termination
  by (relation "measure snd") (auto intro: div_less_dividend)

declare digits_of.simps [simp del]

fun digits_value :: "nat \<Rightarrow> qstring \<Rightarrow> nat \<Rightarrow> nat option" where
  "digits_value base [] acc = Some acc"
| "digits_value base (c # cs) acc =
     (case digit_value base c of None \<Rightarrow> None | Some d \<Rightarrow> digits_value base cs (acc * base + d))"

definition of_digits :: "nat \<Rightarrow> qstring \<Rightarrow> nat option" where
  "of_digits base s = (if s = [] then None else digits_value base s 0)"

text \<open>\<open>QString::number\<close> in base 10; \<open>arg (n, width, base, fill)\<close> of a number that is not negative.\<close>

definition number :: "int \<Rightarrow> qstring" where
  "number n = (if n < 0 then ''-'' @ digits_of 10 (nat (- n)) else digits_of 10 (nat n))"

definition arg_padded :: "nat \<Rightarrow> nat \<Rightarrow> nat \<Rightarrow> qstring" where
  "arg_padded width base n =
     (let ds = digits_of base n in replicate (width - length ds) (CHR ''0'') @ ds)"

text \<open>
  \<open>toLongLong\<close> and \<open>toInt\<close>: white space around the number is ignored, one sign is accepted, base
  16 accepts the prefix \<open>0x\<close>, and a value out of range fails.
\<close>

definition strip_base_prefix :: "nat \<Rightarrow> qstring \<Rightarrow> qstring" where
  "strip_base_prefix base s =
     (if base = 16 \<and> 2 < length s \<and> take 2 (to_lower s) = ''0x'' then drop 2 s else s)"

definition parse_int :: "nat \<Rightarrow> qstring \<Rightarrow> int option" where
  "parse_int base s =
     (let t = trimmed s;
          neg = (take 1 t = ''-'');
          u = (if neg \<or> take 1 t = ''+'' then drop 1 t else t)
      in map_option (\<lambda>n. if neg then - int n else int n) (of_digits base (strip_base_prefix base u)))"

definition in_range :: "nat \<Rightarrow> int \<Rightarrow> bool" where
  "in_range w n = (- (2 ^ (w - 1)) \<le> n \<and> n < 2 ^ (w - 1))"

definition to_int_base :: "nat \<Rightarrow> qstring \<Rightarrow> int option" where
  "to_int_base base s =
     (case parse_int base s of None \<Rightarrow> None | Some n \<Rightarrow> if in_range 32 n then Some n else None)"

definition to_int :: "qstring \<Rightarrow> int option" where
  "to_int s = to_int_base 10 s"

definition to_long_long :: "qstring \<Rightarrow> int option" where
  "to_long_long s =
     (case parse_int 10 s of None \<Rightarrow> None | Some n \<Rightarrow> if in_range 64 n then Some n else None)"

text \<open>A call that does not look at the \<open>ok\<close> flag gets 0 from a string that is not a number.\<close>

definition or_zero :: "int option \<Rightarrow> int" where
  "or_zero n = (case n of None \<Rightarrow> 0 | Some n \<Rightarrow> n)"

section \<open>Facts\<close>

subsection \<open>Splitting and joining\<close>

lemma split_char_not_Nil [simp]: "split_char c s \<noteq> []"
  by (cases s) (auto split: list.split)

lemma split_char_Cons [simp]:
  "split_char c (x # xs) =
    (if x = c then [] # split_char c xs else (x # hd (split_char c xs)) # tl (split_char c xs))"
  using split_char_not_Nil [of c xs] by (cases "split_char c xs") auto

declare split_char.simps(2) [simp del]

lemma split_char_none: "c \<notin> set s \<Longrightarrow> split_char c s = [s]"
  by (induction s) auto

lemma split_char_append: "c \<notin> set x \<Longrightarrow> split_char c (x @ c # s) = x # split_char c s"
  by (induction x) auto

lemma split_char_parts: "p \<in> set (split_char c s) \<Longrightarrow> c \<notin> set p"
proof (induction s arbitrary: p)
  case Nil
  then show ?case by simp
next
  case (Cons x xs)
  have "hd (split_char c xs) \<in> set (split_char c xs)" by simp
  moreover have "q \<in> set (tl (split_char c xs)) \<Longrightarrow> q \<in> set (split_char c xs)" for q
    by (metis list.set_sel(2) split_char_not_Nil)
  ultimately show ?case using Cons by (auto split: if_splits)
qed

lemma split_join:
  assumes "xs \<noteq> []" and "\<And>x. x \<in> set xs \<Longrightarrow> c \<notin> set x"
  shows "split_char c (join [c] xs) = xs"
  using assms
proof (induction "[c]" xs rule: join.induct)
  case (3 x y ys)
  then have "split_char c (join [c] (y # ys)) = y # ys" by auto
  with 3 show ?case by (simp add: split_char_append)
qed (auto simp: split_char_none)

lemma join_Cons: "ps \<noteq> [] \<Longrightarrow> join sep (p # ps) = p @ sep @ join sep ps"
  by (cases ps) auto

lemma join_split: "join [c] (split_char c s) = s"
proof (induction s)
  case Nil
  then show ?case by simp
next
  case (Cons x xs)
  obtain p ps where ps: "split_char c xs = p # ps" by (cases "split_char c xs") auto
  have "join [c] ((x # p) # ps) = x # join [c] (p # ps)" by (cases ps) auto
  then show ?case using Cons ps by (cases "x = c") (auto simp: join_Cons)
qed

lemma set_join: "set (join sep xs) \<subseteq> set sep \<union> \<Union> (set ` set xs)"
  by (induction sep xs rule: join.induct) auto

lemma length_split_char: "length (split_char c s) = Suc (length (filter (\<lambda>x. x = c) s))"
  by (induction s) auto

subsection \<open>Replacing and removing\<close>

lemma remove_char_id: "c \<notin> set s \<Longrightarrow> remove_char c s = s"
  by (auto simp: remove_char_def filter_id_conv)

lemma remove_char_append [simp]: "remove_char c (s @ t) = remove_char c s @ remove_char c t"
  by (simp add: remove_char_def)

lemma remove_char_simps [simp]:
  "remove_char c [] = []" "remove_char c (x # s) = (if x = c then remove_char c s else x # remove_char c s)"
  by (simp_all add: remove_char_def)

text \<open>Prefixing every \<open>b\<close> with a \<open>a\<close> and removing those prefixes again.\<close>

lemma replace_all_escape: "replace_all [b] [a, b] s = concat (map (\<lambda>x. if x = b then [a, b] else [x]) s)"
  by (induction s) auto

lemma replace_all_unescape:
  assumes "a \<noteq> b"
  shows "replace_all [a, b] [b] (replace_all [b] [a, b] s) = s"
proof (induction s)
  case Nil
  then show ?case by simp
next
  case (Cons x xs)
  let ?e = "replace_all [b] [a, b] xs"
  have hd: "?e = [] \<or> hd ?e \<noteq> b" using assms by (cases xs) auto
  then have "take (Suc 0) ?e \<noteq> [b]" by (cases ?e) auto
  then show ?case using Cons assms by (cases "x = b") auto
qed

subsection \<open>Prefixes, suffixes, positions\<close>

lemma starts_with_append [simp]: "starts_with (p @ s) p"
  by (simp add: starts_with_def)

lemma starts_with_iff: "starts_with s p \<longleftrightarrow> (\<exists>t. s = p @ t)"
  by (auto simp: starts_with_def) (metis append_take_drop_id)

lemma ends_with_iff: "ends_with s p \<longleftrightarrow> (\<exists>t. s = t @ p)"
  unfolding ends_with_def starts_with_iff by (metis rev_append rev_rev_ident)

lemma index_of_str_ge: "-1 \<le> index_of_str s p"
  by (induction s) (auto simp: Let_def)

lemma index_of_str_prefix [simp]: "index_of_str (p @ s) p = 0"
proof (cases "p @ s")
  case (Cons x xs)
  moreover have "starts_with (p @ s) p" by simp
  ultimately show ?thesis by simp
qed simp

lemma contains_str_iff: "contains_str s p \<longleftrightarrow> (\<exists>u v. s = u @ p @ v)"
proof (induction s)
  case Nil
  then show ?case by (auto simp: contains_str_def)
next
  case (Cons x xs)
  have "contains_str (x # xs) p \<longleftrightarrow> starts_with (x # xs) p \<or> contains_str xs p"
    using index_of_str_ge [of xs p] by (auto simp: contains_str_def Let_def)
  also have "\<dots> \<longleftrightarrow> (\<exists>u v. x # xs = u @ p @ v)"
    unfolding Cons starts_with_iff by (auto simp: Cons_eq_append_conv)
  finally show ?case .
qed

lemma list_index_append:
  "x \<notin> set xs \<Longrightarrow> list_index (xs @ ys) x = (if x \<in> set ys then int (length xs) + list_index ys x else -1)"
proof (induction xs)
  case Nil
  then show ?case by (simp add: list_index_neg [symmetric] del: list_index_neg)
next
  case (Cons z zs)
  then show ?case using list_index_nonneg [of ys x] by (auto simp: Let_def)
qed

lemma index_of_char_first: "c \<notin> set x \<Longrightarrow> index_of_char (x @ c # s) c = int (length x)"
  by (simp add: index_of_char_def list_index_append)

lemma mid_simps [simp]: "mid s 0 n = (if n < 0 then s else take (nat n) s)"
  by (simp add: mid_def mid_from_def)

lemma mid_from_drop [simp]: "mid_from s (int n) = drop n s"
  by (simp add: mid_from_def)

subsection \<open>Case and white space\<close>

lemma to_lower_append [simp]: "to_lower (s @ t) = to_lower s @ to_lower t"
  by (simp add: to_lower_def)

lemma to_lower_Nil [simp]: "to_lower s = [] \<longleftrightarrow> s = []" "to_lower [] = []"
  by (simp_all add: to_lower_def)

lemma length_to_lower [simp]: "length (to_lower s) = length s"
  by (simp add: to_lower_def)

lemma to_lower_char_idem [simp]: "to_lower_char (to_lower_char c) = to_lower_char c"
  by (auto simp: to_lower_char_def Let_def)

lemma to_lower_idem [simp]: "to_lower (to_lower s) = to_lower s"
  by (simp add: to_lower_def)

lemma to_lower_to_upper_char [simp]: "to_lower_char (to_upper_char c) = to_lower_char c"
  by (auto simp: to_lower_char_def to_upper_char_def Let_def)

lemma to_lower_to_upper [simp]: "to_lower (to_upper s) = to_lower s"
  by (simp add: to_lower_def to_upper_def)

lemma trimmed_id: "s = [] \<or> (\<not> is_space_char (hd s) \<and> \<not> is_space_char (last s)) \<Longrightarrow> trimmed s = s"
proof (cases s)
  case (Cons x xs)
  assume *: "s = [] \<or> (\<not> is_space_char (hd s) \<and> \<not> is_space_char (last s))"
  then have "dropWhile is_space_char s = s" using Cons by simp
  moreover have "dropWhile is_space_char (rev s) = rev s"
    using * Cons by (metis dropWhile.simps(2) hd_rev list.exhaust_sel list.discI rev_is_Nil_conv)
  ultimately show ?thesis by (simp add: trimmed_def)
qed (simp add: trimmed_def)

subsection \<open>Numbers\<close>

lemma digit_value_char: "2 \<le> b \<Longrightarrow> b \<le> 36 \<Longrightarrow> d < b \<Longrightarrow> digit_value b (digit_char d) = Some d"
  by (auto simp: digit_value_def digit_char_def Let_def)

lemma digits_value_append:
  "digits_value b (s @ t) acc = (case digits_value b s acc of None \<Rightarrow> None | Some n \<Rightarrow> digits_value b t n)"
  by (induction s arbitrary: acc) (auto split: option.splits)

lemma digits_of_not_Nil [simp]: "digits_of b n \<noteq> []"
  by (subst digits_of.simps) auto

lemma digits_value_digits_of:
  "2 \<le> b \<Longrightarrow> b \<le> 36 \<Longrightarrow> digits_value b (digits_of b n) 0 = Some n"
proof (induction b n rule: digits_of.induct)
  case (1 b n)
  show ?case
  proof (cases "n < b")
    case True
    then show ?thesis using 1 by (simp add: digits_of.simps digit_value_char)
  next
    case False
    then show ?thesis using 1
      by (subst digits_of.simps) (simp add: digits_value_append digit_value_char)
  qed
qed

lemma of_digits_digits_of [qt_simps]: "2 \<le> b \<Longrightarrow> b \<le> 36 \<Longrightarrow> of_digits b (digits_of b n) = Some n"
  by (simp add: of_digits_def digits_value_digits_of)

lemma digits_of_digit: "2 \<le> b \<Longrightarrow> c \<in> set (digits_of b n) \<Longrightarrow> \<exists>d < b. c = digit_char d"
proof (induction b n rule: digits_of.induct)
  case (1 b n)
  show ?case
  proof (cases "n < b")
    case True
    then show ?thesis using 1 by (auto simp: digits_of.simps)
  next
    case False
    then have "c \<in> set (digits_of b (n div b)) \<or> c = digit_char (n mod b)"
      using 1 by (subst (asm) (2) digits_of.simps) auto
    then show ?thesis
    proof
      assume "c \<in> set (digits_of b (n div b))"
      then show ?thesis using 1 False by auto
    next
      assume "c = digit_char (n mod b)"
      moreover have "n mod b < b" using 1 by simp
      ultimately show ?thesis by blast
    qed
  qed
qed

lemma digit_char_code: "d < 36 \<Longrightarrow> of_char (digit_char d) = (if d < 10 then 48 + d else 87 + d)"
  by (simp add: digit_char_def take_bit_nat_eq_self)

lemma char_neq_code: "(of_char c :: nat) \<noteq> of_char d \<Longrightarrow> c \<noteq> d"
  by auto

lemma digit_char_plain: "d < 36 \<Longrightarrow> \<not> is_space_char (digit_char d) \<and> digit_char d \<noteq> CHR ''-'' \<and> digit_char d \<noteq> CHR ''+''
    \<and> digit_char d \<noteq> CHR '','' \<and> digit_char d \<noteq> CHR '';'' \<and> digit_char d \<noteq> CHR ''['' \<and> digit_char d \<noteq> CHR '']''"
  by (intro conjI char_neq_code) (auto simp: digit_char_code is_space_char_def)

lemma digits_of_plain:
  assumes "2 \<le> b" "b \<le> 36" "c \<in> set (digits_of b n)"
  shows "\<not> is_space_char c \<and> c \<noteq> CHR ''-'' \<and> c \<noteq> CHR ''+'' \<and> c \<noteq> CHR '','' \<and> c \<noteq> CHR '';''
    \<and> c \<noteq> CHR ''['' \<and> c \<noteq> CHR '']''"
proof -
  from assms(1,3) obtain d where "d < b" "c = digit_char d" using digits_of_digit by blast
  then show ?thesis using assms(2) digit_char_plain [of d] by simp
qed

lemma trimmed_digits [simp]: "2 \<le> b \<Longrightarrow> b \<le> 36 \<Longrightarrow> trimmed (digits_of b n) = digits_of b n"
  by (rule trimmed_id) (metis digits_of_not_Nil digits_of_plain hd_in_set last_in_set)

lemma trimmed_number [simp]: "trimmed (number n) = number n"
proof (cases "n < 0")
  case True
  have "\<not> is_space_char (last (digits_of 10 (nat (- n))))"
    by (rule digits_of_plain [THEN conjunct1, of 10 _ "nat (- n)"]) auto
  then show ?thesis using True
    by (intro trimmed_id) (auto simp: number_def is_space_char_def)
qed (simp add: number_def)

lemma parse_int_number [qt_simps]: "parse_int 10 (number n) = Some n"
proof (cases "n < 0")
  case True
  then have "number n = CHR ''-'' # digits_of 10 (nat (- n))" by (simp add: number_def)
  then have "trimmed (number n) = CHR ''-'' # digits_of 10 (nat (- n))" by (metis trimmed_number)
  then show ?thesis using True unfolding parse_int_def
    by (simp add: Let_def strip_base_prefix_def of_digits_digits_of del: trimmed_number)
next
  case False
  obtain c cs where c: "digits_of 10 (nat n) = c # cs" by (cases "digits_of 10 (nat n)") auto
  then have "c \<noteq> CHR ''-''" "c \<noteq> CHR ''+''" using digits_of_plain [of 10 c "nat n"] by auto
  moreover have "of_digits 10 (c # cs) = Some (nat n)" using c of_digits_digits_of [of 10 "nat n"] by simp
  moreover have "trimmed (number n) = c # cs" using False c
    by (simp only: trimmed_number) (simp add: number_def)
  ultimately show ?thesis using False unfolding parse_int_def
    by (simp add: Let_def strip_base_prefix_def del: trimmed_number)
qed

lemma to_int_number [qt_simps]: "in_range 32 n \<Longrightarrow> to_int (number n) = Some n"
  by (simp add: to_int_def to_int_base_def parse_int_number)

lemma to_int_range: "to_int s = Some n \<Longrightarrow> in_range 32 n"
  by (auto simp: to_int_def to_int_base_def split: option.splits if_splits)

lemma to_long_long_number [qt_simps]: "in_range 64 n \<Longrightarrow> to_long_long (number n) = Some n"
  by (simp add: to_long_long_def parse_int_number)

lemma number_plain: "c \<in> set (number n) \<Longrightarrow> c \<noteq> CHR '','' \<and> c \<noteq> CHR '';'' \<and> c \<noteq> CHR ''['' \<and> c \<noteq> CHR '']''"
  using digits_of_plain [of 10 c] by (auto simp: number_def split: if_splits)

lemma number_not_Nil [simp]: "number n \<noteq> []"
  by (simp add: number_def)

lemma or_zero_simps [simp]: "or_zero None = 0" "or_zero (Some n) = n"
  by (simp_all add: or_zero_def)

lemma in_range_zero [simp]: "0 < w \<Longrightarrow> in_range w 0"
  by (simp add: in_range_def)

end
