(* ===== verification/AdDefines.thy ===== *)
theory AdDefines
  imports QtCore
begin

text \<open>
  The enumerations and constants of \<open>src/adldap/ad_defines.h\<close>. The C++ enumerators \<open>X_COUNT\<close> are
  constructors too: the functions that take an enumeration have a branch for them.
\<close>

datatype attribute_type =
    AttributeType_Boolean | AttributeType_Enumeration | AttributeType_Integer
  | AttributeType_LargeInteger | AttributeType_StringCase | AttributeType_IA5
  | AttributeType_NTSecDesc | AttributeType_Numeric | AttributeType_ObjectIdentifier
  | AttributeType_Octet | AttributeType_ReplicaLink | AttributeType_Printable
  | AttributeType_Sid | AttributeType_Teletex | AttributeType_Unicode | AttributeType_UTCTime
  | AttributeType_GeneralizedTime | AttributeType_DNString | AttributeType_DNBinary
  | AttributeType_DSDN

datatype large_integer_subtype =
    LargeIntegerSubtype_Integer | LargeIntegerSubtype_Datetime | LargeIntegerSubtype_Timespan

datatype account_option =
    AccountOption_Disabled | AccountOption_CantChangePassword
  | AccountOption_AllowReversibleEncryption | AccountOption_PasswordExpired
  | AccountOption_DontExpirePassword | AccountOption_UseDesKey | AccountOption_SmartcardRequired
  | AccountOption_CantDelegate | AccountOption_DontRequirePreauth
  | AccountOption_TrustedForDelegation | AccountOption_COUNT

datatype group_scope =
    GroupScope_Global | GroupScope_DomainLocal | GroupScope_Universal | GroupScope_COUNT

datatype group_type = GroupType_Security | GroupType_Distribution | GroupType_COUNT

datatype system_flags_bit =
  SystemFlagsBit_DomainCannotMove | SystemFlagsBit_DomainCannotRename | SystemFlagsBit_CannotDelete

text \<open>A C++ \<open>int\<close> used as a mask is a 32-bit word; \<open>sint\<close> is its value.\<close>

type_synonym mask = "32 word"

fun system_flags_value :: "system_flags_bit \<Rightarrow> mask" where
  "system_flags_value SystemFlagsBit_DomainCannotMove = 0x04000000"
| "system_flags_value SystemFlagsBit_DomainCannotRename = 0x08000000"
| "system_flags_value SystemFlagsBit_CannotDelete = 0x80000000"

text \<open>The enumerators in declaration order, which a loop from 0 below \<open>COUNT\<close> visits.\<close>

definition group_scopes :: "group_scope list" where
  "group_scopes = [GroupScope_Global, GroupScope_DomainLocal, GroupScope_Universal]"

definition account_options :: "account_option list" where
  "account_options = [AccountOption_Disabled, AccountOption_CantChangePassword,
     AccountOption_AllowReversibleEncryption, AccountOption_PasswordExpired,
     AccountOption_DontExpirePassword, AccountOption_UseDesKey, AccountOption_SmartcardRequired,
     AccountOption_CantDelegate, AccountOption_DontRequirePreauth, AccountOption_TrustedForDelegation]"

section \<open>Constants\<close>

abbreviation GROUP_TYPE_BIT_SECURITY :: mask where "GROUP_TYPE_BIT_SECURITY \<equiv> 0x80000000"
abbreviation GROUP_TYPE_BIT_SYSTEM :: mask where "GROUP_TYPE_BIT_SYSTEM \<equiv> 1"

abbreviation UAC_SCRIPT :: mask where "UAC_SCRIPT \<equiv> 0x00000001"
abbreviation UAC_HOMEDIR_REQUIRED :: mask where "UAC_HOMEDIR_REQUIRED \<equiv> 0x00000008"
abbreviation UAC_LOCKOUT :: mask where "UAC_LOCKOUT \<equiv> 0x00000010"
abbreviation UAC_PASSWD_NOTREQD :: mask where "UAC_PASSWD_NOTREQD \<equiv> 0x00000020"
abbreviation UAC_PASSWD_CANT_CHANGE :: mask where "UAC_PASSWD_CANT_CHANGE \<equiv> 0x00000040"
abbreviation UAC_TEMP_DUPLICATE_ACCOUNT :: mask where "UAC_TEMP_DUPLICATE_ACCOUNT \<equiv> 0x00000100"
abbreviation UAC_INTERDOMAIN_TRUST_ACCOUNT :: mask where "UAC_INTERDOMAIN_TRUST_ACCOUNT \<equiv> 0x00000800"
abbreviation UAC_WORKSTATION_TRUST_ACCOUNT :: mask where "UAC_WORKSTATION_TRUST_ACCOUNT \<equiv> 0x00001000"
abbreviation UAC_MNS_LOGON_ACCOUNT :: mask where "UAC_MNS_LOGON_ACCOUNT \<equiv> 0x00020000"
abbreviation UAC_ERROR_PASSWORD_EXPIRED :: mask where "UAC_ERROR_PASSWORD_EXPIRED \<equiv> 0x00800000"
abbreviation UAC_TRUSTED_TO_AUTHENTICATE_FOR_DELEGATION :: mask where "UAC_TRUSTED_TO_AUTHENTICATE_FOR_DELEGATION \<equiv> 0x01000000"
abbreviation UAC_USER_USE_AES_KEYS :: mask where "UAC_USER_USE_AES_KEYS \<equiv> 0x08000000"
abbreviation SAM_DOMAIN_OBJECT :: mask where "SAM_DOMAIN_OBJECT \<equiv> 0x0"
abbreviation SAM_GROUP_OBJECT :: mask where "SAM_GROUP_OBJECT \<equiv> 0x10000000"
abbreviation SAM_NON_SECURITY_GROUP_OBJECT :: mask where "SAM_NON_SECURITY_GROUP_OBJECT \<equiv> 0x10000001"
abbreviation SAM_ALIAS_OBJECT :: mask where "SAM_ALIAS_OBJECT \<equiv> 0x20000000"
abbreviation SAM_NON_SECURITY_ALIAS_OBJECT :: mask where "SAM_NON_SECURITY_ALIAS_OBJECT \<equiv> 0x20000001"
abbreviation SAM_USER_OBJECT :: mask where "SAM_USER_OBJECT \<equiv> 0x30000000"
abbreviation SAM_NORMAL_USER_ACCOUNT :: mask where "SAM_NORMAL_USER_ACCOUNT \<equiv> 0x30000000"
abbreviation SAM_MACHINE_ACCOUNT :: mask where "SAM_MACHINE_ACCOUNT \<equiv> 0x30000001"
abbreviation SAM_TRUST_ACCOUNT :: mask where "SAM_TRUST_ACCOUNT \<equiv> 0x30000002"
abbreviation SAM_APP_BASIC_GROUP :: mask where "SAM_APP_BASIC_GROUP \<equiv> 0x40000000"
abbreviation SAM_APP_QUERY_GROUP :: mask where "SAM_APP_QUERY_GROUP \<equiv> 0x40000001"
abbreviation SAM_ACCOUNT_TYPE_MAX :: mask where "SAM_ACCOUNT_TYPE_MAX \<equiv> 0x7fffffff"
abbreviation ETYPES_DES_CBC_CRC :: mask where "ETYPES_DES_CBC_CRC \<equiv> 0x00000001"
abbreviation ETYPES_DES_CBC_MD5 :: mask where "ETYPES_DES_CBC_MD5 \<equiv> 0x00000002"
abbreviation ETYPES_RC4_HMAC_MD5 :: mask where "ETYPES_RC4_HMAC_MD5 \<equiv> 0x00000004"
abbreviation ETYPES_AES128_CTS_HMAC_SHA1_96 :: mask where "ETYPES_AES128_CTS_HMAC_SHA1_96 \<equiv> 0x00000008"
abbreviation ETYPES_AES256_CTS_HMAC_SHA1_96 :: mask where "ETYPES_AES256_CTS_HMAC_SHA1_96 \<equiv> 0x00000010"
abbreviation UAC_ACCOUNTDISABLE :: mask where "UAC_ACCOUNTDISABLE \<equiv> 0x00000002"
abbreviation UAC_ENCRYPTED_TEXT_PASSWORD_ALLOWED :: mask where
  "UAC_ENCRYPTED_TEXT_PASSWORD_ALLOWED \<equiv> 0x00000080"
abbreviation UAC_NORMAL_ACCOUNT :: mask where "UAC_NORMAL_ACCOUNT \<equiv> 0x00000200"
abbreviation UAC_SERVER_TRUST_ACCOUNT :: mask where "UAC_SERVER_TRUST_ACCOUNT \<equiv> 0x00002000"
abbreviation UAC_DONT_EXPIRE_PASSWORD :: mask where "UAC_DONT_EXPIRE_PASSWORD \<equiv> 0x00010000"
abbreviation UAC_SMARTCARD_REQUIRED :: mask where "UAC_SMARTCARD_REQUIRED \<equiv> 0x00040000"
abbreviation UAC_TRUSTED_FOR_DELEGATION :: mask where "UAC_TRUSTED_FOR_DELEGATION \<equiv> 0x00080000"
abbreviation UAC_NOT_DELEGATED :: mask where "UAC_NOT_DELEGATED \<equiv> 0x00100000"
abbreviation UAC_USE_DES_KEY_ONLY :: mask where "UAC_USE_DES_KEY_ONLY \<equiv> 0x00200000"
abbreviation UAC_DONT_REQUIRE_PREAUTH :: mask where "UAC_DONT_REQUIRE_PREAUTH \<equiv> 0x00400000"
abbreviation UAC_PARTIAL_SECRETS_ACCOUNT :: mask where "UAC_PARTIAL_SECRETS_ACCOUNT \<equiv> 0x04000000"

abbreviation AD_LARGE_INTEGER_DATETIME_NEVER_1 :: qstring where
  "AD_LARGE_INTEGER_DATETIME_NEVER_1 \<equiv> ''0''"
abbreviation AD_LARGE_INTEGER_DATETIME_NEVER_2 :: qstring where
  "AD_LARGE_INTEGER_DATETIME_NEVER_2 \<equiv> ''9223372036854775807''"
abbreviation AD_PWD_LAST_SET_EXPIRED :: qstring where "AD_PWD_LAST_SET_EXPIRED \<equiv> ''0''"
abbreviation AD_PWD_LAST_SET_RESET :: qstring where "AD_PWD_LAST_SET_RESET \<equiv> ''-1''"
abbreviation LOCKOUT_UNLOCKED_VALUE :: qstring where "LOCKOUT_UNLOCKED_VALUE \<equiv> ''0''"
abbreviation LDAP_BOOL_TRUE :: qstring where "LDAP_BOOL_TRUE \<equiv> ''TRUE''"
abbreviation LDAP_BOOL_FALSE :: qstring where "LDAP_BOOL_FALSE \<equiv> ''FALSE''"
abbreviation MILLIS_TO_100_NANOS :: int where "MILLIS_TO_100_NANOS \<equiv> 10000"
abbreviation MATCHING_RULE_IN_CHAIN_OID :: qstring where
  "MATCHING_RULE_IN_CHAIN_OID \<equiv> ''1.2.840.113556.1.4.1941''"
abbreviation NAME_BAD_CHARS :: qstring where
  "NAME_BAD_CHARS \<equiv> [CHR '','', CHR 0x5C, CHR ''#'', CHR ''+'', CHR ''<'', CHR ''>'', CHR '';'', CHR 0x22, CHR ''='']"
abbreviation UPN_BAD_CHARS :: qstring where
  "UPN_BAD_CHARS \<equiv> [CHR ''#'', CHR '','', CHR ''+'', CHR 0x22, CHR 0x5C, CHR ''<'', CHR ''>'']"
abbreviation SAM_NAME_BAD_CHARS :: qstring where
  "SAM_NAME_BAD_CHARS \<equiv> [CHR ''@'', CHR 0x22, CHR ''['', CHR '']'', CHR '':'', CHR '';'', CHR ''|'',
     CHR ''='', CHR ''+'', CHR ''*'', CHR ''?'', CHR ''<'', CHR ''>'', CHR ''/'', CHR 0x5C, CHR '','']"

text \<open>The names of attributes and classes are string literals, as the macros are.\<close>

abbreviation ATTRIBUTE_CN :: qstring where "ATTRIBUTE_CN \<equiv> ''cn''"
abbreviation ATTRIBUTE_USER_ACCOUNT_CONTROL :: qstring where "ATTRIBUTE_USER_ACCOUNT_CONTROL \<equiv> ''userAccountControl''"
abbreviation ATTRIBUTE_LOCKOUT_TIME :: qstring where "ATTRIBUTE_LOCKOUT_TIME \<equiv> ''lockoutTime''"
abbreviation ATTRIBUTE_ACCOUNT_EXPIRES :: qstring where "ATTRIBUTE_ACCOUNT_EXPIRES \<equiv> ''accountExpires''"
abbreviation ATTRIBUTE_PWD_LAST_SET :: qstring where "ATTRIBUTE_PWD_LAST_SET \<equiv> ''pwdLastSet''"
abbreviation ATTRIBUTE_NAME :: qstring where "ATTRIBUTE_NAME \<equiv> ''name''"
abbreviation ATTRIBUTE_INITIALS :: qstring where "ATTRIBUTE_INITIALS \<equiv> ''initials''"
abbreviation ATTRIBUTE_SAM_ACCOUNT_NAME :: qstring where "ATTRIBUTE_SAM_ACCOUNT_NAME \<equiv> ''sAMAccountName''"
abbreviation ATTRIBUTE_SAM_ACCOUNT_TYPE :: qstring where "ATTRIBUTE_SAM_ACCOUNT_TYPE \<equiv> ''sAMAccountType''"
abbreviation ATTRIBUTE_DISPLAY_NAME :: qstring where "ATTRIBUTE_DISPLAY_NAME \<equiv> ''displayName''"
abbreviation ATTRIBUTE_DESCRIPTION :: qstring where "ATTRIBUTE_DESCRIPTION \<equiv> ''description''"
abbreviation ATTRIBUTE_USER_PRINCIPAL_NAME :: qstring where "ATTRIBUTE_USER_PRINCIPAL_NAME \<equiv> ''userPrincipalName''"
abbreviation ATTRIBUTE_MAIL :: qstring where "ATTRIBUTE_MAIL \<equiv> ''mail''"
abbreviation ATTRIBUTE_OFFICE :: qstring where "ATTRIBUTE_OFFICE \<equiv> ''physicalDeliveryOfficeName''"
abbreviation ATTRIBUTE_TELEPHONE_NUMBER :: qstring where "ATTRIBUTE_TELEPHONE_NUMBER \<equiv> ''telephoneNumber''"
abbreviation ATTRIBUTE_TELEPHONE_NUMBER_OTHER :: qstring where "ATTRIBUTE_TELEPHONE_NUMBER_OTHER \<equiv> ''otherTelephone''"
abbreviation ATTRIBUTE_WWW_HOMEPAGE :: qstring where "ATTRIBUTE_WWW_HOMEPAGE \<equiv> ''wWWHomePage''"
abbreviation ATTRIBUTE_WWW_HOMEPAGE_OTHER :: qstring where "ATTRIBUTE_WWW_HOMEPAGE_OTHER \<equiv> ''url''"
abbreviation ATTRIBUTE_COUNTRY_ABBREVIATION :: qstring where "ATTRIBUTE_COUNTRY_ABBREVIATION \<equiv> ''c''"
abbreviation ATTRIBUTE_COUNTRY :: qstring where "ATTRIBUTE_COUNTRY \<equiv> ''co''"
abbreviation ATTRIBUTE_COUNTRY_CODE :: qstring where "ATTRIBUTE_COUNTRY_CODE \<equiv> ''countryCode''"
abbreviation ATTRIBUTE_CITY :: qstring where "ATTRIBUTE_CITY \<equiv> ''l''"
abbreviation ATTRIBUTE_PO_BOX :: qstring where "ATTRIBUTE_PO_BOX \<equiv> ''postOfficeBox''"
abbreviation ATTRIBUTE_POSTAL_CODE :: qstring where "ATTRIBUTE_POSTAL_CODE \<equiv> ''postalCode''"
abbreviation ATTRIBUTE_STATE :: qstring where "ATTRIBUTE_STATE \<equiv> ''st''"
abbreviation ATTRIBUTE_STREET :: qstring where "ATTRIBUTE_STREET \<equiv> ''streetAddress''"
abbreviation ATTRIBUTE_STREET_OU :: qstring where "ATTRIBUTE_STREET_OU \<equiv> ''street''"
abbreviation ATTRIBUTE_DN :: qstring where "ATTRIBUTE_DN \<equiv> ''distinguishedName''"
abbreviation ATTRIBUTE_OBJECT_CLASS :: qstring where "ATTRIBUTE_OBJECT_CLASS \<equiv> ''objectClass''"
abbreviation ATTRIBUTE_WHEN_CREATED :: qstring where "ATTRIBUTE_WHEN_CREATED \<equiv> ''whenCreated''"
abbreviation ATTRIBUTE_WHEN_CHANGED :: qstring where "ATTRIBUTE_WHEN_CHANGED \<equiv> ''whenChanged''"
abbreviation ATTRIBUTE_USN_CHANGED :: qstring where "ATTRIBUTE_USN_CHANGED \<equiv> ''uSNChanged''"
abbreviation ATTRIBUTE_USN_CREATED :: qstring where "ATTRIBUTE_USN_CREATED \<equiv> ''uSNCreated''"
abbreviation ATTRIBUTE_OBJECT_CATEGORY :: qstring where "ATTRIBUTE_OBJECT_CATEGORY \<equiv> ''objectCategory''"
abbreviation ATTRIBUTE_MEMBER :: qstring where "ATTRIBUTE_MEMBER \<equiv> ''member''"
abbreviation ATTRIBUTE_MEMBER_OF :: qstring where "ATTRIBUTE_MEMBER_OF \<equiv> ''memberOf''"
abbreviation ATTRIBUTE_SHOW_IN_ADVANCED_VIEW_ONLY :: qstring where "ATTRIBUTE_SHOW_IN_ADVANCED_VIEW_ONLY \<equiv> ''showInAdvancedViewOnly''"
abbreviation ATTRIBUTE_GROUP_TYPE :: qstring where "ATTRIBUTE_GROUP_TYPE \<equiv> ''groupType''"
abbreviation ATTRIBUTE_FIRST_NAME :: qstring where "ATTRIBUTE_FIRST_NAME \<equiv> ''givenName''"
abbreviation ATTRIBUTE_LAST_NAME :: qstring where "ATTRIBUTE_LAST_NAME \<equiv> ''sn''"
abbreviation ATTRIBUTE_DNS_HOST_NAME :: qstring where "ATTRIBUTE_DNS_HOST_NAME \<equiv> ''dNSHostName''"
abbreviation ATTRIBUTE_INFO :: qstring where "ATTRIBUTE_INFO \<equiv> ''info''"
abbreviation ATTRIBUTE_PASSWORD :: qstring where "ATTRIBUTE_PASSWORD \<equiv> ''unicodePwd''"
abbreviation ATTRIBUTE_GPLINK :: qstring where "ATTRIBUTE_GPLINK \<equiv> ''gPLink''"
abbreviation ATTRIBUTE_GPOPTIONS :: qstring where "ATTRIBUTE_GPOPTIONS \<equiv> ''gPOptions''"
abbreviation ATTRIBUTE_DEPARTMENT :: qstring where "ATTRIBUTE_DEPARTMENT \<equiv> ''department''"
abbreviation ATTRIBUTE_COMPANY :: qstring where "ATTRIBUTE_COMPANY \<equiv> ''company''"
abbreviation ATTRIBUTE_TITLE :: qstring where "ATTRIBUTE_TITLE \<equiv> ''title''"
abbreviation ATTRIBUTE_LAST_LOGON :: qstring where "ATTRIBUTE_LAST_LOGON \<equiv> ''lastLogon''"
abbreviation ATTRIBUTE_LAST_LOGON_TIMESTAMP :: qstring where "ATTRIBUTE_LAST_LOGON_TIMESTAMP \<equiv> ''lastLogonTimestamp''"
abbreviation ATTRIBUTE_BAD_PWD_TIME :: qstring where "ATTRIBUTE_BAD_PWD_TIME \<equiv> ''badPasswordTime''"
abbreviation ATTRIBUTE_OBJECT_SID :: qstring where "ATTRIBUTE_OBJECT_SID \<equiv> ''objectSid''"
abbreviation ATTRIBUTE_SYSTEM_FLAGS :: qstring where "ATTRIBUTE_SYSTEM_FLAGS \<equiv> ''systemFlags''"
abbreviation ATTRIBUTE_MAX_PWD_AGE :: qstring where "ATTRIBUTE_MAX_PWD_AGE \<equiv> ''maxPwdAge''"
abbreviation ATTRIBUTE_MIN_PWD_AGE :: qstring where "ATTRIBUTE_MIN_PWD_AGE \<equiv> ''minPwdAge''"
abbreviation ATTRIBUTE_LOCKOUT_DURATION :: qstring where "ATTRIBUTE_LOCKOUT_DURATION \<equiv> ''lockoutDuration''"
abbreviation ATTRIBUTE_PWD_PROPERTIES :: qstring where "ATTRIBUTE_PWD_PROPERTIES \<equiv> ''pwdProperties''"
abbreviation ATTRIBUTE_PWD_HISTORY_LENGTH :: qstring where "ATTRIBUTE_PWD_HISTORY_LENGTH \<equiv> ''pwdHistoryLength''"
abbreviation ATTRIBUTE_MIN_PWD_LENGTH :: qstring where "ATTRIBUTE_MIN_PWD_LENGTH \<equiv> ''minPwdLength''"
abbreviation ATTRIBUTE_LOCKOUT_THRESHOLD :: qstring where "ATTRIBUTE_LOCKOUT_THRESHOLD \<equiv> ''lockoutThreshold''"
abbreviation ATTRIBUTE_IS_CRITICAL_SYSTEM_OBJECT :: qstring where "ATTRIBUTE_IS_CRITICAL_SYSTEM_OBJECT \<equiv> ''isCriticalSystemObject''"
abbreviation ATTRIBUTE_GPC_FILE_SYS_PATH :: qstring where "ATTRIBUTE_GPC_FILE_SYS_PATH \<equiv> ''gPCFileSysPath''"
abbreviation ATTRIBUTE_GPC_FUNCTIONALITY_VERSION :: qstring where "ATTRIBUTE_GPC_FUNCTIONALITY_VERSION \<equiv> ''gpCFunctionalityVersion''"
abbreviation ATTRIBUTE_VERSION_NUMBER :: qstring where "ATTRIBUTE_VERSION_NUMBER \<equiv> ''versionNumber''"
abbreviation ATTRIBUTE_FLAGS :: qstring where "ATTRIBUTE_FLAGS \<equiv> ''flags''"
abbreviation ATTRIBUTE_OBJECT_GUID :: qstring where "ATTRIBUTE_OBJECT_GUID \<equiv> ''objectGUID''"
abbreviation ATTRIBUTE_PRIMARY_GROUP_ID :: qstring where "ATTRIBUTE_PRIMARY_GROUP_ID \<equiv> ''primaryGroupID''"
abbreviation ATTRIBUTE_MANAGER :: qstring where "ATTRIBUTE_MANAGER \<equiv> ''manager''"
abbreviation ATTRIBUTE_MANAGED_BY :: qstring where "ATTRIBUTE_MANAGED_BY \<equiv> ''managedBy''"
abbreviation ATTRIBUTE_DIRECT_REPORTS :: qstring where "ATTRIBUTE_DIRECT_REPORTS \<equiv> ''directReports''"
abbreviation ATTRIBUTE_PROFILE_PATH :: qstring where "ATTRIBUTE_PROFILE_PATH \<equiv> ''profilePath''"
abbreviation ATTRIBUTE_SCRIPT_PATH :: qstring where "ATTRIBUTE_SCRIPT_PATH \<equiv> ''scriptPath''"
abbreviation ATTRIBUTE_HOME_DIRECTORY :: qstring where "ATTRIBUTE_HOME_DIRECTORY \<equiv> ''homeDirectory''"
abbreviation ATTRIBUTE_LAPS_PASSWORD :: qstring where "ATTRIBUTE_LAPS_PASSWORD \<equiv> ''ms-Mcs-AdmPwd''"
abbreviation ATTRIBUTE_LAPS_EXPIRATION :: qstring where "ATTRIBUTE_LAPS_EXPIRATION \<equiv> ''ms-Mcs-AdmPwdExpirationTime''"
abbreviation ATTRIBUTE_LAPS_V2_ENCRYPTED_PASSWORD :: qstring where "ATTRIBUTE_LAPS_V2_ENCRYPTED_PASSWORD \<equiv> ''msLAPS-EncryptedPassword''"
abbreviation ATTRIBUTE_LAPS_V2_DSRM_ENCRYPTED_PASSWORD :: qstring where "ATTRIBUTE_LAPS_V2_DSRM_ENCRYPTED_PASSWORD \<equiv> ''msLAPS-EncryptedDSRMPassword''"
abbreviation ATTRIBUTE_LAPS_V2_PASSWORD :: qstring where "ATTRIBUTE_LAPS_V2_PASSWORD \<equiv> ''msLAPS-Password''"
abbreviation ATTRIBUTE_LAPS_V2_EXPIRATION_TIME :: qstring where "ATTRIBUTE_LAPS_V2_EXPIRATION_TIME \<equiv> ''msLAPS-PasswordExpirationTime''"
abbreviation ATTRIBUTE_HOME_PHONE :: qstring where "ATTRIBUTE_HOME_PHONE \<equiv> ''homePhone''"
abbreviation ATTRIBUTE_OTHER_HOME_PHONE :: qstring where "ATTRIBUTE_OTHER_HOME_PHONE \<equiv> ''otherHomePhone''"
abbreviation ATTRIBUTE_PAGER :: qstring where "ATTRIBUTE_PAGER \<equiv> ''pager''"
abbreviation ATTRIBUTE_OTHER_PAGER :: qstring where "ATTRIBUTE_OTHER_PAGER \<equiv> ''otherPager''"
abbreviation ATTRIBUTE_MOBILE :: qstring where "ATTRIBUTE_MOBILE \<equiv> ''mobile''"
abbreviation ATTRIBUTE_OTHER_MOBILE :: qstring where "ATTRIBUTE_OTHER_MOBILE \<equiv> ''otherMobile''"
abbreviation ATTRIBUTE_FAX_NUMBER :: qstring where "ATTRIBUTE_FAX_NUMBER \<equiv> ''facsimileTelephoneNumber''"
abbreviation ATTRIBUTE_OTHER_FAX_NUMBER :: qstring where "ATTRIBUTE_OTHER_FAX_NUMBER \<equiv> ''otherFacsimileTelephoneNumber''"
abbreviation ATTRIBUTE_IP_PHONE :: qstring where "ATTRIBUTE_IP_PHONE \<equiv> ''ipPhone''"
abbreviation ATTRIBUTE_OTHER_IP_PHONE :: qstring where "ATTRIBUTE_OTHER_IP_PHONE \<equiv> ''otherIpPhone''"
abbreviation ATTRIBUTE_UPN_SUFFIXES :: qstring where "ATTRIBUTE_UPN_SUFFIXES \<equiv> ''uPNSuffixes''"
abbreviation ATTRIBUTE_SECURITY_DESCRIPTOR :: qstring where "ATTRIBUTE_SECURITY_DESCRIPTOR \<equiv> ''nTSecurityDescriptor''"
abbreviation ATTRIBUTE_RIGHTS_GUID :: qstring where "ATTRIBUTE_RIGHTS_GUID \<equiv> ''rightsGuid''"
abbreviation ATTRIBUTE_LOCATION :: qstring where "ATTRIBUTE_LOCATION \<equiv> ''location''"
abbreviation ATTRIBUTE_OS :: qstring where "ATTRIBUTE_OS \<equiv> ''operatingSystem''"
abbreviation ATTRIBUTE_OS_VERSION :: qstring where "ATTRIBUTE_OS_VERSION \<equiv> ''operatingSystemVersion''"
abbreviation ATTRIBUTE_OS_SERVICE_PACK :: qstring where "ATTRIBUTE_OS_SERVICE_PACK \<equiv> ''operatingSystemServicePack''"
abbreviation ATTRIBUTE_LOGON_HOURS :: qstring where "ATTRIBUTE_LOGON_HOURS \<equiv> ''logonHours''"
abbreviation ATTRIBUTE_USER_WORKSTATIONS :: qstring where "ATTRIBUTE_USER_WORKSTATIONS \<equiv> ''userWorkstations''"
abbreviation ATTRIBUTE_SUPPORTED_CONTROL :: qstring where "ATTRIBUTE_SUPPORTED_CONTROL \<equiv> ''supportedControl''"
abbreviation ATTRIBUTE_DS_SERVICE_NAME :: qstring where "ATTRIBUTE_DS_SERVICE_NAME \<equiv> ''dsServiceName''"
abbreviation ATTRIBUTE_SCHEMA_NAMING_CONTEXT :: qstring where "ATTRIBUTE_SCHEMA_NAMING_CONTEXT \<equiv> ''schemaNamingContext''"
abbreviation ATTRIBUTE_CONFIGURATION_NAMING_CONTEXT :: qstring where "ATTRIBUTE_CONFIGURATION_NAMING_CONTEXT \<equiv> ''configurationNamingContext''"
abbreviation ATTRIBUTE_ROOT_DOMAIN_NAMING_CONTEXT :: qstring where "ATTRIBUTE_ROOT_DOMAIN_NAMING_CONTEXT \<equiv> ''rootDomainNamingContext''"
abbreviation ATTRIBUTE_FSMO_ROLE_OWNER :: qstring where "ATTRIBUTE_FSMO_ROLE_OWNER \<equiv> ''fSMORoleOwner''"
abbreviation ATTRIBUTE_SERVER_NAME :: qstring where "ATTRIBUTE_SERVER_NAME \<equiv> ''serverName''"
abbreviation ATTRIBUTE_SCHEMA_ID_GUID :: qstring where "ATTRIBUTE_SCHEMA_ID_GUID \<equiv> ''schemaIDGUID''"
abbreviation ATTRIBUTE_APPLIES_TO :: qstring where "ATTRIBUTE_APPLIES_TO \<equiv> ''appliesTo''"
abbreviation ATTRIBUTE_VALID_ACCESSES :: qstring where "ATTRIBUTE_VALID_ACCESSES \<equiv> ''validAccesses''"
abbreviation ATTRIBUTE_UNC_NAME :: qstring where "ATTRIBUTE_UNC_NAME \<equiv> ''uNCName''"
abbreviation ATTRIBUTE_KEYWORDS :: qstring where "ATTRIBUTE_KEYWORDS \<equiv> ''keywords''"
abbreviation ATTRIBUTE_CREATION_TIME :: qstring where "ATTRIBUTE_CREATION_TIME \<equiv> ''creationTime''"
abbreviation ATTRIBUTE_LOCKOUT_OBSERVATION_WINDOW :: qstring where "ATTRIBUTE_LOCKOUT_OBSERVATION_WINDOW \<equiv> ''lockOutObservationWindow''"
abbreviation ATTRIBUTE_FORCE_LOGOFF :: qstring where "ATTRIBUTE_FORCE_LOGOFF \<equiv> ''forceLogoff''"
abbreviation ATTRIBUTE_MS_DS_SUPPORTED_ETYPES :: qstring where "ATTRIBUTE_MS_DS_SUPPORTED_ETYPES \<equiv> ''msDS-SupportedEncryptionTypes''"
abbreviation ATTRIBUTE_DOMAIN_FUNCTIONALITY_LEVEL :: qstring where "ATTRIBUTE_DOMAIN_FUNCTIONALITY_LEVEL \<equiv> ''domainFunctionality''"
abbreviation ATTRIBUTE_FOREST_FUNCTIONALITY_LEVEL :: qstring where "ATTRIBUTE_FOREST_FUNCTIONALITY_LEVEL \<equiv> ''forestFunctionality''"
abbreviation ATTRIBUTE_OBJECT_VERSION :: qstring where "ATTRIBUTE_OBJECT_VERSION \<equiv> ''objectVersion''"
abbreviation ATTRIBUTE_SERVER_REFERENCE :: qstring where "ATTRIBUTE_SERVER_REFERENCE \<equiv> ''serverReference''"
abbreviation ATTRIBUTE_SERVER_REFERENCE_BL :: qstring where "ATTRIBUTE_SERVER_REFERENCE_BL \<equiv> ''serverReferenceBL''"
abbreviation ATTRIBUTE_MS_DS_LOCKOUT_DURATION :: qstring where "ATTRIBUTE_MS_DS_LOCKOUT_DURATION \<equiv> ''msDS-LockoutDuration''"
abbreviation ATTRIBUTE_MS_DS_LOCKOUT_OBSERVATION_WINDOW :: qstring where "ATTRIBUTE_MS_DS_LOCKOUT_OBSERVATION_WINDOW \<equiv> ''msDS-LockoutObservationWindow''"
abbreviation ATTRIBUTE_MS_DS_MAX_PASSWORD_AGE :: qstring where "ATTRIBUTE_MS_DS_MAX_PASSWORD_AGE \<equiv> ''msDS-MaximumPasswordAge''"
abbreviation ATTRIBUTE_MS_DS_MIN_PASSWORD_AGE :: qstring where "ATTRIBUTE_MS_DS_MIN_PASSWORD_AGE \<equiv> ''msDS-MinimumPasswordAge''"
abbreviation ATTRIBUTE_MS_DS_LOCKOUT_THRESHOLD :: qstring where "ATTRIBUTE_MS_DS_LOCKOUT_THRESHOLD \<equiv> ''msDS-LockoutThreshold''"
abbreviation ATTRIBUTE_MS_DS_MIN_PASSWORD_LENGTH :: qstring where "ATTRIBUTE_MS_DS_MIN_PASSWORD_LENGTH \<equiv> ''msDS-MinimumPasswordLength''"
abbreviation ATTRIBUTE_MS_DS_PASSWORD_COMPLEXITY_ENABLED :: qstring where "ATTRIBUTE_MS_DS_PASSWORD_COMPLEXITY_ENABLED \<equiv> ''msDS-PasswordComplexityEnabled''"
abbreviation ATTRIBUTE_MS_DS_PASSWORD_HISTORY_LENGTH :: qstring where "ATTRIBUTE_MS_DS_PASSWORD_HISTORY_LENGTH \<equiv> ''msDS-PasswordHistoryLength''"
abbreviation ATTRIBUTE_MS_DS_PASSWORD_REVERSIBLE_ENCRYPTION_ENABLED :: qstring where "ATTRIBUTE_MS_DS_PASSWORD_REVERSIBLE_ENCRYPTION_ENABLED \<equiv> ''msDS-PasswordReversibleEncryptionEnabled''"
abbreviation ATTRIBUTE_MS_DS_PASSWORD_SETTINGS_PRECEDENCE :: qstring where "ATTRIBUTE_MS_DS_PASSWORD_SETTINGS_PRECEDENCE \<equiv> ''msDS-PasswordSettingsPrecedence''"
abbreviation ATTRIBUTE_PSO_APPLIES_TO :: qstring where "ATTRIBUTE_PSO_APPLIES_TO \<equiv> ''msDS-PSOAppliesTo''"
abbreviation ATTRIBUTE_DEFAULT_NAMING_CONTEXT :: qstring where "ATTRIBUTE_DEFAULT_NAMING_CONTEXT \<equiv> ''defaultNamingContext''"
abbreviation ATTRIBUTE_MSDS_USER_PASSWORD_EXPIRY_TIME_COMPUTED :: qstring where "ATTRIBUTE_MSDS_USER_PASSWORD_EXPIRY_TIME_COMPUTED \<equiv> ''msDS-UserPasswordExpiryTimeComputed''"
abbreviation ATTRIBUTE_MSDS_USER_ACCOUNT_CONTROL_COMPUTED :: qstring where "ATTRIBUTE_MSDS_USER_ACCOUNT_CONTROL_COMPUTED \<equiv> ''msDS-User-Account-Control-Computed''"
abbreviation ATTRIBUTE_MIDDLE_NAME :: qstring where "ATTRIBUTE_MIDDLE_NAME \<equiv> ''middleName''"
abbreviation ATTRIBUTE_PSO_APPLIED :: qstring where "ATTRIBUTE_PSO_APPLIED \<equiv> ''msDS-PSOApplied''"
abbreviation ATTRIBUTE_SITE_OBJECT :: qstring where "ATTRIBUTE_SITE_OBJECT \<equiv> ''siteObject''"
abbreviation ATTRIBUTE_SITE_LIST :: qstring where "ATTRIBUTE_SITE_LIST \<equiv> ''siteList''"
abbreviation ATTRIBUTE_SITE_LINK_LIST :: qstring where "ATTRIBUTE_SITE_LINK_LIST \<equiv> ''siteLinkList''"
abbreviation ATTRIBUTE_LINK_COST :: qstring where "ATTRIBUTE_LINK_COST \<equiv> ''cost''"
abbreviation ATTRIBUTE_LINK_REPLICATION_INTERVAL :: qstring where "ATTRIBUTE_LINK_REPLICATION_INTERVAL \<equiv> ''replInterval''"
abbreviation ATTRIBUTE_LINK_SCHEDULE :: qstring where "ATTRIBUTE_LINK_SCHEDULE \<equiv> ''schedule''"
abbreviation ATTRIBUTE_DNS_RECORD_DC :: qstring where "ATTRIBUTE_DNS_RECORD_DC \<equiv> ''dc''"
abbreviation ATTRIBUTE_REPLICA_LOCATIONS :: qstring where "ATTRIBUTE_REPLICA_LOCATIONS \<equiv> ''msDS-NC-Replica-Locations''"
abbreviation ATTRIBUTE_NC_NAME :: qstring where "ATTRIBUTE_NC_NAME \<equiv> ''nCName''"
abbreviation ATTRIBUTE_INTER_SITE_TOPOLOGY_GENERATOR :: qstring where "ATTRIBUTE_INTER_SITE_TOPOLOGY_GENERATOR \<equiv> ''interSiteTopologyGenerator''"
abbreviation ATTRIBUTE_THUMBNAIL_PHOTO :: qstring where "ATTRIBUTE_THUMBNAIL_PHOTO \<equiv> ''thumbnailPhoto''"
abbreviation ATTRIBUTE_JPEG_PHOTO :: qstring where "ATTRIBUTE_JPEG_PHOTO \<equiv> ''jpegPhoto''"
abbreviation CLASS_GROUP :: qstring where "CLASS_GROUP \<equiv> ''group''"
abbreviation CLASS_USER :: qstring where "CLASS_USER \<equiv> ''user''"
abbreviation CLASS_CONTAINER :: qstring where "CLASS_CONTAINER \<equiv> ''container''"
abbreviation CLASS_OU :: qstring where "CLASS_OU \<equiv> ''organizationalUnit''"
abbreviation CLASS_PERSON :: qstring where "CLASS_PERSON \<equiv> ''person''"
abbreviation CLASS_GP_CONTAINER :: qstring where "CLASS_GP_CONTAINER \<equiv> ''groupPolicyContainer''"
abbreviation CLASS_DOMAIN :: qstring where "CLASS_DOMAIN \<equiv> ''domainDNS''"
abbreviation CLASS_TOP :: qstring where "CLASS_TOP \<equiv> ''top''"
abbreviation CLASS_COMPUTER :: qstring where "CLASS_COMPUTER \<equiv> ''computer''"
abbreviation CLASS_ORG_PERSON :: qstring where "CLASS_ORG_PERSON \<equiv> ''organizationalPerson''"
abbreviation CLASS_CONTACT :: qstring where "CLASS_CONTACT \<equiv> ''contact''"
abbreviation CLASS_PRINTER :: qstring where "CLASS_PRINTER \<equiv> ''printQueue''"
abbreviation CLASS_DEFAULT :: qstring where "CLASS_DEFAULT \<equiv> ''default''"
abbreviation CLASS_CONFIGURATION :: qstring where "CLASS_CONFIGURATION \<equiv> ''configuration''"
abbreviation CLASS_TRUSTED_DOMAIN :: qstring where "CLASS_TRUSTED_DOMAIN \<equiv> ''trustedDomain''"
abbreviation CLASS_INET_ORG_PERSON :: qstring where "CLASS_INET_ORG_PERSON \<equiv> ''inetOrgPerson''"
abbreviation CLASS_FOREIGN_SECURITY_PRINCIPAL :: qstring where "CLASS_FOREIGN_SECURITY_PRINCIPAL \<equiv> ''foreignSecurityPrincipal''"
abbreviation CLASS_SHARED_FOLDER :: qstring where "CLASS_SHARED_FOLDER \<equiv> ''volume''"
abbreviation CLASS_RPC_SERVICES :: qstring where "CLASS_RPC_SERVICES \<equiv> ''rpcContainer''"
abbreviation CLASS_CERTIFICATE_TEMPLATE :: qstring where "CLASS_CERTIFICATE_TEMPLATE \<equiv> ''pKICertificateTemplate''"
abbreviation CLASS_MSMQ_GROUP :: qstring where "CLASS_MSMQ_GROUP \<equiv> ''msMQ-Group''"
abbreviation CLASS_MSMQ_QUEUE_ALIAS :: qstring where "CLASS_MSMQ_QUEUE_ALIAS \<equiv> ''msMQ-Custom-Recipient''"
abbreviation CLASS_REMOTE_STORAGE_SERVICE :: qstring where "CLASS_REMOTE_STORAGE_SERVICE \<equiv> ''remoteStorageServicePoint''"
abbreviation CLASS_SITE :: qstring where "CLASS_SITE \<equiv> ''site''"
abbreviation CLASS_SERVER :: qstring where "CLASS_SERVER \<equiv> ''server''"
abbreviation CLASS_SERVERS_CONTAINER :: qstring where "CLASS_SERVERS_CONTAINER \<equiv> ''serversContainer''"
abbreviation CLASS_PSO_CONTAINER :: qstring where "CLASS_PSO_CONTAINER \<equiv> ''msDS-PasswordSettingsContainer''"
abbreviation CLASS_PSO :: qstring where "CLASS_PSO \<equiv> ''msDS-PasswordSettings''"
abbreviation CLASS_SITES_CONTAINER :: qstring where "CLASS_SITES_CONTAINER \<equiv> ''sitesContainer''"
abbreviation CLASS_SUBNET_CONTAINER :: qstring where "CLASS_SUBNET_CONTAINER \<equiv> ''subnetContainer''"
abbreviation CLASS_INTER_SITE_TRANSPORT_CONTAINER :: qstring where "CLASS_INTER_SITE_TRANSPORT_CONTAINER \<equiv> ''interSiteTransportContainer''"
abbreviation CLASS_INTER_SITE_TRANSPORT :: qstring where "CLASS_INTER_SITE_TRANSPORT \<equiv> ''interSiteTransport''"
abbreviation CLASS_SUBNET :: qstring where "CLASS_SUBNET \<equiv> ''subnet''"
abbreviation CLASS_SITE_LINK :: qstring where "CLASS_SITE_LINK \<equiv> ''siteLink''"
abbreviation CLASS_SITE_LINK_BRIDGE :: qstring where "CLASS_SITE_LINK_BRIDGE \<equiv> ''siteLinkBridge''"
abbreviation CLASS_NTDS_SITE_SETTINGS :: qstring where "CLASS_NTDS_SITE_SETTINGS \<equiv> ''nTDSSiteSettings''"
abbreviation CLASS_MS_IMAGING_PSPS :: qstring where "CLASS_MS_IMAGING_PSPS \<equiv> ''msImaging-PSPs''"
abbreviation CLASS_DNS_NODE :: qstring where "CLASS_DNS_NODE \<equiv> ''dnsNode''"
abbreviation CLASS_CROSS_REF :: qstring where "CLASS_CROSS_REF \<equiv> ''crossRef''"
abbreviation CLASS_NTDS_DSA :: qstring where "CLASS_NTDS_DSA \<equiv> ''nTDSDSA''"
abbreviation CLASS_dMD :: qstring where "CLASS_dMD \<equiv> ''dMD''"
abbreviation CLASS_CONTROL_ACCESS_RIGHT :: qstring where "CLASS_CONTROL_ACCESS_RIGHT \<equiv> ''controlAccessRight''"
abbreviation OBJECT_CATEGORY_PERSON :: qstring where "OBJECT_CATEGORY_PERSON \<equiv> ''Person''"
abbreviation OBJECT_CATEGORY_GROUP :: qstring where "OBJECT_CATEGORY_GROUP \<equiv> ''Group''"
abbreviation OBJECT_CATEGORY_OU :: qstring where "OBJECT_CATEGORY_OU \<equiv> ''Organizational-Unit''"
abbreviation OBJECT_CATEGORY_COMPUTER :: qstring where "OBJECT_CATEGORY_COMPUTER \<equiv> ''Computer''"
abbreviation OBJECT_CATEGORY_DOMAIN_DNS :: qstring where "OBJECT_CATEGORY_DOMAIN_DNS \<equiv> ''Domain-DNS''"
abbreviation OBJECT_CATEGORY_CONTAINER :: qstring where "OBJECT_CATEGORY_CONTAINER \<equiv> ''Container''"
abbreviation OBJECT_CATEGORY_GP_CONTAINER :: qstring where "OBJECT_CATEGORY_GP_CONTAINER \<equiv> ''Group-Policy-Container''"
abbreviation OBJECT_CATEGORY_VOLUME :: qstring where "OBJECT_CATEGORY_VOLUME \<equiv> ''Volume''"
abbreviation OBJECT_CATEGORY_BUILTIN :: qstring where "OBJECT_CATEGORY_BUILTIN \<equiv> ''Builtin-Domain''"
abbreviation OBJECT_CATEGORY_LOST_AND_FOUND :: qstring where "OBJECT_CATEGORY_LOST_AND_FOUND \<equiv> ''Lost_And_Found''"
abbreviation OBJECT_CATEGORY_INFRASTRUCTURE_UPDATE :: qstring where "OBJECT_CATEGORY_INFRASTRUCTURE_UPDATE \<equiv> ''Infrastructure-Update''"
abbreviation OBJECT_CATEGORY_MSDS_QUOTA_CONTAINER :: qstring where "OBJECT_CATEGORY_MSDS_QUOTA_CONTAINER \<equiv> ''ms-DS-Quota-Container''"
abbreviation OBJECT_CATEGORY_SERVERS_CONTAINER :: qstring where "OBJECT_CATEGORY_SERVERS_CONTAINER \<equiv> ''Servers-Container''"
abbreviation OBJECT_CATEGORY_SITE :: qstring where "OBJECT_CATEGORY_SITE \<equiv> ''Site''"
abbreviation OBJECT_CATEGORY_PSO_CONTAINER :: qstring where "OBJECT_CATEGORY_PSO_CONTAINER \<equiv> ''ms-DS-Password-Settings-Container''"
abbreviation OBJECT_CATEGORY_PSO :: qstring where "OBJECT_CATEGORY_PSO \<equiv> ''ms-DS-Password-Settings''"
abbreviation OBJECT_CATEGORY_SITES_CONTAINER :: qstring where "OBJECT_CATEGORY_SITES_CONTAINER \<equiv> ''Sites-Container''"
abbreviation OBJECT_CATEGORY_SUBNET_CONTAINER :: qstring where "OBJECT_CATEGORY_SUBNET_CONTAINER \<equiv> ''Subnet-Container''"
abbreviation OBJECT_CATEGORY_INTER_SITE_TRANSPORT_CONTAINER :: qstring where "OBJECT_CATEGORY_INTER_SITE_TRANSPORT_CONTAINER \<equiv> ''Inter-Site-Transport-Container''"
abbreviation OBJECT_CATEGORY_INTER_SITE_TRANSPORT :: qstring where "OBJECT_CATEGORY_INTER_SITE_TRANSPORT \<equiv> ''Inter-Site-Transport''"
abbreviation OBJECT_CATEGORY_SUBNET :: qstring where "OBJECT_CATEGORY_SUBNET \<equiv> ''Subnet''"
abbreviation OBJECT_CATEGORY_SITE_LINK :: qstring where "OBJECT_CATEGORY_SITE_LINK \<equiv> ''Site-Link''"
abbreviation OBJECT_CATEGORY_SITE_LINK_BRIDGE :: qstring where "OBJECT_CATEGORY_SITE_LINK_BRIDGE \<equiv> ''Site-Link-Bridge''"
abbreviation OBJECT_CATEGORY_NTDS_SITE_SETTINGS :: qstring where "OBJECT_CATEGORY_NTDS_SITE_SETTINGS \<equiv> ''NTDS-Site-Settings''"
abbreviation OBJECT_CATEGORY_SERVER :: qstring where "OBJECT_CATEGORY_SERVER \<equiv> ''Server''"
abbreviation OBJECT_CATEGORY_MS_IMAGING_PSPS :: qstring where "OBJECT_CATEGORY_MS_IMAGING_PSPS \<equiv> ''ms-Imaging-PSPs''"

abbreviation LDAP_SERVER_SD_FLAGS_OID :: qstring where "LDAP_SERVER_SD_FLAGS_OID \<equiv> ''1.2.840.113556.1.4.801''"
abbreviation OWNER_SECURITY_INFORMATION :: mask where "OWNER_SECURITY_INFORMATION \<equiv> 0x01"
abbreviation GROUP_SECURITY_INFORMATION :: mask where "GROUP_SECURITY_INFORMATION \<equiv> 0x02"
abbreviation SACL_SECURITY_INFORMATION :: mask where "SACL_SECURITY_INFORMATION \<equiv> 0x08"
abbreviation DACL_SECURITY_INFORMATION :: mask where "DACL_SECURITY_INFORMATION \<equiv> 0x04"

end
