(* ===== verification/AdUtils.thy ===== *)
theory AdUtils
  imports AdDefines
begin

text \<open>
  \<open>src/adldap/ad_utils.cpp\<close>: the version of a \<open>GPT.INI\<close>, bit masks and the enumerations stored in
  them, distinguished names, GUID strings and the ring buffer behind \<open>cstr\<close>. Texts passed to
  \<open>QCoreApplication::translate\<close> are the untranslated source texts.
\<close>

type_synonym byte = "8 word"
type_synonym bytes = "byte list"

section \<open>The version in a GPT.INI\<close>

definition gpt_version_line :: "qstring \<Rightarrow> qstring option" where
  "gpt_version_line line =
     (let separator = index_of_char line (CHR ''='')
      in if separator < 0 \<or> trimmed (left line separator) \<noteq> ''Version'' then None
         else Some (mid_from line (separator + 1)))"

fun gpt_ini_scan :: "bool \<Rightarrow> qstring list \<Rightarrow> int" where
  "gpt_ini_scan in_general_section [] = -1"
| "gpt_ini_scan in_general_section (raw_line # rest) =
     (let line = trimmed raw_line
      in if starts_with line ''['' then gpt_ini_scan (line = ''[General]'') rest
         else if \<not> in_general_section then gpt_ini_scan in_general_section rest
         else case gpt_version_line line of
             None \<Rightarrow> gpt_ini_scan in_general_section rest
           | Some text \<Rightarrow>
               (case to_int (trimmed text) of
                  Some version \<Rightarrow> if 0 \<le> version then version else -1
                | None \<Rightarrow> -1))"

definition gpt_ini_get_version :: "qstring \<Rightarrow> int" where
  "gpt_ini_get_version ini_contents = gpt_ini_scan False (split_char (CHR 0x0A) ini_contents)"

section \<open>Masks and the enumerations stored in them\<close>

definition bitmask_set :: "mask \<Rightarrow> mask \<Rightarrow> bool \<Rightarrow> mask" where
  "bitmask_set input_mask mask_to_set is_set =
     (if is_set then input_mask OR mask_to_set else input_mask AND NOT mask_to_set)"

definition bitmask_is_set :: "mask \<Rightarrow> mask \<Rightarrow> bool" where
  "bitmask_is_set input_mask mask_to_read = (input_mask AND mask_to_read = mask_to_read)"

definition large_integer_datetime_is_never :: "qstring \<Rightarrow> bool" where
  "large_integer_datetime_is_never value =
     (value = AD_LARGE_INTEGER_DATETIME_NEVER_1 \<or> value = AD_LARGE_INTEGER_DATETIME_NEVER_2)"

fun account_option_string :: "account_option \<Rightarrow> qstring" where
  "account_option_string AccountOption_Disabled = ''Account disabled''"
| "account_option_string AccountOption_CantChangePassword = ''User cannot change password''"
| "account_option_string AccountOption_AllowReversibleEncryption = ''Store password using reversible encryption''"
| "account_option_string AccountOption_PasswordExpired = ''User must change password on next logon''"
| "account_option_string AccountOption_DontExpirePassword = ''Don't expire password''"
| "account_option_string AccountOption_UseDesKey = ''Use Kerberos DES encryption types for this account''"
| "account_option_string AccountOption_SmartcardRequired = ''Smartcard is required for interactive logon''"
| "account_option_string AccountOption_CantDelegate = ''Account is sensitive and cannot be delegated''"
| "account_option_string AccountOption_DontRequirePreauth = ''Don't require Kerberos preauthentication''"
| "account_option_string AccountOption_TrustedForDelegation = ''Trusted for delegation''"
| "account_option_string AccountOption_COUNT = ''AccountOption_COUNT''"

fun account_option_bit :: "account_option \<Rightarrow> mask" where
  "account_option_bit AccountOption_Disabled = UAC_ACCOUNTDISABLE"
| "account_option_bit AccountOption_AllowReversibleEncryption = UAC_ENCRYPTED_TEXT_PASSWORD_ALLOWED"
| "account_option_bit AccountOption_DontExpirePassword = UAC_DONT_EXPIRE_PASSWORD"
| "account_option_bit AccountOption_UseDesKey = UAC_USE_DES_KEY_ONLY"
| "account_option_bit AccountOption_SmartcardRequired = UAC_SMARTCARD_REQUIRED"
| "account_option_bit AccountOption_DontRequirePreauth = UAC_DONT_REQUIRE_PREAUTH"
| "account_option_bit AccountOption_CantDelegate = UAC_NOT_DELEGATED"
| "account_option_bit AccountOption_TrustedForDelegation = UAC_TRUSTED_FOR_DELEGATION"
| "account_option_bit AccountOption_CantChangePassword = 0"
| "account_option_bit AccountOption_PasswordExpired = 0"
| "account_option_bit AccountOption_COUNT = 0"

fun group_scope_bit :: "group_scope \<Rightarrow> mask" where
  "group_scope_bit GroupScope_Global = 0x00000002"
| "group_scope_bit GroupScope_DomainLocal = 0x00000004"
| "group_scope_bit GroupScope_Universal = 0x00000008"
| "group_scope_bit GroupScope_COUNT = 0"

fun group_scope_string :: "group_scope \<Rightarrow> qstring" where
  "group_scope_string GroupScope_Global = ''Global''"
| "group_scope_string GroupScope_DomainLocal = ''Domain Local''"
| "group_scope_string GroupScope_Universal = ''Universal''"
| "group_scope_string GroupScope_COUNT = ''COUNT''"

fun group_type_string :: "group_type \<Rightarrow> qstring" where
  "group_type_string GroupType_Security = ''Security''"
| "group_type_string GroupType_Distribution = ''Distribution''"
| "group_type_string GroupType_COUNT = ''COUNT''"

fun group_type_string_adjective :: "group_type \<Rightarrow> qstring" where
  "group_type_string_adjective GroupType_Security = ''Security Group''"
| "group_type_string_adjective GroupType_Distribution = ''Distribution Group''"
| "group_type_string_adjective GroupType_COUNT = ''COUNT''"

definition ad_string_to_bool :: "qstring \<Rightarrow> bool" where
  "ad_string_to_bool s = (s = LDAP_BOOL_TRUE)"

fun attribute_type_display_string :: "attribute_type \<Rightarrow> qstring" where
  "attribute_type_display_string AttributeType_Boolean = ''Boolean''"
| "attribute_type_display_string AttributeType_Enumeration = ''Enumeration''"
| "attribute_type_display_string AttributeType_Integer = ''Integer''"
| "attribute_type_display_string AttributeType_LargeInteger = ''Large Integer''"
| "attribute_type_display_string AttributeType_StringCase = ''String Case''"
| "attribute_type_display_string AttributeType_IA5 = ''IA5''"
| "attribute_type_display_string AttributeType_NTSecDesc = ''NT Security Descriptor''"
| "attribute_type_display_string AttributeType_Numeric = ''Numeric''"
| "attribute_type_display_string AttributeType_ObjectIdentifier = ''Object Identifier''"
| "attribute_type_display_string AttributeType_Octet = ''Octet''"
| "attribute_type_display_string AttributeType_ReplicaLink = ''Replica Link''"
| "attribute_type_display_string AttributeType_Printable = ''Printable''"
| "attribute_type_display_string AttributeType_Sid = ''SID''"
| "attribute_type_display_string AttributeType_Teletex = ''Teletex''"
| "attribute_type_display_string AttributeType_Unicode = ''Unicode String''"
| "attribute_type_display_string AttributeType_UTCTime = ''UTC Time''"
| "attribute_type_display_string AttributeType_GeneralizedTime = ''Generalized Time''"
| "attribute_type_display_string AttributeType_DNString = ''DN String''"
| "attribute_type_display_string AttributeType_DNBinary = ''DN Binary''"
| "attribute_type_display_string AttributeType_DSDN = ''Distinguished Name''"

text \<open>\<open>QString::arg\<close> prints an \<open>int\<close> in base 16 as the 64-bit word it is promoted to.\<close>

definition int_to_hex_string :: "mask \<Rightarrow> qstring" where
  "int_to_hex_string n = ''0x'' @ arg_padded 8 16 (nat (sint n mod 2 ^ 64))"

definition attribute_value_bit_string_map :: "qstring \<Rightarrow> (mask \<times> qstring) list" where
  "attribute_value_bit_string_map attribute =
     (if attribute = ATTRIBUTE_GROUP_TYPE then
        [(GROUP_TYPE_BIT_SYSTEM, ''SYSTEM_GROUP''),
         (GROUP_TYPE_BIT_SECURITY, ''SECURITY_ENABLED''),
         (group_scope_bit GroupScope_Global, ''ACCOUNT_GROUP''),
         (group_scope_bit GroupScope_DomainLocal, ''RESOURCE_GROUP''),
         (group_scope_bit GroupScope_Universal, ''UNIVERSAL_GROUP'')]
      else if attribute = ATTRIBUTE_SYSTEM_FLAGS then
        [(system_flags_value SystemFlagsBit_DomainCannotMove, ''DOMAIN_DISALLOW_MOVE''),
         (system_flags_value SystemFlagsBit_DomainCannotRename, ''DOMAIN_DISALLOW_RENAME''),
         (system_flags_value SystemFlagsBit_CannotDelete, ''DISALLOW_DELETE'')]
      else [])"

section \<open>Distinguished names\<close>

definition escape_name_for_dn :: "qstring \<Rightarrow> qstring" where
  "escape_name_for_dn unescaped = replace_all ''?'' [CHR 0x5C, CHR ''?''] unescaped"

definition dn_get_rdn :: "qstring \<Rightarrow> qstring" where
  "dn_get_rdn dn = split_char (CHR '','') dn ! 0"

definition dn_get_name :: "qstring \<Rightarrow> qstring" where
  "dn_get_name dn =
     (let equals_i = index_of_char dn (CHR ''='') + 1;
          comma_i = index_of_char dn (CHR '','');
          segment_length = comma_i - equals_i
      in replace_all [CHR 0x5C, CHR ''?''] ''?'' (mid dn equals_i segment_length))"

definition dn_get_parent :: "qstring \<Rightarrow> qstring" where
  "dn_get_parent dn = mid_from dn (index_of_char dn (CHR '','') + 1)"

definition dn_rename :: "qstring \<Rightarrow> qstring \<Rightarrow> qstring" where
  "dn_rename dn new_name =
     (let exploded_dn = split_char (CHR '','') dn;
          old_rdn = exploded_dn ! 0;
          prefix_index = index_of_char old_rdn (CHR ''='') + 1;
          prefix = left old_rdn prefix_index;
          new_rdn = prefix @ escape_name_for_dn new_name
      in join '','' (exploded_dn[0 := new_rdn]))"

definition dn_move :: "qstring \<Rightarrow> qstring \<Rightarrow> qstring" where
  "dn_move dn new_parent_dn = dn_get_rdn dn @ '','' @ new_parent_dn"

definition object_class_to_suffix :: "qstring \<Rightarrow> qstring" where
  "object_class_to_suffix object_class = (if object_class = CLASS_OU then ''OU'' else ''CN'')"

definition dn_from_name_and_parent :: "qstring \<Rightarrow> qstring \<Rightarrow> qstring \<Rightarrow> qstring" where
  "dn_from_name_and_parent name parent object_class =
     object_class_to_suffix object_class @ ''='' @ escape_name_for_dn name @ '','' @ parent"

text \<open>\<open>ldap_dn2ad_canonical\<close> is OpenLDAP's: an argument.\<close>

definition dn_get_parent_canonical :: "(qstring \<Rightarrow> qstring) \<Rightarrow> qstring \<Rightarrow> qstring" where
  "dn_get_parent_canonical dn_canonical dn = dn_canonical (dn_get_parent dn)"

section \<open>GUID strings\<close>

text \<open>\<open>QByteArray::fromHex\<close> skips what is no digit and pairs the digits from the end.\<close>

fun hex_pairs :: "nat list \<Rightarrow> bytes" where
  "hex_pairs [] = []"
| "hex_pairs [low] = [of_nat low]"
| "hex_pairs (low # high # rest) = of_nat (high * 16 + low) # hex_pairs rest"

definition from_hex :: "qstring \<Rightarrow> bytes" where
  "from_hex s = rev (hex_pairs (rev (List.map_filter (digit_value 16) s)))"

definition guid_string_to_segment_list :: "qstring \<Rightarrow> bytes list faulty" where
  "guid_string_to_segment_list guid_string =
     (let out = map from_hex (split_char (CHR ''-'') guid_string)
      in if length out < 3 then Inl Index_Out_Of_Range
         else Inr (out[0 := rev (out ! 0), 1 := rev (out ! 1), 2 := rev (out ! 2)]))"

definition segment_list_to_guid_bytes :: "bytes list \<Rightarrow> bytes" where
  "segment_list_to_guid_bytes segment_list = concat segment_list"

definition guid_string_to_bytes :: "qstring \<Rightarrow> bytes faulty" where
  "guid_string_to_bytes guid_string =
     (if guid_string = [] then Inr []
      else bind_faulty (guid_string_to_segment_list guid_string)
             (\<lambda>list. Inr (segment_list_to_guid_bytes list)))"

section \<open>The buffer of C strings\<close>

text \<open>
  \<open>cstr\<close> returns a pointer into a static list of byte arrays and drops the oldest beyond 100. The
  state is the list of the live arrays, each with the number of the call that made it, and the
  number of calls so far.
\<close>

record cstr_state =
  cstr_buffer :: "(nat \<times> qstring) list"
  cstr_calls :: nat

definition MAXIMUM_BUFFER_SIZE :: nat where "MAXIMUM_BUFFER_SIZE = 100"

definition cstr :: "qstring \<Rightarrow> cstr_state \<Rightarrow> nat \<times> cstr_state" where
  "cstr qstr st =
     (let buffer = cstr_buffer st @ [(cstr_calls st, qstr)];
          buffer = (if MAXIMUM_BUFFER_SIZE < length buffer then drop 1 buffer else buffer)
      in (cstr_calls st, st\<lparr>cstr_buffer := buffer, cstr_calls := cstr_calls st + 1\<rparr>))"

definition cstr_start :: cstr_state where
  "cstr_start = \<lparr>cstr_buffer = [], cstr_calls = 0\<rparr>"

text \<open>The text behind the pointer of call \<open>k\<close>: none when it dangles.\<close>

definition cstr_deref :: "cstr_state \<Rightarrow> nat \<Rightarrow> qstring option" where
  "cstr_deref st k = map_of (cstr_buffer st) k"

section \<open>Facts on masks\<close>

lemma word_and_or_cancel: "(m OR k) AND k = (k :: 'a::len word)"
  by (rule bit_word_eqI) (auto simp: bit_simps)

lemma word_and_not_cancel: "(m AND NOT k) AND k = (0 :: 'a::len word)"
  by (rule bit_word_eqI) (auto simp: bit_simps)

lemma word_or_disjoint: "k AND j = 0 \<Longrightarrow> (m OR k) AND j = m AND (j :: 'a::len word)"
  by (metis and.commute bit.conj_disj_distrib or.right_neutral)

lemma word_and_not_disjoint: "k AND j = 0 \<Longrightarrow> (m AND NOT k) AND j = m AND (j :: 'a::len word)"
proof (rule bit_word_eqI)
  fix n assume kj: "k AND j = 0" and n: "n < LENGTH('a)"
  have "\<not> (bit k n \<and> bit j n)" using kj n by (metis bit_and_iff bit_0_eq bot_apply bot_bool_def)
  then show "bit ((m AND NOT k) AND j) n = bit (m AND j) n" using n by (auto simp: bit_simps)
qed

lemma bitmask_is_set_same [mask_simps]: "k \<noteq> 0 \<Longrightarrow> bitmask_is_set (bitmask_set m k v) k = v"
  by (simp add: bitmask_is_set_def bitmask_set_def word_and_or_cancel word_and_not_cancel)

lemma bitmask_is_set_other [mask_simps]:
  "k AND j = 0 \<Longrightarrow> bitmask_is_set (bitmask_set m k v) j = bitmask_is_set m j"
  by (simp add: bitmask_is_set_def bitmask_set_def word_or_disjoint word_and_not_disjoint)

lemma bitmask_set_frame [mask_simps]: "k AND j = 0 \<Longrightarrow> bitmask_set m k v AND j = m AND j"
  by (simp add: bitmask_set_def word_or_disjoint word_and_not_disjoint)

lemma bitmask_set_idem [mask_simps]: "bitmask_set (bitmask_set m k v) k w = bitmask_set m k w"
  by (rule bit_word_eqI) (auto simp: bitmask_set_def bit_simps)

section \<open>Stores of boolean flags\<close>

text \<open>
  The contract shared by the masks that hold options: what is read after a write. A client that
  writes several options in turn reads the last value written to each.
\<close>

locale flag_store =
  fixes flags :: "'f set"
    and read_flag :: "'s \<Rightarrow> 'f \<Rightarrow> bool"
    and write_flag :: "'f \<Rightarrow> bool \<Rightarrow> 's \<Rightarrow> 's"
  assumes read_write_same: "f \<in> flags \<Longrightarrow> read_flag (write_flag f v s) f = v"
    and read_write_other: "f \<in> flags \<Longrightarrow> g \<in> flags \<Longrightarrow> f \<noteq> g \<Longrightarrow> read_flag (write_flag f v s) g = read_flag s g"
begin

lemma read_write: "f \<in> flags \<Longrightarrow> g \<in> flags \<Longrightarrow> read_flag (write_flag f v s) g = (if f = g then v else read_flag s g)"
  using read_write_same read_write_other by auto

lemma read_write_all:
  "fst ` set ws \<subseteq> flags \<Longrightarrow> g \<in> flags \<Longrightarrow>
    read_flag (fold (\<lambda>(f, v). write_flag f v) ws s) g =
      (case map_of (rev ws) g of None \<Rightarrow> read_flag s g | Some v \<Rightarrow> v)"
proof (induction ws arbitrary: s)
  case Nil
  then show ?case by simp
next
  case (Cons w ws)
  obtain f v where w: "w = (f, v)" by force
  with Cons.prems have f: "f \<in> flags" by auto
  show ?case using Cons f w
    by (auto simp: read_write map_add_def split: option.splits)
qed

lemma write_commute_read:
  "f \<in> flags \<Longrightarrow> g \<in> flags \<Longrightarrow> h \<in> flags \<Longrightarrow> f \<noteq> g \<Longrightarrow>
    read_flag (write_flag f v (write_flag g w s)) h = read_flag (write_flag g w (write_flag f v s)) h"
  by (auto simp: read_write)

end

text \<open>The account options that are bits of \<open>userAccountControl\<close>.\<close>

definition option_has_bit :: "account_option \<Rightarrow> bool" where
  "option_has_bit opt = (account_option_bit opt \<noteq> 0)"

lemma account_option_bits_disjoint:
  "f \<noteq> g \<Longrightarrow> account_option_bit f AND account_option_bit g = 0"
  by (cases f; cases g; simp)

interpretation uac: flag_store "{opt. option_has_bit opt}"
  "\<lambda>m opt. bitmask_is_set m (account_option_bit opt)"
  "\<lambda>opt v m. bitmask_set m (account_option_bit opt) v"
  by unfold_locales (auto simp: option_has_bit_def bitmask_is_set_same bitmask_is_set_other account_option_bits_disjoint)

lemma group_scope_bits_disjoint: "f \<noteq> g \<Longrightarrow> group_scope_bit f AND group_scope_bit g = 0"
  by (cases f; cases g; simp)

interpretation scope_bits: flag_store "{scope. scope \<noteq> GroupScope_COUNT}"
  "\<lambda>m scope. bitmask_is_set m (group_scope_bit scope)"
  "\<lambda>scope v m. bitmask_set m (group_scope_bit scope) v"
proof
  fix f :: group_scope and v m
  assume "f \<in> {scope. scope \<noteq> GroupScope_COUNT}"
  then have "group_scope_bit f \<noteq> 0" by (cases f) auto
  then show "bitmask_is_set (bitmask_set m (group_scope_bit f) v) (group_scope_bit f) = v"
    by (rule bitmask_is_set_same)
qed (simp add: bitmask_is_set_other group_scope_bits_disjoint)

section \<open>Facts on distinguished names\<close>

lemma escape_unescape: "replace_all [CHR 0x5C, CHR ''?''] ''?'' (escape_name_for_dn s) = s"
  by (simp add: escape_name_for_dn_def replace_all_unescape)

lemma set_escape: "set (escape_name_for_dn s) \<subseteq> insert (CHR 0x5C) (set s)"
  by (auto simp: escape_name_for_dn_def replace_all_escape split: if_splits)

lemma dn_get_parent_comma: "CHR '','' \<notin> set rdn \<Longrightarrow> dn_get_parent (rdn @ '','' @ parent) = parent"
  by (simp add: dn_get_parent_def index_of_char_first mid_from_def nat_add_distrib)

lemma dn_get_rdn_comma: "CHR '','' \<notin> set rdn \<Longrightarrow> dn_get_rdn (rdn @ '','' @ parent) = rdn"
  by (simp add: dn_get_rdn_def split_char_append)

lemma left_append: "left (u @ v) (int (length u)) = u"
  by (simp add: left_def)

lemma dn_rename_shape:
  assumes "CHR ''='' \<notin> set att" "CHR '','' \<notin> set att" "CHR '','' \<notin> set old"
  shows "dn_rename (att @ ''='' @ old @ '','' @ parent) new =
    att @ ''='' @ escape_name_for_dn new @ '','' @ parent"
proof -
  have sp: "split_char (CHR '','') (att @ ''='' @ old @ '','' @ parent)
      = (att @ ''='' @ old) # split_char (CHR '','') parent"
    using assms split_char_append [of "CHR '',''" "att @ ''='' @ old" parent] by simp
  have ix: "index_of_char (att @ ''='' @ old) (CHR ''='') + 1 = int (length (att @ ''=''))"
    using assms by (simp add: index_of_char_first)
  have "left (att @ ''='' @ old) (int (length (att @ ''=''))) = att @ ''=''"
    using left_append [of "att @ ''=''" old] by simp
  then show ?thesis
    by (simp only: dn_rename_def sp ix Let_def nth_Cons_0 list_update_code)
       (simp add: join_Cons join_split)
qed

lemma dn_get_name_shape:
  assumes "CHR ''='' \<notin> set att" "CHR '','' \<notin> set att" "CHR '','' \<notin> set name"
  shows "dn_get_name (att @ ''='' @ escape_name_for_dn name @ '','' @ parent) = name"
proof -
  let ?e = "escape_name_for_dn name" and ?dn = "att @ ''='' @ escape_name_for_dn name @ '','' @ parent"
  have e: "CHR '','' \<notin> set ?e" using assms(3) set_escape by fastforce
  have eq: "index_of_char ?dn (CHR ''='') + 1 = int (length att + 1)"
    using assms(1) by (simp add: index_of_char_first)
  have "index_of_char ?dn (CHR '','') = int (length (att @ ''='' @ ?e))"
    using assms(2) e index_of_char_first [of "CHR '',''" "att @ ''='' @ ?e" parent] by simp
  then have "mid ?dn (index_of_char ?dn (CHR ''='') + 1)
      (index_of_char ?dn (CHR '','') - (index_of_char ?dn (CHR ''='') + 1)) = ?e"
    unfolding eq by (simp add: mid_def nat_add_distrib)
  then show ?thesis by (simp only: dn_get_name_def Let_def escape_unescape)
qed

lemma object_class_to_suffix_plain:
  "CHR ''='' \<notin> set (object_class_to_suffix cls)" "CHR '','' \<notin> set (object_class_to_suffix cls)"
  by (simp_all add: object_class_to_suffix_def)

section \<open>Properties\<close>

subsection \<open>GPT.INI\<close>

text \<open>Whether the line after \<open>pre\<close> is in the section \<open>[General]\<close>, when \<open>pre\<close> starts in state \<open>b\<close>.\<close>

definition general_after :: "bool \<Rightarrow> qstring list \<Rightarrow> bool" where
  "general_after b pre =
     (case find (\<lambda>l. starts_with l ''['') (rev (map trimmed pre)) of
        None \<Rightarrow> b | Some header \<Rightarrow> header = ''[General]'')"

definition version_line_at :: "bool \<Rightarrow> qstring list \<Rightarrow> nat \<Rightarrow> bool" where
  "version_line_at b ls i =
     (general_after b (take i ls) \<and> \<not> starts_with (trimmed (ls ! i)) ''[''
      \<and> gpt_version_line (trimmed (ls ! i)) \<noteq> None)"

definition version_number :: "qstring \<Rightarrow> int" where
  "version_number line =
     (case to_int (trimmed (the (gpt_version_line (trimmed line)))) of
        Some v \<Rightarrow> if 0 \<le> v then v else -1 | None \<Rightarrow> -1)"

lemma find_append: "find P (xs @ ys) = (case find P xs of None \<Rightarrow> find P ys | Some x \<Rightarrow> Some x)"
  by (induction xs) auto

lemma find_map_conv: "find P (map f xs) = map_option f (find (P \<circ> f) xs)"
  by (induction xs) auto

lemma version_line_at_Suc:
  "version_line_at b (l # ls) (Suc i) =
    version_line_at (if starts_with (trimmed l) ''['' then trimmed l = ''[General]'' else b) ls i"
  by (simp add: version_line_at_def general_after_def find_append split: option.splits)

lemma gpt_ini_scan_spec:
  "gpt_ini_scan b ls =
    (case find (version_line_at b ls) [0..<length ls] of None \<Rightarrow> -1 | Some i \<Rightarrow> version_number (ls ! i))"
proof (induction b ls rule: gpt_ini_scan.induct)
  case (1 b)
  then show ?case by simp
next
  case (2 b l ls)
  have upt: "[0..<length (l # ls)] = 0 # map Suc [0..<length ls]"
    by (simp add: upt_conv_Cons map_Suc_upt del: upt_Suc)
  have fnd: "find (version_line_at b (l # ls)) (map Suc [0..<length ls]) =
      map_option Suc (find (version_line_at (if starts_with (trimmed l) ''['' then trimmed l = ''[General]'' else b) ls)
        [0..<length ls])"
    by (simp add: find_map_conv comp_def version_line_at_Suc)
  have zero: "version_line_at b (l # ls) 0 \<longleftrightarrow>
      b \<and> \<not> starts_with (trimmed l) ''['' \<and> gpt_version_line (trimmed l) \<noteq> None"
    by (simp add: version_line_at_def general_after_def)
  consider (head_line) "starts_with (trimmed l) ''[''"
    | (outside) "\<not> starts_with (trimmed l) ''[''" "\<not> b"
    | (other) "\<not> starts_with (trimmed l) ''[''" b "gpt_version_line (trimmed l) = None"
    | (version_line) t where "\<not> starts_with (trimmed l) ''[''" b "gpt_version_line (trimmed l) = Some t"
    by fastforce
  then show ?case
  proof cases
    case head_line
    then show ?thesis unfolding upt
      using 2(1) [OF refl head_line] fnd zero head_line by (simp add: Let_def split: option.split)
  next
    case outside
    then show ?thesis unfolding upt
      using 2(2) [OF refl outside] fnd zero outside by (simp add: Let_def split: option.split)
  next
    case other
    then show ?thesis unfolding upt
      using 2(3) [OF refl other(1)] fnd zero other by (simp add: Let_def split: option.split)
  next
    case version_line
    then show ?thesis unfolding upt using zero version_line by (simp add: Let_def version_number_def)
  qed
qed

text \<open>
  \<open>gpt_ini_get_version\<close> is the number on the first line with key \<open>Version\<close> of the section
  \<open>[General]\<close> (the section of a line is given by the last header before it), -1 when that text is
  not a number that fits a non-negative \<open>int\<close> or when there is no such line.
\<close>

theorem gpt_ini_get_version_spec:
  "gpt_ini_get_version ini =
    (let ls = split_char (CHR 0x0A) ini
     in case find (version_line_at False ls) [0..<length ls] of
          None \<Rightarrow> -1 | Some i \<Rightarrow> version_number (ls ! i))"
  by (simp add: gpt_ini_get_version_def gpt_ini_scan_spec Let_def)

subsection \<open>Distinguished names\<close>

text \<open>
  C19. Names in a DN. For names without a comma, the DN built from a name and a parent has that
  name and that parent; renaming changes the name and keeps the parent; moving changes the parent
  and keeps the name. Question marks in a name survive the escaping.
\<close>

theorem dn_operations:
  assumes "CHR '','' \<notin> set name" and "CHR '','' \<notin> set new_name"
  shows "dn_get_name (dn_from_name_and_parent name parent cls) = name
    \<and> dn_get_parent (dn_from_name_and_parent name parent cls) = parent
    \<and> dn_rename (dn_from_name_and_parent name parent cls) new_name = dn_from_name_and_parent new_name parent cls
    \<and> dn_move (dn_from_name_and_parent name parent cls) parent' = dn_from_name_and_parent name parent' cls"
proof -
  let ?a = "object_class_to_suffix cls" and ?e = "escape_name_for_dn name"
  have e: "CHR '','' \<notin> set ?e" using assms(1) set_escape by fastforce
  then have rdn: "CHR '','' \<notin> set (?a @ ''='' @ ?e)" by (simp add: object_class_to_suffix_plain)
  show ?thesis
    using dn_get_name_shape [of ?a name parent] dn_rename_shape [of ?a ?e parent new_name]
      dn_get_parent_comma [OF rdn, of parent] dn_get_rdn_comma [OF rdn, of parent] assms e
    by (simp add: dn_from_name_and_parent_def dn_move_def object_class_to_suffix_plain)
qed

theorem dn_operations_witness:
  "dn_get_name (dn_from_name_and_parent ''a?b'' ''DC=x'' CLASS_OU) = ''a?b''
    \<and> dn_rename (dn_from_name_and_parent ''a?b'' ''DC=x'' CLASS_OU) ''c'' = ''OU=c,DC=x''"
  using dn_operations [of "''a?b''" "''c''" "''DC=x''" CLASS_OU "''DC=y''"]
  by (simp add: dn_from_name_and_parent_def object_class_to_suffix_def escape_name_for_dn_def)

subsection \<open>Account options\<close>

text \<open>
  The account options stored as bits of \<open>userAccountControl\<close> do not disturb each other: after
  any sequence of writes of such options each reads the last value written to it, or its old
  value, and every bit outside the written ones is unchanged.
\<close>

theorem account_option_bits_independent:
  assumes "\<forall>w \<in> set ws. account_option_bit (fst w) \<noteq> 0" and "account_option_bit opt \<noteq> 0"
  shows "bitmask_is_set (fold (\<lambda>(f, v) m. bitmask_set m (account_option_bit f) v) ws uac) (account_option_bit opt) =
    (case map_of (rev ws) opt of None \<Rightarrow> bitmask_is_set uac (account_option_bit opt) | Some v \<Rightarrow> v)"
  using assms uac.read_write_all [of ws opt uac] by (auto simp: option_has_bit_def)

theorem account_option_bits_independent_witness:
  "bitmask_is_set (fold (\<lambda>(f, v) m. bitmask_set m (account_option_bit f) v)
     [(AccountOption_Disabled, True), (AccountOption_UseDesKey, True), (AccountOption_Disabled, False)] 0x202)
     UAC_ACCOUNTDISABLE = False"
  using account_option_bits_independent
    [of "[(AccountOption_Disabled, True), (AccountOption_UseDesKey, True), (AccountOption_Disabled, False)]"
        AccountOption_Disabled "0x202"]
  by simp

subsection \<open>The lifetime of C strings\<close>

definition cstr_run :: "qstring list \<Rightarrow> cstr_state \<Rightarrow> cstr_state" where
  "cstr_run ss st = fold (\<lambda>s st. snd (cstr s st)) ss st"

lemma cstr_run_simps [simp]:
  "cstr_run [] st = st" "cstr_run (ss @ [s]) st = snd (cstr s (cstr_run ss st))"
  "cstr_run (ss @ ts) st = cstr_run ts (cstr_run ss st)"
  "cstr_run (s # ss) st = cstr_run ss (snd (cstr s st))"
  by (simp_all add: cstr_run_def)

lemma enumerate_snoc: "enumerate n (xs @ [x]) = enumerate n xs @ [(n + length xs, x)]"
  by (simp add: enumerate_append_eq)

text \<open>The buffer holds the last 100 strings.\<close>

lemma cstr_run_state:
  "cstr_buffer (cstr_run ss cstr_start) = drop (length ss - 100) (enumerate 0 ss)
    \<and> cstr_calls (cstr_run ss cstr_start) = length ss"
proof (induction ss rule: rev_induct)
  case Nil
  then show ?case by (simp add: cstr_start_def)
next
  case (snoc s ss)
  have "100 \<le> length ss \<Longrightarrow> length ss - 99 = Suc (length ss - 100)" by simp
  then show ?case
    using snoc by (cases "100 \<le> length ss")
      (auto simp: cstr_def MAXIMUM_BUFFER_SIZE_def Let_def enumerate_append_eq simp del: cstr_run_simps(3))
qed

lemma map_of_drop_enumerate:
  "map_of (drop d (enumerate n xs)) k = (if n + d \<le> k \<and> k < n + length xs then Some (xs ! (k - n)) else None)"
proof (induction xs arbitrary: n d)
  case Nil
  then show ?case by simp
next
  case (Cons x xs)
  show ?case
  proof (cases d)
    case 0
    then show ?thesis using Cons [of 0 "Suc n"] by (auto simp: nth_Cons' Suc_le_eq)
  next
    case (Suc e)
    then show ?thesis using Cons [of e "Suc n"] by (auto simp: nth_Cons')
  qed
qed

text \<open>
  C18. A pointer returned by \<open>cstr\<close> stays valid, and points to the text it was made from, for the
  next 99 calls whatever their arguments; the hundredth call after it frees the text.
\<close>

theorem cstr_pointer_lifetime:
  "(let (k, st) = cstr s (cstr_run earlier cstr_start)
    in cstr_deref (cstr_run later st) k = (if length later < 100 then Some s else None))"
proof -
  let ?all = "earlier @ s # later"
  have calls: "cstr_calls (cstr_run earlier cstr_start) = length earlier" by (simp only: cstr_run_state)
  have st: "cstr_run later (snd (cstr s (cstr_run earlier cstr_start))) = cstr_run ?all cstr_start"
    by simp
  have k: "fst (cstr s (cstr_run earlier cstr_start)) = length earlier"
    using calls by (simp add: cstr_def Let_def)
  have "cstr_deref (cstr_run ?all cstr_start) (length earlier) = (if length later < 100 then Some s else None)"
    unfolding cstr_deref_def cstr_run_state [THEN conjunct1] map_of_drop_enumerate by auto
  then show ?thesis using st k by (simp add: case_prod_beta Let_def del: cstr_run_simps)
qed

end
