(* ===== verification/Gplink.thy ===== *)
theory Gplink
  imports AdUtils
begin

text \<open>
  \<open>src/adldap/gplink.cpp\<close>: the value of the attribute \<open>gPLink\<close>, an ordered list of the GPOs linked to
  a container, each with a mask of options. The list is in order of precedence, the reverse of
  the order in the attribute. DNs are kept in lower case.
\<close>

datatype gplink_option = GplinkOption_NoOption | GplinkOption_Disabled | GplinkOption_Enforced

fun gplink_option_value :: "gplink_option \<Rightarrow> mask" where
  "gplink_option_value GplinkOption_NoOption = 0"
| "gplink_option_value GplinkOption_Disabled = 1"
| "gplink_option_value GplinkOption_Enforced = 2"

text \<open>The members; the hash is only looked up, never traversed.\<close>

record gplink =
  gpo_list :: "qstring list"
  options :: "qstring \<rightharpoonup> mask"

definition gplink_empty :: gplink where
  "gplink_empty = \<lparr>gpo_list = [], options = Map.empty\<rparr>"

abbreviation LDAP_PREFIX :: qstring where "LDAP_PREFIX \<equiv> ''LDAP://''"

text \<open>\<open>options[gpo]\<close> of a constant hash is 0 for a key that is not there.\<close>

definition option_bits :: "gplink \<Rightarrow> qstring \<Rightarrow> mask" where
  "option_bits g gpo = (case options g gpo of None \<Rightarrow> 0 | Some m \<Rightarrow> m)"

section \<open>Parsing and printing\<close>

definition ldap_to_gpo :: "qstring \<Rightarrow> qstring" where
  "ldap_to_gpo s = to_lower (replace_all LDAP_PREFIX [] s)"

definition gplink_parse_part :: "qstring \<Rightarrow> gplink \<Rightarrow> gplink" where
  "gplink_parse_part part g =
     (if part = [] then g
      else case split_char (CHR '';'') part of
          [gpo_part, option_string] \<Rightarrow>
            (let gpo = ldap_to_gpo gpo_part;
                 option = or_zero (to_int option_string)
             in g\<lparr>gpo_list := gpo # gpo_list g, options := (options g)(gpo \<mapsto> word_of_int option)\<rparr>)
        | _ \<Rightarrow> g)"

definition gplink_parse :: "qstring \<Rightarrow> gplink" where
  "gplink_parse gplink_string =
     (if gplink_string = [] then gplink_empty
      else fold gplink_parse_part (split_char (CHR '']'') (remove_char (CHR ''['') gplink_string)) gplink_empty)"

fun gplink_case_loop :: "qstring list \<Rightarrow> qstring list \<Rightarrow> qstring list \<Rightarrow> qstring" where
  "gplink_case_loop rdn_list [] rdn_list_case = join '','' rdn_list_case"
| "gplink_case_loop rdn_list (rdn # rest) rdn_list_case =
     (case split_char (CHR ''='') rdn of
        [attribute, val] \<Rightarrow>
          (let attribute_case = (if attribute = ''dc'' then to_upper attribute else attribute);
               value_case = (if list_index rdn_list rdn = 0 then to_upper val else val)
           in gplink_case_loop rdn_list rest (rdn_list_case @ [join ''='' [attribute_case, value_case]]))
      | _ \<Rightarrow> rdn)"

definition gpo_dn_to_gplink_case :: "qstring list \<Rightarrow> qstring" where
  "gpo_dn_to_gplink_case rdn_list = gplink_case_loop rdn_list rdn_list []"

definition gplink_part :: "gplink \<Rightarrow> qstring \<Rightarrow> qstring" where
  "gplink_part g gpo =
     ''['' @ LDAP_PREFIX @ gpo_dn_to_gplink_case (split_char (CHR '','') gpo) @ '';''
       @ number (sint (option_bits g gpo)) @ '']''"

definition gplink_to_string :: "gplink \<Rightarrow> qstring" where
  "gplink_to_string g = join [] (map (gplink_part g) (rev (gpo_list g)))"

definition gplink_equals :: "gplink \<Rightarrow> gplink \<Rightarrow> bool" where
  "gplink_equals g h = (gplink_to_string g = gplink_to_string h)"

section \<open>The operations\<close>

definition gplink_contains :: "gplink \<Rightarrow> qstring \<Rightarrow> bool" where
  "gplink_contains g gpo_case = (options g (to_lower gpo_case) \<noteq> None)"

definition gpo_case_rdn :: "qstring \<Rightarrow> qstring" where
  "gpo_case_rdn rdn =
     (case split_char (CHR ''='') rdn of
        [lhs, rhs] \<Rightarrow>
          join ''='' [to_upper lhs,
            if rhs = ''system'' then ''System'' else if rhs = ''policies'' then ''Policies'' else rhs]
      | _ \<Rightarrow> rdn)"

definition get_gpo_case :: "qstring \<Rightarrow> qstring" where
  "get_gpo_case gpo =
     (case split_char (CHR '','') gpo of
        [] \<Rightarrow> gpo
      | guid_rdn # rest \<Rightarrow> join '','' (to_upper guid_rdn # map gpo_case_rdn rest))"

definition get_gpo_list :: "gplink \<Rightarrow> qstring list" where
  "get_gpo_list g = map get_gpo_case (gpo_list g)"

definition gplink_add :: "qstring \<Rightarrow> gplink \<Rightarrow> gplink" where
  "gplink_add gpo_case g =
     (let gpo = to_lower gpo_case
      in if gplink_contains g gpo then g
         else g\<lparr>gpo_list := gpo_list g @ [gpo], options := (options g)(gpo \<mapsto> 0)\<rparr>)"

definition gplink_remove :: "qstring \<Rightarrow> gplink \<Rightarrow> gplink" where
  "gplink_remove gpo_case g =
     (let gpo = to_lower gpo_case
      in if \<not> gplink_contains g gpo then g
         else g\<lparr>gpo_list := removeAll gpo (gpo_list g), options := (options g)(gpo := None)\<rparr>)"

definition gplink_move_up :: "qstring \<Rightarrow> gplink \<Rightarrow> gplink" where
  "gplink_move_up gpo_case g =
     (let gpo = to_lower gpo_case
      in if \<not> gplink_contains g gpo then g
         else let current_index = list_index (gpo_list g) gpo
              in if 0 < current_index
                 then g\<lparr>gpo_list := list_move (nat current_index) (nat (current_index - 1)) (gpo_list g)\<rparr>
                 else g)"

definition gplink_move_down :: "qstring \<Rightarrow> gplink \<Rightarrow> gplink" where
  "gplink_move_down gpo_case g =
     (let gpo = to_lower gpo_case
      in if \<not> gplink_contains g gpo then g
         else let current_index = list_index (gpo_list g) gpo
              in if current_index < int (length (gpo_list g)) - 1
                 then g\<lparr>gpo_list := list_move (nat current_index) (nat (current_index + 1)) (gpo_list g)\<rparr>
                 else g)"

definition gplink_move :: "int \<Rightarrow> int \<Rightarrow> gplink \<Rightarrow> gplink" where
  "gplink_move from_order to_order g =
     (let size = int (length (gpo_list g))
      in if from_order > size \<or> to_order > size \<or> from_order < 1 \<or> to_order < 1 then g
         else g\<lparr>gpo_list := list_move (nat (from_order - 1)) (nat (to_order - 1)) (gpo_list g)\<rparr>)"

definition gplink_get_option :: "gplink \<Rightarrow> qstring \<Rightarrow> gplink_option \<Rightarrow> bool" where
  "gplink_get_option g gpo_case option =
     (let gpo = to_lower gpo_case
      in if \<not> gplink_contains g gpo then False
         else bitmask_is_set (option_bits g gpo) (gplink_option_value option))"

definition gplink_set_option :: "qstring \<Rightarrow> gplink_option \<Rightarrow> bool \<Rightarrow> gplink \<Rightarrow> gplink" where
  "gplink_set_option gpo_case option val g =
     (let gpo = to_lower gpo_case
      in if \<not> gplink_contains g gpo then g
         else g\<lparr>options := (options g)(gpo \<mapsto>
                  bitmask_set (option_bits g gpo) (gplink_option_value option) val)\<rparr>)"

definition get_gpo_order :: "gplink \<Rightarrow> qstring \<Rightarrow> int" where
  "get_gpo_order g gpo_case = list_index (gpo_list g) (to_lower gpo_case) + 1"

definition get_max_order :: "gplink \<Rightarrow> int" where
  "get_max_order g = int (length (gpo_list g))"

definition enforced_gpo_dn_list :: "gplink \<Rightarrow> qstring list" where
  "enforced_gpo_dn_list g = filter (\<lambda>gpo_dn. gplink_get_option g gpo_dn GplinkOption_Enforced) (get_gpo_list g)"

definition disabled_gpo_dn_list :: "gplink \<Rightarrow> qstring list" where
  "disabled_gpo_dn_list g = filter (\<lambda>gpo_dn. gplink_get_option g gpo_dn GplinkOption_Disabled) (get_gpo_list g)"

section \<open>The invariant\<close>

text \<open>
  The list and the hash hold the same keys, all in lower case. A string that links a GPO twice
  leaves it twice in the list, so distinctness is a separate invariant of the operations.
\<close>

definition gplink_ok :: "gplink \<Rightarrow> bool" where
  "gplink_ok g = (dom (options g) = set (gpo_list g) \<and> (\<forall>gpo \<in> set (gpo_list g). to_lower gpo = gpo))"

definition gplink_distinct :: "gplink \<Rightarrow> bool" where
  "gplink_distinct g = (gplink_ok g \<and> distinct (gpo_list g))"

lemma gplink_ok_empty [intro, simp]: "gplink_ok gplink_empty"
  by (simp add: gplink_ok_def gplink_empty_def)

lemma gplink_ok_parse_part: "gplink_ok g \<Longrightarrow> gplink_ok (gplink_parse_part part g)"
  by (auto simp: gplink_parse_part_def gplink_ok_def ldap_to_gpo_def Let_def split: list.split)

lemma gplink_ok_parse: "gplink_ok (gplink_parse s)"
proof -
  have "gplink_ok g \<Longrightarrow> gplink_ok (fold gplink_parse_part ps g)" for ps g
    by (induction ps arbitrary: g) (auto simp: gplink_ok_parse_part)
  then show ?thesis by (simp add: gplink_parse_def)
qed

lemma gplink_contains_iff: "gplink_ok g \<Longrightarrow> gplink_contains g x \<longleftrightarrow> to_lower x \<in> set (gpo_list g)"
  by (auto simp: gplink_ok_def gplink_contains_def)

lemma gplink_contains_lower [simp]: "gplink_contains g (to_lower x) = gplink_contains g x"
  by (simp add: gplink_contains_def)

lemma index_in_list:
  "x \<in> set xs \<Longrightarrow> 0 \<le> list_index xs x \<and> nat (list_index xs x) < length xs"
  using list_index_nonneg [of xs x] list_index_less [of xs x] by auto

lemma gplink_list_ops:
  assumes "gplink_ok g"
  shows "mset (gpo_list (gplink_move_up x g)) = mset (gpo_list g)"
    "mset (gpo_list (gplink_move_down x g)) = mset (gpo_list g)"
    "mset (gpo_list (gplink_move i j g)) = mset (gpo_list g)"
    "options (gplink_move_up x g) = options g"
    "options (gplink_move_down x g) = options g"
    "options (gplink_move i j g) = options g"
  using assms index_in_list [of "to_lower x" "gpo_list g"] list_index_less [of "gpo_list g" "to_lower x"]
  by (auto simp: gplink_move_up_def gplink_move_down_def gplink_move_def Let_def gplink_contains_iff
      intro!: mset_list_move)

lemma gplink_ok_cong:
  "mset (gpo_list g') = mset (gpo_list g) \<Longrightarrow> options g' = options g \<Longrightarrow> gplink_ok g' = gplink_ok g"
  by (auto simp: gplink_ok_def dest: mset_eq_setD)

lemma gplink_distinct_cong:
  "mset (gpo_list g') = mset (gpo_list g) \<Longrightarrow> options g' = options g \<Longrightarrow> gplink_distinct g' = gplink_distinct g"
  by (metis gplink_distinct_def gplink_ok_cong mset_eq_imp_distinct_iff)

lemma gplink_ok_add: "gplink_ok g \<Longrightarrow> gplink_ok (gplink_add x g)"
  by (auto simp: gplink_ok_def gplink_add_def Let_def)

lemma gplink_ok_remove: "gplink_ok g \<Longrightarrow> gplink_ok (gplink_remove x g)"
  by (auto simp: gplink_ok_def gplink_remove_def Let_def)

lemma gplink_ok_set_option: "gplink_ok g \<Longrightarrow> gplink_ok (gplink_set_option x opt v g)"
  by (auto simp: gplink_ok_def gplink_set_option_def Let_def gplink_contains_def)

lemma gplink_distinct_add: "gplink_distinct g \<Longrightarrow> gplink_distinct (gplink_add x g)"
  using gplink_ok_add [of g x]
  by (auto simp: gplink_distinct_def gplink_add_def Let_def gplink_contains_iff)

lemma gplink_distinct_remove: "gplink_distinct g \<Longrightarrow> gplink_distinct (gplink_remove x g)"
  using gplink_ok_remove [of g x]
  by (auto simp: gplink_distinct_def gplink_remove_def Let_def distinct_removeAll)

lemma gplink_distinct_set_option: "gplink_distinct g \<Longrightarrow> gplink_distinct (gplink_set_option x opt v g)"
  using gplink_ok_set_option [of g x opt v]
  by (auto simp: gplink_distinct_def gplink_set_option_def Let_def)

section \<open>Sets of links\<close>

text \<open>
  What the callers of a \<open>Gplink\<close> rely on: which links there are after an \<open>add\<close> and a \<open>remove\<close>,
  up to the letter case of the DN, for values that satisfy the invariant.
\<close>

locale link_set =
  fixes valid :: "'g \<Rightarrow> bool"
    and same :: "'k \<Rightarrow> 'k \<Rightarrow> bool"
    and has :: "'g \<Rightarrow> 'k \<Rightarrow> bool"
    and add :: "'k \<Rightarrow> 'g \<Rightarrow> 'g"
    and remove :: "'k \<Rightarrow> 'g \<Rightarrow> 'g"
  assumes valid_add: "valid g \<Longrightarrow> valid (add x g)"
    and valid_remove: "valid g \<Longrightarrow> valid (remove x g)"
    and has_add: "valid g \<Longrightarrow> has (add x g) y \<longleftrightarrow> same x y \<or> has g y"
    and has_remove: "valid g \<Longrightarrow> has (remove x g) y \<longleftrightarrow> \<not> same x y \<and> has g y"
begin

lemma valid_add_all: "valid g \<Longrightarrow> valid (fold add xs g)"
  by (induction xs arbitrary: g) (auto simp: valid_add)

lemma valid_remove_all: "valid g \<Longrightarrow> valid (fold remove xs g)"
  by (induction xs arbitrary: g) (auto simp: valid_remove)

lemma has_add_all: "valid g \<Longrightarrow> has (fold add xs g) y \<longleftrightarrow> (\<exists>x \<in> set xs. same x y) \<or> has g y"
  by (induction xs arbitrary: g) (auto simp: valid_add has_add)

lemma has_remove_all: "valid g \<Longrightarrow> has (fold remove xs g) y \<longleftrightarrow> (\<forall>x \<in> set xs. \<not> same x y) \<and> has g y"
  by (induction xs arbitrary: g) (auto simp: valid_remove has_remove)

lemma has_add_remove: "valid g \<Longrightarrow> has (remove x (add x g)) y \<longleftrightarrow> has (remove x g) y"
  by (auto simp: has_add has_remove valid_add)

end

interpretation gpl: link_set gplink_ok "\<lambda>x y. to_lower x = to_lower y" gplink_contains gplink_add gplink_remove
proof
  fix g x y
  assume ok: "gplink_ok g"
  show "gplink_ok (gplink_add x g)" using ok by (rule gplink_ok_add)
  show "gplink_ok (gplink_remove x g)" using ok by (rule gplink_ok_remove)
  show "gplink_contains (gplink_add x g) y \<longleftrightarrow> to_lower x = to_lower y \<or> gplink_contains g y"
    by (auto simp: gplink_contains_def gplink_add_def Let_def)
  show "gplink_contains (gplink_remove x g) y \<longleftrightarrow> to_lower x \<noteq> to_lower y \<and> gplink_contains g y"
    by (auto simp: gplink_contains_def gplink_remove_def Let_def)
qed

section \<open>Printing and parsing\<close>

text \<open>
  The DNs that survive printing: every RDN has one equals sign, and no character that the
  syntax of the attribute uses appears in the DN.
\<close>

definition plain_gpo :: "qstring \<Rightarrow> bool" where
  "plain_gpo gpo =
     (to_lower gpo = gpo
      \<and> (\<forall>c \<in> set gpo. c \<notin> {CHR '';'', CHR ''['', CHR '']'', CHR '':''})
      \<and> (\<forall>rdn \<in> set (split_char (CHR '','') gpo). length (split_char (CHR ''='') rdn) = 2))"

definition gplink_printable :: "gplink \<Rightarrow> bool" where
  "gplink_printable g = (gplink_distinct g \<and> (\<forall>gpo \<in> set (gpo_list g). plain_gpo gpo))"

abbreviation syntax_chars :: "char set" where
  "syntax_chars \<equiv> {CHR '';'', CHR ''['', CHR '']'', CHR '':''}"

lemma to_lower_char_syntax: "c \<in> syntax_chars \<Longrightarrow> to_lower_char x = c \<longleftrightarrow> x = c"
proof
  assume c: "c \<in> syntax_chars" and x: "to_lower_char x = c"
  show "x = c"
  proof (cases "65 \<le> (of_char x :: nat) \<and> (of_char x :: nat) \<le> 90")
    case True
    then have "(of_char c :: nat) = of_char x + 32"
      using x by (auto simp: to_lower_char_def Let_def take_bit_nat_eq_self)
    then show ?thesis using c True by auto
  next
    case False
    then show ?thesis using x by (auto simp: to_lower_char_def Let_def)
  qed
qed (auto simp: to_lower_char_def)

lemma syntax_chars_lower: "c \<in> syntax_chars \<Longrightarrow> c \<in> set (to_lower s) \<longleftrightarrow> c \<in> set s"
proof -
  assume c: "c \<in> syntax_chars"
  have "c \<in> set (to_lower s) \<longleftrightarrow> (\<exists>x \<in> set s. to_lower_char x = c)" by (auto simp: to_lower_def)
  then show ?thesis using to_lower_char_syntax [OF c] by auto
qed

lemma to_lower_join: "to_lower (join sep xs) = join (to_lower sep) (map to_lower xs)"
  by (induction sep xs rule: join.induct) auto

lemma gplink_case_loop_lower:
  assumes "\<forall>rdn \<in> set rest. length (split_char (CHR ''='') rdn) = 2"
  shows "to_lower (gplink_case_loop all rest acc) = to_lower (join '','' (acc @ rest))"
  using assms
proof (induction rest arbitrary: acc)
  case Nil
  then show ?case by simp
next
  case (Cons rdn rest)
  from Cons.prems obtain a v where av: "split_char (CHR ''='') rdn = [a, v]"
    by (auto simp: numeral_2_eq_2 length_Suc_conv)
  have rdn: "rdn = a @ ''='' @ v" using join_split [of "CHR ''=''" rdn] av by simp
  let ?w = "join ''='' [if a = ''dc'' then to_upper a else a, if list_index all rdn = 0 then to_upper v else v]"
  have w: "to_lower ?w = to_lower rdn"
    by (simp only: to_lower_join rdn) (simp add: to_lower_def to_upper_def)
  have "gplink_case_loop all (rdn # rest) acc = gplink_case_loop all rest (acc @ [?w])"
    using av by (simp add: Let_def)
  with w obtain u where u: "to_lower u = to_lower rdn"
    "gplink_case_loop all (rdn # rest) acc = gplink_case_loop all rest (acc @ [u])" by blast
  show ?case using Cons u by (simp add: to_lower_join)
qed

lemma gpo_dn_case_lower:
  assumes "plain_gpo gpo"
  shows "to_lower (gpo_dn_to_gplink_case (split_char (CHR '','') gpo)) = gpo"
  using assms by (simp add: plain_gpo_def gpo_dn_to_gplink_case_def gplink_case_loop_lower join_split)

lemma gpo_dn_case_chars:
  assumes "plain_gpo gpo" and "c \<in> syntax_chars"
  shows "c \<notin> set (gpo_dn_to_gplink_case (split_char (CHR '','') gpo))"
  using assms(1) gpo_dn_case_lower [OF assms(1)] syntax_chars_lower [OF assms(2)] assms(2)
  unfolding plain_gpo_def by metis

lemma replace_all_absent: "c \<in> set before \<Longrightarrow> c \<notin> set s \<Longrightarrow> replace_all before after s = s"
proof (induction s)
  case (Cons x xs)
  have "take (length before) (x # xs) \<noteq> before"
    using Cons.prems by (metis in_set_takeD)
  then show ?case using Cons by auto
qed simp

lemma replace_all_prefix:
  assumes "before \<noteq> []"
  shows "replace_all before after (before @ s) = after @ replace_all before after s"
  using assms by (cases before) auto

text \<open>The body of a part, without the brackets.\<close>

definition gplink_body :: "gplink \<Rightarrow> qstring \<Rightarrow> qstring" where
  "gplink_body g gpo = LDAP_PREFIX @ gpo_dn_to_gplink_case (split_char (CHR '','') gpo) @ '';''
     @ number (sint (option_bits g gpo))"

lemma gplink_part_body: "gplink_part g gpo = ''['' @ gplink_body g gpo @ '']''"
  by (simp add: gplink_part_def gplink_body_def)

lemma gplink_body_chars:
  "plain_gpo gpo \<Longrightarrow> CHR ''['' \<notin> set (gplink_body g gpo) \<and> CHR '']'' \<notin> set (gplink_body g gpo)"
  using gpo_dn_case_chars [of gpo "CHR ''[''"] gpo_dn_case_chars [of gpo "CHR '']''"]
    number_plain [of _ "sint (option_bits g gpo)"]
  by (auto simp: gplink_body_def)

lemma parse_body:
  assumes "plain_gpo gpo"
  shows "gplink_parse_part (gplink_body g gpo) h =
    h\<lparr>gpo_list := gpo # gpo_list h, options := (options h)(gpo \<mapsto> option_bits g gpo)\<rparr>"
proof -
  let ?case = "gpo_dn_to_gplink_case (split_char (CHR '','') gpo)"
  let ?n = "number (sint (option_bits g gpo))"
  have "split_char (CHR '';'') ((LDAP_PREFIX @ ?case) @ CHR '';'' # ?n) = [LDAP_PREFIX @ ?case, ?n]"
    using gpo_dn_case_chars [OF assms, of "CHR '';''"] number_plain [of "CHR '';''" "sint (option_bits g gpo)"]
    by (subst split_char_append) (auto intro!: split_char_none)
  then have sp: "split_char (CHR '';'') (gplink_body g gpo) = [LDAP_PREFIX @ ?case, ?n]"
    by (simp add: gplink_body_def)
  have "replace_all LDAP_PREFIX [] (LDAP_PREFIX @ ?case) = [] @ replace_all LDAP_PREFIX [] ?case"
    by (rule replace_all_prefix) simp
  moreover have "replace_all LDAP_PREFIX [] ?case = ?case"
    using gpo_dn_case_chars [OF assms, of "CHR '':''"] by (intro replace_all_absent [of "CHR '':''"]) auto
  ultimately have ldap: "ldap_to_gpo (LDAP_PREFIX @ ?case) = gpo"
    using gpo_dn_case_lower [OF assms] unfolding ldap_to_gpo_def by simp
  have rng: "in_range 32 (sint (option_bits g gpo))"
    using sint_range_size [of "option_bits g gpo"] by (simp add: in_range_def word_size)
  have ne: "gplink_body g gpo \<noteq> []" by (simp add: gplink_body_def)
  show ?thesis using ne
    by (simp only: gplink_parse_part_def sp ldap list.case Let_def to_int_number [OF rng] or_zero_simps
        of_int_sint scast_id if_False)
qed

lemma remove_bracket_parts:
  "\<forall>b \<in> set bs. CHR ''['' \<notin> set b \<Longrightarrow>
    remove_char (CHR ''['') (concat (map (\<lambda>b. ''['' @ b @ '']'') bs)) = concat (map (\<lambda>b. b @ '']'') bs)"
  by (induction bs) (auto simp: remove_char_id)

lemma split_bracket_parts:
  "\<forall>b \<in> set bs. CHR '']'' \<notin> set b \<Longrightarrow> split_char (CHR '']'') (concat (map (\<lambda>b. b @ '']'') bs)) = bs @ [[]]"
  by (induction bs) (auto simp: split_char_append)

lemma join_Nil_concat: "join [] xs = concat xs"
  by (induction "[] :: qstring" xs rule: join.induct) auto

lemma fold_parse_bodies:
  "\<forall>gpo \<in> set gpos. plain_gpo gpo \<Longrightarrow>
    fold gplink_parse_part (map (gplink_body g) gpos) h =
      h\<lparr>gpo_list := rev gpos @ gpo_list h,
        options := (\<lambda>gpo. if gpo \<in> set gpos then Some (option_bits g gpo) else options h gpo)\<rparr>"
  by (induction gpos arbitrary: h) (auto simp: parse_body fun_eq_iff)

lemma gplink_parse_to_string:
  assumes "\<forall>gpo \<in> set (gpo_list g). plain_gpo gpo" and "gplink_ok g"
  shows "gplink_parse (gplink_to_string g) = g"
proof (cases "gpo_list g = []")
  case True
  then have "options g = Map.empty" using assms(2) by (simp add: gplink_ok_def)
  then show ?thesis using True
    by (simp add: gplink_to_string_def gplink_parse_def gplink_empty_def)
next
  case False
  let ?bs = "map (gplink_body g) (rev (gpo_list g))"
  have str: "gplink_to_string g = concat (map (\<lambda>b. ''['' @ b @ '']'') ?bs)"
    by (simp add: gplink_to_string_def join_Nil_concat gplink_part_body comp_def cong: map_cong)
  have ch: "\<forall>b \<in> set ?bs. CHR ''['' \<notin> set b" "\<forall>b \<in> set ?bs. CHR '']'' \<notin> set b"
    using assms gplink_body_chars by auto
  have sp: "split_char (CHR '']'') (remove_char (CHR ''['') (gplink_to_string g)) = ?bs @ [[]]"
    unfolding str remove_bracket_parts [OF ch(1)] by (rule split_bracket_parts [OF ch(2)])
  have ne: "gplink_to_string g \<noteq> []"
    using False unfolding str by (cases "rev (gpo_list g)") auto
  have opts: "(\<lambda>gpo. if gpo \<in> set (gpo_list g) then Some (option_bits g gpo) else options gplink_empty gpo) = options g"
  proof
    fix gpo
    have "gpo \<in> set (gpo_list g) \<longleftrightarrow> options g gpo \<noteq> None" using assms(2) by (auto simp: gplink_ok_def)
    then show "(if gpo \<in> set (gpo_list g) then Some (option_bits g gpo) else options gplink_empty gpo) = options g gpo"
      by (auto simp: option_bits_def gplink_empty_def)
  qed
  have "gplink_parse (gplink_to_string g) = fold gplink_parse_part ?bs gplink_empty"
    using ne by (simp add: gplink_parse_def sp gplink_parse_part_def)
  also have "\<dots> = g"
    using assms(1) fold_parse_bodies [of "rev (gpo_list g)" g gplink_empty]
    by (simp add: opts) (simp add: gplink_empty_def)
  finally show ?thesis .
qed

section \<open>Properties\<close>

text \<open>Everything a \<open>Gplink\<close> can become: parsed from any string, then changed by its methods.\<close>

inductive gplink_reachable :: "gplink \<Rightarrow> bool" where
  parsed: "gplink_reachable (gplink_parse s)"
| added: "gplink_reachable g \<Longrightarrow> gplink_reachable (gplink_add x g)"
| removed: "gplink_reachable g \<Longrightarrow> gplink_reachable (gplink_remove x g)"
| moved_up: "gplink_reachable g \<Longrightarrow> gplink_reachable (gplink_move_up x g)"
| moved_down: "gplink_reachable g \<Longrightarrow> gplink_reachable (gplink_move_down x g)"
| moved: "gplink_reachable g \<Longrightarrow> gplink_reachable (gplink_move i j g)"
| option_set: "gplink_reachable g \<Longrightarrow> gplink_reachable (gplink_set_option x opt v g)"

lemma gplink_reachable_ok: "gplink_reachable g \<Longrightarrow> gplink_ok g"
  by (induction rule: gplink_reachable.induct)
    (auto simp: gplink_ok_parse gplink_ok_add gplink_ok_remove gplink_ok_set_option
      gplink_ok_cong [OF gplink_list_ops(1,4)] gplink_ok_cong [OF gplink_list_ops(2,5)]
      gplink_ok_cong [OF gplink_list_ops(3,6)])

lemma gplink_distinct_moves:
  assumes "gplink_distinct g"
  shows "gplink_distinct (gplink_move_up x g)" "gplink_distinct (gplink_move_down x g)"
    "gplink_distinct (gplink_move i j g)"
  using assms gplink_list_ops [of g] gplink_distinct_cong gplink_distinct_def by metis+

lemmas gplink_distinct_ops = gplink_distinct_add gplink_distinct_remove gplink_distinct_moves
  gplink_distinct_set_option

text \<open>
  C1. However a \<open>Gplink\<close> is parsed and then edited, its list and its hash hold the same DNs, so a
  DN in any letter case is contained exactly when it has an order between 1 and the maximum, and
  when it is not contained its order is 0 and no option of it reads as set.
\<close>

theorem gplink_reachable_consistent:
  assumes "gplink_reachable g"
  shows "dom (options g) = set (gpo_list g)
    \<and> (gplink_contains g x \<longleftrightarrow> 1 \<le> get_gpo_order g x \<and> get_gpo_order g x \<le> get_max_order g)
    \<and> (\<not> gplink_contains g x \<longrightarrow> get_gpo_order g x = 0 \<and> \<not> gplink_get_option g x opt)"
proof -
  have ok: "gplink_ok g" using assms by (rule gplink_reachable_ok)
  then show ?thesis
    using list_index_nonneg [of "gpo_list g" "to_lower x"] list_index_less [of "gpo_list g" "to_lower x"]
      list_index_ge [of "gpo_list g" "to_lower x"]
    by (auto simp: gplink_contains_iff get_gpo_order_def get_max_order_def gplink_get_option_def gplink_ok_def Let_def)
qed

theorem gplink_reachable_consistent_witness:
  "gplink_contains (gplink_add ''CN=A'' (gplink_parse ''[LDAP://cn=b;2]'')) ''cn=a''
    \<and> get_gpo_order (gplink_add ''CN=A'' (gplink_parse ''[LDAP://cn=b;2]'')) ''cn=a'' = 2"
proof -
  let ?g = "gplink_add ''CN=A'' (gplink_parse ''[LDAP://cn=b;2]'')"
  have r: "gplink_reachable ?g" by (intro gplink_reachable.intros)
  have order: "get_gpo_order ?g ''cn=a'' = 2" "get_max_order ?g = 2" by (code_simp, code_simp)
  note c = gplink_reachable_consistent [OF r, of "''cn=a''" GplinkOption_Disabled, unfolded order]
  show ?thesis using c order(1) by (intro conjI) simp_all
qed

lemma gplink_add_keeps: "gplink_contains g y \<Longrightarrow> options (gplink_add x g) (to_lower y) = options g (to_lower y)"
  by (auto simp: gplink_add_def gplink_contains_def Let_def)

lemma gplink_remove_list:
  "gplink_ok g \<Longrightarrow> gpo_list (gplink_remove x g) = filter (\<lambda>z. z \<noteq> to_lower x) (gpo_list g)"
  by (auto simp: gplink_remove_def Let_def gplink_contains_iff removeAll_filter_not_eq
      intro!: filter_True [symmetric] filter_cong)

lemma gplink_add_all_keeps:
  "gplink_contains g y \<Longrightarrow> options (fold gplink_add xs g) (to_lower y) = options g (to_lower y)"
proof (induction xs arbitrary: g)
  case (Cons x xs)
  have "gplink_contains (gplink_add x g) y"
    using Cons.prems by (auto simp: gplink_add_def gplink_contains_def Let_def)
  then show ?case using Cons gplink_add_keeps by simp
qed simp

lemma gplink_add_all_list: "\<exists>new. gpo_list (fold gplink_add xs g) = gpo_list g @ new"
proof (induction xs arbitrary: g)
  case (Cons x xs)
  obtain new where "gpo_list (fold gplink_add xs (gplink_add x g)) = gpo_list (gplink_add x g) @ new"
    using Cons by blast
  moreover obtain new' where "gpo_list (gplink_add x g) = gpo_list g @ new'"
    by (cases "gplink_contains g (to_lower x)") (auto simp: gplink_add_def Let_def)
  ultimately show ?case by simp
qed simp

lemma gplink_remove_all_list:
  "gplink_ok g \<Longrightarrow> gpo_list (fold gplink_remove xs g) = filter (\<lambda>z. \<forall>x \<in> set xs. z \<noteq> to_lower x) (gpo_list g)"
  by (induction xs arbitrary: g) (auto simp: gplink_remove_list gplink_ok_remove intro: filter_cong)



lemma gplink_order_nth:
  "gplink_distinct g \<Longrightarrow> i < length (gpo_list g) \<Longrightarrow> get_gpo_order g (gpo_list g ! i) = int i + 1"
  by (simp add: gplink_distinct_def gplink_ok_def get_gpo_order_def list_index_unique)




definition example_gpo :: qstring where
  "example_gpo = ''cn={31b2f340},cn=policies,cn=system,dc=a''"


text \<open>The two options of a link are bits of one mask.\<close>

interpretation link_options: flag_store "{GplinkOption_Disabled, GplinkOption_Enforced}"
  "\<lambda>m opt. bitmask_is_set m (gplink_option_value opt)"
  "\<lambda>opt v m. bitmask_set m (gplink_option_value opt) v"
  by unfold_locales (auto simp: bitmask_is_set_same bitmask_is_set_other)

text \<open>
  Setting an option of a link is read back, and changes neither the other option of the link
  nor any option of another link; it changes nothing when the DN is not linked.
\<close>

theorem gplink_options:
  assumes "gplink_reachable g" and "opt \<noteq> GplinkOption_NoOption" and "opt' \<noteq> GplinkOption_NoOption"
  shows "gplink_get_option (gplink_set_option x opt v g) y opt' =
      (if to_lower x = to_lower y \<and> opt = opt' \<and> gplink_contains g x then v else gplink_get_option g y opt')
    \<and> gpo_list (gplink_set_option x opt v g) = gpo_list g"
proof -
  have "opt \<in> {GplinkOption_Disabled, GplinkOption_Enforced}" "opt' \<in> {GplinkOption_Disabled, GplinkOption_Enforced}"
    using assms gplink_option.exhaust by blast+
  note rw = link_options.read_write [OF this]
  show ?thesis
    using rw by (auto simp: gplink_get_option_def gplink_set_option_def gplink_contains_def option_bits_def Let_def)
qed

theorem gplink_options_witness:
  "gplink_get_option (gplink_set_option ''cn=b'' GplinkOption_Enforced True (gplink_parse ''[LDAP://cn=b;1]'')) ''CN=b''
      GplinkOption_Disabled"
proof -
  have "gplink_get_option (gplink_parse ''[LDAP://cn=b;1]'') ''CN=b'' GplinkOption_Disabled" by code_simp
  then show ?thesis
    using gplink_options [OF gplink_reachable.parsed, of GplinkOption_Enforced GplinkOption_Disabled "''cn=b''" True
        "''[LDAP://cn=b;1]''" "''CN=b''"] by simp
qed

lemma gplink_case_loop_malformed:
  assumes "\<forall>rdn \<in> set pre. length (split_char (CHR ''='') rdn) = 2" and "length (split_char (CHR ''='') bad) \<noteq> 2"
  shows "gplink_case_loop all (pre @ bad # post) acc = bad"
  using assms
proof (induction pre arbitrary: acc)
  case Nil
  then show ?case by (auto split: list.split)
next
  case (Cons rdn pre)
  then obtain a v where "split_char (CHR ''='') rdn = [a, v]"
    by (auto simp: numeral_2_eq_2 length_Suc_conv)
  with Cons show ?case by (simp add: Let_def)
qed

text \<open>
  A DN with an RDN that has not exactly one equals sign is not left unprocessed, as the comment
  in the code says: everything but the first such RDN is lost from the printed attribute.
\<close>

theorem gplink_malformed_rdn_printed_alone:
  assumes "split_char (CHR '','') gpo = pre @ bad # post"
    and "\<forall>rdn \<in> set pre. length (split_char (CHR ''='') rdn) = 2"
    and "length (split_char (CHR ''='') bad) \<noteq> 2"
    and "gpo_list g = [gpo]"
  shows "gplink_to_string g = ''[LDAP://'' @ bad @ '';'' @ number (sint (option_bits g gpo)) @ '']''"
  using assms
  by (simp add: gplink_to_string_def gplink_part_def gpo_dn_to_gplink_case_def gplink_case_loop_malformed)

theorem gplink_malformed_rdn_printed_alone_witness:
  "gplink_to_string (gplink_add ''cn=a,cn=b=c,dc=d'' gplink_empty) = ''[LDAP://cn=b=c;0]''"
proof -
  let ?g = "gplink_add ''cn=a,cn=b=c,dc=d'' gplink_empty"
  have sp: "split_char (CHR '','') ''cn=a,cn=b=c,dc=d'' = [''cn=a''] @ ''cn=b=c'' # [''dc=d'']" by code_simp
  have l: "gpo_list ?g = [''cn=a,cn=b=c,dc=d'']" by code_simp
  have n: "number (sint (option_bits ?g ''cn=a,cn=b=c,dc=d'')) = ''0''" by code_simp
  show ?thesis
    using gplink_malformed_rdn_printed_alone [OF sp _ _ l] by (simp only: n) simp
qed

end
