(* ===== verification/AdFilter.thy ===== *)
theory AdFilter
  imports AdUtils
begin

text \<open>
  \<open>src/adldap/ad_filter.cpp\<close>: LDAP filters as text. The abstract side is the tree of a filter, its
  meaning on an object, and a parser of the text (RFC 4515, without escapes and matching rules).
\<close>

datatype filter_condition =
    Condition_Contains | Condition_Equals | Condition_NotEquals | Condition_StartsWith
  | Condition_EndsWith | Condition_Set | Condition_Unset | Condition_COUNT

definition filter_classes :: "qstring list" where
  "filter_classes = [CLASS_USER, CLASS_GROUP, CLASS_CONTACT, CLASS_COMPUTER, CLASS_PRINTER, CLASS_OU,
     CLASS_TRUSTED_DOMAIN, CLASS_DOMAIN, CLASS_CONTAINER, CLASS_INET_ORG_PERSON,
     CLASS_FOREIGN_SECURITY_PRINCIPAL, CLASS_SHARED_FOLDER, CLASS_RPC_SERVICES,
     CLASS_CERTIFICATE_TEMPLATE, CLASS_MSMQ_GROUP, CLASS_MSMQ_QUEUE_ALIAS, CLASS_REMOTE_STORAGE_SERVICE]"

definition process_subfilters :: "qstring list \<Rightarrow> qstring list" where
  "process_subfilters xs = removeAll [] xs"

fun filter_CONDITION :: "filter_condition \<Rightarrow> qstring \<Rightarrow> qstring \<Rightarrow> qstring" where
  "filter_CONDITION Condition_Equals attribute val = ''('' @ attribute @ ''='' @ val @ '')''"
| "filter_CONDITION Condition_NotEquals attribute val = ''(!('' @ attribute @ ''='' @ val @ ''))''"
| "filter_CONDITION Condition_StartsWith attribute val = ''('' @ attribute @ ''='' @ val @ ''*)''"
| "filter_CONDITION Condition_EndsWith attribute val = ''('' @ attribute @ ''=*'' @ val @ '')''"
| "filter_CONDITION Condition_Contains attribute val = ''('' @ attribute @ ''=*'' @ val @ ''*)''"
| "filter_CONDITION Condition_Set attribute val = ''('' @ attribute @ ''=*)''"
| "filter_CONDITION Condition_Unset attribute val = ''(!('' @ attribute @ ''=*))''"
| "filter_CONDITION Condition_COUNT attribute val = []"

definition filter_operation :: "qstring \<Rightarrow> qstring list \<Rightarrow> qstring" where
  "filter_operation operation subfilters_raw =
     (let subfilters = process_subfilters subfilters_raw
      in if 1 < length subfilters then
           fold (\<lambda>subfilter filter. filter @ subfilter) subfilters (''('' @ operation) @ '')''
         else if length subfilters = 1 then subfilters ! 0
         else [])"

definition filter_AND :: "qstring list \<Rightarrow> qstring" where
  "filter_AND subfilters_raw = filter_operation ''&'' subfilters_raw"

definition filter_OR :: "qstring list \<Rightarrow> qstring" where
  "filter_OR subfilters_raw = filter_operation ''|'' subfilters_raw"

fun condition_to_display_string :: "filter_condition \<Rightarrow> qstring" where
  "condition_to_display_string Condition_Equals = ''Is (exactly)''"
| "condition_to_display_string Condition_NotEquals = ''Is not''"
| "condition_to_display_string Condition_StartsWith = ''Starts with''"
| "condition_to_display_string Condition_EndsWith = ''Ends with''"
| "condition_to_display_string Condition_Contains = ''Contains''"
| "condition_to_display_string Condition_Set = ''Present''"
| "condition_to_display_string Condition_Unset = ''Not present''"
| "condition_to_display_string Condition_COUNT = []"

definition make_filter_list :: "filter_condition \<Rightarrow> qstring \<Rightarrow> qstring list \<Rightarrow> qstring list" where
  "make_filter_list cond attribute attribute_list = map (filter_CONDITION cond attribute) attribute_list"

definition filter_attributes ::
  "(qstring list \<Rightarrow> qstring) \<Rightarrow> filter_condition \<Rightarrow> qstring \<Rightarrow> qstring list \<Rightarrow> qstring" where
  "filter_attributes flt cond attribute attribute_list = flt (make_filter_list cond attribute attribute_list)"

definition filter_dn_list :: "qstring list \<Rightarrow> qstring" where
  "filter_dn_list dn_list = filter_attributes filter_OR Condition_Equals ATTRIBUTE_DN dn_list"

definition filter_matching_rule_in_chain :: "qstring \<Rightarrow> qstring \<Rightarrow> qstring" where
  "filter_matching_rule_in_chain attribute dn_value =
     ''('' @ (attribute @ '':'' @ MATCHING_RULE_IN_CHAIN_OID @ '':='' @ dn_value) @ '')''"

section \<open>What a filter means\<close>

text \<open>
  An item compares the values of an attribute with a pattern, the texts between its asterisks: one
  text is equality, more are a prefix, texts to be found in order, and a suffix.
\<close>

datatype ldap_filter =
    Item qstring "qstring list"
  | Not_filter ldap_filter
  | And_filter "ldap_filter list"
  | Or_filter "ldap_filter list"

fun glob :: "qstring list \<Rightarrow> qstring \<Rightarrow> bool" where
  "glob [] s = False"
| "glob [p] s = (s = p)"
| "glob (p # q # ps) s =
     (starts_with s p \<and> (\<exists>k \<in> set [length p..<Suc (length s)]. glob (q # ps) (drop k s)))"

fun filter_holds :: "ldap_filter \<Rightarrow> (qstring \<Rightarrow> qstring list) \<Rightarrow> bool" where
  "filter_holds (Item attribute pattern) obj = (\<exists>v \<in> set (obj attribute). glob pattern v)"
| "filter_holds (Not_filter f) obj = (\<not> filter_holds f obj)"
| "filter_holds (And_filter fs) obj = (\<forall>f \<in> set fs. filter_holds f obj)"
| "filter_holds (Or_filter fs) obj = (\<exists>f \<in> set fs. filter_holds f obj)"

fun filter_text :: "ldap_filter \<Rightarrow> qstring" where
  "filter_text (Item attribute pattern) = ''('' @ attribute @ ''='' @ join ''*'' pattern @ '')''"
| "filter_text (Not_filter f) = ''(!'' @ filter_text f @ '')''"
| "filter_text (And_filter fs) = ''(&'' @ concat (map filter_text fs) @ '')''"
| "filter_text (Or_filter fs) = ''(|'' @ concat (map filter_text fs) @ '')''"

definition parse_item :: "qstring \<Rightarrow> (ldap_filter \<times> qstring) option" where
  "parse_item s =
     (let body = takeWhile (\<lambda>c. c \<noteq> CHR '')'') s;
          attribute = takeWhile (\<lambda>c. c \<noteq> CHR ''='') body
      in case (drop (length attribute) body, drop (length body) s) of
           (_ # val, _ # rest) \<Rightarrow> Some (Item attribute (split_char (CHR ''*'') val), rest)
         | _ \<Rightarrow> None)"

text \<open>Fuel bounds the depth and the number of the subfilters; the length of the text is enough.\<close>

fun parse_filter :: "nat \<Rightarrow> qstring \<Rightarrow> (ldap_filter \<times> qstring) option"
  and parse_filters :: "nat \<Rightarrow> qstring \<Rightarrow> (ldap_filter list \<times> qstring) option" where
  "parse_filter 0 s = None"
| "parse_filter (Suc n) s =
     (if starts_with s ''(&'' then
        (case parse_filters n (drop 2 s) of
           Some (fs, c # rest) \<Rightarrow> if c = CHR '')'' then Some (And_filter fs, rest) else None
         | _ \<Rightarrow> None)
      else if starts_with s ''(|'' then
        (case parse_filters n (drop 2 s) of
           Some (fs, c # rest) \<Rightarrow> if c = CHR '')'' then Some (Or_filter fs, rest) else None
         | _ \<Rightarrow> None)
      else if starts_with s ''(!'' then
        (case parse_filter n (drop 2 s) of
           Some (f, c # rest) \<Rightarrow> if c = CHR '')'' then Some (Not_filter f, rest) else None
         | _ \<Rightarrow> None)
      else if starts_with s ''('' then parse_item (drop 1 s)
      else None)"
| "parse_filters 0 s = None"
| "parse_filters (Suc n) s =
     (if starts_with s ''('' then
        (case parse_filter n s of
           Some (f, rest) \<Rightarrow>
             (case parse_filters n rest of Some (fs, rest') \<Rightarrow> Some (f # fs, rest') | None \<Rightarrow> None)
         | None \<Rightarrow> None)
      else Some ([], s))"

text \<open>Whether an object is found by a search with this filter; no filter finds every object.\<close>

definition filter_finds :: "qstring \<Rightarrow> (qstring \<Rightarrow> qstring list) \<Rightarrow> bool" where
  "filter_finds s obj =
     (s = [] \<or> (case parse_filter (length s) s of Some (f, []) \<Rightarrow> filter_holds f obj | _ \<Rightarrow> False))"

definition plain_attribute :: "qstring \<Rightarrow> bool" where
  "plain_attribute a = (a \<noteq> [] \<and> hd a \<notin> {CHR ''&'', CHR ''|'', CHR ''!''}
     \<and> (\<forall>c \<in> set a. c \<notin> {CHR ''('', CHR '')'', CHR ''=''}))"

definition plain_value :: "qstring \<Rightarrow> bool" where
  "plain_value v = (\<forall>c \<in> set v. c \<notin> {CHR ''('', CHR '')'', CHR ''*'', CHR 0x5C})"

fun plain_filter :: "ldap_filter \<Rightarrow> bool" where
  "plain_filter (Item a ps) = (plain_attribute a \<and> ps \<noteq> [] \<and> (\<forall>p \<in> set ps. plain_value p))"
| "plain_filter (Not_filter f) = plain_filter f"
| "plain_filter (And_filter fs) = (\<forall>f \<in> set fs. plain_filter f)"
| "plain_filter (Or_filter fs) = (\<forall>f \<in> set fs. plain_filter f)"

section \<open>The parser reads what is printed\<close>

lemma filter_text_starts: "\<exists>r. filter_text f = CHR ''('' # r"
  by (cases f) auto

lemma length_filter_text [simp]: "0 < length (filter_text f)"
  using filter_text_starts [of f] by auto

lemma takeWhile_stop: "\<forall>x \<in> set xs. P x \<Longrightarrow> \<not> P y \<Longrightarrow> takeWhile P (xs @ y # ys) = xs"
  by (induction xs) auto

lemma join_plain: "\<forall>p \<in> set ps. plain_value p \<Longrightarrow> c \<in> {CHR ''('', CHR '')''} \<Longrightarrow> c \<notin> set (join ''*'' ps)"
  using set_join [of "''*''" ps] by (fastforce simp: plain_value_def)

lemma parse_item_text:
  assumes "plain_filter (Item a ps)"
  shows "parse_item (a @ ''='' @ join ''*'' ps @ '')'' @ r) = Some (Item a ps, r)"
proof -
  let ?v = "join ''*'' ps"
  have a: "\<forall>c \<in> set a. c \<noteq> CHR ''=''" and ac: "\<forall>c \<in> set a. c \<noteq> CHR '')''"
    using assms by (auto simp: plain_attribute_def)
  have v: "\<forall>c \<in> set ?v. c \<noteq> CHR '')''" using assms join_plain [of ps "CHR '')''"] by auto
  have body: "takeWhile (\<lambda>c. c \<noteq> CHR '')'') (a @ ''='' @ ?v @ '')'' @ r) = a @ ''='' @ ?v"
    using takeWhile_stop [of "a @ ''='' @ ?v" "\<lambda>c. c \<noteq> CHR '')''" "CHR '')''" r] ac v by auto
  have att: "takeWhile (\<lambda>c. c \<noteq> CHR ''='') (a @ ''='' @ ?v) = a"
    using takeWhile_stop [of a "\<lambda>c. c \<noteq> CHR ''=''" "CHR ''=''" ?v] a by simp
  have "split_char (CHR ''*'') ?v = ps"
    using assms by (intro split_join) (auto simp: plain_value_def)
  moreover have "drop (length a) (a @ ''='' @ ?v) = CHR ''='' # ?v" by simp
  moreover have "drop (length (a @ ''='' @ ?v)) (a @ ''='' @ ?v @ '')'' @ r) = CHR '')'' # r" by simp
  ultimately show ?thesis unfolding parse_item_def body Let_def att by simp
qed

lemma parse_filters_text:
  assumes "\<And>f n r. f \<in> set fs \<Longrightarrow> length (filter_text f) \<le> n \<Longrightarrow> parse_filter n (filter_text f @ r) = Some (f, r)"
    and "length (concat (map filter_text fs)) < n"
  shows "parse_filters n (concat (map filter_text fs) @ '')'' @ r) = Some (fs, '')'' @ r)"
  using assms
proof (induction fs arbitrary: n)
  case Nil
  then obtain m where "n = Suc m" by (cases n) auto
  then show ?case by (simp add: starts_with_def)
next
  case (Cons f fs)
  then obtain m where m: "n = Suc m" by (cases n) auto
  have len: "length (filter_text f) \<le> m" "length (concat (map filter_text fs)) < m"
    using Cons.prems(2) m length_filter_text [of f] by (auto simp del: length_filter_text length_greater_0_conv)
  obtain u where u: "filter_text f = CHR ''('' # u" using filter_text_starts by blast
  have st: "starts_with (filter_text f @ s) ''(''" for s by (simp add: u starts_with_def)
  have one: "parse_filter m (filter_text f @ s) = Some (f, s)" for s using Cons.prems(1) len by auto
  have rest: "parse_filters m (concat (map filter_text fs) @ '')'' @ r) = Some (fs, '')'' @ r)"
    using Cons.IH [OF Cons.prems(1) len(2)] by auto
  show ?case using m st one rest by simp
qed

lemma parse_filter_text:
  "plain_filter f \<Longrightarrow> length (filter_text f) \<le> n \<Longrightarrow> parse_filter n (filter_text f @ r) = Some (f, r)"
proof (induction f arbitrary: n r)
  case (Item a ps)
  then obtain m where m: "n = Suc m" by (cases n) auto
  obtain c cs where c: "a = c # cs" "c \<notin> {CHR ''&'', CHR ''|'', CHR ''!''}"
    using Item.prems by (cases a) (auto simp: plain_attribute_def)
  show ?case using m c parse_item_text [OF Item.prems(1), of r] by (simp add: starts_with_def)
next
  case (Not_filter f)
  then obtain m where "n = Suc m" by (cases n) auto
  then show ?case using Not_filter by (simp add: starts_with_def)
next
  case (And_filter fs)
  then obtain m where m: "n = Suc m" by (cases n) auto
  have "parse_filters m (concat (map filter_text fs) @ '')'' @ r) = Some (fs, '')'' @ r)"
    using And_filter m by (intro parse_filters_text) auto
  then show ?case using m by (simp add: starts_with_def)
next
  case (Or_filter fs)
  then obtain m where m: "n = Suc m" by (cases n) auto
  have "parse_filters m (concat (map filter_text fs) @ '')'' @ r) = Some (fs, '')'' @ r)"
    using Or_filter m by (intro parse_filters_text) auto
  then show ?case using m by (simp add: starts_with_def)
qed

lemma filter_finds_text: "plain_filter f \<Longrightarrow> filter_finds (filter_text f) obj = filter_holds f obj"
  using parse_filter_text [of f "length (filter_text f)" "[]"] length_filter_text [of f]
  by (simp add: filter_finds_def del: length_filter_text)

section \<open>Properties\<close>

lemma ex_drop_iff:
  "(\<exists>k \<in> set [m..<Suc (length s)]. P (drop k s)) \<longleftrightarrow> (\<exists>u v. s = u @ v \<and> m \<le> length u \<and> P v)"
proof
  assume "\<exists>k \<in> set [m..<Suc (length s)]. P (drop k s)"
  then obtain k where "m \<le> k" "k \<le> length s" "P (drop k s)" by auto
  then show "\<exists>u v. s = u @ v \<and> m \<le> length u \<and> P v"
    by (intro exI [of _ "take k s"] exI [of _ "drop k s"]) simp
next
  assume "\<exists>u v. s = u @ v \<and> m \<le> length u \<and> P v"
  then obtain u v where "s = u @ v" "m \<le> length u" "P v" by blast
  then show "\<exists>k \<in> set [m..<Suc (length s)]. P (drop k s)"
    by (intro bexI [of _ "length u"]) auto
qed

lemma glob_Cons:
  "glob (p # q # ps) s \<longleftrightarrow> starts_with s p \<and> (\<exists>u v. s = u @ v \<and> length p \<le> length u \<and> glob (q # ps) v)"
  using ex_drop_iff [of "length p" s "glob (q # ps)"] by (simp del: upt_Suc)

lemma glob_prefix: "glob [p, []] s = starts_with s p"
  unfolding glob_Cons by (auto simp: starts_with_iff)

lemma glob_suffix: "glob [[], p] s = ends_with s p"
  unfolding glob_Cons by (auto simp: ends_with_iff starts_with_def)

lemma glob_infix: "glob [[], p, []] s = contains_str s p"
  unfolding glob_Cons [of "[]" p "[[]]"] glob_prefix
  by (auto simp: contains_str_iff starts_with_iff)

lemma starts_with_Nil [simp]: "starts_with s []"
  by (simp add: starts_with_def)

lemma glob_any: "glob [[], []] s"
  unfolding glob_prefix by (simp add: starts_with_def)

text \<open>The tree of a condition.\<close>

fun condition_filter :: "filter_condition \<Rightarrow> qstring \<Rightarrow> qstring \<Rightarrow> ldap_filter" where
  "condition_filter Condition_NotEquals a v = Not_filter (Item a [v])"
| "condition_filter Condition_StartsWith a v = Item a [v, []]"
| "condition_filter Condition_EndsWith a v = Item a [[], v]"
| "condition_filter Condition_Contains a v = Item a [[], v, []]"
| "condition_filter Condition_Set a v = Item a [[], []]"
| "condition_filter Condition_Unset a v = Not_filter (Item a [[], []])"
| "condition_filter _ a v = Item a [v]"

lemma condition_filter_text: "c \<noteq> Condition_COUNT \<Longrightarrow> filter_CONDITION c a v = filter_text (condition_filter c a v)"
  by (cases c) auto

lemma condition_filter_plain: "plain_attribute a \<Longrightarrow> plain_value v \<Longrightarrow> plain_filter (condition_filter c a v)"
  by (cases c) (auto simp: plain_value_def)

lemma filter_finds_condition:
  "plain_attribute a \<Longrightarrow> plain_value v \<Longrightarrow> c \<noteq> Condition_COUNT \<Longrightarrow>
    filter_finds (filter_CONDITION c a v) obj = filter_holds (condition_filter c a v) obj"
  by (metis condition_filter_text filter_finds_text condition_filter_plain)

text \<open>
  C16. The text of each condition, read as an LDAP filter, finds the objects the condition names:
  with a value equal to, different from, starting with, ending with or containing the given text,
  or with or without any value; for attributes and values without filter syntax.
\<close>

theorem filter_CONDITION_meaning:
  assumes "plain_attribute a" and "plain_value v" and "c \<noteq> Condition_COUNT"
  shows "filter_finds (filter_CONDITION c a v) obj =
    (case c of
       Condition_Equals \<Rightarrow> v \<in> set (obj a)
     | Condition_NotEquals \<Rightarrow> v \<notin> set (obj a)
     | Condition_StartsWith \<Rightarrow> (\<exists>x \<in> set (obj a). starts_with x v)
     | Condition_EndsWith \<Rightarrow> (\<exists>x \<in> set (obj a). ends_with x v)
     | Condition_Contains \<Rightarrow> (\<exists>x \<in> set (obj a). contains_str x v)
     | Condition_Set \<Rightarrow> obj a \<noteq> []
     | Condition_Unset \<Rightarrow> obj a = []
     | Condition_COUNT \<Rightarrow> False)"
  using filter_finds_condition [OF assms, of obj] assms(3)
  by (cases c)
    (auto simp: glob_prefix glob_suffix glob_infix glob_any simp del: glob.simps(3) filter_CONDITION.simps)

definition example_object :: "qstring \<Rightarrow> qstring list" where
  "example_object = (\<lambda>a. if a = ''cn'' then [''alice'', ''bob''] else [])"

theorem filter_CONDITION_meaning_witness:
  "filter_finds (filter_CONDITION Condition_Contains ''cn'' ''lic'') example_object
    \<and> filter_finds (filter_CONDITION Condition_Unset ''sn'' []) example_object"
proof -
  have p: "plain_attribute ''cn''" "plain_attribute ''sn''" "plain_value ''lic''" "plain_value []" by code_simp+
  have c: "contains_str ''alice'' ''lic''" by code_simp
  show ?thesis
    using filter_CONDITION_meaning [OF p(1,3), of Condition_Contains example_object]
      filter_CONDITION_meaning [OF p(2,4), of Condition_Unset example_object] c
    by (auto simp: example_object_def)
qed

text \<open>What the callers combine: the empty text, or the text of a filter.\<close>

definition subfilter_ok :: "qstring \<Rightarrow> bool" where
  "subfilter_ok s = (s = [] \<or> (\<exists>f. plain_filter f \<and> s = filter_text f))"

lemma fold_append: "fold (\<lambda>x acc. acc @ x) xs acc = acc @ concat xs"
  by (induction xs arbitrary: acc) auto

lemma filter_operation_text:
  assumes "process_subfilters ss = map filter_text fs" and "fs \<noteq> []"
  shows "filter_operation op_name ss =
    (if length fs = 1 then filter_text (hd fs) else ''('' @ op_name @ concat (map filter_text fs) @ '')'')"
proof (cases fs)
  case (Cons f gs)
  then show ?thesis using assms
    by (cases gs) (auto simp: filter_operation_def Let_def fold_append)
qed (use assms in simp)

lemma subfilters_trees:
  "\<forall>s \<in> set ss. subfilter_ok s \<Longrightarrow> \<exists>fs. process_subfilters ss = map filter_text fs \<and> (\<forall>f \<in> set fs. plain_filter f)"
proof (induction ss)
  case Nil
  then show ?case by (auto simp: process_subfilters_def)
next
  case (Cons s ss)
  then obtain fs where fs: "process_subfilters ss = map filter_text fs" "\<forall>f \<in> set fs. plain_filter f" by auto
  show ?case
  proof (cases "s = []")
    case True
    then show ?thesis using fs by (auto simp: process_subfilters_def)
  next
    case False
    then obtain f where "plain_filter f" "s = filter_text f"
      using Cons.prems by (auto simp: subfilter_ok_def)
    then show ?thesis using fs False
      by (intro exI [of _ "f # fs"]) (auto simp: process_subfilters_def)
  qed
qed

lemma finds_subfilters:
  assumes "process_subfilters ss = map filter_text fs" and "\<forall>f \<in> set fs. plain_filter f"
  shows "(\<forall>s \<in> set ss. filter_finds s obj) \<longleftrightarrow> (\<forall>f \<in> set fs. filter_holds f obj)"
    and "(\<exists>s \<in> set ss. s \<noteq> [] \<and> filter_finds s obj) \<longleftrightarrow> (\<exists>f \<in> set fs. filter_holds f obj)"
    and "(\<forall>s \<in> set ss. s = []) \<longleftrightarrow> fs = []"
proof -
  have eq: "set ss - {[]} = filter_text ` set fs"
    using assms(1) by (metis list.set_map process_subfilters_def set_removeAll)
  have empty: "filter_finds [] obj" by (simp add: filter_finds_def)
  have holds: "f \<in> set fs \<Longrightarrow> filter_finds (filter_text f) obj = filter_holds f obj" for f
    using assms(2) filter_finds_text by blast
  have "(\<forall>s \<in> set ss. filter_finds s obj) \<longleftrightarrow> (\<forall>s \<in> set ss - {[]}. filter_finds s obj)" using empty by auto
  then show "(\<forall>s \<in> set ss. filter_finds s obj) \<longleftrightarrow> (\<forall>f \<in> set fs. filter_holds f obj)"
    unfolding eq using holds by auto
  have "(\<exists>s \<in> set ss. s \<noteq> [] \<and> filter_finds s obj) \<longleftrightarrow> (\<exists>s \<in> set ss - {[]}. filter_finds s obj)" by auto
  then show "(\<exists>s \<in> set ss. s \<noteq> [] \<and> filter_finds s obj) \<longleftrightarrow> (\<exists>f \<in> set fs. filter_holds f obj)"
    unfolding eq using holds by auto
  have "(\<forall>s \<in> set ss. s = []) \<longleftrightarrow> set ss - {[]} = {}" by auto
  then show "(\<forall>s \<in> set ss. s = []) \<longleftrightarrow> fs = []" unfolding eq by simp
qed


lemma subfilter_ok_condition:
  "plain_attribute a \<Longrightarrow> plain_value v \<Longrightarrow> c \<noteq> Condition_COUNT \<Longrightarrow> subfilter_ok (filter_CONDITION c a v)"
  using condition_filter_text condition_filter_plain unfolding subfilter_ok_def by blast


end
