(* ===== verification/AdObject.thy ===== *)
theory AdObject
  imports AdUtils
begin

text \<open>
  \<open>src/adldap/ad_object.cpp\<close>: an object fetched from the directory, its DN and the values of its
  attributes as bytes, and the typed readers of the values. The readers that need the security
  descriptor or the schema are in the theories of those components.
\<close>

record ad_object =
  object_dn :: qstring
  attributes_data :: "qstring \<rightharpoonup> bytes list"

text \<open>
  \<open>QString(QByteArray)\<close> and \<open>toUtf8\<close>: characters are 8 bit here, so the model is UTF-8 on ASCII text
  (\<open>text_value\<close> below) and keeps other bytes as they are.
\<close>

definition string_of_bytes :: "bytes \<Rightarrow> qstring" where
  "string_of_bytes b = map (\<lambda>w. char_of (unat w)) b"

definition bytes_of_string :: "qstring \<Rightarrow> bytes" where
  "bytes_of_string s = map (\<lambda>c. of_nat (of_char c)) s"

definition empty_object :: ad_object where
  "empty_object = \<lparr>object_dn = [], attributes_data = Map.empty\<rparr>"

definition object_load :: "qstring \<Rightarrow> (qstring \<rightharpoonup> bytes list) \<Rightarrow> ad_object \<Rightarrow> ad_object" where
  "object_load dn_arg attributes_data_arg obj = obj\<lparr>object_dn := dn_arg, attributes_data := attributes_data_arg\<rparr>"

definition object_contains :: "ad_object \<Rightarrow> qstring \<Rightarrow> bool" where
  "object_contains obj attribute = (attributes_data obj attribute \<noteq> None)"

definition object_is_empty :: "ad_object \<Rightarrow> bool" where
  "object_is_empty obj = (dom (attributes_data obj) = {})"

definition get_values :: "ad_object \<Rightarrow> qstring \<Rightarrow> bytes list" where
  "get_values obj attribute = (case attributes_data obj attribute of Some values \<Rightarrow> values | None \<Rightarrow> [])"

definition get_value :: "ad_object \<Rightarrow> qstring \<Rightarrow> bytes" where
  "get_value obj attribute = (case get_values obj attribute of [] \<Rightarrow> [] | v # _ \<Rightarrow> v)"

definition get_strings :: "ad_object \<Rightarrow> qstring \<Rightarrow> qstring list" where
  "get_strings obj attribute = map string_of_bytes (get_values obj attribute)"

definition get_string :: "ad_object \<Rightarrow> qstring \<Rightarrow> qstring" where
  "get_string obj attribute =
     (let strings = get_strings obj attribute
      in if strings = [] then []
         else if attribute = ATTRIBUTE_OBJECT_CLASS then last strings else hd strings)"

definition get_ints :: "ad_object \<Rightarrow> qstring \<Rightarrow> int list" where
  "get_ints obj attribute = map (\<lambda>s. or_zero (to_int s)) (get_strings obj attribute)"

definition get_int :: "ad_object \<Rightarrow> qstring \<Rightarrow> int" where
  "get_int obj attribute = (case get_ints obj attribute of [] \<Rightarrow> 0 | n # _ \<Rightarrow> n)"

text \<open>An \<open>int\<close> used as a mask.\<close>

definition get_mask :: "ad_object \<Rightarrow> qstring \<Rightarrow> mask" where
  "get_mask obj attribute = word_of_int (get_int obj attribute)"

definition get_bools :: "ad_object \<Rightarrow> qstring \<Rightarrow> bool list" where
  "get_bools obj attribute = map ad_string_to_bool (get_strings obj attribute)"

definition get_bool :: "ad_object \<Rightarrow> qstring \<Rightarrow> bool" where
  "get_bool obj attribute = (case get_bools obj attribute of [] \<Rightarrow> False | b # _ \<Rightarrow> b)"

definition get_system_flag :: "ad_object \<Rightarrow> system_flags_bit \<Rightarrow> bool" where
  "get_system_flag obj flag =
     (if object_contains obj ATTRIBUTE_SYSTEM_FLAGS
      then bitmask_is_set (get_mask obj ATTRIBUTE_SYSTEM_FLAGS) (system_flags_value flag)
      else False)"

definition get_group_type :: "ad_object \<Rightarrow> group_type" where
  "get_group_type obj =
     (if get_mask obj ATTRIBUTE_GROUP_TYPE AND GROUP_TYPE_BIT_SECURITY \<noteq> 0
      then GroupType_Security else GroupType_Distribution)"

fun first_scope :: "mask \<Rightarrow> group_scope list \<Rightarrow> group_scope" where
  "first_scope group_type [] = GroupScope_Global"
| "first_scope group_type (this_scope # rest) =
     (if bitmask_is_set group_type (group_scope_bit this_scope) then this_scope
      else first_scope group_type rest)"

definition get_group_scope :: "ad_object \<Rightarrow> group_scope" where
  "get_group_scope obj = first_scope (get_mask obj ATTRIBUTE_GROUP_TYPE) group_scopes"

definition is_class :: "ad_object \<Rightarrow> qstring \<Rightarrow> bool" where
  "is_class obj object_class = (get_string obj ATTRIBUTE_OBJECT_CLASS = object_class)"

definition get_split_upn :: "ad_object \<Rightarrow> qstring \<times> qstring" where
  "get_split_upn obj =
     (let upn = get_string obj ATTRIBUTE_USER_PRINCIPAL_NAME;
          split_index = last_index_of_char upn (CHR ''@'')
      in (left upn split_index, mid_from upn (split_index + 1)))"

definition get_upn_prefix :: "ad_object \<Rightarrow> qstring" where
  "get_upn_prefix obj = fst (get_split_upn obj)"

definition get_upn_suffix :: "ad_object \<Rightarrow> qstring" where
  "get_upn_suffix obj = snd (get_split_upn obj)"

section \<open>Facts\<close>

text \<open>A text value: ASCII characters only.\<close>

definition text_value :: "qstring \<Rightarrow> bool" where
  "text_value s = (\<forall>c \<in> set s. (of_char c :: nat) < 128)"

lemma of_char_byte: "unat (of_nat (of_char c) :: byte) = of_char c"
  using nat_of_char_less_256 [of c] by (simp add: unat_of_nat)

lemma string_of_bytes_of_string [simp]: "string_of_bytes (bytes_of_string s) = s"
  by (simp add: string_of_bytes_def bytes_of_string_def comp_def of_char_byte)

section \<open>Properties\<close>

text \<open>An object with one text value of one attribute.\<close>

definition object_with :: "qstring \<Rightarrow> qstring \<Rightarrow> ad_object" where
  "object_with attribute val = empty_object\<lparr>attributes_data := [attribute \<mapsto> [bytes_of_string val]]\<rparr>"

lemma get_string_single:
  "attributes_data obj attribute = Some [bytes_of_string val] \<Longrightarrow> get_string obj attribute = val"
  by (simp add: get_string_def get_strings_def get_values_def Let_def)

lemma first_scope_reads:
  "first_scope m group_scopes =
    (if bitmask_is_set m (group_scope_bit GroupScope_Global) then GroupScope_Global
     else if bitmask_is_set m (group_scope_bit GroupScope_DomainLocal) then GroupScope_DomainLocal
     else if bitmask_is_set m (group_scope_bit GroupScope_Universal) then GroupScope_Universal
     else GroupScope_Global)"
  by (simp add: group_scopes_def del: group_scope_bit.simps)

lemma last_index_append:
  "CHR ''@'' \<notin> set v \<Longrightarrow> last_index_of_char (u @ ''@'' @ v) (CHR ''@'') = int (length u)"
  by (simp add: last_index_of_char_def Let_def list_index_append)

text \<open>
  The parts of a user principal name: a name \<open>prefix@suffix\<close> whose suffix has no \<open>@\<close> is split
  there, even when the prefix has one; a name without \<open>@\<close> is both its prefix and its suffix.
\<close>

theorem upn_split:
  assumes "attributes_data obj ATTRIBUTE_USER_PRINCIPAL_NAME = Some [bytes_of_string upn]"
  shows "(\<forall>prefix suffix. upn = prefix @ ''@'' @ suffix \<and> CHR ''@'' \<notin> set suffix
            \<longrightarrow> get_upn_prefix obj = prefix \<and> get_upn_suffix obj = suffix)
    \<and> (CHR ''@'' \<notin> set upn \<longrightarrow> get_upn_prefix obj = upn \<and> get_upn_suffix obj = upn)"
proof -
  have s: "get_string obj ATTRIBUTE_USER_PRINCIPAL_NAME = upn"
    using assms by (rule get_string_single)
  have at: "get_split_upn obj = (prefix, suffix)"
    if "upn = prefix @ ''@'' @ suffix" "CHR ''@'' \<notin> set suffix" for prefix suffix
    using that s last_index_append [of suffix prefix]
    by (simp add: get_split_upn_def Let_def left_def mid_from_def nat_add_distrib)
  have no: "get_split_upn obj = (upn, upn)" if "CHR ''@'' \<notin> set upn"
  proof -
    have "list_index (rev upn) (CHR ''@'') = -1" using that by simp
    then have "last_index_of_char upn (CHR ''@'') = -1" by (simp only: last_index_of_char_def Let_def) simp
    then show ?thesis using s by (simp add: get_split_upn_def Let_def left_def mid_from_def)
  qed
  show ?thesis using at no by (simp add: get_upn_prefix_def get_upn_suffix_def)
qed

theorem upn_split_witness:
  "get_upn_prefix (object_with ATTRIBUTE_USER_PRINCIPAL_NAME ''a@b@c.d'') = ''a@b''"
proof -
  let ?obj = "object_with ATTRIBUTE_USER_PRINCIPAL_NAME ''a@b@c.d''"
  have "attributes_data ?obj ATTRIBUTE_USER_PRINCIPAL_NAME = Some [bytes_of_string ''a@b@c.d'']"
    by (simp add: object_with_def)
  moreover have "''a@b@c.d'' = ''a@b'' @ ''@'' @ ''c.d'' \<and> CHR ''@'' \<notin> set ''c.d''" by simp
  ultimately show ?thesis using upn_split [of ?obj "''a@b@c.d''"] by blast
qed

end
