(* ===== verification/Directory.thy ===== *)
theory Directory
  imports AdObject AdFilter
begin

text \<open>
  Searching the directory. The LDAP client library and the server behind it are not part of the
  repository: a search is a function from its base, scope, filter and attributes to the objects
  found, in the order in which the hash of results is traversed. \<open>search_object\<close> of
  \<open>src/adldap/ad_interface.cpp\<close> is built on it.
\<close>

datatype search_scope = SearchScope_Object | SearchScope_Children | SearchScope_Descendants | SearchScope_All

fun scope_to_string :: "search_scope \<Rightarrow> qstring" where
  "scope_to_string SearchScope_Object = ''object''"
| "scope_to_string SearchScope_Children = ''children''"
| "scope_to_string SearchScope_Descendants = ''descendants''"
| "scope_to_string SearchScope_All = ''all''"

type_synonym ad_search = "qstring \<Rightarrow> search_scope \<Rightarrow> qstring \<Rightarrow> qstring list \<Rightarrow> ad_object list"

text \<open>
  The documented behaviour of a search with a list of attributes: entries have no other
  attributes (RFC 4511, 4.5.1.8).
\<close>

definition returns_requested :: "ad_search \<Rightarrow> bool" where
  "returns_requested search =
     (\<forall>base scope flt attributes. attributes \<noteq> [] \<longrightarrow>
        (\<forall>obj \<in> set (search base scope flt attributes). dom (attributes_data obj) \<subseteq> set attributes))"

definition search_object :: "ad_search \<Rightarrow> qstring \<Rightarrow> qstring list \<Rightarrow> ad_object" where
  "search_object search dn attributes =
     (case find (\<lambda>obj. object_dn obj = dn) (search dn SearchScope_Object [] attributes) of
        Some obj \<Rightarrow> obj | None \<Rightarrow> empty_object)"

end
