(* ===== verification/SecurityDescriptor.thy ===== *)
theory SecurityDescriptor
  imports AdObject
begin

text \<open>
  The security descriptor of an object and the functions of \<open>src/adldap/ad_security.cpp\<close> that read
  and edit its DACL one entry at a time, with the vendored Samba functions they call
  (\<open>dom_sid_compare\<close>, \<open>security_ace_equal\<close>, \<open>ace_compare\<close>, \<open>security_descriptor_dacl_add\<close>).
  Samba's installed headers are not part of the repository: the values of its constants and the
  functions of its libraries and of the C library are the fields of a record that the definitions
  take as an argument. A DACL that is a null pointer is \<open>None\<close>.
\<close>

section \<open>Security identifiers\<close>

record dom_sid =
  sid_rev_num :: byte
  num_auths :: byte
  id_auth :: "byte list"
  sub_auths :: "32 word list"

text \<open>\<open>struct dom_sid\<close> has six bytes of authority and room for 15 sub-authorities, 68 bytes in all.\<close>

definition dom_sid_ok :: "dom_sid \<Rightarrow> bool" where
  "dom_sid_ok sid = (length (id_auth sid) = 6 \<and> length (sub_auths sid) = 15)"

definition sizeof_dom_sid :: nat where "sizeof_dom_sid = 68"

text \<open>A little-endian 32-bit word in memory.\<close>

definition word_bytes :: "32 word \<Rightarrow> bytes" where
  "word_bytes w = [ucast w, ucast (drop_bit 8 w), ucast (drop_bit 16 w), ucast (drop_bit 24 w)]"

definition bytes_word :: "bytes \<Rightarrow> 32 word" where
  "bytes_word b = ucast (b ! 0) OR push_bit 8 (ucast (b ! 1)) OR push_bit 16 (ucast (b ! 2)) OR push_bit 24 (ucast (b ! 3))"

definition dom_sid_to_bytes :: "dom_sid \<Rightarrow> bytes" where
  "dom_sid_to_bytes sid = [sid_rev_num sid, num_auths sid] @ id_auth sid @ concat (map word_bytes (sub_auths sid))"

definition dom_sid_image :: "bytes \<Rightarrow> dom_sid" where
  "dom_sid_image b = \<lparr>sid_rev_num = b ! 0, num_auths = b ! 1, id_auth = take 6 (drop 2 b),
     sub_auths = map (\<lambda>i. bytes_word (take 4 (drop (8 + 4 * i) b))) [0..<15]\<rparr>"

text \<open>\<open>memcpy\<close> reads the size of the structure from the array, whatever the size of the array.\<close>

definition dom_sid_from_bytes :: "bytes \<Rightarrow> dom_sid faulty" where
  "dom_sid_from_bytes b = (if length b < sizeof_dom_sid then Inl Buffer_Overread else Inr (dom_sid_image b))"

definition numeric_cmp :: "'a::linorder \<Rightarrow> 'a \<Rightarrow> int" where
  "numeric_cmp a b = (if a < b then -1 else if b < a then 1 else 0)"

fun first_difference :: "(('a::linorder) \<times> 'a) list \<Rightarrow> int" where
  "first_difference [] = 0"
| "first_difference ((a, b) # rest) = (if a \<noteq> b then numeric_cmp a b else first_difference rest)"

definition dom_sid_compare_auth :: "dom_sid \<Rightarrow> dom_sid \<Rightarrow> int" where
  "dom_sid_compare_auth sid1 sid2 =
     (if sid_rev_num sid1 \<noteq> sid_rev_num sid2 then numeric_cmp (sid_rev_num sid1) (sid_rev_num sid2)
      else first_difference (zip (take 6 (id_auth sid1)) (take 6 (id_auth sid2))))"

text \<open>\<open>num_auths\<close> is a signed byte; the sub-authorities are compared from the last to the first.\<close>

definition used_auths :: "dom_sid \<Rightarrow> 32 word list" where
  "used_auths sid = take (nat (sint (num_auths sid))) (sub_auths sid)"

definition dom_sid_compare :: "dom_sid \<Rightarrow> dom_sid \<Rightarrow> int" where
  "dom_sid_compare sid1 sid2 =
     (if num_auths sid1 \<noteq> num_auths sid2 then numeric_cmp (sint (num_auths sid1)) (sint (num_auths sid2))
      else let d = first_difference (zip (rev (used_auths sid1)) (rev (used_auths sid2)))
           in if d \<noteq> 0 then d else dom_sid_compare_auth sid1 sid2)"

section \<open>Access control entries\<close>

datatype security_ace_type =
    SEC_ACE_TYPE_ACCESS_ALLOWED | SEC_ACE_TYPE_ACCESS_DENIED | SEC_ACE_TYPE_SYSTEM_AUDIT
  | SEC_ACE_TYPE_SYSTEM_ALARM | SEC_ACE_TYPE_ALLOWED_COMPOUND | SEC_ACE_TYPE_ACCESS_ALLOWED_OBJECT
  | SEC_ACE_TYPE_ACCESS_DENIED_OBJECT | SEC_ACE_TYPE_SYSTEM_AUDIT_OBJECT | SEC_ACE_TYPE_SYSTEM_ALARM_OBJECT

text \<open>GUIDs are the 16 bytes of their image in memory.\<close>

record security_ace =
  ace_type :: security_ace_type
  ace_flags :: byte
  ace_size :: "16 word"
  ace_mask :: mask
  object_flags :: mask
  object_type_guid :: bytes
  inherited_type_guid :: bytes
  ace_trustee :: dom_sid

record security_descriptor =
  sd_dacl_present :: bool
  sd_dacl :: "security_ace list option"

text \<open>What the code takes from Samba's headers and libraries and from the C library.\<close>

record sec_api =
  SEC_ADS_GENERIC_ALL :: mask
  SEC_ADS_GENERIC_READ :: mask
  SEC_ADS_GENERIC_WRITE :: mask
  SEC_ADS_CREATE_CHILD :: mask
  SEC_ADS_DELETE_CHILD :: mask
  SEC_ADS_LIST :: mask
  SEC_ADS_SELF_WRITE :: mask
  SEC_ADS_READ_PROP :: mask
  SEC_ADS_WRITE_PROP :: mask
  SEC_ADS_DELETE_TREE :: mask
  SEC_ADS_LIST_OBJECT :: mask
  SEC_ADS_CONTROL_ACCESS :: mask
  SEC_STD_DELETE :: mask
  SEC_STD_READ_CONTROL :: mask
  SEC_STD_WRITE_DAC :: mask
  SEC_STD_WRITE_OWNER :: mask
  SEC_ACE_FLAG_CONTAINER_INHERIT :: byte
  SEC_ACE_FLAG_INHERIT_ONLY :: byte
  SEC_ACE_FLAG_INHERITED_ACE :: byte
  SEC_ACE_OBJECT_TYPE_PRESENT :: mask
  SEC_ACE_INHERITED_OBJECT_TYPE_PRESENT :: mask
  SID_WORLD :: qstring
  SID_NT_SELF :: qstring
  sid_string_to_bytes :: "qstring \<Rightarrow> bytes"
  ace_type_value :: "security_ace_type \<Rightarrow> nat"
  ace_memcmp :: "security_ace \<Rightarrow> security_ace \<Rightarrow> int"
  ace_qsort :: "(security_ace \<Rightarrow> security_ace \<Rightarrow> int) \<Rightarrow> security_ace list \<Rightarrow> security_ace list"
  uninitialised_guid :: bytes
  uninitialised_size :: "16 word"

text \<open>
  The documented values of the constants (MS-ADTS 5.1.3.2 and MS-DTYP 2.4.4; the generic rights as
  Samba's \<open>security.idl\<close> composes them).
\<close>

definition documented_masks :: "sec_api \<Rightarrow> bool" where
  "documented_masks k =
     (SEC_ADS_CREATE_CHILD k = 0x1 \<and> SEC_ADS_DELETE_CHILD k = 0x2 \<and> SEC_ADS_LIST k = 0x4
      \<and> SEC_ADS_SELF_WRITE k = 0x8 \<and> SEC_ADS_READ_PROP k = 0x10 \<and> SEC_ADS_WRITE_PROP k = 0x20
      \<and> SEC_ADS_DELETE_TREE k = 0x40 \<and> SEC_ADS_LIST_OBJECT k = 0x80 \<and> SEC_ADS_CONTROL_ACCESS k = 0x100
      \<and> SEC_STD_DELETE k = 0x10000 \<and> SEC_STD_READ_CONTROL k = 0x20000 \<and> SEC_STD_WRITE_DAC k = 0x40000
      \<and> SEC_STD_WRITE_OWNER k = 0x80000 \<and> SEC_ADS_GENERIC_READ k = 0x20094
      \<and> SEC_ADS_GENERIC_WRITE k = 0x20028 \<and> SEC_ADS_GENERIC_ALL k = 0xF01FF)"

definition documented_flags :: "sec_api \<Rightarrow> bool" where
  "documented_flags k =
     (SEC_ACE_FLAG_CONTAINER_INHERIT k = 0x2 \<and> SEC_ACE_FLAG_INHERIT_ONLY k = 0x8
      \<and> SEC_ACE_FLAG_INHERITED_ACE k = 0x10 \<and> SEC_ACE_OBJECT_TYPE_PRESENT k = 1
      \<and> SEC_ACE_INHERITED_OBJECT_TYPE_PRESENT k = 2)"

record SecurityRight =
  access_mask :: mask
  object_type :: bytes
  inherited_object_type :: bytes
  right_flags :: byte

record ace_match_flags =
  match_inheritance :: bool
  match_object_type :: bool

definition ace_types_with_object :: "security_ace_type list" where
  "ace_types_with_object = [SEC_ACE_TYPE_ACCESS_ALLOWED_OBJECT, SEC_ACE_TYPE_ACCESS_DENIED_OBJECT,
     SEC_ACE_TYPE_SYSTEM_AUDIT_OBJECT, SEC_ACE_TYPE_SYSTEM_ALARM_OBJECT]"

definition sec_ace_object :: "security_ace_type \<Rightarrow> bool" where
  "sec_ace_object t = (t \<in> set ace_types_with_object)"

definition ace_type_allow_set :: "security_ace_type list" where
  "ace_type_allow_set = [SEC_ACE_TYPE_ACCESS_ALLOWED, SEC_ACE_TYPE_ACCESS_ALLOWED_OBJECT]"

definition ace_type_deny_set :: "security_ace_type list" where
  "ace_type_deny_set = [SEC_ACE_TYPE_ACCESS_DENIED, SEC_ACE_TYPE_ACCESS_DENIED_OBJECT]"

text \<open>\<open>bitmask_is_set\<close> of flags: they are promoted to \<open>int\<close>, which keeps the bits.\<close>

definition flags_set :: "byte \<Rightarrow> byte \<Rightarrow> bool" where
  "flags_set flags bits = bitmask_is_set (ucast flags) (ucast bits)"

definition GENERIC_READ_FIXED :: "sec_api \<Rightarrow> mask" where
  "GENERIC_READ_FIXED k = SEC_ADS_GENERIC_READ k AND NOT (SEC_ADS_LIST_OBJECT k)"

definition ad_security_map_access_mask :: "sec_api \<Rightarrow> mask \<Rightarrow> mask" where
  "ad_security_map_access_mask k m = (if m = SEC_ADS_GENERIC_READ k then GENERIC_READ_FIXED k else m)"

definition ace_is_inherited :: "sec_api \<Rightarrow> security_ace \<Rightarrow> bool" where
  "ace_is_inherited k ace = (ace_flags ace AND SEC_ACE_FLAG_INHERITED_ACE k \<noteq> 0)"

definition ace_is_access_allowed :: "security_ace \<Rightarrow> bool" where
  "ace_is_access_allowed ace =
     (ace_type ace = SEC_ACE_TYPE_ACCESS_ALLOWED \<or> ace_type ace = SEC_ACE_TYPE_ACCESS_ALLOWED_OBJECT)"


definition guid_equal :: "bytes \<Rightarrow> bytes \<Rightarrow> bool" where
  "guid_equal g h = (g = h)"

definition security_ace_object_equal :: "sec_api \<Rightarrow> security_ace \<Rightarrow> security_ace \<Rightarrow> bool" where
  "security_ace_object_equal k a b =
     (object_flags a = object_flags b
      \<and> (object_flags a AND SEC_ACE_OBJECT_TYPE_PRESENT k \<noteq> 0 \<longrightarrow>
           guid_equal (object_type_guid a) (object_type_guid b))
      \<and> (object_flags a AND SEC_ACE_INHERITED_OBJECT_TYPE_PRESENT k \<noteq> 0 \<longrightarrow>
           guid_equal (inherited_type_guid a) (inherited_type_guid b)))"

definition security_ace_equal :: "sec_api \<Rightarrow> security_ace \<Rightarrow> security_ace \<Rightarrow> bool" where
  "security_ace_equal k a b =
     (ace_type a = ace_type b \<and> ace_flags a = ace_flags b \<and> ace_mask a = ace_mask b
      \<and> (sec_ace_object (ace_type a) \<longrightarrow> security_ace_object_equal k a b)
      \<and> dom_sid_compare (ace_trustee a) (ace_trustee b) = 0)"

definition ace_compare_simplified :: "sec_api \<Rightarrow> security_ace \<Rightarrow> security_ace \<Rightarrow> int" where
  "ace_compare_simplified k ace1 ace2 =
     (if security_ace_equal k ace1 ace2 then 0
      else if ace_is_inherited k ace1 \<noteq> ace_is_inherited k ace2
        then (if ace_is_inherited k ace1 then 1 else -1)
      else if ace_is_access_allowed ace1 \<noteq> ace_is_access_allowed ace2
        then (if ace_is_access_allowed ace1 then 1 else -1)
      else 0)"

definition ace_is_access :: "security_ace \<Rightarrow> bool" where
  "ace_is_access ace = (ace_type ace \<in> set (ace_type_allow_set @ ace_type_deny_set))"

definition ace_is_object_access :: "security_ace \<Rightarrow> bool" where
  "ace_is_object_access ace =
     (ace_type ace = SEC_ACE_TYPE_ACCESS_ALLOWED_OBJECT \<or> ace_type ace = SEC_ACE_TYPE_ACCESS_DENIED_OBJECT)"

definition ace_compare :: "sec_api \<Rightarrow> security_ace \<Rightarrow> security_ace \<Rightarrow> int" where
  "ace_compare k ace1 ace2 =
     (if security_ace_equal k ace1 ace2 then 0
      else if ace_is_inherited k ace1 \<noteq> ace_is_inherited k ace2
        then (if ace_is_inherited k ace1 then 1 else -1)
      else if ace_is_access ace1 \<noteq> ace_is_access ace2 then (if ace_is_access ace1 then -1 else 1)
      else if ace_is_access_allowed ace1 \<noteq> ace_is_access_allowed ace2
        then (if ace_is_access_allowed ace1 then 1 else -1)
      else if ace_is_object_access ace1 \<noteq> ace_is_object_access ace2
        then (if ace_is_object_access ace1 then 1 else -1)
      else if ace_type ace1 \<noteq> ace_type ace2
        then numeric_cmp (ace_type_value k (ace_type ace2)) (ace_type_value k (ace_type ace1))
      else if dom_sid_compare (ace_trustee ace1) (ace_trustee ace2) \<noteq> 0
        then dom_sid_compare (ace_trustee ace1) (ace_trustee ace2)
      else if ace_flags ace1 \<noteq> ace_flags ace2 then numeric_cmp (ace_flags ace1) (ace_flags ace2)
      else if ace_mask ace1 \<noteq> ace_mask ace2 then numeric_cmp (ace_mask ace1) (ace_mask ace2)
      else if ace_size ace1 \<noteq> ace_size ace2 then numeric_cmp (ace_size ace1) (ace_size ace2)
      else ace_memcmp k ace1 ace2)"

section \<open>Matching an entry with a right\<close>

definition ace_object_present :: "sec_api \<Rightarrow> security_ace \<Rightarrow> bool" where
  "ace_object_present k ace =
     (ace_type ace \<in> set ace_types_with_object \<and> bitmask_is_set (object_flags ace) (SEC_ACE_OBJECT_TYPE_PRESENT k))"

definition ace_inherited_object_present :: "sec_api \<Rightarrow> security_ace \<Rightarrow> bool" where
  "ace_inherited_object_present k ace =
     (ace_type ace \<in> set ace_types_with_object
      \<and> bitmask_is_set (object_flags ace) (SEC_ACE_INHERITED_OBJECT_TYPE_PRESENT k))"

definition ace_match_without_access_mask ::
  "sec_api \<Rightarrow> security_ace \<Rightarrow> bytes \<Rightarrow> SecurityRight \<Rightarrow> bool \<Rightarrow> ace_match_flags \<Rightarrow> bool faulty" where
  "ace_match_without_access_mask k ace trustee right allow match_flags =
     (let ace_allow = (ace_type ace \<in> set ace_type_allow_set);
          ace_deny = (ace_type ace \<in> set ace_type_deny_set);
          type_match = (allow \<and> ace_allow \<or> \<not> allow \<and> ace_deny);
          inherited = flags_set (ace_flags ace) (SEC_ACE_FLAG_CONTAINER_INHERIT k OR SEC_ACE_FLAG_INHERITED_ACE k);
          flags_match = (if match_inheritance match_flags
                         then inherited \<or> ace_flags ace = right_flags right
                         else ace_flags ace = right_flags right);
          object_match =
            (if ace_object_present k ace then object_type_guid ace = object_type right
             else if match_object_type match_flags then object_type right = [] else True);
          inherited_object_match =
            (if ace_inherited_object_present k ace
             then inherited_type_guid ace = inherited_object_type right \<or> inherited
             else inherited_object_type right = [] \<or> inherited)
      in bind_faulty (dom_sid_from_bytes trustee) (\<lambda>trustee_sid.
           let trustee_match = (dom_sid_compare (ace_trustee ace) trustee_sid = 0)
           in Inr (inherited_object_match \<and> type_match \<and> flags_match \<and> trustee_match \<and> object_match)))"

text \<open>The flags of the two kinds of matching: for reading the state, and for finding the entry to edit.\<close>

definition read_match :: ace_match_flags where
  "read_match = \<lparr>match_inheritance = True, match_object_type = False\<rparr>"

definition edit_match :: ace_match_flags where
  "edit_match = \<lparr>match_inheritance = False, match_object_type = True\<rparr>"

definition ace_match :: "sec_api \<Rightarrow> security_ace \<Rightarrow> bytes \<Rightarrow> SecurityRight \<Rightarrow> bool \<Rightarrow> bool faulty" where
  "ace_match k ace trustee right allow =
     (let amask = ad_security_map_access_mask k (access_mask right)
      in if bitmask_is_set (ace_mask ace) amask
         then ace_match_without_access_mask k ace trustee right allow read_match
         else Inr False)"

fun match_dacl_index_from ::
  "sec_api \<Rightarrow> bytes \<Rightarrow> int \<Rightarrow> security_ace list \<Rightarrow> SecurityRight \<Rightarrow> bool \<Rightarrow> int faulty" where
  "match_dacl_index_from k trustee i [] right allow = Inr (-1)"
| "match_dacl_index_from k trustee i (ace # rest) right allow =
     bind_faulty (ace_match_without_access_mask k ace trustee right allow edit_match)
       (\<lambda>match. if match then Inr i else match_dacl_index_from k trustee (i + 1) rest right allow)"

definition match_dacl_index :: "sec_api \<Rightarrow> bytes \<Rightarrow> security_ace list \<Rightarrow> SecurityRight \<Rightarrow> bool \<Rightarrow> int faulty" where
  "match_dacl_index k trustee dacl right allow = match_dacl_index_from k trustee 0 dacl right allow"

section \<open>Editing the DACL\<close>

definition security_descriptor_get_dacl :: "security_descriptor \<Rightarrow> security_ace list faulty" where
  "security_descriptor_get_dacl sd =
     (case sd_dacl sd of None \<Rightarrow> Inl Null_Dereference | Some aces \<Rightarrow> Inr aces)"

definition security_descriptor_dacl_add :: "security_descriptor \<Rightarrow> security_ace \<Rightarrow> security_descriptor" where
  "security_descriptor_dacl_add sd ace =
     sd\<lparr>sd_dacl := Some ((case sd_dacl sd of None \<Rightarrow> [] | Some aces \<Rightarrow> aces) @ [ace]), sd_dacl_present := True\<rparr>"

definition ad_security_replace_dacl :: "security_descriptor \<Rightarrow> security_ace list \<Rightarrow> security_descriptor" where
  "ad_security_replace_dacl sd new_dacl =
     fold (\<lambda>ace sd. security_descriptor_dacl_add sd ace) new_dacl (sd\<lparr>sd_dacl := None\<rparr>)"

definition are_rights_already_set :: "security_ace list \<Rightarrow> nat \<Rightarrow> mask \<Rightarrow> bool" where
  "are_rights_already_set dacl matching_index amask = bitmask_is_set (ace_mask (dacl ! matching_index)) amask"

definition get_security_ace_type :: "bool \<Rightarrow> bool \<Rightarrow> bool \<Rightarrow> security_ace_type" where
  "get_security_ace_type object_present inherited_object_present allow =
     (if allow then
        (if object_present \<or> inherited_object_present then SEC_ACE_TYPE_ACCESS_ALLOWED_OBJECT
         else SEC_ACE_TYPE_ACCESS_ALLOWED)
      else
        (if object_present \<or> inherited_object_present then SEC_ACE_TYPE_ACCESS_DENIED_OBJECT
         else SEC_ACE_TYPE_ACCESS_DENIED))"

definition bytes_to_guid :: "bytes \<Rightarrow> bytes faulty" where
  "bytes_to_guid guid_bytes = (if length guid_bytes < 16 then Inl Buffer_Overread else Inr (take 16 guid_bytes))"

definition get_security_ace_object_flags :: "sec_api \<Rightarrow> bool \<Rightarrow> bool \<Rightarrow> mask" where
  "get_security_ace_object_flags k object_present inherited_object_present =
     (if object_present \<and> inherited_object_present
        then SEC_ACE_OBJECT_TYPE_PRESENT k OR SEC_ACE_INHERITED_OBJECT_TYPE_PRESENT k
      else if object_present then SEC_ACE_OBJECT_TYPE_PRESENT k
      else if inherited_object_present then SEC_ACE_INHERITED_OBJECT_TYPE_PRESENT k
      else 0)"

definition make_security_ace ::
  "sec_api \<Rightarrow> bytes \<Rightarrow> SecurityRight \<Rightarrow> mask \<Rightarrow> bool \<Rightarrow> security_ace faulty" where
  "make_security_ace k trustee right amask allow =
     (let object_present = (object_type right \<noteq> []);
          inherited_object_present = (inherited_object_type right \<noteq> [])
      in bind_faulty (if object_present then bytes_to_guid (object_type right) else Inr (uninitialised_guid k)) (\<lambda>guid.
         bind_faulty (if inherited_object_present then bytes_to_guid (inherited_object_type right)
                      else Inr (uninitialised_guid k)) (\<lambda>inherited_guid.
         bind_faulty (dom_sid_from_bytes trustee) (\<lambda>sid.
           Inr \<lparr>ace_type = get_security_ace_type object_present inherited_object_present allow,
                ace_flags = right_flags right, ace_size = uninitialised_size k, ace_mask = amask,
                object_flags = get_security_ace_object_flags k object_present inherited_object_present,
                object_type_guid = guid, inherited_type_guid = inherited_guid, ace_trustee = sid\<rparr>))))"

definition get_mask_to_unset :: "sec_api \<Rightarrow> security_ace \<Rightarrow> mask \<Rightarrow> mask" where
  "get_mask_to_unset k ace amask =
     (let opposite_map = [GENERIC_READ_FIXED k \<mapsto> SEC_ADS_GENERIC_WRITE k, SEC_ADS_GENERIC_WRITE k \<mapsto> GENERIC_READ_FIXED k]
      in case opposite_map amask of
           Some opposite \<Rightarrow>
             (if bitmask_is_set (ace_mask ace) opposite then amask AND NOT (SEC_STD_READ_CONTROL k) else amask)
         | None \<Rightarrow> amask)"

definition ace_unset_mask :: "sec_api \<Rightarrow> security_ace \<Rightarrow> mask \<Rightarrow> security_ace" where
  "ace_unset_mask k ace amask = ace\<lparr>ace_mask := bitmask_set (ace_mask ace) (get_mask_to_unset k ace amask) False\<rparr>"

fun remove_from_aces ::
  "sec_api \<Rightarrow> bytes \<Rightarrow> SecurityRight \<Rightarrow> bool \<Rightarrow> mask \<Rightarrow> security_ace list \<Rightarrow> security_ace list faulty" where
  "remove_from_aces k trustee right allow amask [] = Inr []"
| "remove_from_aces k trustee right allow amask (ace # rest) =
     bind_faulty (ace_match_without_access_mask k ace trustee right allow edit_match) (\<lambda>match.
     bind_faulty (remove_from_aces k trustee right allow amask rest) (\<lambda>out.
       if match \<and> bitmask_is_set (ace_mask ace) amask then
         (let edited_ace = ace_unset_mask k ace amask
          in Inr (if ace_mask edited_ace = 0 then out else edited_ace # out))
       else Inr (ace # out)))"

definition remove_access_rights ::
  "sec_api \<Rightarrow> security_descriptor \<Rightarrow> bytes \<Rightarrow> SecurityRight \<Rightarrow> bool \<Rightarrow> security_ace list faulty" where
  "remove_access_rights k sd trustee right allow =
     bind_faulty (security_descriptor_get_dacl sd)
       (remove_from_aces k trustee right allow (ad_security_map_access_mask k (access_mask right)))"

definition security_descriptor_add_right_base ::
  "sec_api \<Rightarrow> bytes \<Rightarrow> SecurityRight \<Rightarrow> bool \<Rightarrow> security_descriptor \<Rightarrow> security_descriptor faulty" where
  "security_descriptor_add_right_base k trustee right allow sd =
     (let amask = ad_security_map_access_mask k (access_mask right)
      in bind_faulty (security_descriptor_get_dacl sd) (\<lambda>dacl.
         bind_faulty (match_dacl_index k trustee dacl right allow) (\<lambda>matching_index.
           if matching_index \<noteq> -1 then
             (let i = nat matching_index
              in if are_rights_already_set dacl i amask then Inr sd
                 else Inr (sd\<lparr>sd_dacl := Some (dacl[i := (dacl ! i)\<lparr>ace_mask := bitmask_set (ace_mask (dacl ! i)) amask True\<rparr>])\<rparr>))
           else bind_faulty (make_security_ace k trustee right amask allow)
                  (\<lambda>ace. Inr (security_descriptor_dacl_add sd ace)))))"

definition security_descriptor_remove_right_base ::
  "sec_api \<Rightarrow> bytes \<Rightarrow> SecurityRight \<Rightarrow> bool \<Rightarrow> security_descriptor \<Rightarrow> security_descriptor faulty" where
  "security_descriptor_remove_right_base k trustee right allow sd =
     bind_faulty (remove_access_rights k sd trustee right allow) (\<lambda>new_dacl. Inr (ad_security_replace_dacl sd new_dacl))"

definition security_descriptor_sort_dacl :: "sec_api \<Rightarrow> security_descriptor \<Rightarrow> security_descriptor faulty" where
  "security_descriptor_sort_dacl k sd =
     (case sd_dacl sd of None \<Rightarrow> Inl Null_Dereference
      | Some aces \<Rightarrow> Inr (sd\<lparr>sd_dacl := Some (ace_qsort k (ace_compare k) aces)\<rparr>))"

section \<open>The state of a right\<close>

text \<open>
  \<open>SecurityRightState\<close>: whether the right is set, by inherited entries or not, as allowed or denied.
  Its array is the function of its two indices.
\<close>

datatype right_inherited = SecurityRightStateInherited_Yes | SecurityRightStateInherited_No
datatype right_type = SecurityRightStateType_Allow | SecurityRightStateType_Deny

type_synonym right_state = "right_inherited \<Rightarrow> right_type \<Rightarrow> bool"

definition bitmask_to_inherited_state :: "sec_api \<Rightarrow> security_ace \<Rightarrow> right_inherited" where
  "bitmask_to_inherited_state k ace =
     (if flags_set (ace_flags ace) (SEC_ACE_FLAG_INHERITED_ACE k)
      then SecurityRightStateInherited_Yes else SecurityRightStateInherited_No)"

definition right_state_set :: "right_inherited \<Rightarrow> right_type \<Rightarrow> right_state \<Rightarrow> right_state" where
  "right_state_set inherited type st = (\<lambda>i t. if i = inherited \<and> t = type then True else st i t)"

definition read_ace_state ::
  "sec_api \<Rightarrow> bytes \<Rightarrow> SecurityRight \<Rightarrow> security_ace \<Rightarrow> right_state \<Rightarrow> right_state faulty" where
  "read_ace_state k trustee right ace out_data =
     bind_faulty (ace_match k ace trustee right True) (\<lambda>match_for_allow.
     bind_faulty (ace_match k ace trustee right False) (\<lambda>match_for_deny.
       if \<not> (match_for_allow \<or> match_for_deny) then Inr out_data
       else Inr (right_state_set (bitmask_to_inherited_state k ace)
              (if match_for_allow then SecurityRightStateType_Allow else SecurityRightStateType_Deny) out_data)))"

definition security_descriptor_get_right_state ::
  "sec_api \<Rightarrow> security_descriptor \<Rightarrow> bytes \<Rightarrow> SecurityRight \<Rightarrow> right_state faulty" where
  "security_descriptor_get_right_state k sd trustee right =
     bind_faulty (security_descriptor_get_dacl sd)
       (\<lambda>dacl. fold_faulty (read_ace_state k trustee right) dacl (\<lambda>_ _. False))"

section \<open>Trustees and order\<close>

definition get_trustee_set :: "security_descriptor \<Rightarrow> bytes set faulty" where
  "get_trustee_set sd =
     bind_faulty (security_descriptor_get_dacl sd) (\<lambda>dacl. Inr (set (map (\<lambda>ace. dom_sid_to_bytes (ace_trustee ace)) dacl)))"

fun any_trustee_match :: "security_ace \<Rightarrow> bytes list \<Rightarrow> bool faulty" where
  "any_trustee_match ace [] = Inr False"
| "any_trustee_match ace (trustee # rest) =
     bind_faulty (dom_sid_from_bytes trustee) (\<lambda>sid.
       if dom_sid_compare (ace_trustee ace) sid = 0 then Inr True else any_trustee_match ace rest)"

definition are_trustees_match :: "sec_api \<Rightarrow> security_ace \<Rightarrow> bytes list \<Rightarrow> bool faulty" where
  "are_trustees_match k ace trustee_list =
     bind_faulty (any_trustee_match ace trustee_list) (\<lambda>trustee_match.
       Inr (trustee_match \<and> \<not> flags_set (ace_flags ace) (SEC_ACE_FLAG_INHERITED_ACE k)))"

fun filter_trustees :: "sec_api \<Rightarrow> bytes list \<Rightarrow> security_ace list \<Rightarrow> security_ace list faulty" where
  "filter_trustees k trustee_list [] = Inr []"
| "filter_trustees k trustee_list (ace # rest) =
     bind_faulty (are_trustees_match k ace trustee_list) (\<lambda>match.
     bind_faulty (filter_trustees k trustee_list rest) (\<lambda>out. Inr (if match then out else ace # out)))"

definition security_descriptor_remove_trustee ::
  "sec_api \<Rightarrow> bytes list \<Rightarrow> security_descriptor \<Rightarrow> security_descriptor faulty" where
  "security_descriptor_remove_trustee k trustee_list sd =
     bind_faulty (security_descriptor_get_dacl sd) (\<lambda>old_dacl.
     bind_faulty (filter_trustees k trustee_list old_dacl) (\<lambda>new_dacl.
       Inr (ad_security_replace_dacl sd new_dacl)))"

fun order_from :: "sec_api \<Rightarrow> security_ace \<Rightarrow> security_ace list \<Rightarrow> bool" where
  "order_from k cur [] = True"
| "order_from k cur (next_ace # rest) =
     (ace_compare_simplified k cur next_ace \<le> 0 \<and> order_from k next_ace rest)"

definition is_order_correct :: "sec_api \<Rightarrow> security_descriptor \<Rightarrow> bool faulty" where
  "is_order_correct k copy =
     bind_faulty (security_descriptor_get_dacl copy) (\<lambda>dacl.
       case dacl of [] \<Rightarrow> Inl Empty_List | cur # rest \<Rightarrow> Inr (order_from k cur rest))"

text \<open>The copy that is checked has the same entries.\<close>

definition security_descriptor_verify_acl_order :: "sec_api \<Rightarrow> security_descriptor \<Rightarrow> bool faulty" where
  "security_descriptor_verify_acl_order k sd = is_order_correct k sd"

end
