(* ===== verification/DaclFacts.thy ===== *)
theory DaclFacts
  imports SecurityDescriptor
begin

text \<open>
  What the edits of one entry do to a DACL: the entries they match, the rights that are set after
  them, the entries they leave alone. The contract of an edit that cannot lose the DACL is the
  locale \<open>dacl_edit\<close>; its client lemma carries it over any sequence of edits.
\<close>

section \<open>Comparing security identifiers\<close>

lemma first_difference_same [simp]: "first_difference (zip xs xs) = 0"
  by (induction xs) auto

lemma dom_sid_compare_refl [simp]: "dom_sid_compare sid sid = 0"
  by (simp add: dom_sid_compare_def dom_sid_compare_auth_def)

text \<open>Rights and trustees as the program builds them.\<close>

definition trustee_ok :: "bytes \<Rightarrow> bool" where
  "trustee_ok trustee = (sizeof_dom_sid \<le> length trustee)"

definition right_ok :: "sec_api \<Rightarrow> SecurityRight \<Rightarrow> bool" where
  "right_ok k r =
     (access_mask r \<noteq> 0 \<and> length (object_type r) \<in> {0, 16} \<and> length (inherited_object_type r) \<in> {0, 16}
      \<and> right_flags r AND SEC_ACE_FLAG_INHERITED_ACE k = 0)"

lemma dom_sid_from_bytes_ok: "trustee_ok t \<Longrightarrow> dom_sid_from_bytes t = Inr (dom_sid_image t)"
  by (simp add: trustee_ok_def dom_sid_from_bytes_def)

section \<open>Matching\<close>

definition trustee_is :: "dom_sid \<Rightarrow> security_ace \<Rightarrow> bool" where
  "trustee_is sid ace = (dom_sid_compare (ace_trustee ace) sid = 0)"

definition type_is :: "bool \<Rightarrow> security_ace \<Rightarrow> bool" where
  "type_is allow ace = (ace_type ace \<in> set (if allow then ace_type_allow_set else ace_type_deny_set))"

text \<open>The entries that an edit of a right considers, whatever their mask.\<close>

definition edit_matches :: "sec_api \<Rightarrow> dom_sid \<Rightarrow> SecurityRight \<Rightarrow> bool \<Rightarrow> security_ace \<Rightarrow> bool" where
  "edit_matches k sid r allow ace =
     (trustee_is sid ace \<and> type_is allow ace \<and> ace_flags ace = right_flags r
      \<and> (if ace_object_present k ace then object_type_guid ace = object_type r else object_type r = [])
      \<and> (if ace_inherited_object_present k ace
         then inherited_type_guid ace = inherited_object_type r
           \<or> flags_set (ace_flags ace) (SEC_ACE_FLAG_CONTAINER_INHERIT k OR SEC_ACE_FLAG_INHERITED_ACE k)
         else inherited_object_type r = []
           \<or> flags_set (ace_flags ace) (SEC_ACE_FLAG_CONTAINER_INHERIT k OR SEC_ACE_FLAG_INHERITED_ACE k)))"

definition read_matches :: "sec_api \<Rightarrow> dom_sid \<Rightarrow> SecurityRight \<Rightarrow> bool \<Rightarrow> security_ace \<Rightarrow> bool" where
  "read_matches k sid r allow ace =
     (let inherited = flags_set (ace_flags ace) (SEC_ACE_FLAG_CONTAINER_INHERIT k OR SEC_ACE_FLAG_INHERITED_ACE k)
      in trustee_is sid ace \<and> type_is allow ace \<and> (inherited \<or> ace_flags ace = right_flags r)
      \<and> (ace_object_present k ace \<longrightarrow> object_type_guid ace = object_type r)
      \<and> (if ace_inherited_object_present k ace
         then inherited_type_guid ace = inherited_object_type r \<or> inherited
         else inherited_object_type r = [] \<or> inherited))"

definition right_mask :: "sec_api \<Rightarrow> SecurityRight \<Rightarrow> mask" where
  "right_mask k r = ad_security_map_access_mask k (access_mask r)"

lemma edit_match_eq:
  "trustee_ok t \<Longrightarrow>
    ace_match_without_access_mask k ace t r allow edit_match = Inr (edit_matches k (dom_sid_image t) r allow ace)"
  by (auto simp: ace_match_without_access_mask_def edit_match_def edit_matches_def dom_sid_from_bytes_ok
      trustee_is_def type_is_def Let_def)

lemma read_match_eq:
  "trustee_ok t \<Longrightarrow> ace_match k ace t r allow =
    Inr (bitmask_is_set (ace_mask ace) (right_mask k r) \<and> read_matches k (dom_sid_image t) r allow ace)"
  by (auto simp: ace_match_def ace_match_without_access_mask_def read_match_def read_matches_def
      dom_sid_from_bytes_ok trustee_is_def type_is_def right_mask_def Let_def)

lemma type_is_exclusive: "type_is True ace \<Longrightarrow> type_is False ace \<Longrightarrow> False"
  by (auto simp: type_is_def ace_type_allow_set_def ace_type_deny_set_def)

lemma edit_matches_mask [simp]: "edit_matches k sid r allow (ace\<lparr>ace_mask := m\<rparr>) = edit_matches k sid r allow ace"
  by (simp add: edit_matches_def trustee_is_def type_is_def ace_object_present_def ace_inherited_object_present_def)

text \<open>A right is set by an entry that an edit of it would consider and whose mask has its bits.\<close>

definition sets_right :: "sec_api \<Rightarrow> dom_sid \<Rightarrow> SecurityRight \<Rightarrow> bool \<Rightarrow> security_ace \<Rightarrow> bool" where
  "sets_right k sid r allow ace = (bitmask_is_set (ace_mask ace) (right_mask k r) \<and> edit_matches k sid r allow ace)"

definition right_set :: "sec_api \<Rightarrow> dom_sid \<Rightarrow> SecurityRight \<Rightarrow> bool \<Rightarrow> security_ace list \<Rightarrow> bool" where
  "right_set k sid r allow dacl = (\<exists>ace \<in> set dacl. sets_right k sid r allow ace)"

abbreviation no_object :: "SecurityRight \<Rightarrow> SecurityRight" where
  "no_object r \<equiv> r\<lparr>object_type := []\<rparr>"

lemma flags_set_iff: "flags_set f b \<longleftrightarrow> f AND b = b"
proof -
  have "bit b n \<Longrightarrow> n < 32" for n using bit_imp_le_length [of b n] by simp
  then show ?thesis unfolding flags_set_def bitmask_is_set_def
    by (auto simp: mask_subset_iff bit_simps)
qed

lemma and_or_part: "f AND (c OR i) = c OR i \<Longrightarrow> f AND i = i" for f c i :: "'a::len word"
  by (metis and.assoc word_and_or_cancel)

lemma not_inherited_flags:
  assumes "f AND i = 0" and "(i :: byte) \<noteq> 0"
  shows "\<not> flags_set f i" and "\<not> flags_set f (c OR i)"
proof -
  show "\<not> flags_set f i" using assms by (simp add: flags_set_iff)
  show "\<not> flags_set f (c OR i)"
  proof
    assume "flags_set f (c OR i)"
    then have "f AND (c OR i) = c OR i" by (simp add: flags_set_iff)
    then have "f AND i = i" by (rule and_or_part)
    then show False using assms by simp
  qed
qed

lemma documented_inherited: "documented_flags k \<Longrightarrow> SEC_ACE_FLAG_INHERITED_ACE k \<noteq> 0"
  by (simp add: documented_flags_def)

lemma right_ok_flags:
  assumes "right_ok k r" and "documented_flags k"
  shows "\<not> flags_set (right_flags r) (SEC_ACE_FLAG_INHERITED_ACE k)"
    and "\<not> flags_set (right_flags r) (SEC_ACE_FLAG_CONTAINER_INHERIT k OR SEC_ACE_FLAG_INHERITED_ACE k)"
  using assms not_inherited_flags documented_inherited by (auto simp: right_ok_def)

text \<open>The rights an entry can be edited for have one object, one inherited object and one set of flags.\<close>

lemma edit_matches_unique:
  assumes "edit_matches k sid r allow ace" and "edit_matches k sid' r' allow' ace"
    and "right_ok k r" and "right_ok k r'" and "documented_flags k"
  shows "allow = allow' \<and> object_type r = object_type r' \<and> inherited_object_type r = inherited_object_type r'
    \<and> right_flags r = right_flags r'"
proof -
  have "allow = allow'" using assms(1,2) type_is_exclusive unfolding edit_matches_def by (cases allow; cases allow') auto
  then show ?thesis using assms right_ok_flags(2) by (auto simp: edit_matches_def split: if_splits)
qed

section \<open>The state of a right\<close>

lemma read_state_fold:
  assumes "trustee_ok t"
  shows "\<exists>st'. fold_faulty (read_ace_state k t r) dacl st = Inr st' \<and>
    (\<forall>i ty. st' i ty \<longleftrightarrow> st i ty \<or> (\<exists>ace \<in> set dacl. bitmask_to_inherited_state k ace = i
        \<and> bitmask_is_set (ace_mask ace) (right_mask k r)
        \<and> read_matches k (dom_sid_image t) r (ty = SecurityRightStateType_Allow) ace))"
proof (induction dacl arbitrary: st)
  case Nil
  then show ?case by simp
next
  case (Cons ace dacl)
  have excl: "\<not> (read_matches k (dom_sid_image t) r True ace \<and> read_matches k (dom_sid_image t) r False ace)"
    using type_is_exclusive by (auto simp: read_matches_def Let_def)
  let ?m = "bitmask_is_set (ace_mask ace) (right_mask k r)"
  let ?st = "if ?m \<and> read_matches k (dom_sid_image t) r True ace
      then right_state_set (bitmask_to_inherited_state k ace) SecurityRightStateType_Allow st
      else if ?m \<and> read_matches k (dom_sid_image t) r False ace
      then right_state_set (bitmask_to_inherited_state k ace) SecurityRightStateType_Deny st else st"
  have one: "read_ace_state k t r ace st = Inr ?st"
    using assms by (auto simp: read_ace_state_def read_match_eq)
  from Cons [of ?st] obtain st' where st': "fold_faulty (read_ace_state k t r) dacl ?st = Inr st'"
    "\<forall>i ty. st' i ty \<longleftrightarrow> ?st i ty \<or> (\<exists>ace \<in> set dacl. bitmask_to_inherited_state k ace = i
        \<and> bitmask_is_set (ace_mask ace) (right_mask k r)
        \<and> read_matches k (dom_sid_image t) r (ty = SecurityRightStateType_Allow) ace)"
    by (elim exE conjE)
  have step: "?st i ty \<longleftrightarrow> st i ty \<or> (bitmask_to_inherited_state k ace = i \<and> ?m
        \<and> read_matches k (dom_sid_image t) r (ty = SecurityRightStateType_Allow) ace)" for i ty
    using excl by (cases ty) (auto simp: right_state_set_def)
  show ?case
  proof (intro exI conjI allI)
    show "fold_faulty (read_ace_state k t r) (ace # dacl) st = Inr st'"
      by (simp only: fold_faulty.simps one bind_faulty_Inr st'(1))
  next
    fix i ty
    show "st' i ty \<longleftrightarrow> st i ty \<or> (\<exists>a \<in> set (ace # dacl). bitmask_to_inherited_state k a = i
        \<and> bitmask_is_set (ace_mask a) (right_mask k r)
        \<and> read_matches k (dom_sid_image t) r (ty = SecurityRightStateType_Allow) a)"
      unfolding st'(2) [rule_format, of i ty] step by (simp only: list.set bex_simps disj_assoc)
  qed
qed

lemma get_right_state_eq:
  assumes "trustee_ok t" and "sd_dacl sd = Some dacl"
  shows "\<exists>st. security_descriptor_get_right_state k sd t r = Inr st \<and>
    (\<forall>i ty. st i ty \<longleftrightarrow> (\<exists>ace \<in> set dacl. bitmask_to_inherited_state k ace = i
        \<and> bitmask_is_set (ace_mask ace) (right_mask k r)
        \<and> read_matches k (dom_sid_image t) r (ty = SecurityRightStateType_Allow) ace))"
  using read_state_fold [OF assms(1), of k r dacl "\<lambda>_ _. False"] assms(2)
  by (simp add: security_descriptor_get_right_state_def security_descriptor_get_dacl_def)

definition allow_type :: "bool \<Rightarrow> right_type" where
  "allow_type allow = (if allow then SecurityRightStateType_Allow else SecurityRightStateType_Deny)"

lemma allow_type_eq [simp]: "(allow_type allow = SecurityRightStateType_Allow) = allow"
  by (simp add: allow_type_def)

text \<open>The own state of a right: from the entries for its object and from those for every object.\<close>

lemma own_state:
  assumes "trustee_ok t" and "sd_dacl sd = Some dacl" and "right_ok k r" and "documented_flags k"
    and "security_descriptor_get_right_state k sd t r = Inr st"
  shows "right_set k (dom_sid_image t) r allow dacl \<Longrightarrow> st SecurityRightStateInherited_No (allow_type allow)"
    and "st SecurityRightStateInherited_No (allow_type allow) \<Longrightarrow>
      right_set k (dom_sid_image t) r allow dacl \<or> right_set k (dom_sid_image t) (no_object r) allow dacl"
proof -
  have iff: "st SecurityRightStateInherited_No (allow_type allow) \<longleftrightarrow>
      (\<exists>ace \<in> set dacl. bitmask_to_inherited_state k ace = SecurityRightStateInherited_No
        \<and> bitmask_is_set (ace_mask ace) (right_mask k r)
        \<and> read_matches k (dom_sid_image t) r allow ace)"
    using get_right_state_eq [OF assms(1,2), of k r] assms(5) by auto
  note flags = right_ok_flags [OF assms(3,4)]
  { assume "right_set k (dom_sid_image t) r allow dacl"
    then show "st SecurityRightStateInherited_No (allow_type allow)"
      using flags unfolding iff right_set_def sets_right_def edit_matches_def
      by (auto simp: bitmask_to_inherited_state_def read_matches_def Let_def split: if_splits intro!: bexI) }
  assume "st SecurityRightStateInherited_No (allow_type allow)"
  then obtain ace where ace: "ace \<in> set dacl" "\<not> flags_set (ace_flags ace) (SEC_ACE_FLAG_INHERITED_ACE k)"
      "bitmask_is_set (ace_mask ace) (right_mask k r)" "read_matches k (dom_sid_image t) r allow ace"
    unfolding iff by (auto simp: bitmask_to_inherited_state_def split: if_splits)
  have "\<not> flags_set (ace_flags ace) (SEC_ACE_FLAG_CONTAINER_INHERIT k OR SEC_ACE_FLAG_INHERITED_ACE k)"
    using ace(2) and_or_part unfolding flags_set_iff by blast
  then have "sets_right k (dom_sid_image t) r allow ace \<or> sets_right k (dom_sid_image t) (no_object r) allow ace"
    using ace(3,4) by (auto simp: sets_right_def edit_matches_def read_matches_def right_mask_def Let_def split: if_splits)
  then show "right_set k (dom_sid_image t) r allow dacl \<or> right_set k (dom_sid_image t) (no_object r) allow dacl"
    using ace(1) by (auto simp: right_set_def)
qed

section \<open>Adding and removing a right\<close>

lemma replace_dacl_eq:
  "sd_dacl (ad_security_replace_dacl sd aces) = (if aces = [] then None else Some aces)"
proof -
  have "sd_dacl (fold (\<lambda>ace sd. security_descriptor_dacl_add sd ace) aces sd) =
      (if aces = [] then sd_dacl sd else Some ((case sd_dacl sd of None \<Rightarrow> [] | Some old \<Rightarrow> old) @ aces))" for sd
    by (induction aces arbitrary: sd) (auto simp: security_descriptor_dacl_add_def)
  then show ?thesis by (simp add: ad_security_replace_dacl_def)
qed

lemma match_dacl_index_from_eq:
  assumes "trustee_ok t"
  shows "\<exists>res. match_dacl_index_from k t (int n) dacl r allow = Inr res \<and>
    (res = -1 \<and> (\<forall>ace \<in> set dacl. \<not> edit_matches k (dom_sid_image t) r allow ace)
     \<or> (\<exists>i < length dacl. res = int (n + i) \<and> edit_matches k (dom_sid_image t) r allow (dacl ! i)))"
proof (induction dacl arbitrary: n)
  case Nil
  then show ?case by simp
next
  case (Cons ace dacl)
  show ?case
  proof (cases "edit_matches k (dom_sid_image t) r allow ace")
    case True
    then show ?thesis by (intro exI [of _ "int n"]) (auto simp: edit_match_eq [OF assms] intro!: exI [of _ 0])
  next
    case False
    from Cons [of "Suc n"] obtain res where res:
      "match_dacl_index_from k t (int (Suc n)) dacl r allow = Inr res"
      "res = -1 \<and> (\<forall>ace \<in> set dacl. \<not> edit_matches k (dom_sid_image t) r allow ace)
       \<or> (\<exists>i < length dacl. res = int (Suc n + i) \<and> edit_matches k (dom_sid_image t) r allow (dacl ! i))"
      by blast
    have "match_dacl_index_from k t (int n) (ace # dacl) r allow = Inr res"
      using False res(1) by (simp add: edit_match_eq [OF assms] add.commute)
    moreover have "\<exists>i < length (ace # dacl). res = int (n + i) \<and> edit_matches k (dom_sid_image t) r allow ((ace # dacl) ! i)"
      if "i < length dacl" "res = int (Suc n + i)" "edit_matches k (dom_sid_image t) r allow (dacl ! i)" for i
      using that by (intro exI [of _ "Suc i"]) simp
    ultimately show ?thesis using res(2) False by auto
  qed
qed

text \<open>An entry for an object has the bytes of a GUID.\<close>

definition guid_ok :: "sec_api \<Rightarrow> security_ace \<Rightarrow> bool" where
  "guid_ok k ace = (ace_object_present k ace \<longrightarrow> object_type_guid ace \<noteq> [])"

lemma guid_ok_mask [simp]: "guid_ok k (ace\<lparr>ace_mask := m\<rparr>) = guid_ok k ace"
  by (simp add: guid_ok_def ace_object_present_def)

lemma make_ace_eq:
  assumes "trustee_ok t" and "right_ok k r" and "documented_flags k"
  shows "\<exists>ace. make_security_ace k t r m allow = Inr ace \<and> ace_mask ace = m
    \<and> edit_matches k (dom_sid_image t) r allow ace \<and> guid_ok k ace"
  using assms
  by (auto simp: make_security_ace_def bytes_to_guid_def dom_sid_from_bytes_ok right_ok_def edit_matches_def
      trustee_is_def type_is_def get_security_ace_type_def ace_type_allow_set_def ace_type_deny_set_def
      ace_object_present_def ace_inherited_object_present_def ace_types_with_object_def Let_def
      get_security_ace_object_flags_def documented_flags_def bitmask_is_set_def guid_ok_def)

lemma or_absorbed: "m AND a = a \<Longrightarrow> m OR a = m" for m a :: "'a::len word"
  by (metis word_ao_absorbs(6))

lemma ace_mask_same: "ace\<lparr>ace_mask := ace_mask ace\<rparr> = ace" for ace :: security_ace
  by (cases ace) simp

text \<open>The list after adding a right: an entry that can be edited gets the bits, or one is appended.\<close>

definition added_to :: "sec_api \<Rightarrow> dom_sid \<Rightarrow> SecurityRight \<Rightarrow> bool \<Rightarrow> security_ace list \<Rightarrow> security_ace list \<Rightarrow> bool" where
  "added_to k sid r allow dacl dacl' =
     ((\<exists>i < length dacl. edit_matches k sid r allow (dacl ! i)
        \<and> dacl' = dacl[i := (dacl ! i)\<lparr>ace_mask := ace_mask (dacl ! i) OR right_mask k r\<rparr>])
      \<or> (\<exists>ace. dacl' = dacl @ [ace] \<and> ace_mask ace = right_mask k r \<and> edit_matches k sid r allow ace
           \<and> guid_ok k ace))"

lemma add_right_base_eq:
  assumes "trustee_ok t" and "right_ok k r" and "documented_flags k" and "sd_dacl sd = Some dacl"
  shows "\<exists>sd' dacl'. security_descriptor_add_right_base k t r allow sd = Inr sd' \<and> sd_dacl sd' = Some dacl'
    \<and> added_to k (dom_sid_image t) r allow dacl dacl'"
proof -
  have get: "security_descriptor_get_dacl sd = Inr dacl" using assms(4) by (simp add: security_descriptor_get_dacl_def)
  obtain res where res: "match_dacl_index k t dacl r allow = Inr res"
    "res = -1 \<and> (\<forall>ace \<in> set dacl. \<not> edit_matches k (dom_sid_image t) r allow ace)
       \<or> (\<exists>i < length dacl. res = int i \<and> edit_matches k (dom_sid_image t) r allow (dacl ! i))"
    using match_dacl_index_from_eq [OF assms(1), of k 0 dacl r allow] by (auto simp: match_dacl_index_def)
  from res(2) show ?thesis
  proof
    assume none: "res = -1 \<and> (\<forall>ace \<in> set dacl. \<not> edit_matches k (dom_sid_image t) r allow ace)"
    obtain ace where "make_security_ace k t r (right_mask k r) allow = Inr ace" "ace_mask ace = right_mask k r"
      "edit_matches k (dom_sid_image t) r allow ace" "guid_ok k ace"
      using make_ace_eq [OF assms(1-3)] by blast
    then show ?thesis using none res(1) get assms(4)
      by (auto simp: security_descriptor_add_right_base_def security_descriptor_dacl_add_def right_mask_def
          added_to_def Let_def)
  next
    assume "\<exists>i < length dacl. res = int i \<and> edit_matches k (dom_sid_image t) r allow (dacl ! i)"
    then obtain i where i: "i < length dacl" "res = int i" "edit_matches k (dom_sid_image t) r allow (dacl ! i)" by blast
    let ?new = "dacl[i := (dacl ! i)\<lparr>ace_mask := ace_mask (dacl ! i) OR right_mask k r\<rparr>]"
    have same: "?new = dacl" if "are_rights_already_set dacl i (right_mask k r)"
    proof -
      have "ace_mask (dacl ! i) OR right_mask k r = ace_mask (dacl ! i)"
        using that unfolding are_rights_already_set_def bitmask_is_set_def by (rule or_absorbed)
      then have "(dacl ! i)\<lparr>ace_mask := ace_mask (dacl ! i) OR right_mask k r\<rparr> = dacl ! i"
        by (simp only: ace_mask_same)
      then show ?thesis by (simp only: list_update_id)
    qed
    let ?sd = "if are_rights_already_set dacl i (right_mask k r) then sd else sd\<lparr>sd_dacl := Some ?new\<rparr>"
    have run: "security_descriptor_add_right_base k t r allow sd = Inr ?sd"
      using get res(1) i(2)
      by (simp add: security_descriptor_add_right_base_def right_mask_def [symmetric] bitmask_set_def Let_def)
    have "sd_dacl ?sd = Some ?new" using assms(4) same by simp
    moreover have "added_to k (dom_sid_image t) r allow dacl ?new" using i unfolding added_to_def by blast
    ultimately show ?thesis using run by blast
  qed
qed

text \<open>The list after removing a right.\<close>

definition removed_from :: "sec_api \<Rightarrow> dom_sid \<Rightarrow> SecurityRight \<Rightarrow> bool \<Rightarrow> security_ace list \<Rightarrow> security_ace list" where
  "removed_from k sid r allow dacl =
     List.map_filter (\<lambda>ace. if sets_right k sid r allow ace
       then (let edited = ace_unset_mask k ace (right_mask k r) in if ace_mask edited = 0 then None else Some edited)
       else Some ace) dacl"

lemma remove_right_base_eq:
  assumes "trustee_ok t" and "sd_dacl sd = Some dacl"
  shows "\<exists>sd'. security_descriptor_remove_right_base k t r allow sd = Inr sd' \<and>
    sd_dacl sd' = (let dacl' = removed_from k (dom_sid_image t) r allow dacl in if dacl' = [] then None else Some dacl')"
proof -
  have "remove_from_aces k t r allow (right_mask k r) dacl = Inr (removed_from k (dom_sid_image t) r allow dacl)"
    by (induction dacl) (auto simp: edit_match_eq [OF assms(1)] removed_from_def sets_right_def map_filter_simps Let_def)
  then have "remove_access_rights k sd t r allow = Inr (removed_from k (dom_sid_image t) r allow dacl)"
    using assms(2) by (simp add: remove_access_rights_def security_descriptor_get_dacl_def right_mask_def)
  then show ?thesis by (simp add: security_descriptor_remove_right_base_def replace_dacl_eq)
qed

subsection \<open>What the edits change\<close>

text \<open>The bits that removing a right clears are some of its own: not all of them stay.\<close>

lemma unset_mask_bits:
  assumes "documented_masks k" and "access_mask r \<noteq> 0"
  shows "right_mask k r AND get_mask_to_unset k ace (right_mask k r) \<noteq> 0"
proof -
  have ne: "right_mask k r \<noteq> 0"
    using assms by (auto simp: right_mask_def ad_security_map_access_mask_def GENERIC_READ_FIXED_def documented_masks_def)
  have "right_mask k r AND (right_mask k r AND NOT (SEC_STD_READ_CONTROL k)) \<noteq> 0"
    if "right_mask k r \<in> {GENERIC_READ_FIXED k, SEC_ADS_GENERIC_WRITE k}"
    using that assms(1) by (auto simp: GENERIC_READ_FIXED_def documented_masks_def)
  then show ?thesis using ne
    by (auto simp: get_mask_to_unset_def Let_def split: option.splits if_splits)
qed

lemma unset_not_set:
  assumes "documented_masks k" and "access_mask r \<noteq> 0"
  shows "\<not> bitmask_is_set (ace_mask (ace_unset_mask k ace (right_mask k r))) (right_mask k r)"
proof
  let ?m = "right_mask k r" and ?u = "get_mask_to_unset k ace (right_mask k r)"
  assume "bitmask_is_set (ace_mask (ace_unset_mask k ace ?m)) ?m"
  then have "(ace_mask ace AND NOT ?u) AND ?m = ?m"
    by (simp add: bitmask_is_set_def ace_unset_mask_def bitmask_set_def)
  then have "?m AND ?u = ((ace_mask ace AND NOT ?u) AND ?m) AND ?u" by simp
  also have "\<dots> = 0" by (rule bit_word_eqI) (auto simp: bit_simps)
  finally show False using unset_mask_bits [OF assms] by simp
qed

lemma bitmask_is_set_trans: "bitmask_is_set (m AND n) j \<Longrightarrow> bitmask_is_set m j"
  by (auto simp: bitmask_is_set_def mask_subset_iff bit_and_iff)

lemma bitmask_is_set_mono: "bitmask_is_set m j \<Longrightarrow> bitmask_is_set (m OR n) j"
  by (auto simp: bitmask_is_set_def mask_subset_iff bit_or_iff)

lemma set_map_filter: "y \<in> set (List.map_filter f xs) \<longleftrightarrow> (\<exists>x \<in> set xs. f x = Some y)"
  by (induction xs) (auto simp: map_filter_simps split: option.splits)

lemma unset_edit_matches [simp]:
  "edit_matches k sid r' al' (ace_unset_mask k ace m) = edit_matches k sid r' al' ace"
  by (simp add: ace_unset_mask_def)

lemma removed_member:
  "ace' \<in> set (removed_from k sid r allow dacl) \<Longrightarrow>
    \<exists>ace \<in> set dacl. (\<not> sets_right k sid r allow ace \<and> ace' = ace)
      \<or> (sets_right k sid r allow ace \<and> ace' = ace_unset_mask k ace (right_mask k r))"
  unfolding removed_from_def set_map_filter by (auto simp: Let_def split: if_splits)

lemma removed_right_set:
  "right_set k sid' r' allow' (removed_from k sid r allow dacl) \<Longrightarrow> right_set k sid' r' allow' dacl"
proof -
  assume "right_set k sid' r' allow' (removed_from k sid r allow dacl)"
  then obtain ace' where ace': "ace' \<in> set (removed_from k sid r allow dacl)" "sets_right k sid' r' allow' ace'"
    by (auto simp: right_set_def)
  obtain ace where ace: "ace \<in> set dacl" "ace' = ace \<or> ace' = ace_unset_mask k ace (right_mask k r)"
    using removed_member [OF ace'(1)] by blast
  have "sets_right k sid' r' allow' ace"
    using ace(2) ace'(2) bitmask_is_set_trans
    by (auto simp: sets_right_def ace_unset_mask_def bitmask_set_def)
  then show ?thesis using ace(1) by (auto simp: right_set_def)
qed

lemma removed_not_set:
  assumes "documented_masks k" and "access_mask r \<noteq> 0"
  shows "\<not> right_set k sid r allow (removed_from k sid r allow dacl)"
proof
  assume "right_set k sid r allow (removed_from k sid r allow dacl)"
  then obtain ace' where ace': "ace' \<in> set (removed_from k sid r allow dacl)" "sets_right k sid r allow ace'"
    by (auto simp: right_set_def)
  from removed_member [OF ace'(1)] ace'(2) show False
    using unset_not_set [OF assms] by (auto simp: sets_right_def)
qed

text \<open>Entries no edit for the trustee touches: those of another trustee and the inherited ones.\<close>

definition untouched :: "sec_api \<Rightarrow> dom_sid \<Rightarrow> security_ace \<Rightarrow> bool" where
  "untouched k sid ace = (\<not> trustee_is sid ace \<or> flags_set (ace_flags ace) (SEC_ACE_FLAG_INHERITED_ACE k))"

lemma edit_matches_touched:
  "edit_matches k sid r allow ace \<Longrightarrow> right_ok k r \<Longrightarrow> documented_flags k \<Longrightarrow> \<not> untouched k sid ace"
  using right_ok_flags(1) by (auto simp: edit_matches_def untouched_def)

lemma untouched_mask [simp]: "untouched k sid (ace\<lparr>ace_mask := m\<rparr>) = untouched k sid ace"
  by (simp add: untouched_def trustee_is_def)

lemma removed_untouched:
  assumes "right_ok k r" and "documented_flags k"
  shows "filter (untouched k sid) (removed_from k sid r allow dacl) = filter (untouched k sid) dacl"
proof (induction dacl)
  case Nil
  then show ?case by (simp add: removed_from_def map_filter_simps)
next
  case (Cons ace dacl)
  have "sets_right k sid r allow ace \<Longrightarrow> \<not> untouched k sid ace"
    using edit_matches_touched assms by (auto simp: sets_right_def)
  then show ?case using Cons
    by (auto simp: removed_from_def map_filter_simps Let_def ace_unset_mask_def)
qed

lemma added_untouched:
  assumes "added_to k sid r allow dacl dacl'" and "right_ok k r" and "documented_flags k"
  shows "filter (untouched k sid) dacl' = filter (untouched k sid) dacl"
proof -
  have nth: "filter P (xs[i := x]) = filter P xs" if "i < length xs" "\<not> P x" "\<not> P (xs ! i)" for P x i and xs :: "security_ace list"
    using that by (simp add: upd_conv_take_nth_drop) (metis append_take_drop_id filter_append filter.simps(2) Cons_nth_drop_Suc)
  show ?thesis using assms edit_matches_touched nth unfolding added_to_def by auto
qed

text \<open>Adding a right sets it, and no right but those for the same object and flags.\<close>

definition same_entry :: "SecurityRight \<Rightarrow> SecurityRight \<Rightarrow> bool" where
  "same_entry r r' = (object_type r = object_type r' \<and> inherited_object_type r = inherited_object_type r'
     \<and> right_flags r = right_flags r')"

lemma added_right_set:
  assumes "added_to k sid r allow dacl dacl'"
  shows "right_set k sid r allow dacl'"
  using assms unfolding added_to_def
proof
  assume "\<exists>i < length dacl. edit_matches k sid r allow (dacl ! i)
      \<and> dacl' = dacl[i := (dacl ! i)\<lparr>ace_mask := ace_mask (dacl ! i) OR right_mask k r\<rparr>]"
  then obtain i where i: "i < length dacl" "edit_matches k sid r allow (dacl ! i)"
    "dacl' = dacl[i := (dacl ! i)\<lparr>ace_mask := ace_mask (dacl ! i) OR right_mask k r\<rparr>]" by blast
  let ?ace = "(dacl ! i)\<lparr>ace_mask := ace_mask (dacl ! i) OR right_mask k r\<rparr>"
  have "?ace \<in> set dacl'" using i by (simp add: set_update_memI)
  moreover have "sets_right k sid r allow ?ace"
    using i(2) by (simp add: sets_right_def bitmask_is_set_def word_and_or_cancel)
  ultimately show ?thesis unfolding right_set_def by blast
next
  assume "\<exists>ace. dacl' = dacl @ [ace] \<and> ace_mask ace = right_mask k r \<and> edit_matches k sid r allow ace
      \<and> guid_ok k ace"
  then show ?thesis by (auto simp: right_set_def sets_right_def bitmask_is_set_def)
qed

lemma added_right_set_other:
  assumes "added_to k sid r allow dacl dacl'" and "right_set k sid r' allow' dacl'"
    and "right_ok k r" and "right_ok k r'" and "documented_flags k"
    and "\<not> (allow = allow' \<and> same_entry r r')"
  shows "right_set k sid r' allow' dacl"
proof -
  have other: "\<not> edit_matches k sid r' allow' ace" if "edit_matches k sid r allow ace" for ace
    using edit_matches_unique [OF that _ assms(3,4,5)] assms(6) by (auto simp: same_entry_def)
  obtain ace where ace: "ace \<in> set dacl'" "sets_right k sid r' allow' ace"
    using assms(2) by (auto simp: right_set_def)
  then have em: "\<not> edit_matches k sid r allow ace" using other by (auto simp: sets_right_def)
  have "ace \<in> set dacl"
    using assms(1) ace(1) em unfolding added_to_def
    by (auto dest!: set_update_subset_insert [THEN subsetD])
  then show ?thesis using ace(2) by (auto simp: right_set_def)
qed

lemma added_right_set_mono:
  assumes "added_to k sid r allow dacl dacl'" and "right_set k sid' r' allow' dacl"
  shows "right_set k sid' r' allow' dacl'"
proof -
  obtain n where n: "n < length dacl" "sets_right k sid' r' allow' (dacl ! n)"
    using assms(2) by (auto simp: right_set_def in_set_conv_nth)
  from assms(1) show ?thesis unfolding added_to_def
  proof
    assume "\<exists>i < length dacl. edit_matches k sid r allow (dacl ! i)
        \<and> dacl' = dacl[i := (dacl ! i)\<lparr>ace_mask := ace_mask (dacl ! i) OR right_mask k r\<rparr>]"
    then obtain i where i: "i < length dacl"
      "dacl' = dacl[i := (dacl ! i)\<lparr>ace_mask := ace_mask (dacl ! i) OR right_mask k r\<rparr>]" by blast
    have "sets_right k sid' r' allow' (dacl' ! n)"
      using n i by (cases "i = n") (auto simp: sets_right_def bitmask_is_set_mono)
    moreover have "dacl' ! n \<in> set dacl'" using n(1) i(2) by simp
    ultimately show ?thesis unfolding right_set_def by blast
  next
    assume "\<exists>ace. dacl' = dacl @ [ace] \<and> ace_mask ace = right_mask k r \<and> edit_matches k sid r allow ace
        \<and> guid_ok k ace"
    then show ?thesis using assms(2) by (auto simp: right_set_def)
  qed
qed

section \<open>Sequences of edits\<close>

datatype dacl_edit_op = Add_right SecurityRight bool | Remove_right SecurityRight bool

fun run_edit :: "sec_api \<Rightarrow> bytes \<Rightarrow> dacl_edit_op \<Rightarrow> security_descriptor \<Rightarrow> security_descriptor faulty" where
  "run_edit k t (Add_right r allow) = security_descriptor_add_right_base k t r allow"
| "run_edit k t (Remove_right r allow) = security_descriptor_remove_right_base k t r allow"

fun edited_right :: "dacl_edit_op \<Rightarrow> SecurityRight" where
  "edited_right (Add_right r allow) = r"
| "edited_right (Remove_right r allow) = r"

definition valid_edit :: "sec_api \<Rightarrow> bytes \<Rightarrow> dacl_edit_op \<Rightarrow> bool" where
  "valid_edit k t e = (trustee_ok t \<and> documented_flags k \<and> right_ok k (edited_right e))"

text \<open>
  The contract: an edit of a DACL with an entry it keeps returns, and keeps all of those entries in
  their order.
\<close>

locale dacl_edit =
  fixes valid :: "'e \<Rightarrow> bool"
    and run :: "'e \<Rightarrow> security_descriptor \<Rightarrow> security_descriptor faulty"
    and kept :: "security_ace \<Rightarrow> bool"
  assumes run_keeps: "valid e \<Longrightarrow> sd_dacl sd = Some dacl \<Longrightarrow> \<exists>a \<in> set dacl. kept a \<Longrightarrow>
    \<exists>sd' dacl'. run e sd = Inr sd' \<and> sd_dacl sd' = Some dacl' \<and> filter kept dacl' = filter kept dacl"
begin

lemma run_all_keeps:
  "\<forall>e \<in> set es. valid e \<Longrightarrow> sd_dacl sd = Some dacl \<Longrightarrow> \<exists>a \<in> set dacl. kept a \<Longrightarrow>
    \<exists>sd' dacl'. fold_faulty run es sd = Inr sd' \<and> sd_dacl sd' = Some dacl' \<and> filter kept dacl' = filter kept dacl"
proof (induction es arbitrary: sd dacl)
  case Nil
  then show ?case by auto
next
  case (Cons e es)
  then obtain sd1 d1 where one: "run e sd = Inr sd1" "sd_dacl sd1 = Some d1" "filter kept d1 = filter kept dacl"
    using run_keeps [of e sd dacl] by auto
  have "\<exists>a \<in> set d1. kept a"
    using Cons.prems(3) one(3) by (metis empty_filter_conv)
  then obtain sd2 d2 where "fold_faulty run es sd1 = Inr sd2" "sd_dacl sd2 = Some d2" "filter kept d2 = filter kept d1"
    using Cons one by (metis list.set_intros(2))
  then show ?case using one by auto
qed

end

lemma run_edit_keeps:
  assumes "valid_edit k t e" and "sd_dacl sd = Some dacl" and "\<exists>a \<in> set dacl. untouched k (dom_sid_image t) a"
  shows "\<exists>sd' dacl'. run_edit k t e sd = Inr sd' \<and> sd_dacl sd' = Some dacl'
    \<and> filter (untouched k (dom_sid_image t)) dacl' = filter (untouched k (dom_sid_image t)) dacl"
proof (cases e)
  case (Add_right r allow)
  then show ?thesis
    using add_right_base_eq [of t k r sd dacl allow] added_untouched assms by (fastforce simp: valid_edit_def)
next
  case (Remove_right r allow)
  let ?d = "removed_from k (dom_sid_image t) r allow dacl"
  have keep: "filter (untouched k (dom_sid_image t)) ?d = filter (untouched k (dom_sid_image t)) dacl"
    using assms(1) Remove_right by (intro removed_untouched) (auto simp: valid_edit_def)
  then have "?d \<noteq> []" using assms(3) by (metis empty_filter_conv filter.simps(1))
  then show ?thesis
    using remove_right_base_eq [of t sd dacl k r allow] keep assms Remove_right by (auto simp: valid_edit_def Let_def)
qed

interpretation base_edit: dacl_edit "valid_edit k t" "run_edit k t" "untouched k (dom_sid_image t)" for k t
  by unfold_locales (rule run_edit_keeps)

section \<open>Concrete values\<close>

text \<open>The documented constants, a stable insertion sort for \<open>qsort\<close>, and two identifiers.\<close>

fun insert_by :: "('a \<Rightarrow> 'a \<Rightarrow> int) \<Rightarrow> 'a \<Rightarrow> 'a list \<Rightarrow> 'a list" where
  "insert_by cmp x [] = [x]"
| "insert_by cmp x (y # ys) = (if cmp x y \<le> 0 then x # y # ys else y # insert_by cmp x ys)"

definition insertion_sort :: "('a \<Rightarrow> 'a \<Rightarrow> int) \<Rightarrow> 'a list \<Rightarrow> 'a list" where
  "insertion_sort cmp xs = foldr (insert_by cmp) xs []"

fun type_number :: "security_ace_type \<Rightarrow> nat" where
  "type_number SEC_ACE_TYPE_ACCESS_ALLOWED = 0"
| "type_number SEC_ACE_TYPE_ACCESS_DENIED = 1"
| "type_number SEC_ACE_TYPE_SYSTEM_AUDIT = 2"
| "type_number SEC_ACE_TYPE_SYSTEM_ALARM = 3"
| "type_number SEC_ACE_TYPE_ALLOWED_COMPOUND = 4"
| "type_number SEC_ACE_TYPE_ACCESS_ALLOWED_OBJECT = 5"
| "type_number SEC_ACE_TYPE_ACCESS_DENIED_OBJECT = 6"
| "type_number SEC_ACE_TYPE_SYSTEM_AUDIT_OBJECT = 7"
| "type_number SEC_ACE_TYPE_SYSTEM_ALARM_OBJECT = 8"

definition example_sid :: "byte \<Rightarrow> dom_sid" where
  "example_sid auth = \<lparr>sid_rev_num = 1, num_auths = 1, id_auth = [0, 0, 0, 0, 0, auth], sub_auths = replicate 15 0\<rparr>"

definition example_api :: sec_api where
  "example_api = \<lparr>SEC_ADS_GENERIC_ALL = 0xF01FF, SEC_ADS_GENERIC_READ = 0x20094, SEC_ADS_GENERIC_WRITE = 0x20028,
     SEC_ADS_CREATE_CHILD = 0x1, SEC_ADS_DELETE_CHILD = 0x2, SEC_ADS_LIST = 0x4, SEC_ADS_SELF_WRITE = 0x8,
     SEC_ADS_READ_PROP = 0x10, SEC_ADS_WRITE_PROP = 0x20, SEC_ADS_DELETE_TREE = 0x40, SEC_ADS_LIST_OBJECT = 0x80,
     SEC_ADS_CONTROL_ACCESS = 0x100, SEC_STD_DELETE = 0x10000, SEC_STD_READ_CONTROL = 0x20000,
     SEC_STD_WRITE_DAC = 0x40000, SEC_STD_WRITE_OWNER = 0x80000,
     SEC_ACE_FLAG_CONTAINER_INHERIT = 0x2, SEC_ACE_FLAG_INHERIT_ONLY = 0x8, SEC_ACE_FLAG_INHERITED_ACE = 0x10,
     SEC_ACE_OBJECT_TYPE_PRESENT = 1, SEC_ACE_INHERITED_OBJECT_TYPE_PRESENT = 2,
     SID_WORLD = ''S-1-1-0'', SID_NT_SELF = ''S-1-5-10'',
     sid_string_to_bytes = (\<lambda>s. dom_sid_to_bytes (example_sid (if s = ''S-1-1-0'' then 1 else 5))),
     ace_type_value = type_number, ace_memcmp = (\<lambda>a b. 0), ace_qsort = insertion_sort,
     uninitialised_guid = replicate 16 0, uninitialised_size = 0\<rparr>"

lemma example_documented [simp]: "documented_masks example_api" "documented_flags example_api"
  by (simp_all add: documented_masks_def documented_flags_def example_api_def)

definition example_ace :: "byte \<Rightarrow> security_ace_type \<Rightarrow> mask \<Rightarrow> security_ace" where
  "example_ace auth type m = \<lparr>ace_type = type, ace_flags = 0, ace_size = 0, ace_mask = m, object_flags = 0,
     object_type_guid = [], inherited_type_guid = [], ace_trustee = example_sid auth\<rparr>"

definition plain_right :: "mask \<Rightarrow> SecurityRight" where
  "plain_right m = \<lparr>access_mask = m, object_type = [], inherited_object_type = [], right_flags = 0\<rparr>"

lemma right_ok_plain: "m \<noteq> 0 \<Longrightarrow> right_ok k (plain_right m)"
  by (simp add: right_ok_def plain_right_def)

lemma concat_word_bytes: "length (concat (map word_bytes ws)) = 4 * length ws"
  by (induction ws) (auto simp: word_bytes_def)

lemma length_dom_sid_to_bytes: "dom_sid_ok sid \<Longrightarrow> length (dom_sid_to_bytes sid) = sizeof_dom_sid"
  by (simp add: dom_sid_ok_def dom_sid_to_bytes_def sizeof_dom_sid_def concat_word_bytes)

lemma bytes_word_bytes: "bytes_word (word_bytes w) = w"
  unfolding bytes_word_def word_bytes_def
proof (rule bit_word_eqI)
  fix n assume "n < LENGTH(32)"
  then show "bit (ucast ([ucast w, ucast (drop_bit 8 w), ucast (drop_bit 16 w), ucast (drop_bit 24 w)] ! 0 :: byte)
     OR push_bit 8 (ucast ([ucast w, ucast (drop_bit 8 w), ucast (drop_bit 16 w), ucast (drop_bit 24 w)] ! 1 :: byte))
     OR push_bit 16 (ucast ([ucast w, ucast (drop_bit 8 w), ucast (drop_bit 16 w), ucast (drop_bit 24 w)] ! 2 :: byte))
     OR push_bit 24 (ucast ([ucast w, ucast (drop_bit 8 w), ucast (drop_bit 16 w), ucast (drop_bit 24 w)] ! 3 :: byte)) :: 32 word) n
     = bit w n"
    by (cases "n < 8"; cases "n < 16"; cases "n < 24") (auto simp: bit_simps nth_Cons')
qed

lemma take_drop_concat_words:
  "i < length ws \<Longrightarrow> take 4 (drop (4 * i) (concat (map word_bytes ws))) = word_bytes (ws ! i)"
proof (induction ws arbitrary: i)
  case (Cons w ws)
  then show ?case by (cases i) (auto simp: word_bytes_def numeral_eq_Suc)
qed simp

lemma dom_sid_image_to_bytes:
  assumes "dom_sid_ok sid"
  shows "dom_sid_image (dom_sid_to_bytes sid) = sid"
proof -
  let ?b = "dom_sid_to_bytes sid" and ?w = "concat (map word_bytes (sub_auths sid))"
  have "drop 8 ?b = ?w" using assms by (simp add: dom_sid_to_bytes_def dom_sid_ok_def)
  then have d: "drop (8 + 4 * i) ?b = drop (4 * i) ?w" for i by (metis add.commute drop_drop)
  have "map (\<lambda>i. bytes_word (take 4 (drop (8 + 4 * i) ?b))) [0..<15] = sub_auths sid"
    using assms by (intro nth_equalityI) (auto simp: dom_sid_ok_def d take_drop_concat_words bytes_word_bytes simp del: upt_Suc)
  moreover have "?b ! 0 = sid_rev_num sid" "?b ! 1 = num_auths sid" "take 6 (drop 2 ?b) = id_auth sid"
    using assms by (simp_all add: dom_sid_to_bytes_def dom_sid_ok_def)
  ultimately show ?thesis by (simp add: dom_sid_image_def del: upt_Suc)
qed

lemma example_sid_ok [simp]: "dom_sid_ok (example_sid auth)"
  by (simp add: dom_sid_ok_def example_sid_def)

lemma example_trustee [simp]:
  "trustee_ok (dom_sid_to_bytes (example_sid auth))" "dom_sid_image (dom_sid_to_bytes (example_sid auth)) = example_sid auth"
  by (simp_all add: trustee_ok_def length_dom_sid_to_bytes dom_sid_image_to_bytes)

section \<open>Properties\<close>



text \<open>
  C5. Adding a right to a descriptor that has a DACL returns a descriptor where the right is set for
  the trustee by entries of its own. Rights that were set stay set, no right for another object,
  other flags or the other direction becomes set, and the entries of other trustees and the
  inherited entries stay as they are.
\<close>

theorem add_right_base_correct:
  assumes "trustee_ok t" and "right_ok k r" and "documented_flags k" and "sd_dacl sd = Some dacl"
  shows "\<exists>sd' dacl' st. security_descriptor_add_right_base k t r allow sd = Inr sd' \<and> sd_dacl sd' = Some dacl'
    \<and> security_descriptor_get_right_state k sd' t r = Inr st
    \<and> st SecurityRightStateInherited_No (allow_type allow)
    \<and> (\<forall>r' al'. right_set k (dom_sid_image t) r' al' dacl \<longrightarrow> right_set k (dom_sid_image t) r' al' dacl')
    \<and> (\<forall>r' al'. right_ok k r' \<and> right_set k (dom_sid_image t) r' al' dacl' \<and> \<not> (allow = al' \<and> same_entry r r')
         \<longrightarrow> right_set k (dom_sid_image t) r' al' dacl)
    \<and> filter (untouched k (dom_sid_image t)) dacl' = filter (untouched k (dom_sid_image t)) dacl"
proof -
  obtain sd' dacl' where sd': "security_descriptor_add_right_base k t r allow sd = Inr sd'" "sd_dacl sd' = Some dacl'"
    and added: "added_to k (dom_sid_image t) r allow dacl dacl'"
    using add_right_base_eq [OF assms] by blast
  obtain st where st: "security_descriptor_get_right_state k sd' t r = Inr st"
    using get_right_state_eq [OF assms(1) sd'(2)] by blast
  have "st SecurityRightStateInherited_No (allow_type allow)"
    using own_state(1) [OF assms(1) sd'(2) assms(2,3) st] added_right_set [OF added] by blast
  then show ?thesis
    using sd' st added_right_set_mono [OF added] added_right_set_other [OF added _ assms(2) _ assms(3)]
      added_untouched [OF added assms(2,3)] by blast
qed

definition example_sd :: "security_ace list \<Rightarrow> security_descriptor" where
  "example_sd aces = \<lparr>sd_dacl_present = True, sd_dacl = Some aces\<rparr>"

theorem add_right_base_correct_witness:
  "\<exists>sd' st. security_descriptor_add_right_base example_api (dom_sid_to_bytes (example_sid 1)) (plain_right 0x10000) False
      (example_sd []) = Inr sd'
    \<and> security_descriptor_get_right_state example_api sd' (dom_sid_to_bytes (example_sid 1)) (plain_right 0x10000) = Inr st
    \<and> st SecurityRightStateInherited_No SecurityRightStateType_Deny"
proof -
  have "right_ok example_api (plain_right 0x10000)" by (rule right_ok_plain) simp
  then show ?thesis
    using add_right_base_correct [of "dom_sid_to_bytes (example_sid 1)" example_api "plain_right 0x10000" "example_sd []" "[]" False]
    by (simp add: example_sd_def allow_type_def) blast
qed

text \<open>
  C6. Removing a right from a descriptor that has a DACL: no entry of the trustee for its object
  and flags keeps all bits of the right, no right becomes set, and the entries of other trustees and
  the inherited entries stay; but when no entry is left the DACL itself is gone, and sorting or
  reading it dereferences a null pointer.
\<close>

theorem remove_right_base_correct:
  assumes "trustee_ok t" and "right_ok k r" and "documented_masks k" and "documented_flags k" and "sd_dacl sd = Some dacl"
  shows "\<exists>sd' dacl'. security_descriptor_remove_right_base k t r allow sd = Inr sd'
    \<and> \<not> right_set k (dom_sid_image t) r allow dacl'
    \<and> (\<forall>r' al'. right_set k (dom_sid_image t) r' al' dacl' \<longrightarrow> right_set k (dom_sid_image t) r' al' dacl)
    \<and> filter (untouched k (dom_sid_image t)) dacl' = filter (untouched k (dom_sid_image t)) dacl
    \<and> (dacl' \<noteq> [] \<longrightarrow> sd_dacl sd' = Some dacl')
    \<and> (dacl' = [] \<longrightarrow> security_descriptor_sort_dacl k sd' = Inl Null_Dereference
         \<and> security_descriptor_get_dacl sd' = Inl Null_Dereference)"
proof -
  let ?d = "removed_from k (dom_sid_image t) r allow dacl"
  obtain sd' where sd': "security_descriptor_remove_right_base k t r allow sd = Inr sd'"
    "sd_dacl sd' = (if ?d = [] then None else Some ?d)"
    using remove_right_base_eq [OF assms(1,5), of k r allow] by (auto simp only: Let_def)
  have "access_mask r \<noteq> 0" using assms(2) by (simp add: right_ok_def)
  then show ?thesis
    using sd' removed_not_set [OF assms(3)] removed_right_set removed_untouched [OF assms(2,4)]
    by (intro exI [of _ sd'] exI [of _ ?d])
      (auto simp: security_descriptor_sort_dacl_def security_descriptor_get_dacl_def)
qed

theorem remove_right_base_correct_witness:
  "bind_faulty (security_descriptor_remove_right_base example_api (dom_sid_to_bytes (example_sid 1)) (plain_right 0x10000) False
      (example_sd [example_ace 1 SEC_ACE_TYPE_ACCESS_DENIED 0x10000]))
    (security_descriptor_sort_dacl example_api) = Inl Null_Dereference"
proof -
  let ?t = "dom_sid_to_bytes (example_sid 1)" and ?ace = "example_ace 1 SEC_ACE_TYPE_ACCESS_DENIED 0x10000"
  have "right_ok example_api (plain_right 0x10000)" by (rule right_ok_plain) simp
  then obtain sd' dacl' where r: "security_descriptor_remove_right_base example_api ?t (plain_right 0x10000) False
      (example_sd [?ace]) = Inr sd'"
    "dacl' \<noteq> [] \<longrightarrow> sd_dacl sd' = Some dacl'" "dacl' = [] \<longrightarrow> security_descriptor_sort_dacl example_api sd' = Inl Null_Dereference"
    using remove_right_base_correct [of ?t example_api "plain_right 0x10000" "example_sd [?ace]" "[?ace]" False]
    by (simp add: example_sd_def) blast
  have "security_descriptor_remove_right_base example_api ?t (plain_right 0x10000) False (example_sd [?ace]) =
      Inr (example_sd [?ace]\<lparr>sd_dacl := None\<rparr>)" by code_simp
  then show ?thesis using r by (cases dacl') auto
qed

end
