(* ===== verification/AdConfig.thy ===== *)
theory AdConfig
  imports Directory SecurityDescriptor "HOL-Library.AList" "HOL-Library.List_Lexorder"
begin

text \<open>
  \<open>src/adldap/ad_config.cpp\<close>: what the program knows of the directory's schema and configuration,
  loaded once from the server and then only read. Hash tables that are looked up are maps; those
  the code traverses or searches by value are association lists in the order of traversal.
\<close>

abbreviation ATTRIBUTE_ATTRIBUTE_DISPLAY_NAMES :: qstring where "ATTRIBUTE_ATTRIBUTE_DISPLAY_NAMES \<equiv> ''attributeDisplayNames''"
abbreviation ATTRIBUTE_EXTRA_COLUMNS :: qstring where "ATTRIBUTE_EXTRA_COLUMNS \<equiv> ''extraColumns''"
abbreviation ATTRIBUTE_FILTER_CONTAINERS :: qstring where "ATTRIBUTE_FILTER_CONTAINERS \<equiv> ''msDS-FilterContainers''"
abbreviation ATTRIBUTE_LDAP_DISPLAY_NAME :: qstring where "ATTRIBUTE_LDAP_DISPLAY_NAME \<equiv> ''lDAPDisplayName''"
abbreviation ATTRIBUTE_POSSIBLE_SUPERIORS :: qstring where "ATTRIBUTE_POSSIBLE_SUPERIORS \<equiv> ''possSuperiors''"
abbreviation ATTRIBUTE_SYSTEM_POSSIBLE_SUPERIORS :: qstring where "ATTRIBUTE_SYSTEM_POSSIBLE_SUPERIORS \<equiv> ''systemPossSuperiors''"
abbreviation ATTRIBUTE_ATTRIBUTE_SYNTAX :: qstring where "ATTRIBUTE_ATTRIBUTE_SYNTAX \<equiv> ''attributeSyntax''"
abbreviation ATTRIBUTE_OM_SYNTAX :: qstring where "ATTRIBUTE_OM_SYNTAX \<equiv> ''oMSyntax''"
abbreviation ATTRIBUTE_CLASS_DISPLAY_NAME :: qstring where "ATTRIBUTE_CLASS_DISPLAY_NAME \<equiv> ''classDisplayName''"
abbreviation ATTRIBUTE_MAY_CONTAIN :: qstring where "ATTRIBUTE_MAY_CONTAIN \<equiv> ''mayContain''"
abbreviation ATTRIBUTE_SYSTEM_MAY_CONTAIN :: qstring where "ATTRIBUTE_SYSTEM_MAY_CONTAIN \<equiv> ''systemMayContain''"
abbreviation ATTRIBUTE_MUST_CONTAIN :: qstring where "ATTRIBUTE_MUST_CONTAIN \<equiv> ''mustContain''"
abbreviation ATTRIBUTE_SYSTEM_MUST_CONTAIN :: qstring where "ATTRIBUTE_SYSTEM_MUST_CONTAIN \<equiv> ''systemMustContain''"
abbreviation ATTRIBUTE_IS_SINGLE_VALUED :: qstring where "ATTRIBUTE_IS_SINGLE_VALUED \<equiv> ''isSingleValued''"
abbreviation ATTRIBUTE_SYSTEM_ONLY :: qstring where "ATTRIBUTE_SYSTEM_ONLY \<equiv> ''systemOnly''"
abbreviation ATTRIBUTE_RANGE_UPPER :: qstring where "ATTRIBUTE_RANGE_UPPER \<equiv> ''rangeUpper''"
abbreviation ATTRIBUTE_AUXILIARY_CLASS :: qstring where "ATTRIBUTE_AUXILIARY_CLASS \<equiv> ''auxiliaryClass''"
abbreviation ATTRIBUTE_LINK_ID :: qstring where "ATTRIBUTE_LINK_ID \<equiv> ''linkID''"
abbreviation ATTRIBUTE_SYSTEM_AUXILIARY_CLASS :: qstring where "ATTRIBUTE_SYSTEM_AUXILIARY_CLASS \<equiv> ''systemAuxiliaryClass''"
abbreviation ATTRIBUTE_SUB_CLASS_OF :: qstring where "ATTRIBUTE_SUB_CLASS_OF \<equiv> ''subClassOf''"
abbreviation ATTRIBUTE_POSSIBLE_INFERIORS :: qstring where "ATTRIBUTE_POSSIBLE_INFERIORS \<equiv> ''possibleInferiors''"
abbreviation ATTRIBUTE_ALLOWED_ATTRIBUTES :: qstring where "ATTRIBUTE_ALLOWED_ATTRIBUTES \<equiv> ''allowedAttributes''"
abbreviation ATTRIBUTE_ALLOWED_ATTRIBUTES_EFFECTIVE :: qstring where "ATTRIBUTE_ALLOWED_ATTRIBUTES_EFFECTIVE \<equiv> ''allowedAttributesEffective''"
abbreviation ATTRIBUTE_OBJECT_CLASS_CATEGORY :: qstring where "ATTRIBUTE_OBJECT_CLASS_CATEGORY \<equiv> ''objectClassCategory''"
abbreviation CLASS_ATTRIBUTE_SCHEMA :: qstring where "CLASS_ATTRIBUTE_SCHEMA \<equiv> ''attributeSchema''"
abbreviation CLASS_CLASS_SCHEMA :: qstring where "CLASS_CLASS_SCHEMA \<equiv> ''classSchema''"

abbreviation FLAG_ATTR_IS_CONSTRUCTED :: mask where "FLAG_ATTR_IS_CONSTRUCTED \<equiv> 0x00000004"

record ad_config =
  cfg_domain_dn :: qstring
  cfg_schema_dn :: qstring
  cfg_configuration_dn :: qstring
  cfg_root_domain_dn :: qstring
  cfg_domain_sid :: qstring
  supported_control_list :: "qstring list"
  filter_containers :: "qstring list"
  columns :: "qstring list"
  column_display_names :: "qstring \<rightharpoonup> qstring"
  class_display_names :: "qstring \<rightharpoonup> qstring"
  find_attributes :: "qstring \<rightharpoonup> qstring list"
  attribute_display_names :: "qstring \<rightharpoonup> (qstring \<rightharpoonup> qstring)"
  attribute_schemas :: "qstring \<rightharpoonup> ad_object"
  class_schemas :: "qstring \<rightharpoonup> ad_object"
  sub_class_of_map :: "qstring \<rightharpoonup> qstring"
  guid_to_attribute_map :: "(bytes \<times> qstring) list"
  guid_to_class_map :: "(bytes \<times> qstring) list"
  class_possible_inferiors_map :: "qstring \<rightharpoonup> qstring list"
  class_permissionable_attributes_map :: "qstring \<rightharpoonup> qstring list"
  right_to_guid_map :: "qstring \<rightharpoonup> bytes"
  right_guid_to_cn_map :: "bytes \<rightharpoonup> qstring"
  rights_guid_to_name_map :: "bytes \<rightharpoonup> qstring"
  rights_name_to_guid_map :: "qstring \<rightharpoonup> bytes"
  rights_applies_to_map :: "(bytes \<times> qstring list) list"
  extended_rights_list :: "qstring list"
  rights_valid_accesses_map :: "qstring \<rightharpoonup> mask"

definition empty_config :: ad_config where
  "empty_config = \<lparr>cfg_domain_dn = [], cfg_schema_dn = [], cfg_configuration_dn = [], cfg_root_domain_dn = [],
     cfg_domain_sid = [], supported_control_list = [], filter_containers = [], columns = [],
     column_display_names = Map.empty, class_display_names = Map.empty, find_attributes = Map.empty,
     attribute_display_names = Map.empty, attribute_schemas = Map.empty, class_schemas = Map.empty,
     sub_class_of_map = Map.empty, guid_to_attribute_map = [], guid_to_class_map = [],
     class_possible_inferiors_map = Map.empty, class_permissionable_attributes_map = Map.empty,
     right_to_guid_map = Map.empty, right_guid_to_cn_map = Map.empty, rights_guid_to_name_map = Map.empty,
     rights_name_to_guid_map = Map.empty, rights_applies_to_map = [], extended_rights_list = [],
     rights_valid_accesses_map = Map.empty\<rparr>"

text \<open>\<open>value(key, default)\<close> and \<open>key(value, default)\<close> of a hash.\<close>

definition map_value :: "('k \<rightharpoonup> 'v) \<Rightarrow> 'k \<Rightarrow> 'v \<Rightarrow> 'v" where
  "map_value m k d = (case m k of Some v \<Rightarrow> v | None \<Rightarrow> d)"

definition key_of :: "('k \<times> 'v) list \<Rightarrow> 'v \<Rightarrow> 'k \<Rightarrow> 'k" where
  "key_of al v d = (case find (\<lambda>(k, w). w = v) al of Some (k, w) \<Rightarrow> k | None \<Rightarrow> d)"

section \<open>Names of the configuration\<close>

definition partitions_dn :: "ad_config \<Rightarrow> qstring" where
  "partitions_dn cfg = ''CN=Partitions,'' @ cfg_configuration_dn cfg"

definition extended_rights_dn :: "ad_config \<Rightarrow> qstring" where
  "extended_rights_dn cfg = ''CN=Extended-Rights,'' @ cfg_configuration_dn cfg"

definition policies_dn :: "ad_config \<Rightarrow> qstring" where
  "policies_dn cfg = ''CN=Policies,CN=System,'' @ cfg_domain_dn cfg"

definition control_is_supported :: "ad_config \<Rightarrow> qstring \<Rightarrow> bool" where
  "control_is_supported cfg control_oid = (control_oid \<in> set (supported_control_list cfg))"

definition sites_container_dn :: "ad_config \<Rightarrow> qstring" where
  "sites_container_dn cfg = ''CN=Sites,'' @ cfg_configuration_dn cfg"

definition pso_container_dn :: "ad_config \<Rightarrow> qstring" where
  "pso_container_dn cfg = ''CN=Password Settings Container,CN=System,'' @ cfg_domain_dn cfg"

definition get_locale_dir :: "ad_config \<Rightarrow> qstring \<Rightarrow> qstring" where
  "get_locale_dir cfg locale_code = ''CN='' @ locale_code @ '',CN=DisplaySpecifiers,'' @ cfg_configuration_dn cfg"

section \<open>Display names and columns\<close>

definition get_fallback_display_names :: "(qstring \<times> qstring) list" where
  "get_fallback_display_names = [
     (ATTRIBUTE_NAME, ''Name''),
     (ATTRIBUTE_DN, ''Distinguished name''),
     (ATTRIBUTE_OBJECT_CLASS, ''Object class''),
     (ATTRIBUTE_WHEN_CREATED, ''Created''),
     (ATTRIBUTE_WHEN_CHANGED, ''Changed''),
     (ATTRIBUTE_USN_CREATED, ''USN created''),
     (ATTRIBUTE_USN_CHANGED, ''USN changed''),
     (ATTRIBUTE_ACCOUNT_EXPIRES, ''Account expires''),
     (ATTRIBUTE_OBJECT_CATEGORY, ''Type''),
     (ATTRIBUTE_PROFILE_PATH, ''Profile path''),
     (ATTRIBUTE_SCRIPT_PATH, ''Logon script''),
     (ATTRIBUTE_SAM_ACCOUNT_NAME, ''Logon name (pre-Windows 2000)''),
     (ATTRIBUTE_MAIL, ''E-mail''),
     (ATTRIBUTE_LOCATION, ''Location''),
     (ATTRIBUTE_MANAGED_BY, ''Managed by'')]"

definition does_attribute_display_name_exist :: "ad_config \<Rightarrow> qstring \<Rightarrow> qstring \<Rightarrow> bool" where
  "does_attribute_display_name_exist cfg attribute object_class =
     (case attribute_display_names cfg object_class of
        None \<Rightarrow> False | Some names \<Rightarrow> names attribute \<noteq> None)"

definition get_attribute_display_name :: "ad_config \<Rightarrow> qstring \<Rightarrow> qstring \<Rightarrow> qstring" where
  "get_attribute_display_name cfg attribute object_class =
     (if does_attribute_display_name_exist cfg attribute object_class
      then the (the (attribute_display_names cfg object_class) attribute)
      else map_value (map_of get_fallback_display_names) attribute attribute)"

definition get_class_display_name :: "ad_config \<Rightarrow> qstring \<Rightarrow> qstring" where
  "get_class_display_name cfg object_class = map_value (class_display_names cfg) object_class object_class"

definition get_column_display_name :: "ad_config \<Rightarrow> qstring \<Rightarrow> qstring" where
  "get_column_display_name cfg attribute = map_value (column_display_names cfg) attribute attribute"

definition get_column_index :: "ad_config \<Rightarrow> qstring \<Rightarrow> int" where
  "get_column_index cfg attribute = list_index (columns cfg) attribute"

section \<open>The schema of classes\<close>

text \<open>\<open>class_schemas[c]\<close> of a class that is not there is an empty object.\<close>

definition class_schema :: "ad_config \<Rightarrow> qstring \<Rightarrow> ad_object" where
  "class_schema cfg object_class = map_value (class_schemas cfg) object_class empty_object"

definition attribute_schema :: "ad_config \<Rightarrow> qstring \<Rightarrow> ad_object" where
  "attribute_schema cfg attribute = map_value (attribute_schemas cfg) attribute empty_object"

definition get_possible_superiors :: "ad_config \<Rightarrow> qstring list \<Rightarrow> qstring list" where
  "get_possible_superiors cfg object_classes =
     dedup (concat (map (\<lambda>object_class.
       get_strings (class_schema cfg object_class) ATTRIBUTE_POSSIBLE_SUPERIORS
       @ get_strings (class_schema cfg object_class) ATTRIBUTE_SYSTEM_POSSIBLE_SUPERIORS) object_classes))"

definition get_parent_class :: "ad_config \<Rightarrow> qstring \<Rightarrow> qstring" where
  "get_parent_class cfg object_class = map_value (sub_class_of_map cfg) object_class []"

text \<open>The loop ends at a class that is its own parent; otherwise the result is \<open>None\<close>.\<close>

partial_function (option) inherit_chain_loop :: "ad_config \<Rightarrow> qstring list \<Rightarrow> qstring \<Rightarrow> qstring list option" where
  "inherit_chain_loop cfg out current_class =
     (let out = out @ [current_class];
          parent_class = get_parent_class cfg current_class
      in if parent_class = current_class then Some out else inherit_chain_loop cfg out parent_class)"

definition get_inherit_chain :: "ad_config \<Rightarrow> qstring \<Rightarrow> qstring list option" where
  "get_inherit_chain cfg object_class = inherit_chain_loop cfg [] object_class"

definition add_auxiliary_classes :: "ad_config \<Rightarrow> qstring list \<Rightarrow> qstring list" where
  "add_auxiliary_classes cfg object_classes =
     dedup (object_classes @ concat (map (\<lambda>object_class.
       get_strings (class_schema cfg object_class) ATTRIBUTE_AUXILIARY_CLASS
       @ get_strings (class_schema cfg object_class) ATTRIBUTE_SYSTEM_AUXILIARY_CLASS) object_classes))"

definition get_optional_attributes :: "ad_config \<Rightarrow> qstring list \<Rightarrow> qstring list" where
  "get_optional_attributes cfg object_classes =
     dedup (concat (map (\<lambda>object_class.
       get_strings (class_schema cfg object_class) ATTRIBUTE_MAY_CONTAIN
       @ get_strings (class_schema cfg object_class) ATTRIBUTE_SYSTEM_MAY_CONTAIN)
       (add_auxiliary_classes cfg object_classes)))"

definition get_mandatory_attributes :: "ad_config \<Rightarrow> qstring list \<Rightarrow> qstring list" where
  "get_mandatory_attributes cfg object_classes =
     dedup (concat (map (\<lambda>object_class.
       get_strings (class_schema cfg object_class) ATTRIBUTE_MUST_CONTAIN
       @ get_strings (class_schema cfg object_class) ATTRIBUTE_SYSTEM_MUST_CONTAIN)
       (add_auxiliary_classes cfg object_classes)))"

definition get_find_attributes :: "ad_config \<Rightarrow> qstring \<Rightarrow> qstring list" where
  "get_find_attributes cfg object_class = map_value (find_attributes cfg) object_class []"

definition class_is_auxiliary :: "ad_config \<Rightarrow> qstring \<Rightarrow> bool" where
  "class_is_auxiliary cfg obj_class = (get_int (class_schema cfg obj_class) ATTRIBUTE_OBJECT_CLASS_CATEGORY = 3)"

section \<open>The schema of attributes\<close>

text \<open>
  The table as it is written. A hash built from a list keeps the last entry of a key, so lookups
  go to the reversed list.
\<close>

definition attribute_type_table :: "(qstring \<times> (qstring \<times> attribute_type) list) list" where
  "attribute_type_table = [
     (''2.5.5.8'', [(''1'', AttributeType_Boolean)]),
     (''2.5.5.9'', [(''10'', AttributeType_Enumeration), (''2'', AttributeType_Integer)]),
     (''2.5.5.16'', [(''65'', AttributeType_LargeInteger)]),
     (''2.5.5.3'', [(''27'', AttributeType_StringCase)]),
     (''2.5.5.5'', [(''22'', AttributeType_IA5)]),
     (''2.5.5.15'', [(''66'', AttributeType_NTSecDesc)]),
     (''2.5.5.6'', [(''18'', AttributeType_Numeric)]),
     (''2.5.5.2'', [(''6'', AttributeType_ObjectIdentifier)]),
     (''2.5.5.10'', [(''4'', AttributeType_Octet), (''127'', AttributeType_ReplicaLink)]),
     (''2.5.5.5'', [(''19'', AttributeType_Printable)]),
     (''2.5.5.17'', [(''4'', AttributeType_Sid)]),
     (''2.5.5.4'', [(''20'', AttributeType_Teletex)]),
     (''2.5.5.12'', [(''64'', AttributeType_Unicode)]),
     (''2.5.5.11'', [(''23'', AttributeType_UTCTime), (''24'', AttributeType_GeneralizedTime)]),
     (''2.5.5.14'', [(''127'', AttributeType_DNString)]),
     (''2.5.5.7'', [(''127'', AttributeType_DNBinary)]),
     (''2.5.5.1'', [(''127'', AttributeType_DSDN)])]"

definition lookup_attribute_type :: "qstring \<Rightarrow> qstring \<Rightarrow> attribute_type" where
  "lookup_attribute_type attribute_syntax om_syntax =
     (case map_of (rev attribute_type_table) attribute_syntax of
        None \<Rightarrow> AttributeType_StringCase
      | Some by_om \<Rightarrow> (case map_of (rev by_om) om_syntax of
            Some type \<Rightarrow> type | None \<Rightarrow> AttributeType_StringCase))"

definition get_attribute_type :: "ad_config \<Rightarrow> qstring \<Rightarrow> attribute_type" where
  "get_attribute_type cfg attribute =
     (let schema = attribute_schema cfg attribute
      in lookup_attribute_type (get_string schema ATTRIBUTE_ATTRIBUTE_SYNTAX) (get_string schema ATTRIBUTE_OM_SYNTAX))"

definition large_integer_datetimes :: "qstring list" where
  "large_integer_datetimes = [ATTRIBUTE_ACCOUNT_EXPIRES, ATTRIBUTE_LAST_LOGON, ATTRIBUTE_LAST_LOGON_TIMESTAMP,
     ATTRIBUTE_PWD_LAST_SET, ATTRIBUTE_BAD_PWD_TIME, ATTRIBUTE_CREATION_TIME,
     ATTRIBUTE_MSDS_USER_PASSWORD_EXPIRY_TIME_COMPUTED, ATTRIBUTE_LAPS_V2_EXPIRATION_TIME]"

definition large_integer_timespans :: "qstring list" where
  "large_integer_timespans = [ATTRIBUTE_MAX_PWD_AGE, ATTRIBUTE_MIN_PWD_AGE, ATTRIBUTE_LOCKOUT_DURATION,
     ATTRIBUTE_LOCKOUT_OBSERVATION_WINDOW, ATTRIBUTE_FORCE_LOGOFF, ATTRIBUTE_MS_DS_LOCKOUT_DURATION,
     ATTRIBUTE_MS_DS_LOCKOUT_OBSERVATION_WINDOW, ATTRIBUTE_MS_DS_MAX_PASSWORD_AGE, ATTRIBUTE_MS_DS_MIN_PASSWORD_AGE]"

definition get_attribute_large_integer_subtype :: "qstring \<Rightarrow> large_integer_subtype" where
  "get_attribute_large_integer_subtype attribute =
     (if attribute \<in> set large_integer_datetimes then LargeIntegerSubtype_Datetime
      else if attribute \<in> set large_integer_timespans then LargeIntegerSubtype_Timespan
      else LargeIntegerSubtype_Integer)"

definition get_attribute_is_number :: "ad_config \<Rightarrow> qstring \<Rightarrow> bool" where
  "get_attribute_is_number cfg attribute =
     (get_attribute_type cfg attribute \<in>
        {AttributeType_Integer, AttributeType_LargeInteger, AttributeType_Enumeration, AttributeType_Numeric})"

definition get_attribute_is_single_valued :: "ad_config \<Rightarrow> qstring \<Rightarrow> bool" where
  "get_attribute_is_single_valued cfg attribute = get_bool (attribute_schema cfg attribute) ATTRIBUTE_IS_SINGLE_VALUED"

definition get_attribute_is_system_only :: "ad_config \<Rightarrow> qstring \<Rightarrow> bool" where
  "get_attribute_is_system_only cfg attribute = get_bool (attribute_schema cfg attribute) ATTRIBUTE_SYSTEM_ONLY"

definition get_attribute_range_upper :: "ad_config \<Rightarrow> qstring \<Rightarrow> int" where
  "get_attribute_range_upper cfg attribute = get_int (attribute_schema cfg attribute) ATTRIBUTE_RANGE_UPPER"

definition get_attribute_is_backlink :: "ad_config \<Rightarrow> qstring \<Rightarrow> bool" where
  "get_attribute_is_backlink cfg attribute =
     (if object_contains (attribute_schema cfg attribute) ATTRIBUTE_LINK_ID
      then get_int (attribute_schema cfg attribute) ATTRIBUTE_LINK_ID mod 2 \<noteq> 0
      else False)"

definition get_attribute_is_constructed :: "ad_config \<Rightarrow> qstring \<Rightarrow> bool" where
  "get_attribute_is_constructed cfg attribute =
     bitmask_is_set (get_mask (attribute_schema cfg attribute) ATTRIBUTE_SYSTEM_FLAGS) FLAG_ATTR_IS_CONSTRUCTED"

definition guid_to_attribute :: "ad_config \<Rightarrow> bytes \<Rightarrow> qstring" where
  "guid_to_attribute cfg guid = map_value (map_of (guid_to_attribute_map cfg)) guid ''<unknown attribute>''"

definition attribute_to_guid :: "ad_config \<Rightarrow> qstring \<Rightarrow> bytes" where
  "attribute_to_guid cfg attr = key_of (guid_to_attribute_map cfg) attr []"

definition guid_to_class :: "ad_config \<Rightarrow> bytes \<Rightarrow> qstring" where
  "guid_to_class cfg guid = map_value (map_of (guid_to_class_map cfg)) guid ''<unknown class>''"

definition guid_from_class :: "ad_config \<Rightarrow> qstring \<Rightarrow> bytes" where
  "guid_from_class cfg object_class = key_of (guid_to_class_map cfg) object_class []"

section \<open>Rights\<close>

definition get_right_guid :: "ad_config \<Rightarrow> qstring \<Rightarrow> bytes" where
  "get_right_guid cfg right_cn = map_value (right_to_guid_map cfg) right_cn []"

definition cn_to_map_russian :: "(qstring \<times> qstring) list" where
  "cn_to_map_russian = [
     (''DS-Replication-Get-Changes'', ''DS Replication Get Changes''),
     (''DS-Replication-Get-Changes-All'', ''DS Replication Get Changes All''),
     (''Email-Information'', ''Phone and Mail Options''),
     (''DS-Bypass-Quota'', ''Bypass the quota restrictions during creation.''),
     (''Receive-As'', ''Receive As''),
     (''Unexpire-Password'', ''Unexpire Password''),
     (''Do-Garbage-Collection'', ''Do Garbage Collection''),
     (''Allowed-To-Authenticate'', ''Allowed To Authenticate''),
     (''Change-PDC'', ''Change PDC''),
     (''Reanimate-Tombstones'', ''Reanimate Tombstones''),
     (''msmq-Peek-Dead-Letter'', ''msmq Peek Dead Letter''),
     (''Certificate-AutoEnrollment'', ''AutoEnrollment''),
     (''DS-Install-Replica'', ''DS Install Replica''),
     (''Domain-Password'', ''Domain Password & Lockout Policies''),
     (''Generate-RSoP-Logging'', ''Generate RSoP Logging''),
     (''Run-Protect-Admin-Groups-Task'', ''Run Protect Admin Groups Task''),
     (''Self-Membership'', ''Self Membership''),
     (''DS-Clone-Domain-Controller'', ''Allow a DC to create a clone of itself''),
     (''Domain-Other-Parameters'', ''Other Domain Parameters (for use by SAM)''),
     (''SAM-Enumerate-Entire-Domain'', ''SAM Enumerate Entire Domain''),
     (''DS-Write-Partition-Secrets'', ''Write secret attributes of objects in a Partition''),
     (''Send-As'', ''Send As''),
     (''DS-Replication-Manage-Topology'', ''DS Replication Manage Topology''),
     (''DS-Set-Owner'', ''Set Owner of an object during creation.''),
     (''Generate-RSoP-Planning'', ''Generate RSoP Planning''),
     (''Certificate-Enrollment'', ''Certificate Enrollment''),
     (''Web-Information'', ''Web Information''),
     (''Create-Inbound-Forest-Trust'', ''Create Inbound Forest Trust''),
     (''Migrate-SID-History'', ''Migrate SID History''),
     (''Update-Password-Not-Required-Bit'', ''Update Password Not Required Bit''),
     (''MS-TS-GatewayAccess'', ''MS-TS-GatewayAccess''),
     (''Validated-MS-DS-Additional-DNS-Host-Name'', ''Validated write to MS DS Additional DNS Host Name''),
     (''msmq-Receive'', ''msmq Receive''),
     (''Validated-DNS-Host-Name'', ''Validated DNS Host Name''),
     (''Send-To'', ''Send To''),
     (''DS-Replication-Get-Changes-In-Filtered-Set'', ''DS Replication Get Changes In Filtered Set''),
     (''Read-Only-Replication-Secret-Synchronization'', ''Read Only Replication Secret Synchronization''),
     (''Validated-MS-DS-Behavior-Version'', ''Validated write to MS DS behavior version''),
     (''msmq-Open-Connector'', ''msmq Open Connector''),
     (''Terminal-Server-License-Server'', ''Terminal Server License Server''),
     (''Change-Schema-Master'', ''Change Schema Master''),
     (''Recalculate-Hierarchy'', ''Recalculate Hierarchy''),
     (''DS-Check-Stale-Phantoms'', ''DS Check Stale Phantoms''),
     (''msmq-Receive-computer-Journal'', ''msmq Receive computer Journal''),
     (''User-Force-Change-Password'', ''User Force Change Password''),
     (''Domain-Administer-Server'', ''Domain Administer Server''),
     (''DS-Replication-Synchronize'', ''DS Replication Synchronize''),
     (''Personal-Information'', ''Personal Information''),
     (''msmq-Peek'', ''msmq Peek''),
     (''General-Information'', ''General Information''),
     (''Membership'', ''Group Membership''),
     (''Add-GUID'', ''Add GUID''),
     (''RAS-Information'', ''Remote Access Information''),
     (''DS-Execute-Intentions-Script'', ''DS Execute Intentions Script''),
     (''Allocate-Rids'', ''Allocate Rids''),
     (''Update-Schema-Cache'', ''Update Schema Cache''),
     (''Apply-Group-Policy'', ''Apply Group Policy''),
     (''User-Account-Restrictions'', ''Account Restrictions''),
     (''Validated-SPN'', ''Validated SPN''),
     (''DS-Read-Partition-Secrets'', ''Read secret attributes of objects in a Partition''),
     (''User-Logon'', ''Logon Information''),
     (''DS-Query-Self-Quota'', ''DS Query Self Quota''),
     (''Change-Infrastructure-Master'', ''Change Infrastructure Master''),
     (''Open-Address-Book'', ''Open Address Book''),
     (''User-Change-Password'', ''User Change Password''),
     (''msmq-Peek-computer-Journal'', ''msmq Peek computer Journal''),
     (''Change-Domain-Master'', ''Change Domain Master''),
     (''msmq-Send'', ''msmq Send''),
     (''Change-Rid-Master'', ''Change Rid Master''),
     (''Recalculate-Security-Inheritance'', ''Recalculate Security Inheritance''),
     (''Refresh-Group-Cache'', ''Refresh Group Cache''),
     (''Manage-Optional-Features'', ''Manage Optional Features''),
     (''Reload-SSL-Certificate'', ''Reload SSL Certificate''),
     (''Enable-Per-User-Reversibly-Encrypted-Password'', ''Enable Per User Reversibly Encrypted Password''),
     (''DS-Replication-Monitor-Topology'', ''DS Replication Monitor Topology''),
     (''Public-Information'', ''Public Information''),
     (''Private-Information'', ''Private Information''),
     (''msmq-Receive-Dead-Letter'', ''msmq Receive Dead Letter''),
     (''msmq-Receive-journal'', ''msmq Receive journal''),
     (''DNS-Host-Name-Attributes'', ''DNS Host Name Attributes'')]"

definition get_right_name :: "ad_config \<Rightarrow> bytes \<Rightarrow> bool \<Rightarrow> qstring" where
  "get_right_name cfg right_guid russian =
     (let right_cn = map_value (right_guid_to_cn_map cfg) right_guid []
      in if russian \<and> map_of cn_to_map_russian right_cn \<noteq> None then the (map_of cn_to_map_russian right_cn)
         else map_value (rights_guid_to_name_map cfg) right_guid ''<unknown rights>'')"

definition rights_applies_to_class :: "ad_config \<Rightarrow> qstring \<Rightarrow> qstring list \<Rightarrow> bool" where
  "rights_applies_to_class cfg rights_cn class_list =
     (let rights_guid = map_value (rights_name_to_guid_map cfg) rights_cn [];
          applies_to_list = map_value (map_of (rights_applies_to_map cfg)) rights_guid []
      in set applies_to_list \<inter> set class_list \<noteq> {})"

definition get_extended_rights_list :: "ad_config \<Rightarrow> qstring list \<Rightarrow> qstring list" where
  "get_extended_rights_list cfg class_list =
     filter (\<lambda>rights. rights_applies_to_class cfg rights class_list) (extended_rights_list cfg)"

definition get_rights_valid_accesses :: "sec_api \<Rightarrow> ad_config \<Rightarrow> qstring \<Rightarrow> mask" where
  "get_rights_valid_accesses k cfg rights_cn =
     (if rights_cn = ''Membership'' then SEC_ADS_READ_PROP k
      else map_value (rights_valid_accesses_map cfg) rights_cn 0)"

definition get_noncontainer_classes :: "ad_config \<Rightarrow> qstring list" where
  "get_noncontainer_classes cfg = fold (\<lambda>container_class out. removeAll container_class out) (filter_containers cfg) filter_classes"

definition get_possible_inferiors :: "ad_config \<Rightarrow> qstring \<Rightarrow> qstring list" where
  "get_possible_inferiors cfg obj_class = map_value (class_possible_inferiors_map cfg) obj_class []"

definition get_permissionable_attributes :: "ad_config \<Rightarrow> qstring \<Rightarrow> qstring list" where
  "get_permissionable_attributes cfg obj_class = map_value (class_permissionable_attributes_map cfg) obj_class []"

text \<open>A \<open>QSet\<close> turned into a list has an unspecified order: here the order of first occurrence.\<close>

definition all_inferiors_list :: "ad_config \<Rightarrow> qstring \<Rightarrow> qstring list" where
  "all_inferiors_list cfg obj_class =
     dedup (concat (map (\<lambda>inferior_class. inferior_class # get_possible_inferiors cfg inferior_class)
       (get_possible_inferiors cfg obj_class)))"

definition all_extended_right_classes :: "ad_config \<Rightarrow> qstring list" where
  "all_extended_right_classes cfg = dedup (concat (map snd (rights_applies_to_map cfg)))"

definition get_site_related_classes :: "qstring list" where
  "get_site_related_classes = [CLASS_SITES_CONTAINER, CLASS_SITE, CLASS_INTER_SITE_TRANSPORT_CONTAINER,
     CLASS_INTER_SITE_TRANSPORT, CLASS_SUBNET_CONTAINER, CLASS_SUBNET, CLASS_SERVERS_CONTAINER, CLASS_SERVER,
     CLASS_NTDS_SITE_SETTINGS, CLASS_SITE_LINK, CLASS_SITE_LINK_BRIDGE, CLASS_NTDS_DSA]"

fun applies_to_loop :: "ad_config \<Rightarrow> qstring list \<Rightarrow> qstring list \<Rightarrow> qstring list faulty" where
  "applies_to_loop cfg [] out = Inr out"
| "applies_to_loop cfg (class_guid_string # rest) out =
     bind_faulty (guid_string_to_bytes class_guid_string)
       (\<lambda>class_guid. applies_to_loop cfg rest (out @ [guid_to_class cfg class_guid]))"

definition get_applies_to_classes :: "ad_config \<Rightarrow> ad_object \<Rightarrow> qstring list faulty" where
  "get_applies_to_classes cfg obj = applies_to_loop cfg (get_strings obj ATTRIBUTE_APPLIES_TO) []"

section \<open>Loading\<close>

definition load_extended_right :: "ad_object \<Rightarrow> ad_config \<Rightarrow> ad_config faulty" where
  "load_extended_right obj cfg =
     (let cn = get_string obj ATTRIBUTE_CN;
          guid_string = get_string obj ATTRIBUTE_RIGHTS_GUID
      in bind_faulty (guid_string_to_bytes guid_string) (\<lambda>guid.
         bind_faulty (get_applies_to_classes cfg obj) (\<lambda>applies_to.
           let display_name = string_of_bytes (get_value obj ATTRIBUTE_DISPLAY_NAME);
               valid_accesses = get_mask obj ATTRIBUTE_VALID_ACCESSES
           in Inr (cfg\<lparr>right_to_guid_map := (right_to_guid_map cfg)(cn \<mapsto> guid),
                right_guid_to_cn_map := (right_guid_to_cn_map cfg)(guid \<mapsto> cn),
                rights_guid_to_name_map := (rights_guid_to_name_map cfg)(guid \<mapsto> display_name),
                rights_name_to_guid_map := (rights_name_to_guid_map cfg)(cn \<mapsto> guid),
                rights_applies_to_map := AList.update guid applies_to (rights_applies_to_map cfg),
                extended_rights_list := extended_rights_list cfg @ [cn],
                rights_valid_accesses_map := (rights_valid_accesses_map cfg)(cn \<mapsto> valid_accesses)\<rparr>))))"

definition load_extended_rights :: "ad_search \<Rightarrow> ad_config \<Rightarrow> ad_config faulty" where
  "load_extended_rights search cfg =
     (let flt = filter_CONDITION Condition_Equals ATTRIBUTE_OBJECT_CLASS CLASS_CONTROL_ACCESS_RIGHT;
          attributes = [ATTRIBUTE_CN, ATTRIBUTE_DISPLAY_NAME, ATTRIBUTE_RIGHTS_GUID, ATTRIBUTE_APPLIES_TO,
                        ATTRIBUTE_VALID_ACCESSES]
      in fold_faulty load_extended_right (search (extended_rights_dn cfg) SearchScope_Children flt attributes) cfg)"

definition load_attribute_schema :: "ad_object \<Rightarrow> ad_config \<Rightarrow> ad_config" where
  "load_attribute_schema obj cfg =
     (let attribute = get_string obj ATTRIBUTE_LDAP_DISPLAY_NAME;
          guid = get_value obj ATTRIBUTE_SCHEMA_ID_GUID
      in cfg\<lparr>attribute_schemas := (attribute_schemas cfg)(attribute \<mapsto> obj),
             guid_to_attribute_map := AList.update guid attribute (guid_to_attribute_map cfg)\<rparr>)"

definition load_attribute_schemas :: "ad_search \<Rightarrow> ad_config \<Rightarrow> ad_config" where
  "load_attribute_schemas search cfg =
     (let flt = filter_CONDITION Condition_Equals ATTRIBUTE_OBJECT_CLASS CLASS_ATTRIBUTE_SCHEMA;
          attributes = [ATTRIBUTE_LDAP_DISPLAY_NAME, ATTRIBUTE_ATTRIBUTE_SYNTAX, ATTRIBUTE_OM_SYNTAX,
             ATTRIBUTE_IS_SINGLE_VALUED, ATTRIBUTE_SYSTEM_ONLY, ATTRIBUTE_RANGE_UPPER, ATTRIBUTE_LINK_ID,
             ATTRIBUTE_SYSTEM_FLAGS, ATTRIBUTE_SCHEMA_ID_GUID]
      in fold load_attribute_schema (search (cfg_schema_dn cfg) SearchScope_Children flt attributes) cfg)"

definition load_class_schema :: "ad_object \<Rightarrow> ad_config \<Rightarrow> ad_config" where
  "load_class_schema obj cfg =
     (let object_class = get_string obj ATTRIBUTE_LDAP_DISPLAY_NAME;
          guid = get_value obj ATTRIBUTE_SCHEMA_ID_GUID;
          sub_class_of = get_string obj ATTRIBUTE_SUB_CLASS_OF;
          possible_inferiors = map string_of_bytes (get_values obj ATTRIBUTE_POSSIBLE_INFERIORS)
      in cfg\<lparr>class_schemas := (class_schemas cfg)(object_class \<mapsto> obj),
             guid_to_class_map := AList.update guid object_class (guid_to_class_map cfg),
             sub_class_of_map := (sub_class_of_map cfg)(object_class \<mapsto> sub_class_of),
             class_possible_inferiors_map := (class_possible_inferiors_map cfg)(object_class \<mapsto> possible_inferiors)\<rparr>)"

definition class_schema_attributes :: "qstring list" where
  "class_schema_attributes = [ATTRIBUTE_LDAP_DISPLAY_NAME, ATTRIBUTE_POSSIBLE_SUPERIORS,
     ATTRIBUTE_SYSTEM_POSSIBLE_SUPERIORS, ATTRIBUTE_MAY_CONTAIN, ATTRIBUTE_SYSTEM_MAY_CONTAIN,
     ATTRIBUTE_MUST_CONTAIN, ATTRIBUTE_SYSTEM_MUST_CONTAIN, ATTRIBUTE_AUXILIARY_CLASS,
     ATTRIBUTE_SYSTEM_AUXILIARY_CLASS, ATTRIBUTE_SCHEMA_ID_GUID, ATTRIBUTE_SUB_CLASS_OF,
     ATTRIBUTE_SCHEMA_ID_GUID, ATTRIBUTE_POSSIBLE_INFERIORS]"

definition load_class_schemas :: "ad_search \<Rightarrow> ad_config \<Rightarrow> ad_config" where
  "load_class_schemas search cfg =
     (let flt = filter_CONDITION Condition_Equals ATTRIBUTE_OBJECT_CLASS CLASS_CLASS_SCHEMA
      in fold load_class_schema (search (cfg_schema_dn cfg) SearchScope_Children flt class_schema_attributes) cfg)"

text \<open>\<open>remove("CN=", Qt::CaseInsensitive)\<close> of every occurrence.\<close>

fun remove_ignore_case :: "qstring \<Rightarrow> qstring \<Rightarrow> qstring" where
  "remove_ignore_case before [] = []"
| "remove_ignore_case before (x # xs) =
     (if before \<noteq> [] \<and> to_lower (take (length before) (x # xs)) = to_lower before
      then remove_ignore_case before (drop (length before - 1) xs)
      else x # remove_ignore_case before xs)"

definition dn_to_object_class :: "qstring \<Rightarrow> qstring" where
  "dn_to_object_class dn =
     (let rdn = split_char (CHR '','') dn ! 0
      in replace_all ''-Display'' [] (remove_ignore_case ''CN='' rdn))"

definition display_names_to_attributes :: "qstring list \<Rightarrow> qstring list" where
  "display_names_to_attributes display_names = map (\<lambda>pair. split_char (CHR '','') pair ! 0) display_names"

definition load_attribute_display_name :: "qstring \<Rightarrow> qstring \<Rightarrow> ad_config \<Rightarrow> ad_config faulty" where
  "load_attribute_display_name object_class display_name_pair cfg =
     (case split_char (CHR '','') display_name_pair of
        attribute_name # display_name # _ \<Rightarrow>
          Inr (cfg\<lparr>attribute_display_names := (attribute_display_names cfg)(object_class \<mapsto>
                 (map_value (attribute_display_names cfg) object_class Map.empty)(attribute_name \<mapsto> display_name))\<rparr>)
      | _ \<Rightarrow> Inl Index_Out_Of_Range)"

definition load_display_name :: "ad_object \<Rightarrow> ad_config \<Rightarrow> ad_config faulty" where
  "load_display_name obj cfg =
     (let object_class = dn_to_object_class (object_dn obj);
          cfg = (if object_contains obj ATTRIBUTE_CLASS_DISPLAY_NAME
                 then cfg\<lparr>class_display_names := (class_display_names cfg)
                        (object_class \<mapsto> get_string obj ATTRIBUTE_CLASS_DISPLAY_NAME)\<rparr>
                 else cfg)
      in if object_contains obj ATTRIBUTE_ATTRIBUTE_DISPLAY_NAMES
         then (let display_names = get_strings obj ATTRIBUTE_ATTRIBUTE_DISPLAY_NAMES
               in bind_faulty (fold_faulty (load_attribute_display_name object_class) display_names cfg) (\<lambda>cfg.
                    Inr (cfg\<lparr>find_attributes := (find_attributes cfg)
                           (object_class \<mapsto> display_names_to_attributes display_names)\<rparr>)))
         else Inr cfg)"

definition load_display_names :: "ad_search \<Rightarrow> qstring \<Rightarrow> ad_config \<Rightarrow> ad_config faulty" where
  "load_display_names search locale_dir cfg =
     fold_faulty load_display_name
       (search locale_dir SearchScope_Children [] [ATTRIBUTE_CLASS_DISPLAY_NAME, ATTRIBUTE_ATTRIBUTE_DISPLAY_NAMES]) cfg"

definition get_column_values :: "ad_search \<Rightarrow> qstring \<Rightarrow> qstring list" where
  "get_column_values search locale_dir =
     rev (get_strings (search_object search (''CN=default-Display,'' @ locale_dir) [ATTRIBUTE_EXTRA_COLUMNS])
       ATTRIBUTE_EXTRA_COLUMNS)"

definition load_column :: "qstring \<Rightarrow> ad_config \<Rightarrow> ad_config" where
  "load_column val cfg =
     (case split_char (CHR '','') val of
        attribute # attribute_display_name # _ \<Rightarrow>
          cfg\<lparr>columns := columns cfg @ [attribute],
              column_display_names := (column_display_names cfg)(attribute \<mapsto> attribute_display_name)\<rparr>
      | _ \<Rightarrow> cfg)"

definition add_custom_column :: "qstring \<times> qstring \<Rightarrow> ad_config \<Rightarrow> ad_config" where
  "add_custom_column column cfg =
     cfg\<lparr>columns := fst column # columns cfg,
         column_display_names := (column_display_names cfg)(fst column \<mapsto> snd column)\<rparr>"

definition load_columns :: "ad_search \<Rightarrow> qstring \<Rightarrow> ad_config \<Rightarrow> ad_config" where
  "load_columns search locale_dir cfg =
     fold add_custom_column
       [(ATTRIBUTE_DN, ''Distinguished name''), (ATTRIBUTE_DESCRIPTION, ''Description''),
        (ATTRIBUTE_OBJECT_CLASS, ''Class''), (ATTRIBUTE_NAME, ''Name'')]
       (fold load_column (get_column_values search locale_dir) cfg)"

definition get_categories :: "ad_object \<Rightarrow> qstring list" where
  "get_categories obj = map (replace_all ''dns-Zone'' ''Dns-Zone'') (get_strings obj ATTRIBUTE_FILTER_CONTAINERS)"

definition load_filter_containers :: "ad_search \<Rightarrow> qstring \<Rightarrow> ad_config \<Rightarrow> ad_config" where
  "load_filter_containers search locale_dir cfg =
     (let obj = search_object search (''CN=DS-UI-Default-Settings,'' @ locale_dir) [ATTRIBUTE_FILTER_CONTAINERS];
          classes = map (\<lambda>object_category.
            get_string (search_object search (''CN='' @ object_category @ '','' @ cfg_schema_dn cfg)
                          [ATTRIBUTE_LDAP_DISPLAY_NAME]) ATTRIBUTE_LDAP_DISPLAY_NAME) (get_categories obj)
      in cfg\<lparr>filter_containers := filter_containers cfg @ classes @ [CLASS_DOMAIN] @ [CLASS_CONFIGURATION, CLASS_dMD]\<rparr>)"

definition get_class_possible_inferiors :: "ad_config \<Rightarrow> qstring \<Rightarrow> qstring list" where
  "get_class_possible_inferiors cfg klass = map_value (class_possible_inferiors_map cfg) klass []"

definition is_permissionable :: "ad_config \<Rightarrow> qstring \<Rightarrow> bool" where
  "is_permissionable cfg inferior = (class_permissionable_attributes_map cfg inferior \<noteq> None)"

definition permissionable_attributes_of :: "ad_config \<Rightarrow> ad_object \<Rightarrow> qstring list" where
  "permissionable_attributes_of cfg class_schema_object =
     (let allowed_attrs = map string_of_bytes (get_values class_schema_object ATTRIBUTE_ALLOWED_ATTRIBUTES);
          may_contain = map string_of_bytes (get_values class_schema_object ATTRIBUTE_SYSTEM_MAY_CONTAIN)
      in sort (filter (\<lambda>attr. \<not> (get_attribute_is_backlink cfg attr \<or> get_attribute_is_constructed cfg attr
                                 \<or> get_attribute_is_system_only cfg attr))
           (dedup (allowed_attrs @ may_contain))))"

text \<open>
  The recursion over the possible inferiors of a class skips the classes already loaded. Fuel bounds
  its depth; the number of classes is enough.
\<close>

fun load_permissionable_attributes :: "nat \<Rightarrow> ad_search \<Rightarrow> qstring \<Rightarrow> ad_config \<Rightarrow> ad_config option"
  and load_permissionable_inferiors :: "nat \<Rightarrow> ad_search \<Rightarrow> qstring \<Rightarrow> qstring list \<Rightarrow> ad_config \<Rightarrow> ad_config option" where
  "load_permissionable_attributes 0 search obj_class cfg = None"
| "load_permissionable_attributes (Suc n) search obj_class cfg =
     (let flt = filter_CONDITION Condition_Equals ATTRIBUTE_LDAP_DISPLAY_NAME obj_class
      in case search (cfg_schema_dn cfg) SearchScope_Children flt
                [ATTRIBUTE_ALLOWED_ATTRIBUTES, ATTRIBUTE_SYSTEM_MAY_CONTAIN] of
           [] \<Rightarrow> Some cfg
         | class_schema_object # _ \<Rightarrow>
             (let cfg' = cfg\<lparr>class_permissionable_attributes_map := (class_permissionable_attributes_map cfg)
                         (obj_class \<mapsto> permissionable_attributes_of cfg class_schema_object)\<rparr>
              in load_permissionable_inferiors n search obj_class (get_class_possible_inferiors cfg' obj_class) cfg'))"
| "load_permissionable_inferiors n search obj_class [] cfg = Some cfg"
| "load_permissionable_inferiors n search obj_class (inferior # rest) cfg =
     (if inferior = obj_class \<or> is_permissionable cfg inferior
      then load_permissionable_inferiors n search obj_class rest cfg
      else case load_permissionable_attributes n search inferior cfg of
             None \<Rightarrow> None
           | Some cfg' \<Rightarrow> load_permissionable_inferiors n search obj_class rest cfg')"

definition config_classes :: "ad_config \<Rightarrow> qstring set" where
  "config_classes cfg = insert CLASS_DOMAIN (\<Union> (set ` ran (class_possible_inferiors_map cfg)))"

text \<open>
  \<open>AdConfig::load\<close>: \<open>sid_display\<close> is the display of a SID, and \<open>locale_code\<close> the code of the locale.
  \<open>None\<close> is the fuel of the last step running out.
\<close>

definition clear_config :: "ad_config \<Rightarrow> ad_config" where
  "clear_config cfg = cfg\<lparr>filter_containers := [], columns := [], column_display_names := Map.empty,
     class_display_names := Map.empty, find_attributes := Map.empty, attribute_display_names := Map.empty,
     attribute_schemas := Map.empty, class_schemas := Map.empty\<rparr>"

definition load_root_dse :: "ad_search \<Rightarrow> (bytes \<Rightarrow> qstring) \<Rightarrow> ad_config \<Rightarrow> ad_config" where
  "load_root_dse search sid_display cfg =
     (let root = search_object search [] [];
          cfg = cfg\<lparr>cfg_domain_dn := get_string root ATTRIBUTE_DEFAULT_NAMING_CONTEXT,
            cfg_schema_dn := get_string root ATTRIBUTE_SCHEMA_NAMING_CONTEXT,
            cfg_configuration_dn := get_string root ATTRIBUTE_CONFIGURATION_NAMING_CONTEXT,
            supported_control_list := get_strings root ATTRIBUTE_SUPPORTED_CONTROL,
            cfg_root_domain_dn := get_string root ATTRIBUTE_ROOT_DOMAIN_NAMING_CONTEXT\<rparr>
      in cfg\<lparr>cfg_domain_sid := sid_display (get_value (search_object search (cfg_domain_dn cfg) []) ATTRIBUTE_OBJECT_SID)\<rparr>)"

definition ad_config_load ::
  "nat \<Rightarrow> ad_search \<Rightarrow> (bytes \<Rightarrow> qstring) \<Rightarrow> qstring \<Rightarrow> ad_config \<Rightarrow> ad_config option faulty" where
  "ad_config_load fuel search sid_display locale_code cfg =
     (let cfg = load_root_dse search sid_display (clear_config cfg);
          locale_dir = get_locale_dir cfg locale_code;
          cfg = load_class_schemas search (load_attribute_schemas search cfg)
      in bind_faulty (load_display_names search locale_dir cfg) (\<lambda>cfg.
         bind_faulty (load_extended_rights search (load_filter_containers search locale_dir (load_columns search locale_dir cfg)))
           (\<lambda>cfg. Inr (load_permissionable_attributes fuel search CLASS_DOMAIN cfg))))"

section \<open>Properties\<close>

subsection \<open>Attribute types\<close>

text \<open>
  The type of an attribute follows the table of syntaxes, but the table has the syntax \<open>2.5.5.5\<close>
  twice and the second entry replaces the first: no schema gives the type IA5, and an attribute
  with that syntax and the OM syntax 22 is taken for a case-sensitive string.
\<close>

theorem attribute_type_never_ia5:
  "get_attribute_type cfg attribute \<noteq> AttributeType_IA5
    \<and> lookup_attribute_type ''2.5.5.5'' ''22'' = AttributeType_StringCase
    \<and> lookup_attribute_type ''2.5.5.5'' ''19'' = AttributeType_Printable"
proof -
  have "lookup_attribute_type syn om \<noteq> AttributeType_IA5" for syn om
    unfolding lookup_attribute_type_def attribute_type_table_def by (auto split: if_splits option.split)
  then show ?thesis unfolding get_attribute_type_def Let_def
    by (simp add: lookup_attribute_type_def attribute_type_table_def)
qed

subsection \<open>The chain of base classes\<close>

declare inherit_chain_loop.simps [code]

lemma inherit_chain_loop_stop:
  "get_parent_class cfg ((get_parent_class cfg ^^ n) c) = (get_parent_class cfg ^^ n) c \<Longrightarrow>
    \<exists>m \<le> n. inherit_chain_loop cfg out c = Some (out @ map (\<lambda>i. (get_parent_class cfg ^^ i) c) [0..<Suc m])
      \<and> get_parent_class cfg ((get_parent_class cfg ^^ m) c) = (get_parent_class cfg ^^ m) c"
proof (induction n arbitrary: out c)
  case 0
  then show ?case by (auto simp: inherit_chain_loop.simps [of cfg out c] Let_def)
next
  case (Suc n)
  let ?p = "get_parent_class cfg"
  show ?case
  proof (cases "?p c = c")
    case True
    then show ?thesis by (intro exI [of _ 0]) (auto simp: inherit_chain_loop.simps [of cfg out c] Let_def)
  next
    case False
    have "?p ((?p ^^ n) (?p c)) = (?p ^^ n) (?p c)" using Suc.prems by (simp add: funpow_swap1)
    from Suc.IH [OF this, of "out @ [c]"] obtain m where m: "m \<le> n"
      "inherit_chain_loop cfg (out @ [c]) (?p c) = Some ((out @ [c]) @ map (\<lambda>i. (?p ^^ i) (?p c)) [0..<Suc m])"
      "?p ((?p ^^ m) (?p c)) = (?p ^^ m) (?p c)" by blast
    have "map (\<lambda>i. (?p ^^ i) c) [0..<Suc (Suc m)] = c # map (\<lambda>i. (?p ^^ i) (?p c)) [0..<Suc m]"
      by (simp add: upt_conv_Cons funpow_swap1 map_Suc_upt [symmetric] comp_def del: upt_Suc)
    then show ?thesis using m False
      by (intro exI [of _ "Suc m"]) (simp add: inherit_chain_loop.simps [of cfg out c] Let_def funpow_swap1 del: upt_Suc)
  qed
qed

lemma inherit_chain_loop_some:
  "inherit_chain_loop cfg out c = Some chain \<Longrightarrow>
    \<exists>n. get_parent_class cfg ((get_parent_class cfg ^^ n) c) = (get_parent_class cfg ^^ n) c"
proof -
  let ?P = "\<lambda>cfg c. \<exists>n. get_parent_class cfg ((get_parent_class cfg ^^ n) c) = (get_parent_class cfg ^^ n) c"
  have step: "?P cfg c"
    if loop: "\<And>cfg out c chain. loop cfg out c = Some chain \<Longrightarrow> ?P cfg c"
      and body: "(let out = out @ [c]; parent_class = get_parent_class cfg c
          in if parent_class = c then Some out else loop cfg out parent_class) = Some chain"
    for loop cfg out c and chain :: "qstring list"
  proof (cases "get_parent_class cfg c = c")
    case True
    then show ?thesis by (intro exI [of _ 0]) simp
  next
    case False
    then have "loop cfg (out @ [c]) (get_parent_class cfg c) = Some chain" using body by (simp add: Let_def)
    then obtain n where "get_parent_class cfg ((get_parent_class cfg ^^ n) (get_parent_class cfg c))
        = (get_parent_class cfg ^^ n) (get_parent_class cfg c)" using loop by blast
    then show ?thesis by (intro exI [of _ "Suc n"]) (simp add: funpow_swap1)
  qed
  assume "inherit_chain_loop cfg out c = Some chain"
  then show "?P cfg c"
    by (rule inherit_chain_loop.raw_induct [of "\<lambda>cfg out c chain. ?P cfg c", rotated]) (rule step)
qed

text \<open>
  C15. The chain of base classes of a class is computed exactly when following \<open>subClassOf\<close> reaches a
  class that is its own parent (for a class the schema does not have, the empty name); then it
  starts with the class, goes from each class to its parent, and ends there. On a cycle the loop
  never ends.
\<close>

theorem inherit_chain_terminates:
  "(get_inherit_chain cfg c \<noteq> None \<longleftrightarrow>
      (\<exists>n. get_parent_class cfg ((get_parent_class cfg ^^ n) c) = (get_parent_class cfg ^^ n) c))
    \<and> (case get_inherit_chain cfg c of None \<Rightarrow> True | Some chain \<Rightarrow>
        \<exists>m. chain = map (\<lambda>i. (get_parent_class cfg ^^ i) c) [0..<Suc m]
          \<and> get_parent_class cfg (last chain) = last chain)"
proof -
  have stop: "get_inherit_chain cfg c = Some chain \<Longrightarrow>
      \<exists>n. get_parent_class cfg ((get_parent_class cfg ^^ n) c) = (get_parent_class cfg ^^ n) c" for chain
    using inherit_chain_loop_some by (auto simp: get_inherit_chain_def)
  have run: "\<exists>m. get_inherit_chain cfg c = Some (map (\<lambda>i. (get_parent_class cfg ^^ i) c) [0..<Suc m])
      \<and> get_parent_class cfg ((get_parent_class cfg ^^ m) c) = (get_parent_class cfg ^^ m) c"
    if "get_parent_class cfg ((get_parent_class cfg ^^ n) c) = (get_parent_class cfg ^^ n) c" for n
    using inherit_chain_loop_stop [OF that, of "[]"] by (auto simp: get_inherit_chain_def)
  show ?thesis
  proof (cases "get_inherit_chain cfg c")
    case None
    then show ?thesis using run by fastforce
  next
    case (Some chain)
    obtain n where "get_parent_class cfg ((get_parent_class cfg ^^ n) c) = (get_parent_class cfg ^^ n) c"
      using stop [OF Some] by blast
    with run Some show ?thesis by fastforce
  qed
qed

subsection \<open>Auxiliary classes\<close>

lemma fold_load_class_schema:
  assumes "\<forall>obj \<in> set objs. dom (attributes_data obj) \<subseteq> A"
    and "\<forall>obj \<in> ran (class_schemas cfg). dom (attributes_data obj) \<subseteq> A"
  shows "\<forall>obj \<in> ran (class_schemas (fold load_class_schema objs cfg)). dom (attributes_data obj) \<subseteq> A"
  using assms
proof (induction objs arbitrary: cfg)
  case (Cons obj objs)
  have "\<forall>o' \<in> ran (class_schemas (load_class_schema obj cfg)). dom (attributes_data o') \<subseteq> A"
    using Cons.prems by (auto simp: load_class_schema_def Let_def ran_def split: if_splits)
  then show ?case using Cons by simp
qed simp

text \<open>
  After the schema of classes is loaded into a cleared configuration, no class is recognised as
  auxiliary: the attribute with the category of a class is not among those that are requested, so
  the server does not return it and the category reads as 0.
\<close>

theorem class_is_auxiliary_never:
  assumes "returns_requested search"
  shows "\<not> class_is_auxiliary (load_class_schemas search (clear_config cfg)) obj_class"
proof -
  let ?cfg = "load_class_schemas search (clear_config cfg)"
  have "class_schema_attributes \<noteq> []" by (simp add: class_schema_attributes_def)
  then have "\<forall>obj \<in> set (search base scope flt class_schema_attributes).
      dom (attributes_data obj) \<subseteq> set class_schema_attributes" for base scope flt
    using assms unfolding returns_requested_def by blast
  then have all: "\<forall>obj \<in> ran (class_schemas ?cfg). dom (attributes_data obj) \<subseteq> set class_schema_attributes"
    unfolding load_class_schemas_def Let_def
    by (intro fold_load_class_schema) (auto simp: clear_config_def)
  have not_in: "ATTRIBUTE_OBJECT_CLASS_CATEGORY \<notin> set class_schema_attributes"
    by (simp add: class_schema_attributes_def)
  have "attributes_data obj ATTRIBUTE_OBJECT_CLASS_CATEGORY = None"
    if "class_schemas ?cfg obj_class = Some obj" for obj
  proof -
    have "obj \<in> ran (class_schemas ?cfg)" using that by (rule ranI)
    with all have "dom (attributes_data obj) \<subseteq> set class_schema_attributes" by blast
    then show ?thesis using not_in by blast
  qed
  then have "attributes_data (class_schema ?cfg obj_class) ATTRIBUTE_OBJECT_CLASS_CATEGORY = None"
    unfolding class_schema_def map_value_def empty_object_def by (simp split: option.split)
  then show ?thesis
    by (simp add: class_is_auxiliary_def get_int_def get_ints_def get_strings_def get_values_def)
qed

definition example_schema_search :: ad_search where
  "example_schema_search base scope flt attributes =
     [\<lparr>object_dn = ''CN=Mail-Recipient'',
       attributes_data = (\<lambda>a. if a \<in> set attributes then
          (if a = ATTRIBUTE_LDAP_DISPLAY_NAME then Some [bytes_of_string ''mailRecipient'']
           else if a = ATTRIBUTE_OBJECT_CLASS_CATEGORY then Some [bytes_of_string ''3''] else None) else None)\<rparr>]"

theorem class_is_auxiliary_never_witness:
  "\<not> class_is_auxiliary (load_class_schemas example_schema_search (clear_config empty_config)) ''mailRecipient''"
proof -
  have "returns_requested example_schema_search"
    by (auto simp: returns_requested_def example_schema_search_def split: if_splits)
  then show ?thesis by (rule class_is_auxiliary_never)
qed

subsection \<open>Loading the permissionable attributes\<close>

definition same_schema :: "ad_config \<Rightarrow> ad_config \<Rightarrow> bool" where
  "same_schema cfg cfg' = (class_possible_inferiors_map cfg' = class_possible_inferiors_map cfg
     \<and> dom (class_permissionable_attributes_map cfg) \<subseteq> dom (class_permissionable_attributes_map cfg'))"

abbreviation unloaded :: "qstring set \<Rightarrow> ad_config \<Rightarrow> qstring set" where
  "unloaded U cfg \<equiv> U - dom (class_permissionable_attributes_map cfg)"

lemma load_permissionable_returns:
  fixes U :: "qstring set"
  assumes "finite U" and "\<And>c. set (get_class_possible_inferiors cfg c) \<subseteq> U"
  shows "c \<in> U \<Longrightarrow> \<not> is_permissionable cfg c \<Longrightarrow> card (unloaded U cfg) < n \<Longrightarrow>
      \<exists>cfg'. load_permissionable_attributes n search c cfg = Some cfg' \<and> same_schema cfg cfg'"
    and "is_permissionable cfg c \<Longrightarrow> set infs \<subseteq> U \<Longrightarrow> card (unloaded U cfg) < n \<Longrightarrow>
      \<exists>cfg'. load_permissionable_inferiors n search c infs cfg = Some cfg' \<and> same_schema cfg cfg'"
  using assms
proof (induction n search c cfg and n search c infs cfg rule: load_permissionable_attributes_load_permissionable_inferiors.induct)
  case (2 n search c cfg)
  show ?case
  proof (cases "search (cfg_schema_dn cfg) SearchScope_Children
      (filter_CONDITION Condition_Equals ATTRIBUTE_LDAP_DISPLAY_NAME c) [ATTRIBUTE_ALLOWED_ATTRIBUTES, ATTRIBUTE_SYSTEM_MAY_CONTAIN]")
    case Nil
    then show ?thesis by (simp add: same_schema_def)
  next
    case (Cons obj objs)
    let ?cfg = "cfg\<lparr>class_permissionable_attributes_map := (class_permissionable_attributes_map cfg)
        (c \<mapsto> permissionable_attributes_of cfg obj)\<rparr>"
    have inf: "get_class_possible_inferiors ?cfg = get_class_possible_inferiors cfg"
      by (simp add: fun_eq_iff get_class_possible_inferiors_def)
    have c: "c \<in> unloaded U cfg" using 2 by (auto simp: is_permissionable_def)
    have "unloaded U ?cfg = unloaded U cfg - {c}" by auto
    then have card: "card (unloaded U ?cfg) < n"
      using c 2(4) card_Diff1_less [OF finite_Diff [OF 2(5)] c] by (simp only: less_Suc_eq_le)
    have "is_permissionable ?cfg c" by (simp add: is_permissionable_def)
    from 2(1) [OF refl Cons refl this _ card] obtain cfg' where
      "load_permissionable_inferiors n search c (get_class_possible_inferiors ?cfg c) ?cfg = Some cfg'" "same_schema ?cfg cfg'"
      using 2(5,6) inf by auto
    then show ?thesis using Cons by (auto simp: Let_def same_schema_def)
  qed
next
  case (4 n search c inf rest cfg)
  show ?case
  proof (cases "inf = c \<or> is_permissionable cfg inf")
    case True
    then show ?thesis using 4(1) 4(4-) by simp
  next
    case False
    then obtain cfg1 where one: "load_permissionable_attributes n search inf cfg = Some cfg1" "same_schema cfg cfg1"
      using 4(2) 4(4-) by auto
    have infs: "get_class_possible_inferiors cfg1 = get_class_possible_inferiors cfg"
      using one(2) by (intro ext) (simp add: same_schema_def get_class_possible_inferiors_def)
    have "unloaded U cfg1 \<subseteq> unloaded U cfg" using one(2) by (auto simp: same_schema_def)
    then have "card (unloaded U cfg1) < n" using 4(6) 4(7) by (meson card_mono finite_Diff le_less_trans)
    moreover have "is_permissionable cfg1 c" using one(2) 4(4) by (auto simp: same_schema_def is_permissionable_def)
    ultimately obtain cfg2 where "load_permissionable_inferiors n search c rest cfg1 = Some cfg2" "same_schema cfg1 cfg2"
      using 4(3) [OF False one(1)] 4(5,7,8) infs by auto
    moreover have "same_schema cfg cfg2" using one(2) calculation(2) unfolding same_schema_def by force
    ultimately show ?thesis using False one by simp
  qed
qed (auto simp: same_schema_def)

text \<open>
  Loading the permissionable attributes of the domain class and, recursively, of every class
  that can be below it ends for every finite schema, also when classes can contain each other: fuel
  for one more than the number of classes is enough.
\<close>

theorem load_permissionable_attributes_terminates:
  assumes "finite (config_classes cfg)" and "\<not> is_permissionable cfg CLASS_DOMAIN"
  shows "load_permissionable_attributes (Suc (card (config_classes cfg))) search CLASS_DOMAIN cfg \<noteq> None"
proof -
  have "set (get_class_possible_inferiors cfg c) \<subseteq> config_classes cfg" for c
    by (cases "class_possible_inferiors_map cfg c")
      (auto simp: get_class_possible_inferiors_def map_value_def config_classes_def ran_def)
  moreover have "CLASS_DOMAIN \<in> config_classes cfg" by (simp add: config_classes_def)
  moreover have "card (unloaded (config_classes cfg) cfg) < Suc (card (config_classes cfg))"
    using assms(1) by (simp add: card_mono less_Suc_eq_le)
  ultimately obtain cfg' where
    "load_permissionable_attributes (Suc (card (config_classes cfg))) search CLASS_DOMAIN cfg = Some cfg'"
    using load_permissionable_returns(1) [OF assms(1) _ _ assms(2)] by blast
  then show ?thesis by simp
qed

theorem load_permissionable_attributes_terminates_witness:
  "load_permissionable_attributes (Suc (card (config_classes
      (empty_config\<lparr>class_possible_inferiors_map := [CLASS_DOMAIN \<mapsto> [CLASS_OU, CLASS_DOMAIN], CLASS_OU \<mapsto> [CLASS_OU, CLASS_DOMAIN]]\<rparr>))))
    example_schema_search CLASS_DOMAIN
    (empty_config\<lparr>class_possible_inferiors_map := [CLASS_DOMAIN \<mapsto> [CLASS_OU, CLASS_DOMAIN], CLASS_OU \<mapsto> [CLASS_OU, CLASS_DOMAIN]]\<rparr>)
   \<noteq> None"
proof (rule load_permissionable_attributes_terminates)
  let ?m = "[CLASS_DOMAIN \<mapsto> [CLASS_OU, CLASS_DOMAIN], CLASS_OU \<mapsto> [CLASS_OU, CLASS_DOMAIN]]"
  have "finite (ran ?m)" by (rule finite_ran) simp
  then show "finite (config_classes (empty_config\<lparr>class_possible_inferiors_map := ?m\<rparr>))"
    by (simp add: config_classes_def del: fun_upd_apply)
qed (simp add: is_permissionable_def empty_config_def)

end
