(* ===== verification/SecurityRights.thy ===== *)
theory SecurityRights
  imports AdConfig DaclFacts
begin

text \<open>
  The part of \<open>src/adldap/ad_security.cpp\<close> that works with whole rights: the rights of a class, the
  superiors and subordinates of a right, the full versions of adding and removing a right,
  protection against deletion and the option "user cannot change password"; and
  \<open>src/adldap/common_task_manager.cpp\<close>, the rights of the delegation tasks.
\<close>

section \<open>Making rights\<close>

definition common_rights_list :: "sec_api \<Rightarrow> mask list" where
  "common_rights_list k = [SEC_ADS_GENERIC_ALL k, SEC_ADS_GENERIC_READ k, SEC_ADS_GENERIC_WRITE k, SEC_ADS_LIST k,
     SEC_ADS_READ_PROP k, SEC_ADS_WRITE_PROP k, SEC_STD_DELETE k, SEC_ADS_DELETE_TREE k, SEC_STD_READ_CONTROL k,
     SEC_STD_WRITE_DAC k, SEC_STD_WRITE_OWNER k, SEC_ADS_SELF_WRITE k, SEC_ADS_CONTROL_ACCESS k,
     SEC_ADS_CREATE_CHILD k, SEC_ADS_DELETE_CHILD k]"

abbreviation make_right :: "mask \<Rightarrow> bytes \<Rightarrow> bytes \<Rightarrow> byte \<Rightarrow> SecurityRight" where
  "make_right m object inherited flags \<equiv>
     \<lparr>access_mask = m, object_type = object, inherited_object_type = inherited, right_flags = flags\<rparr>"

definition ad_security_get_common_rights :: "sec_api \<Rightarrow> SecurityRight list" where
  "ad_security_get_common_rights k = map (\<lambda>m. make_right m [] [] 0) (common_rights_list k)"

definition ad_security_get_extended_rights_for_class :: "sec_api \<Rightarrow> ad_config \<Rightarrow> qstring list \<Rightarrow> SecurityRight list" where
  "ad_security_get_extended_rights_for_class k cfg class_list =
     concat (map (\<lambda>rights.
       let valid_accesses = get_rights_valid_accesses k cfg rights;
           rights_guid = get_right_guid cfg rights
       in map (\<lambda>m. make_right m rights_guid [] 0)
            (filter (\<lambda>m. bitmask_is_set valid_accesses m)
               [SEC_ADS_CONTROL_ACCESS k, SEC_ADS_READ_PROP k, SEC_ADS_WRITE_PROP k]))
       (get_extended_rights_list cfg class_list))"

definition creation_deletion_rights_for_class :: "sec_api \<Rightarrow> ad_config \<Rightarrow> qstring \<Rightarrow> SecurityRight list" where
  "creation_deletion_rights_for_class k cfg obj_class =
     (let obj_class_guid = guid_from_class cfg obj_class
      in if obj_class_guid = [] then []
         else [make_right (SEC_ADS_CREATE_CHILD k) obj_class_guid [] (SEC_ACE_FLAG_CONTAINER_INHERIT k),
               make_right (SEC_ADS_DELETE_CHILD k) obj_class_guid [] (SEC_ACE_FLAG_CONTAINER_INHERIT k)])"

definition inherit_only_flags :: "sec_api \<Rightarrow> byte" where
  "inherit_only_flags k = SEC_ACE_FLAG_CONTAINER_INHERIT k OR SEC_ACE_FLAG_INHERIT_ONLY k"

definition control_children_class_right :: "sec_api \<Rightarrow> ad_config \<Rightarrow> qstring \<Rightarrow> SecurityRight list" where
  "control_children_class_right k cfg obj_class =
     [make_right (SEC_ADS_GENERIC_ALL k) [] (guid_from_class cfg obj_class) (inherit_only_flags k)]"

definition children_class_read_write_prop_rights :: "sec_api \<Rightarrow> ad_config \<Rightarrow> qstring \<Rightarrow> qstring \<Rightarrow> SecurityRight list" where
  "children_class_read_write_prop_rights k cfg obj_class attribute =
     (let obj_class_guid = guid_from_class cfg obj_class;
          property_guid = attribute_to_guid cfg attribute
      in [make_right (SEC_ADS_READ_PROP k) property_guid obj_class_guid (inherit_only_flags k),
          make_right (SEC_ADS_WRITE_PROP k) property_guid obj_class_guid (inherit_only_flags k)])"

definition read_all_children_class_info_rights :: "sec_api \<Rightarrow> ad_config \<Rightarrow> qstring \<Rightarrow> SecurityRight list" where
  "read_all_children_class_info_rights k cfg obj_class =
     [make_right (SEC_ADS_READ_PROP k) [] (guid_from_class cfg obj_class) (inherit_only_flags k)]"

definition read_write_property_rights :: "sec_api \<Rightarrow> ad_config \<Rightarrow> qstring \<Rightarrow> SecurityRight list" where
  "read_write_property_rights k cfg attribute =
     (let property_guid = attribute_to_guid cfg attribute
      in [make_right (SEC_ADS_READ_PROP k) property_guid [] (SEC_ACE_FLAG_CONTAINER_INHERIT k),
          make_right (SEC_ADS_WRITE_PROP k) property_guid [] (SEC_ACE_FLAG_CONTAINER_INHERIT k)])"

definition create_children_class_right :: "sec_api \<Rightarrow> ad_config \<Rightarrow> qstring \<Rightarrow> SecurityRight list" where
  "create_children_class_right k cfg obj_class =
     (let obj_class_guid = guid_from_class cfg obj_class
      in if obj_class_guid = [] then []
         else [make_right (SEC_ADS_CREATE_CHILD k) obj_class_guid [] (SEC_ACE_FLAG_CONTAINER_INHERIT k)])"

section \<open>Delegation tasks\<close>

datatype common_task =
    CommonTask_UserControl | CommonTask_ChangeUserPassword | CommonTask_ReadAllUserInformation
  | CommonTask_GroupControl | CommonTask_InetOrgPersonControl | CommonTask_ChangeInetOrgPersonPassword
  | CommonTask_ReadAllInetOrgPersonInformation | CommonTask_GroupMembership | CommonTask_ManageGPLinks
  | CommonTask_DomainComputerJoin | CommonTask_COUNT

definition class_common_task_rights_map :: "(qstring \<times> common_task list) list" where
  "class_common_task_rights_map = [
     (CLASS_USER, [CommonTask_UserControl, CommonTask_ChangeUserPassword, CommonTask_ReadAllUserInformation]),
     (CLASS_GROUP, [CommonTask_GroupControl, CommonTask_GroupMembership]),
     (CLASS_INET_ORG_PERSON, [CommonTask_InetOrgPersonControl, CommonTask_ChangeInetOrgPersonPassword,
        CommonTask_ReadAllInetOrgPersonInformation]),
     (CLASS_OU, [CommonTask_ManageGPLinks]),
     (CLASS_DOMAIN, [CommonTask_DomainComputerJoin])]"

fun common_task_name :: "common_task \<Rightarrow> qstring" where
  "common_task_name CommonTask_UserControl = ''Create, delete and manage user accounts''"
| "common_task_name CommonTask_ChangeUserPassword = ''Reset user passwords and force password change at next logon''"
| "common_task_name CommonTask_ReadAllUserInformation = ''Read all user information''"
| "common_task_name CommonTask_GroupControl = ''Create, delete and manage groups''"
| "common_task_name CommonTask_GroupMembership = ''Modify the membership of group''"
| "common_task_name CommonTask_ManageGPLinks = ''Manage Group Policy links''"
| "common_task_name CommonTask_InetOrgPersonControl = ''Create, delete and manage inetOrgPerson accounts''"
| "common_task_name CommonTask_ChangeInetOrgPersonPassword = ''Reset inetOrgPerson passwords and force password change at next logon''"
| "common_task_name CommonTask_ReadAllInetOrgPersonInformation = ''Read all inetOrgPerson information''"
| "common_task_name CommonTask_DomainComputerJoin = ''Join a computer to the domain''"
| "common_task_name CommonTask_COUNT = []"

definition load_common_tasks_rights :: "sec_api \<Rightarrow> ad_config \<Rightarrow> common_task \<Rightarrow> SecurityRight list" where
  "load_common_tasks_rights k cfg =
     (let control = (\<lambda>obj_class. creation_deletion_rights_for_class k cfg obj_class
                       @ control_children_class_right k cfg obj_class);
          change_password = (\<lambda>obj_class. children_class_read_write_prop_rights k cfg obj_class ATTRIBUTE_PWD_LAST_SET);
          read_all = read_all_children_class_info_rights k cfg
      in (\<lambda>_. [])(
           CommonTask_UserControl := control CLASS_USER,
           CommonTask_GroupControl := control CLASS_GROUP,
           CommonTask_InetOrgPersonControl := control CLASS_INET_ORG_PERSON,
           CommonTask_ChangeUserPassword := change_password CLASS_USER,
           CommonTask_ChangeInetOrgPersonPassword := change_password CLASS_INET_ORG_PERSON,
           CommonTask_ReadAllUserInformation := read_all CLASS_USER,
           CommonTask_ReadAllInetOrgPersonInformation := read_all CLASS_INET_ORG_PERSON,
           CommonTask_GroupMembership := children_class_read_write_prop_rights k cfg CLASS_GROUP ATTRIBUTE_MEMBER,
           CommonTask_ManageGPLinks := read_write_property_rights k cfg ATTRIBUTE_GPOPTIONS
             @ read_write_property_rights k cfg ATTRIBUTE_GPLINK,
           CommonTask_DomainComputerJoin := create_children_class_right k cfg CLASS_COMPUTER))"

definition rights_for_class :: "sec_api \<Rightarrow> ad_config \<Rightarrow> qstring \<Rightarrow> SecurityRight list" where
  "rights_for_class k cfg obj_class =
     (case map_of class_common_task_rights_map obj_class of
        None \<Rightarrow> []
      | Some tasks \<Rightarrow> concat (map (load_common_tasks_rights k cfg) tasks))"

definition tasks_object_classes :: "qstring list" where
  "tasks_object_classes = map fst class_common_task_rights_map"

section \<open>The rights of a class\<close>

text \<open>The accumulators are the rights on child objects and those of delegation tasks.\<close>

definition add_inferior_rights ::
  "sec_api \<Rightarrow> ad_config \<Rightarrow> qstring \<Rightarrow> SecurityRight list \<times> SecurityRight list \<Rightarrow> SecurityRight list \<times> SecurityRight list" where
  "add_inferior_rights k cfg inferior_class acc =
     (let child_objects_rights = fst acc @ creation_deletion_rights_for_class k cfg inferior_class
      in if inferior_class \<in> set tasks_object_classes
         then (child_objects_rights,
               snd acc @ filter (\<lambda>right. right \<notin> set child_objects_rights) (rights_for_class k cfg inferior_class))
         else (child_objects_rights, snd acc))"

definition ad_security_get_right_list_for_class :: "sec_api \<Rightarrow> ad_config \<Rightarrow> qstring list \<Rightarrow> SecurityRight list" where
  "ad_security_get_right_list_for_class k cfg class_list =
     (let obj_class = last class_list;
          permissionable_attrs_rights =
            concat (map (read_write_property_rights k cfg) (get_permissionable_attributes cfg obj_class));
          (child_objects_rights, common_task_rights) =
            fold (add_inferior_rights k cfg) (all_inferiors_list cfg obj_class) ([], [])
      in ad_security_get_common_rights k @ ad_security_get_extended_rights_for_class k cfg class_list
         @ permissionable_attrs_rights @ child_objects_rights @ common_task_rights)"

definition ad_security_get_superior_right_list :: "sec_api \<Rightarrow> SecurityRight \<Rightarrow> SecurityRight list" where
  "ad_security_get_superior_right_list k right =
     (let m = access_mask right;
          superior = (\<lambda>sm. make_right sm [] (inherited_object_type right) (right_flags right));
          generic_all = superior (SEC_ADS_GENERIC_ALL k)
      in if object_type right \<noteq> [] then
           (if m = SEC_ADS_READ_PROP k then [generic_all, superior (SEC_ADS_GENERIC_READ k), superior (SEC_ADS_READ_PROP k)]
            else if m = SEC_ADS_WRITE_PROP k then [generic_all, superior (SEC_ADS_GENERIC_WRITE k), superior (SEC_ADS_WRITE_PROP k)]
            else if m = SEC_ADS_CONTROL_ACCESS k then [generic_all, superior (SEC_ADS_CONTROL_ACCESS k)]
            else if m = SEC_ADS_CREATE_CHILD k then [generic_all, superior (SEC_ADS_CREATE_CHILD k)]
            else if m = SEC_ADS_DELETE_CHILD k then [generic_all, superior (SEC_ADS_DELETE_CHILD k)]
            else [])
         else (if m = SEC_ADS_GENERIC_READ k \<or> m = SEC_ADS_GENERIC_WRITE k then [generic_all] else []))"

definition is_subordinate :: "sec_api \<Rightarrow> mask \<Rightarrow> SecurityRight \<Rightarrow> bool" where
  "is_subordinate k m class_right =
     (let right_object_present = (object_type class_right \<noteq> []); cm = access_mask class_right
      in if m = SEC_ADS_GENERIC_ALL k then cm \<noteq> m
         else if m = SEC_ADS_GENERIC_READ k then cm = SEC_ADS_READ_PROP k \<or> cm = SEC_ADS_LIST k
         else if m = SEC_ADS_READ_PROP k then cm = SEC_ADS_READ_PROP k \<and> right_object_present
         else if m = SEC_ADS_GENERIC_WRITE k then cm = SEC_ADS_WRITE_PROP k \<or> cm = SEC_ADS_SELF_WRITE k
         else if m = SEC_ADS_WRITE_PROP k then cm = SEC_ADS_WRITE_PROP k \<and> right_object_present
         else if m = SEC_ADS_CONTROL_ACCESS k then cm = SEC_ADS_CONTROL_ACCESS k \<and> right_object_present
         else if m = SEC_ADS_CREATE_CHILD k then cm = SEC_ADS_CREATE_CHILD k \<and> right_object_present
         else if m = SEC_ADS_DELETE_CHILD k then cm = SEC_ADS_DELETE_CHILD k \<and> right_object_present
         else False)"

definition ad_security_get_subordinate_right_list ::
  "sec_api \<Rightarrow> ad_config \<Rightarrow> SecurityRight \<Rightarrow> qstring list \<Rightarrow> SecurityRight list" where
  "ad_security_get_subordinate_right_list k cfg right class_list =
     (if object_type right \<noteq> [] then []
      else map (\<lambda>class_right. make_right (access_mask class_right) (object_type class_right)
                  (inherited_object_type right) (right_flags right))
             (filter (is_subordinate k (access_mask right)) (ad_security_get_right_list_for_class k cfg class_list)))"

section \<open>Adding and removing a right with its superiors and subordinates\<close>

text \<open>\<open>allow\<close> is the state that is looked for; \<open>is_opposite_superior_set\<close> passes the opposite.\<close>

definition is_superior_set ::
  "sec_api \<Rightarrow> security_descriptor \<Rightarrow> bytes \<Rightarrow> SecurityRight \<Rightarrow> bool \<Rightarrow> bool faulty" where
  "is_superior_set k sd trustee superior allow =
     bind_faulty (security_descriptor_get_right_state k sd trustee superior) (\<lambda>state.
       Inr (state SecurityRightStateInherited_No
              (if allow then SecurityRightStateType_Allow else SecurityRightStateType_Deny)))"

definition is_opposite_superior_set ::
  "sec_api \<Rightarrow> security_descriptor \<Rightarrow> bytes \<Rightarrow> SecurityRight \<Rightarrow> bool \<Rightarrow> bool faulty" where
  "is_opposite_superior_set k sd trustee superior allow =
     bind_faulty (security_descriptor_get_right_state k sd trustee superior) (\<lambda>state.
       Inr (state SecurityRightStateInherited_No
              (if \<not> allow then SecurityRightStateType_Allow else SecurityRightStateType_Deny)))"

text \<open>A superior that is set is replaced by its subordinates.\<close>

definition replace_superior ::
  "sec_api \<Rightarrow> ad_config \<Rightarrow> qstring list \<Rightarrow> bytes \<Rightarrow> SecurityRight \<Rightarrow> bool \<Rightarrow> security_descriptor \<Rightarrow> security_descriptor faulty" where
  "replace_superior k cfg class_list trustee superior allow sd =
     bind_faulty (security_descriptor_remove_right_base k trustee superior allow sd)
       (fold_faulty (\<lambda>subordinate. security_descriptor_add_right_base k trustee subordinate allow)
          (ad_security_get_subordinate_right_list k cfg superior class_list))"

definition security_descriptor_add_right ::
  "sec_api \<Rightarrow> ad_config \<Rightarrow> qstring list \<Rightarrow> bytes \<Rightarrow> SecurityRight \<Rightarrow> bool \<Rightarrow> security_descriptor \<Rightarrow> security_descriptor faulty" where
  "security_descriptor_add_right k cfg class_list trustee right allow sd =
     (let subordinate_list = ad_security_get_subordinate_right_list k cfg right class_list
      in bind_faulty
           (fold_faulty (\<lambda>superior sd. bind_faulty (is_opposite_superior_set k sd trustee superior allow) (\<lambda>set.
              if \<not> set then Inr sd else replace_superior k cfg class_list trustee superior (\<not> allow) sd))
              (ad_security_get_superior_right_list k right) sd) (\<lambda>sd.
         bind_faulty (fold_faulty (\<lambda>subordinate. security_descriptor_remove_right_base k trustee subordinate allow)
              subordinate_list sd) (\<lambda>sd.
         bind_faulty (security_descriptor_remove_right_base k trustee right (\<not> allow) sd) (\<lambda>sd.
         bind_faulty (fold_faulty (\<lambda>subordinate. security_descriptor_remove_right_base k trustee subordinate (\<not> allow))
              subordinate_list sd) (\<lambda>sd.
         bind_faulty (security_descriptor_add_right_base k trustee right allow sd)
           (security_descriptor_sort_dacl k))))))"

definition security_descriptor_remove_right ::
  "sec_api \<Rightarrow> ad_config \<Rightarrow> qstring list \<Rightarrow> bytes \<Rightarrow> SecurityRight \<Rightarrow> bool \<Rightarrow> security_descriptor \<Rightarrow> security_descriptor faulty" where
  "security_descriptor_remove_right k cfg class_list trustee right allow sd =
     bind_faulty
       (fold_faulty (\<lambda>superior sd. bind_faulty (is_superior_set k sd trustee superior allow) (\<lambda>set.
          if \<not> set then Inr sd else replace_superior k cfg class_list trustee superior allow sd))
          (ad_security_get_superior_right_list k right) sd) (\<lambda>sd.
     bind_faulty (security_descriptor_remove_right_base k trustee right allow sd) (\<lambda>sd.
     bind_faulty (fold_faulty (\<lambda>subordinate. security_descriptor_remove_right_base k trustee subordinate allow)
          (ad_security_get_subordinate_right_list k cfg right class_list) sd)
       (security_descriptor_sort_dacl k)))"

section \<open>Protection against deletion and changing the password\<close>

definition protect_deletion_mask_list :: "sec_api \<Rightarrow> mask list" where
  "protect_deletion_mask_list k = [SEC_STD_DELETE k, SEC_ADS_DELETE_TREE k]"

text \<open>A descriptor that could not be read is a null pointer too.\<close>

type_synonym sd_pointer = "security_descriptor option"

definition deref_sd :: "sd_pointer \<Rightarrow> security_descriptor faulty" where
  "deref_sd p = (case p of None \<Rightarrow> Inl Null_Dereference | Some sd \<Rightarrow> Inr sd)"

fun all_masks_denied :: "sec_api \<Rightarrow> security_descriptor \<Rightarrow> bytes \<Rightarrow> mask list \<Rightarrow> bool faulty" where
  "all_masks_denied k sd trustee [] = Inr True"
| "all_masks_denied k sd trustee (m # rest) =
     bind_faulty (security_descriptor_get_right_state k sd trustee (make_right m [] [] 0)) (\<lambda>state.
       if \<not> state SecurityRightStateInherited_No SecurityRightStateType_Deny then Inr False
       else all_masks_denied k sd trustee rest)"

definition is_delete_protected_for_trustee :: "sec_api \<Rightarrow> security_descriptor \<Rightarrow> bytes \<Rightarrow> bool faulty" where
  "is_delete_protected_for_trustee k sd trustee = all_masks_denied k sd trustee (protect_deletion_mask_list k)"

definition ad_security_get_protected_against_deletion :: "sec_api \<Rightarrow> sd_pointer \<Rightarrow> bool faulty" where
  "ad_security_get_protected_against_deletion k p =
     bind_faulty (deref_sd p) (\<lambda>sd. is_delete_protected_for_trustee k sd (sid_string_to_bytes k (SID_WORLD k)))"

definition protect_against_deletion :: "sec_api \<Rightarrow> bool \<Rightarrow> sd_pointer \<Rightarrow> security_descriptor faulty" where
  "protect_against_deletion k enabled p =
     bind_faulty (deref_sd p)
       (fold_faulty (\<lambda>m sd.
          if enabled then security_descriptor_add_right_base k (sid_string_to_bytes k (SID_WORLD k)) (make_right m [] [] 0) False sd
          else security_descriptor_remove_right_base k (sid_string_to_bytes k (SID_WORLD k)) (make_right m [] [] 0) False sd)
          (protect_deletion_mask_list k))"

text \<open>What the setter computes; the new descriptor, if any, replaces the old one on the server.\<close>

definition set_protected_against_deletion ::
  "sec_api \<Rightarrow> bool \<Rightarrow> sd_pointer \<Rightarrow> security_descriptor option faulty" where
  "set_protected_against_deletion k enabled p =
     bind_faulty (ad_security_get_protected_against_deletion k p) (\<lambda>is_enabled.
       if is_enabled = enabled then Inr None
       else bind_faulty (protect_against_deletion k enabled p) (\<lambda>new_sd.
            bind_faulty (security_descriptor_sort_dacl k new_sd) (\<lambda>sorted. Inr (Some sorted))))"

definition cant_change_pass_trustee_cn_list :: "sec_api \<Rightarrow> qstring list" where
  "cant_change_pass_trustee_cn_list k = [SID_NT_SELF k, SID_WORLD k]"

definition change_pass_right :: "sec_api \<Rightarrow> ad_config \<Rightarrow> SecurityRight" where
  "change_pass_right k cfg = make_right (SEC_ADS_CONTROL_ACCESS k) (get_right_guid cfg ''User-Change-Password'') [] 0"

definition is_password_change_denied_for_trustee ::
  "sec_api \<Rightarrow> ad_config \<Rightarrow> security_descriptor \<Rightarrow> qstring \<Rightarrow> bool faulty" where
  "is_password_change_denied_for_trustee k cfg sd trustee_cn =
     bind_faulty (security_descriptor_get_right_state k sd (sid_string_to_bytes k trustee_cn) (change_pass_right k cfg))
       (\<lambda>state. Inr (state SecurityRightStateInherited_No SecurityRightStateType_Deny))"

fun any_trustee_denied :: "sec_api \<Rightarrow> ad_config \<Rightarrow> security_descriptor \<Rightarrow> qstring list \<Rightarrow> bool faulty" where
  "any_trustee_denied k cfg sd [] = Inr False"
| "any_trustee_denied k cfg sd (trustee_cn # rest) =
     bind_faulty (is_password_change_denied_for_trustee k cfg sd trustee_cn) (\<lambda>is_denied.
       if is_denied then Inr True else any_trustee_denied k cfg sd rest)"

definition is_password_change_denied :: "sec_api \<Rightarrow> ad_config \<Rightarrow> security_descriptor \<Rightarrow> bool faulty" where
  "is_password_change_denied k cfg sd = any_trustee_denied k cfg sd (cant_change_pass_trustee_cn_list k)"

definition ad_security_get_user_cant_change_pass :: "sec_api \<Rightarrow> ad_config \<Rightarrow> sd_pointer \<Rightarrow> bool faulty" where
  "ad_security_get_user_cant_change_pass k cfg p = bind_faulty (deref_sd p) (is_password_change_denied k cfg)"

definition set_user_cant_change_pass :: "sec_api \<Rightarrow> ad_config \<Rightarrow> bool \<Rightarrow> sd_pointer \<Rightarrow> security_descriptor faulty" where
  "set_user_cant_change_pass k cfg enabled p =
     (let allow = (\<not> enabled); right = change_pass_right k cfg
      in bind_faulty (deref_sd p) (\<lambda>sd.
         bind_faulty (fold_faulty (\<lambda>trustee_cn sd.
            bind_faulty (security_descriptor_remove_right_base k (sid_string_to_bytes k trustee_cn) right (\<not> allow) sd)
              (security_descriptor_add_right_base k (sid_string_to_bytes k trustee_cn) right allow))
            (cant_change_pass_trustee_cn_list k) sd)
           (security_descriptor_sort_dacl k)))"

section \<open>Names\<close>

text \<open>Of the two names of \<open>SEC_STD_DELETE\<close> in the table the later one is kept.\<close>

definition common_right_name_map :: "sec_api \<Rightarrow> (mask \<times> qstring) list" where
  "common_right_name_map k = [
     (SEC_ADS_GENERIC_ALL k, ''Full control''), (SEC_ADS_GENERIC_READ k, ''Read''),
     (SEC_ADS_GENERIC_WRITE k, ''Write''), (SEC_STD_DELETE k, ''Delete''),
     (SEC_ADS_CREATE_CHILD k, ''Create all child objects''), (SEC_ADS_DELETE_CHILD k, ''Delete all child objects''),
     (SEC_STD_WRITE_OWNER k, ''Modify owner''), (SEC_ADS_SELF_WRITE k, ''All validated writes''),
     (SEC_STD_WRITE_DAC k, ''Modify permissions''), (SEC_STD_READ_CONTROL k, ''Read permissions''),
     (SEC_STD_DELETE k, ''Standard delete''), (SEC_ADS_DELETE_TREE k, ''Delete subtree''),
     (SEC_ADS_READ_PROP k, ''Read all properties''), (SEC_ADS_WRITE_PROP k, ''Write all properties''),
     (SEC_ADS_LIST k, ''List contents''), (SEC_ADS_CONTROL_ACCESS k, ''All extended rights'')]"

definition ad_security_get_right_name :: "sec_api \<Rightarrow> ad_config \<Rightarrow> SecurityRight \<Rightarrow> bool \<Rightarrow> qstring" where
  "ad_security_get_right_name k cfg right russian =
     (let object_type_name = get_right_name cfg (object_type right) russian; m = access_mask right
      in if m = SEC_ADS_CONTROL_ACCESS k \<and> object_type right \<noteq> [] then object_type_name
         else if m = SEC_ADS_READ_PROP k \<and> object_type right \<noteq> [] then ''Read '' @ object_type_name
         else if m = SEC_ADS_WRITE_PROP k \<and> object_type right \<noteq> [] then ''Write '' @ object_type_name
         else map_value (map_of (rev (common_right_name_map k))) m ''<unknown right>'')"

end
