(* ===== verification/RightsFacts.thy ===== *)
theory RightsFacts
  imports SecurityRights
begin

text \<open>
  What editing whole rights does: adding or removing a right together with its superiors and
  subordinates, and the two settings that are stored as entries of the DACL, protection against
  deletion and "user cannot change password".
\<close>

section \<open>Sequences of edits of one trustee\<close>

text \<open>
  The contract of the C library's \<open>qsort\<close>: the result is a permutation, and when the comparison is
  a total preorder on the elements no element is greater than its successor.
\<close>

definition total_preorder_on :: "('a \<Rightarrow> 'a \<Rightarrow> int) \<Rightarrow> 'a set \<Rightarrow> bool" where
  "total_preorder_on cmp A =
     ((\<forall>x \<in> A. \<forall>y \<in> A. cmp x y \<le> 0 \<or> cmp y x \<le> 0)
      \<and> (\<forall>x \<in> A. \<forall>y \<in> A. \<forall>z \<in> A. cmp x y \<le> 0 \<longrightarrow> cmp y z \<le> 0 \<longrightarrow> cmp x z \<le> 0))"

definition qsort_permutes :: "sec_api \<Rightarrow> bool" where
  "qsort_permutes k = (\<forall>cmp aces. mset (ace_qsort k cmp aces) = mset aces)"

text \<open>A descriptor with a DACL that satisfies a predicate.\<close>

definition dacl_sat :: "(security_ace list \<Rightarrow> bool) \<Rightarrow> security_descriptor \<Rightarrow> bool" where
  "dacl_sat P sd = (\<exists>dacl. sd_dacl sd = Some dacl \<and> P dacl)"

text \<open>
  What all edits for a trustee keep of a DACL: its untouched entries, of which there is one (so the
  DACL does not disappear), and that entries for objects have GUIDs.
\<close>

definition keeps :: "sec_api \<Rightarrow> dom_sid \<Rightarrow> security_ace list \<Rightarrow> security_ace list \<Rightarrow> bool" where
  "keeps k sid old dacl =
     (mset (filter (untouched k sid) dacl) = mset (filter (untouched k sid) old)
      \<and> (\<exists>ace \<in> set old. untouched k sid ace) \<and> (\<forall>ace \<in> set dacl. guid_ok k ace))"

lemma keeps_nonempty: "keeps k sid old dacl \<Longrightarrow> dacl \<noteq> []"
  by (auto simp: keeps_def filter_empty_conv)

lemma add_base_keeps:
  assumes "trustee_ok t" and "right_ok k r" and "documented_flags k"
    and "sd_dacl sd = Some d" and "keeps k (dom_sid_image t) old d"
  shows "\<exists>sd' d'. security_descriptor_add_right_base k t r allow sd = Inr sd' \<and> sd_dacl sd' = Some d'
    \<and> keeps k (dom_sid_image t) old d' \<and> added_to k (dom_sid_image t) r allow d d'"
proof -
  obtain sd' d' where sd': "security_descriptor_add_right_base k t r allow sd = Inr sd'" "sd_dacl sd' = Some d'"
    and added: "added_to k (dom_sid_image t) r allow d d'"
    using add_right_base_eq [OF assms(1-4)] by blast
  have guid: "\<forall>ace \<in> set d. guid_ok k ace" using assms(5) by (simp add: keeps_def)
  then have "\<forall>ace \<in> set d'. guid_ok k ace"
    using added unfolding added_to_def by (auto dest!: set_update_subset_insert [THEN subsetD])
  then have "keeps k (dom_sid_image t) old d'"
    using assms(5) unfolding keeps_def added_untouched [OF added assms(2,3)] by blast
  then show ?thesis using sd' added by blast
qed

lemma remove_base_keeps:
  assumes "trustee_ok t" and "right_ok k r" and "documented_flags k"
    and "sd_dacl sd = Some d" and "keeps k (dom_sid_image t) old d"
  shows "\<exists>sd'. security_descriptor_remove_right_base k t r allow sd = Inr sd'
    \<and> sd_dacl sd' = Some (removed_from k (dom_sid_image t) r allow d)
    \<and> keeps k (dom_sid_image t) old (removed_from k (dom_sid_image t) r allow d)"
proof -
  let ?d = "removed_from k (dom_sid_image t) r allow d"
  have "guid_ok k ace" if "ace \<in> set ?d" for ace
    using removed_member [OF that] assms(5) by (auto simp: keeps_def ace_unset_mask_def)
  then have keep: "keeps k (dom_sid_image t) old ?d"
    using assms(5) unfolding keeps_def removed_untouched [OF assms(2,3)] by blast
  then show ?thesis
    using remove_right_base_eq [OF assms(1,4), of k r allow] keeps_nonempty [OF keep] by (auto simp: Let_def)
qed


lemma removes_keep:
  assumes "trustee_ok t" and "documented_masks k" and "documented_flags k" and "\<forall>r \<in> set rs. right_ok k r"
    and "sd_dacl sd = Some d" and "keeps k (dom_sid_image t) old d"
  shows "\<exists>sd' d'. fold_faulty (\<lambda>r. security_descriptor_remove_right_base k t r allow) rs sd = Inr sd'
    \<and> sd_dacl sd' = Some d' \<and> keeps k (dom_sid_image t) old d'
    \<and> (\<forall>r' a'. right_set k (dom_sid_image t) r' a' d' \<longrightarrow> right_set k (dom_sid_image t) r' a' d)
    \<and> (\<forall>r \<in> set rs. \<not> right_set k (dom_sid_image t) r allow d')"
  using assms(4-6)
proof (induction rs arbitrary: sd d)
  case Nil
  then show ?case by auto
next
  case (Cons r rs)
  let ?d = "removed_from k (dom_sid_image t) r allow d"
  have ok: "right_ok k r" using Cons.prems(1) by simp
  obtain sd1 where sd1: "security_descriptor_remove_right_base k t r allow sd = Inr sd1" "sd_dacl sd1 = Some ?d"
    "keeps k (dom_sid_image t) old ?d"
    using remove_base_keeps [OF assms(1) ok assms(3) Cons.prems(2,3)] by blast
  obtain sd' d' where sd': "fold_faulty (\<lambda>r. security_descriptor_remove_right_base k t r allow) rs sd1 = Inr sd'"
    "sd_dacl sd' = Some d'" "keeps k (dom_sid_image t) old d'"
    "\<forall>r' a'. right_set k (dom_sid_image t) r' a' d' \<longrightarrow> right_set k (dom_sid_image t) r' a' ?d"
    "\<forall>r \<in> set rs. \<not> right_set k (dom_sid_image t) r allow d'"
    using Cons.IH [OF _ sd1(2,3)] Cons.prems(1) by auto
  have "access_mask r \<noteq> 0" using ok by (simp add: right_ok_def)
  then have "\<not> right_set k (dom_sid_image t) r allow d'" using sd'(4) removed_not_set [OF assms(2)] by blast
  then have "\<forall>x \<in> set (r # rs). \<not> right_set k (dom_sid_image t) x allow d'" using sd'(5) by simp
  moreover have "\<forall>r' a'. right_set k (dom_sid_image t) r' a' d' \<longrightarrow> right_set k (dom_sid_image t) r' a' d"
    using sd'(4) removed_right_set by blast
  moreover have "fold_faulty (\<lambda>r. security_descriptor_remove_right_base k t r allow) (r # rs) sd = Inr sd'"
    using sd1(1) sd'(1) by (simp only: fold_faulty.simps bind_faulty_Inr)
  ultimately show ?case using sd'(2,3) by blast
qed

lemma adds_keep:
  assumes "trustee_ok t" and "documented_flags k" and "\<forall>r \<in> set rs. right_ok k r"
    and "sd_dacl sd = Some d" and "keeps k (dom_sid_image t) old d"
  shows "\<exists>sd' d'. fold_faulty (\<lambda>r. security_descriptor_add_right_base k t r allow) rs sd = Inr sd'
    \<and> sd_dacl sd' = Some d' \<and> keeps k (dom_sid_image t) old d'
    \<and> (\<forall>r' a'. right_set k (dom_sid_image t) r' a' d \<longrightarrow> right_set k (dom_sid_image t) r' a' d')
    \<and> (\<forall>r \<in> set rs. right_set k (dom_sid_image t) r allow d')
    \<and> (\<forall>r' a'. right_ok k r' \<and> right_set k (dom_sid_image t) r' a' d' \<and> (allow = a' \<longrightarrow> (\<forall>r \<in> set rs. \<not> same_entry r r'))
         \<longrightarrow> right_set k (dom_sid_image t) r' a' d)"
  using assms(3-5)
proof (induction rs arbitrary: sd d)
  case Nil
  then show ?case by auto
next
  case (Cons r rs)
  have ok: "right_ok k r" and ok': "\<forall>r \<in> set rs. right_ok k r" using Cons.prems(1) by simp_all
  obtain sd1 d1 where sd1: "security_descriptor_add_right_base k t r allow sd = Inr sd1" "sd_dacl sd1 = Some d1"
    "keeps k (dom_sid_image t) old d1" and added: "added_to k (dom_sid_image t) r allow d d1"
    using add_base_keeps [OF assms(1) ok assms(2) Cons.prems(2,3)] by blast
  obtain sd' d' where sd': "fold_faulty (\<lambda>r. security_descriptor_add_right_base k t r allow) rs sd1 = Inr sd'"
    "sd_dacl sd' = Some d'" "keeps k (dom_sid_image t) old d'"
    "\<forall>r' a'. right_set k (dom_sid_image t) r' a' d1 \<longrightarrow> right_set k (dom_sid_image t) r' a' d'"
    "\<forall>r \<in> set rs. right_set k (dom_sid_image t) r allow d'"
    and other: "\<forall>r' a'. right_ok k r' \<and> right_set k (dom_sid_image t) r' a' d' \<and>
        (allow = a' \<longrightarrow> (\<forall>r \<in> set rs. \<not> same_entry r r')) \<longrightarrow> right_set k (dom_sid_image t) r' a' d1"
    using Cons.IH [OF ok' sd1(2,3)] by (elim exE conjE)
  have "right_set k (dom_sid_image t) r' a' d"
    if "right_ok k r'" "right_set k (dom_sid_image t) r' a' d'" "allow = a' \<longrightarrow> (\<forall>x \<in> set (r # rs). \<not> same_entry x r')" for r' a'
  proof (rule added_right_set_other [OF added _ ok that(1) assms(2)])
    show "right_set k (dom_sid_image t) r' a' d1" using other [rule_format, of r' a'] that by simp
    show "\<not> (allow = a' \<and> same_entry r r')" using that(3) by auto
  qed
  moreover have "\<forall>x \<in> set (r # rs). right_set k (dom_sid_image t) x allow d'"
    using sd'(4) [rule_format, OF added_right_set [OF added]] sd'(5) by simp
  moreover have "\<forall>r' a'. right_set k (dom_sid_image t) r' a' d \<longrightarrow> right_set k (dom_sid_image t) r' a' d'"
    using sd'(4) added_right_set_mono [OF added] by blast
  moreover have "fold_faulty (\<lambda>r. security_descriptor_add_right_base k t r allow) (r # rs) sd = Inr sd'"
    using sd1(1) sd'(1) by (simp only: fold_faulty.simps bind_faulty_Inr)
  ultimately show ?case using sd'(2,3) by (intro exI [of _ sd'] exI [of _ d'] conjI allI impI) blast+
qed

lemma sort_keeps:
  assumes "qsort_permutes k" and "sd_dacl sd = Some d" and "keeps k sid old d"
  shows "\<exists>sd' d'. security_descriptor_sort_dacl k sd = Inr sd' \<and> sd_dacl sd' = Some d' \<and> keeps k sid old d'
    \<and> mset d' = mset d \<and> set d' = set d"
proof -
  let ?d = "ace_qsort k (ace_compare k) d"
  have m: "mset ?d = mset d" using assms(1) by (simp add: qsort_permutes_def)
  then have "set ?d = set d" by (rule mset_eq_setD)
  moreover have "mset (filter P ?d) = mset (filter P d)" for P using m by simp
  ultimately show ?thesis using assms(2,3) m
    by (simp add: security_descriptor_sort_dacl_def keeps_def)
qed

lemma right_set_cong: "set d = set d' \<Longrightarrow> right_set k sid r allow d = right_set k sid r allow d'"
  by (simp add: right_set_def)

section \<open>The rights of a class\<close>

text \<open>The masks of rights on an object or attribute.\<close>

definition object_masks :: "sec_api \<Rightarrow> mask list" where
  "object_masks k = [SEC_ADS_READ_PROP k, SEC_ADS_WRITE_PROP k, SEC_ADS_CONTROL_ACCESS k,
     SEC_ADS_CREATE_CHILD k, SEC_ADS_DELETE_CHILD k]"

definition right_shape :: "sec_api \<Rightarrow> SecurityRight \<Rightarrow> bool" where
  "right_shape k r = (access_mask r \<in> set (common_rights_list k)
     \<and> (object_type r \<noteq> [] \<longrightarrow> access_mask r \<in> set (object_masks k)))"

lemmas right_makers = ad_security_get_common_rights_def ad_security_get_extended_rights_for_class_def
  creation_deletion_rights_for_class_def control_children_class_right_def
  children_class_read_write_prop_rights_def read_all_children_class_info_rights_def
  read_write_property_rights_def create_children_class_right_def

lemma shape_object: "m \<in> set (object_masks k) \<Longrightarrow> right_shape k (make_right m g i f)"
  by (auto simp: right_shape_def object_masks_def common_rights_list_def)

lemma shape_common: "m \<in> set (common_rights_list k) \<Longrightarrow> right_shape k (make_right m [] i f)"
  by (simp add: right_shape_def)

lemma object_masks_members [simp]:
  "SEC_ADS_READ_PROP k \<in> set (object_masks k)" "SEC_ADS_WRITE_PROP k \<in> set (object_masks k)"
  "SEC_ADS_CONTROL_ACCESS k \<in> set (object_masks k)" "SEC_ADS_CREATE_CHILD k \<in> set (object_masks k)"
  "SEC_ADS_DELETE_CHILD k \<in> set (object_masks k)"
  by (simp_all add: object_masks_def)

lemma common_masks_members [simp]:
  "SEC_ADS_GENERIC_ALL k \<in> set (common_rights_list k)" "SEC_ADS_READ_PROP k \<in> set (common_rights_list k)"
  by (simp_all add: common_rights_list_def)

lemma right_makers_shape:
  "r \<in> set (ad_security_get_common_rights k) \<Longrightarrow> right_shape k r"
  "r \<in> set (ad_security_get_extended_rights_for_class k cfg cl) \<Longrightarrow> right_shape k r"
  "r \<in> set (creation_deletion_rights_for_class k cfg c) \<Longrightarrow> right_shape k r"
  "r \<in> set (control_children_class_right k cfg c) \<Longrightarrow> right_shape k r"
  "r \<in> set (children_class_read_write_prop_rights k cfg c a) \<Longrightarrow> right_shape k r"
  "r \<in> set (read_all_children_class_info_rights k cfg c) \<Longrightarrow> right_shape k r"
  "r \<in> set (read_write_property_rights k cfg a) \<Longrightarrow> right_shape k r"
  "r \<in> set (create_children_class_right k cfg c) \<Longrightarrow> right_shape k r"
  by (auto simp: right_makers Let_def intro: shape_object shape_common split: if_splits)

lemma task_rights_shape: "r \<in> set (load_common_tasks_rights k cfg task) \<Longrightarrow> right_shape k r"
  by (cases task) (auto simp: load_common_tasks_rights_def Let_def intro: right_makers_shape)

lemma rights_for_class_shape: "r \<in> set (rights_for_class k cfg c) \<Longrightarrow> right_shape k r"
  by (auto simp: rights_for_class_def intro: task_rights_shape split: option.splits)

lemma inferior_rights_shape:
  assumes "\<forall>r \<in> set (fst acc) \<union> set (snd acc). right_shape k r"
  shows "\<forall>r \<in> set (fst (fold (add_inferior_rights k cfg) cs acc)) \<union> set (snd (fold (add_inferior_rights k cfg) cs acc)).
    right_shape k r"
  using assms
proof (induction cs arbitrary: acc)
  case Nil
  then show ?case by simp
next
  case (Cons c cs)
  have "\<forall>r \<in> set (fst (add_inferior_rights k cfg c acc)) \<union> set (snd (add_inferior_rights k cfg c acc)). right_shape k r"
    using Cons.prems by (auto simp: add_inferior_rights_def Let_def intro: right_makers_shape rights_for_class_shape)
  then show ?case using Cons.IH by simp
qed

lemma class_right_shape:
  assumes "r \<in> set (ad_security_get_right_list_for_class k cfg cl)"
  shows "right_shape k r"
proof -
  let ?acc = "fold (add_inferior_rights k cfg) (all_inferiors_list cfg (last cl)) ([], [])"
  have "\<forall>r \<in> set (fst ?acc) \<union> set (snd ?acc). right_shape k r"
    by (rule inferior_rights_shape) simp
  then show ?thesis using assms
    by (auto simp: ad_security_get_right_list_for_class_def Let_def split_beta intro: right_makers_shape)
qed


text \<open>The GUIDs that the schema gives for classes, attributes and rights have 16 bytes or are missing.\<close>

definition class_guids_ok :: "sec_api \<Rightarrow> ad_config \<Rightarrow> qstring list \<Rightarrow> bool" where
  "class_guids_ok k cfg cl =
     (\<forall>r \<in> set (ad_security_get_right_list_for_class k cfg cl). length (object_type r) \<in> {0, 16})"

lemma common_mask_nonzero: "documented_masks k \<Longrightarrow> m \<in> set (common_rights_list k) \<Longrightarrow> m \<noteq> 0"
  by (auto simp: common_rights_list_def documented_masks_def)

lemma subordinate_cases:
  assumes "s \<in> set (ad_security_get_subordinate_right_list k cfg r cl)"
  obtains c where "c \<in> set (ad_security_get_right_list_for_class k cfg cl)" "is_subordinate k (access_mask r) c"
    "s = make_right (access_mask c) (object_type c) (inherited_object_type r) (right_flags r)" "object_type r = []"
  using assms by (auto simp: ad_security_get_subordinate_right_list_def split: if_splits)

lemma subordinateI:
  assumes "c \<in> set (ad_security_get_right_list_for_class k cfg cl)" and "is_subordinate k (access_mask r) c"
    and "object_type r = []"
  shows "make_right (access_mask c) (object_type c) (inherited_object_type r) (right_flags r)
    \<in> set (ad_security_get_subordinate_right_list k cfg r cl)"
  using assms by (force simp: ad_security_get_subordinate_right_list_def)

lemma subordinate_right_ok:
  assumes "documented_masks k" and "class_guids_ok k cfg cl" and "right_ok k r"
  shows "\<forall>s \<in> set (ad_security_get_subordinate_right_list k cfg r cl). right_ok k s"
proof
  fix s assume "s \<in> set (ad_security_get_subordinate_right_list k cfg r cl)"
  then obtain c where c: "c \<in> set (ad_security_get_right_list_for_class k cfg cl)"
    "s = make_right (access_mask c) (object_type c) (inherited_object_type r) (right_flags r)"
    by (rule subordinate_cases)
  have "access_mask c \<noteq> 0"
    using class_right_shape [OF c(1)] common_mask_nonzero [OF assms(1)] by (simp add: right_shape_def)
  then show "right_ok k s" using c assms(2,3) by (auto simp: right_ok_def class_guids_ok_def)
qed

lemma superior_cases:
  assumes "s \<in> set (ad_security_get_superior_right_list k r)"
  shows "object_type s = [] \<and> inherited_object_type s = inherited_object_type r \<and> right_flags s = right_flags r
    \<and> access_mask s \<in> {SEC_ADS_GENERIC_ALL k, SEC_ADS_GENERIC_READ k, SEC_ADS_GENERIC_WRITE k} \<union> set (object_masks k)"
  using assms by (auto simp: ad_security_get_superior_right_list_def Let_def split: if_splits)

lemma superior_right_ok:
  assumes "documented_masks k" and "right_ok k r"
  shows "\<forall>s \<in> set (ad_security_get_superior_right_list k r). right_ok k s \<and> object_type s = []"
proof
  fix s assume "s \<in> set (ad_security_get_superior_right_list k r)"
  note s = superior_cases [OF this]
  have "access_mask s \<noteq> 0" using s assms(1) by (auto simp: object_masks_def documented_masks_def)
  then show "right_ok k s \<and> object_type s = []" using s assms(2) by (simp add: right_ok_def)
qed

text \<open>The last superior of a right on an object is the same right on every object.\<close>

lemma last_superior:
  assumes "documented_masks k" and "object_type r \<noteq> []" and "access_mask r \<in> set (object_masks k)"
  shows "ad_security_get_superior_right_list k r \<noteq> []"
    and "last (ad_security_get_superior_right_list k r) = no_object r"
    and "\<forall>s \<in> set (ad_security_get_subordinate_right_list k cfg (no_object r) cl). object_type s \<noteq> []"
proof -
  have "access_mask r \<in> {0x10, 0x20, 0x100, 0x1, 0x2}"
    using assms(1,3) by (auto simp: object_masks_def documented_masks_def)
  then show "ad_security_get_superior_right_list k r \<noteq> []"
    and "last (ad_security_get_superior_right_list k r) = no_object r"
    using assms(1,2)
    by (auto simp: ad_security_get_superior_right_list_def documented_masks_def Let_def intro: SecurityRight.equality)
  show "\<forall>s \<in> set (ad_security_get_subordinate_right_list k cfg (no_object r) cl). object_type s \<noteq> []"
    using assms(1,3) by (auto simp: ad_security_get_subordinate_right_list_def is_subordinate_def object_masks_def
        documented_masks_def Let_def)
qed

section \<open>Replacing superiors\<close>

lemma superior_step:
  assumes "trustee_ok t" and "documented_masks k" and "documented_flags k" and "class_guids_ok k cfg cl"
    and "right_ok k S" and "object_type S = []" and "sd_dacl sd = Some d" and "keeps k (dom_sid_image t) old d"
  shows "\<exists>sd' d'. bind_faulty (is_superior_set k sd t S dir)
        (\<lambda>set. if \<not> set then Inr sd else replace_superior k cfg cl t S dir sd) = Inr sd'
    \<and> sd_dacl sd' = Some d' \<and> keeps k (dom_sid_image t) old d'
    \<and> ((\<forall>s \<in> set (ad_security_get_subordinate_right_list k cfg S cl). object_type s \<noteq> [])
         \<longrightarrow> \<not> right_set k (dom_sid_image t) S dir d')"
proof -
  obtain st where st: "security_descriptor_get_right_state k sd t S = Inr st"
    using get_right_state_eq [OF assms(1,7)] by blast
  show ?thesis
  proof (cases "st SecurityRightStateInherited_No (allow_type dir)")
    case False
    then have "is_superior_set k sd t S dir = Inr False"
      using st by (simp add: is_superior_set_def allow_type_def)
    moreover have "\<not> right_set k (dom_sid_image t) S dir d"
      using own_state(1) [OF assms(1,7,5,3) st] False by blast
    ultimately show ?thesis using assms(7,8) by auto
  next
    case True
    then have set: "is_superior_set k sd t S dir = Inr True"
      using st by (simp add: is_superior_set_def allow_type_def)
    let ?d = "removed_from k (dom_sid_image t) S dir d" and ?subs = "ad_security_get_subordinate_right_list k cfg S cl"
    note subs = subordinate_right_ok [OF assms(2,4,5)]
    obtain sd1 where sd1: "security_descriptor_remove_right_base k t S dir sd = Inr sd1" "sd_dacl sd1 = Some ?d"
      "keeps k (dom_sid_image t) old ?d"
      using remove_base_keeps [OF assms(1,5,3,7,8)] by blast
    obtain sd' d' where sd': "fold_faulty (\<lambda>r. security_descriptor_add_right_base k t r dir) ?subs sd1 = Inr sd'"
      "sd_dacl sd' = Some d'" "keeps k (dom_sid_image t) old d'"
      and other: "\<forall>r' a'. right_ok k r' \<and> right_set k (dom_sid_image t) r' a' d' \<and>
        (dir = a' \<longrightarrow> (\<forall>r \<in> set ?subs. \<not> same_entry r r')) \<longrightarrow> right_set k (dom_sid_image t) r' a' ?d"
      using adds_keep [where allow = dir, OF assms(1,3) subs sd1(2,3)] by (elim exE conjE)
    have "access_mask S \<noteq> 0" using assms(5) by (simp add: right_ok_def)
    then have "\<not> right_set k (dom_sid_image t) S dir ?d" by (rule removed_not_set [OF assms(2)])
    moreover have "\<forall>r \<in> set ?subs. \<not> same_entry r S" if "\<forall>s \<in> set ?subs. object_type s \<noteq> []"
      using that assms(6) by (auto simp: same_entry_def)
    ultimately have "(\<forall>s \<in> set ?subs. object_type s \<noteq> []) \<longrightarrow> \<not> right_set k (dom_sid_image t) S dir d'"
      using other [rule_format, of S dir] assms(5) by blast
    then show ?thesis using set sd1(1) sd' by (simp add: replace_superior_def)
  qed
qed

lemma superiors_keep:
  assumes "trustee_ok t" and "documented_masks k" and "documented_flags k" and "class_guids_ok k cfg cl"
    and "\<forall>S \<in> set Ss. right_ok k S \<and> object_type S = []" and "sd_dacl sd = Some d" and "keeps k (dom_sid_image t) old d"
  shows "\<exists>sd' d'. fold_faulty (\<lambda>S sd. bind_faulty (is_superior_set k sd t S dir)
        (\<lambda>set. if \<not> set then Inr sd else replace_superior k cfg cl t S dir sd)) Ss sd = Inr sd'
    \<and> sd_dacl sd' = Some d' \<and> keeps k (dom_sid_image t) old d'
    \<and> (Ss \<noteq> [] \<and> (\<forall>s \<in> set (ad_security_get_subordinate_right_list k cfg (last Ss) cl). object_type s \<noteq> [])
         \<longrightarrow> \<not> right_set k (dom_sid_image t) (last Ss) dir d')"
  using assms(5)
proof (induction Ss rule: rev_induct)
  case Nil
  then show ?case using assms(6,7) by auto
next
  case (snoc S Ss)
  let ?f = "\<lambda>S sd. bind_faulty (is_superior_set k sd t S dir)
        (\<lambda>set. if \<not> set then Inr sd else replace_superior k cfg cl t S dir sd)"
  obtain sd1 d1 where one: "fold_faulty ?f Ss sd = Inr sd1" "sd_dacl sd1 = Some d1" "keeps k (dom_sid_image t) old d1"
    using snoc by auto
  have "right_ok k S" "object_type S = []" using snoc.prems by simp_all
  note step = superior_step [OF assms(1-4) this one(2,3), of dir]
  have "fold_faulty ?f (Ss @ [S]) sd = ?f S sd1"
    using one(1) by (cases "?f S sd1") (simp_all add: fold_faulty_append)
  then show ?case using step by simp
qed


section \<open>Subordinates of a right\<close>

lemma subordinate_mask:
  assumes "documented_masks k" and "right_shape k c" and "is_subordinate k (access_mask r) c"
  shows "bitmask_is_set (right_mask k r) (ad_security_map_access_mask k (access_mask c))"
proof -
  have "access_mask c \<in> set (common_rights_list k)" using assms(2) by (simp add: right_shape_def)
  then show ?thesis using assms(1,3)
    unfolding is_subordinate_def Let_def right_mask_def ad_security_map_access_mask_def common_rights_list_def
    by (auto simp: documented_masks_def GENERIC_READ_FIXED_def bitmask_is_set_def split: if_splits)
qed

lemma subordinate_no_object:
  assumes "documented_masks k" and "s \<in> set (ad_security_get_subordinate_right_list k cfg r cl)" and "object_type s \<noteq> []"
  shows "no_object s = r \<or> no_object s \<in> set (ad_security_get_subordinate_right_list k cfg r cl)"
proof -
  obtain c where c: "c \<in> set (ad_security_get_right_list_for_class k cfg cl)" "is_subordinate k (access_mask r) c"
    "s = make_right (access_mask c) (object_type c) (inherited_object_type r) (right_flags r)" "object_type r = []"
    using assms(2) by (rule subordinate_cases)
  let ?c = "make_right (access_mask c) [] [] 0"
  have m: "access_mask c \<in> set (object_masks k)" "access_mask c \<in> set (common_rights_list k)"
    using class_right_shape [OF c(1)] c(3) assms(3) by (auto simp: right_shape_def)
  have in_class: "?c \<in> set (ad_security_get_right_list_for_class k cfg cl)"
    using m(2) by (simp add: ad_security_get_right_list_for_class_def ad_security_get_common_rights_def Let_def split_beta)
  have "access_mask r = access_mask c \<or> is_subordinate k (access_mask r) ?c"
    using c(2) m(1) assms(1) by (auto simp: is_subordinate_def Let_def split: if_splits)
  then show ?thesis
  proof
    assume "access_mask r = access_mask c"
    then have "no_object s = r" using c(3,4) by (intro SecurityRight.equality) auto
    then show ?thesis ..
  next
    assume "is_subordinate k (access_mask r) ?c"
    then have "make_right (access_mask c) [] (inherited_object_type r) (right_flags r)
        \<in> set (ad_security_get_subordinate_right_list k cfg r cl)"
      using subordinateI [OF in_class _ c(4)] by simp
    then show ?thesis using c(3) by simp
  qed
qed

text \<open>A right for every object sets its subordinates, too.\<close>

lemma superior_sets_state:
  assumes "trustee_ok t" and "documented_flags k" and "right_ok k r" and "object_type r = []"
    and "sd_dacl sd = Some d" and "\<forall>ace \<in> set d. guid_ok k ace" and "right_set k (dom_sid_image t) r allow d"
    and "inherited_object_type s = inherited_object_type r" and "right_flags s = right_flags r"
    and "bitmask_is_set (right_mask k r) (right_mask k s)"
  shows "\<exists>st. security_descriptor_get_right_state k sd t s = Inr st \<and> st SecurityRightStateInherited_No (allow_type allow)"
proof -
  obtain ace where ace: "ace \<in> set d" "bitmask_is_set (ace_mask ace) (right_mask k r)"
    "edit_matches k (dom_sid_image t) r allow ace"
    using assms(7) by (auto simp: right_set_def sets_right_def)
  have "\<not> ace_object_present k ace" using ace(1,3) assms(4,6) by (auto simp: edit_matches_def guid_ok_def)
  then have "read_matches k (dom_sid_image t) s allow ace"
    using ace(3) assms(8,9) by (auto simp: edit_matches_def read_matches_def Let_def split: if_splits)
  moreover have "bitmask_is_set (ace_mask ace) (right_mask k s)"
    using ace(2) assms(10) by (auto simp: bitmask_is_set_def mask_subset_iff)
  moreover have "bitmask_to_inherited_state k ace = SecurityRightStateInherited_No"
    using ace(3) right_ok_flags(1) [OF assms(3,2)] by (simp add: bitmask_to_inherited_state_def edit_matches_def)
  moreover obtain st where st: "security_descriptor_get_right_state k sd t s = Inr st"
    "\<forall>i ty. st i ty \<longleftrightarrow> (\<exists>ace \<in> set d. bitmask_to_inherited_state k ace = i
        \<and> bitmask_is_set (ace_mask ace) (right_mask k s)
        \<and> read_matches k (dom_sid_image t) s (ty = SecurityRightStateType_Allow) ace)"
    using get_right_state_eq [OF assms(1,5), of k s] by blast
  ultimately have "st SecurityRightStateInherited_No (allow_type allow)" using ace(1) by auto
  then show ?thesis using st(1) by blast
qed

lemma not_set_no_state:
  assumes "trustee_ok t" and "documented_flags k" and "right_ok k r" and "sd_dacl sd = Some d"
    and "\<not> right_set k (dom_sid_image t) r allow d" and "\<not> right_set k (dom_sid_image t) (no_object r) allow d"
    and "security_descriptor_get_right_state k sd t r = Inr st"
  shows "\<not> st SecurityRightStateInherited_No (allow_type allow)"
  using own_state(2) [OF assms(1,4,3,2,7)] assms(5,6) by blast


section \<open>A concrete class\<close>

definition example_right :: SecurityRight where
  "example_right = make_right 0x10 (replicate 16 7) [] 2"

lemma example_class_rights:
  "ad_security_get_right_list_for_class example_api empty_config [''user''] = ad_security_get_common_rights example_api"
  by code_simp

lemma insertion_sort_permutes: "mset (insertion_sort cmp xs) = mset xs"
proof -
  have "mset (insert_by cmp x ys) = add_mset x (mset ys)" for x ys by (induction ys) auto
  then show ?thesis by (induction xs) (auto simp: insertion_sort_def)
qed

lemma example_qsort: "qsort_permutes example_api"
  by (simp add: qsort_permutes_def example_api_def insertion_sort_permutes)

section \<open>Properties of whole rights\<close>

text \<open>
  Every right of a class is among the subordinates of each of its superiors, so replacing a
  superior by its subordinates adds the right, too; and a superior is a right for every object.
\<close>

theorem superior_has_subordinate:
  assumes "documented_masks k" and "r \<in> set (ad_security_get_right_list_for_class k cfg cl)"
    and "S \<in> set (ad_security_get_superior_right_list k r)"
  shows "r \<in> set (ad_security_get_subordinate_right_list k cfg S cl) \<and> object_type S = []"
proof -
  note S = superior_cases [OF assms(3)]
  have "is_subordinate k (access_mask S) r"
    using assms(1,3) by (auto simp: ad_security_get_superior_right_list_def is_subordinate_def documented_masks_def Let_def
        split: if_splits)
  then have mem: "make_right (access_mask r) (object_type r) (inherited_object_type S) (right_flags S)
      \<in> set (ad_security_get_subordinate_right_list k cfg S cl)"
    using subordinateI [OF assms(2)] S by blast
  have "make_right (access_mask r) (object_type r) (inherited_object_type S) (right_flags S) = r"
    using S by (intro SecurityRight.equality) auto
  then show ?thesis using mem S by (simp only: simp_thms)
qed

text \<open>What the two edits of a whole right do to a descriptor.\<close>

lemma opposite_superior: "is_opposite_superior_set k sd t S allow = is_superior_set k sd t S (\<not> allow)"
  by (simp add: is_opposite_superior_set_def is_superior_set_def)

lemma superiors_clear:
  assumes "trustee_ok t" and "documented_masks k" and "documented_flags k" and "class_guids_ok k cfg cl"
    and "right_ok k r" and "right_shape k r" and "sd_dacl sd = Some d" and "keeps k (dom_sid_image t) old d"
  shows "\<exists>sd' d'. fold_faulty (\<lambda>S sd. bind_faulty (is_superior_set k sd t S dir)
        (\<lambda>set. if \<not> set then Inr sd else replace_superior k cfg cl t S dir sd))
        (ad_security_get_superior_right_list k r) sd = Inr sd'
    \<and> sd_dacl sd' = Some d' \<and> keeps k (dom_sid_image t) old d'
    \<and> (object_type r \<noteq> [] \<longrightarrow> \<not> right_set k (dom_sid_image t) (no_object r) dir d')"
proof -
  obtain sd' d' where sd': "fold_faulty (\<lambda>S sd. bind_faulty (is_superior_set k sd t S dir)
        (\<lambda>set. if \<not> set then Inr sd else replace_superior k cfg cl t S dir sd))
        (ad_security_get_superior_right_list k r) sd = Inr sd'"
    "sd_dacl sd' = Some d'" "keeps k (dom_sid_image t) old d'"
    "ad_security_get_superior_right_list k r \<noteq> []
      \<and> (\<forall>s \<in> set (ad_security_get_subordinate_right_list k cfg (last (ad_security_get_superior_right_list k r)) cl). object_type s \<noteq> [])
      \<longrightarrow> \<not> right_set k (dom_sid_image t) (last (ad_security_get_superior_right_list k r)) dir d'"
    using superiors_keep [where dir = dir, OF assms(1-4) superior_right_ok [OF assms(2,5)] assms(7,8)] by (elim exE conjE)
  have "\<not> right_set k (dom_sid_image t) (no_object r) dir d'" if "object_type r \<noteq> []"
  proof -
    have "access_mask r \<in> set (object_masks k)" using assms(6) that by (simp add: right_shape_def)
    note last = last_superior [OF assms(2) that this]
    show ?thesis using sd'(4) last(1) last(3) [of cfg cl] unfolding last(2) by blast
  qed
  then show ?thesis using sd'(1-3) by (intro exI [of _ sd'] exI [of _ d'] conjI impI)
qed

text \<open>No entry sets a right, its subordinates, or the right for every object.\<close>

definition cleared :: "sec_api \<Rightarrow> dom_sid \<Rightarrow> ad_config \<Rightarrow> qstring list \<Rightarrow> SecurityRight \<Rightarrow> bool \<Rightarrow> security_ace list \<Rightarrow> bool" where
  "cleared k sid cfg cl r dir d =
     (\<forall>s \<in> insert r (insert (no_object r) (set (ad_security_get_subordinate_right_list k cfg r cl))). \<not> right_set k sid s dir d)"

lemma cleared_no_state:
  assumes "trustee_ok t" and "documented_masks k" and "documented_flags k" and "class_guids_ok k cfg cl" and "right_ok k r"
    and "sd_dacl sd = Some d" and "cleared k (dom_sid_image t) cfg cl r dir d"
    and "s \<in> insert r (set (ad_security_get_subordinate_right_list k cfg r cl))"
    and "security_descriptor_get_right_state k sd t s = Inr st"
  shows "\<not> st SecurityRightStateInherited_No (allow_type dir)"
proof (rule not_set_no_state [OF assms(1,3) _ assms(6) _ _ assms(9)])
  show "right_ok k s" using assms(8) subordinate_right_ok [OF assms(2,4,5)] assms(5) by auto
  show "\<not> right_set k (dom_sid_image t) s dir d" using assms(7,8) by (auto simp: cleared_def)
  have "no_object s \<in> insert r (insert (no_object r) (set (ad_security_get_subordinate_right_list k cfg r cl)))"
  proof (cases "s = r")
    case False
    then have sub: "s \<in> set (ad_security_get_subordinate_right_list k cfg r cl)" using assms(8) by simp
    show ?thesis
    proof (cases "object_type s = []")
      case True
      then have "no_object s = s" by (intro SecurityRight.equality) auto
      then show ?thesis using sub by simp
    next
      case False
      then show ?thesis using subordinate_no_object [OF assms(2) sub] by auto
    qed
  qed simp
  then show "\<not> right_set k (dom_sid_image t) (no_object s) dir d" using assms(7) by (auto simp: cleared_def)
qed


lemma keeps_start:
  assumes "\<exists>ace \<in> set d. untouched k sid ace" and "\<forall>ace \<in> set d. guid_ok k ace"
  shows "keeps k sid d d"
  using assms by (simp add: keeps_def)

lemma keeps_filter: "keeps k sid old d \<Longrightarrow> mset (filter (untouched k sid) d) = mset (filter (untouched k sid) old)"
  by (simp only: keeps_def)

text \<open>The removals at the end of both edits.\<close>

lemma clearing_step:
  assumes "trustee_ok t" and "documented_masks k" and "documented_flags k" and "class_guids_ok k cfg cl" and "right_ok k r"
    and "sd_dacl sd = Some d" and "keeps k (dom_sid_image t) old d"
    and "object_type r \<noteq> [] \<longrightarrow> \<not> right_set k (dom_sid_image t) (no_object r) dir d"
  shows "\<exists>sd' d'. bind_faulty (security_descriptor_remove_right_base k t r dir sd)
        (fold_faulty (\<lambda>s. security_descriptor_remove_right_base k t s dir)
          (ad_security_get_subordinate_right_list k cfg r cl)) = Inr sd'
    \<and> sd_dacl sd' = Some d' \<and> keeps k (dom_sid_image t) old d' \<and> cleared k (dom_sid_image t) cfg cl r dir d'"
proof -
  let ?subs = "ad_security_get_subordinate_right_list k cfg r cl"
  have ok: "\<forall>x \<in> set (r # ?subs). right_ok k x" using subordinate_right_ok [OF assms(2,4,5)] assms(5) by simp
  obtain sd' d' where sd': "fold_faulty (\<lambda>s. security_descriptor_remove_right_base k t s dir) (r # ?subs) sd = Inr sd'"
    "sd_dacl sd' = Some d'" "keeps k (dom_sid_image t) old d'"
    "\<forall>r' a'. right_set k (dom_sid_image t) r' a' d' \<longrightarrow> right_set k (dom_sid_image t) r' a' d"
    "\<forall>x \<in> set (r # ?subs). \<not> right_set k (dom_sid_image t) x dir d'"
    using removes_keep [where allow = dir, OF assms(1-3) ok assms(6,7)] by (elim exE conjE)
  have "\<not> right_set k (dom_sid_image t) (no_object r) dir d'"
  proof (cases "object_type r = []")
    case True
    then have "no_object r = r" by (intro SecurityRight.equality) auto
    then show ?thesis using sd'(5) by simp
  next
    case False
    then show ?thesis using sd'(4) assms(8) by blast
  qed
  then have "cleared k (dom_sid_image t) cfg cl r dir d'" using sd'(5) by (simp add: cleared_def)
  then show ?thesis using sd'(1-3) by (simp only: fold_faulty.simps) blast
qed

text \<open>A right whose bits and flags an edit requires, in a descriptor where it can be edited.\<close>

definition editable :: "sec_api \<Rightarrow> ad_config \<Rightarrow> qstring list \<Rightarrow> bytes \<Rightarrow> SecurityRight \<Rightarrow> security_descriptor \<Rightarrow> bool" where
  "editable k cfg cl t r sd =
     (trustee_ok t \<and> documented_masks k \<and> documented_flags k \<and> class_guids_ok k cfg cl \<and> qsort_permutes k
      \<and> right_ok k r \<and> right_shape k r
      \<and> dacl_sat (\<lambda>d. (\<exists>ace \<in> set d. untouched k (dom_sid_image t) ace) \<and> (\<forall>ace \<in> set d. guid_ok k ace)) sd)"

lemma editableE:
  assumes "editable k cfg cl t r sd"
  obtains d where "trustee_ok t" "documented_masks k" "documented_flags k" "class_guids_ok k cfg cl" "qsort_permutes k"
    "right_ok k r" "right_shape k r" "sd_dacl sd = Some d" "keeps k (dom_sid_image t) d d"
  using assms keeps_start unfolding editable_def dacl_sat_def by blast

definition state_of :: "sec_api \<Rightarrow> security_descriptor \<Rightarrow> bytes \<Rightarrow> SecurityRight \<Rightarrow> bool \<Rightarrow> bool faulty" where
  "state_of k sd t r allow = bind_faulty (security_descriptor_get_right_state k sd t r)
     (\<lambda>st. Inr (st SecurityRightStateInherited_No (allow_type allow)))"

text \<open>
  C9. Removing a right, given an entry for another trustee or an inherited one in the DACL, returns
  a descriptor where the trustee has neither the right nor any of its subordinates by entries of
  its own, not even through a superior that was set before; the other trustees' entries and the
  inherited ones are the same.
\<close>

theorem remove_right_correct:
  assumes "editable k cfg cl t r sd"
  shows "\<exists>sd' d d'. security_descriptor_remove_right k cfg cl t r allow sd = Inr sd'
    \<and> sd_dacl sd = Some d \<and> sd_dacl sd' = Some d'
    \<and> mset (filter (untouched k (dom_sid_image t)) d') = mset (filter (untouched k (dom_sid_image t)) d)
    \<and> (\<forall>s \<in> insert r (set (ad_security_get_subordinate_right_list k cfg r cl)). state_of k sd' t s allow = Inr False)"
proof -
  obtain d where h: "trustee_ok t" "documented_masks k" "documented_flags k" "class_guids_ok k cfg cl" "qsort_permutes k"
    "right_ok k r" "right_shape k r" "sd_dacl sd = Some d" "keeps k (dom_sid_image t) d d"
    using assms by (rule editableE)
  obtain sd1 d1 where one: "fold_faulty (\<lambda>S sd. bind_faulty (is_superior_set k sd t S allow)
        (\<lambda>set. if \<not> set then Inr sd else replace_superior k cfg cl t S allow sd))
        (ad_security_get_superior_right_list k r) sd = Inr sd1"
    "sd_dacl sd1 = Some d1" "keeps k (dom_sid_image t) d d1"
    "object_type r \<noteq> [] \<longrightarrow> \<not> right_set k (dom_sid_image t) (no_object r) allow d1"
    using superiors_clear [where dir = allow, OF h(1-4,6-9)] by (elim exE conjE)
  obtain sd2 d2 where two: "bind_faulty (security_descriptor_remove_right_base k t r allow sd1)
        (fold_faulty (\<lambda>s. security_descriptor_remove_right_base k t s allow)
          (ad_security_get_subordinate_right_list k cfg r cl)) = Inr sd2"
    "sd_dacl sd2 = Some d2" "keeps k (dom_sid_image t) d d2" "cleared k (dom_sid_image t) cfg cl r allow d2"
    using clearing_step [OF h(1-4,6) one(2-4)] by (elim exE conjE)
  obtain sd' d' where sd': "security_descriptor_sort_dacl k sd2 = Inr sd'" "sd_dacl sd' = Some d'"
    "keeps k (dom_sid_image t) d d'" "set d' = set d2"
    using sort_keeps [OF h(5) two(2,3)] by blast
  have run: "security_descriptor_remove_right k cfg cl t r allow sd = Inr sd'"
    unfolding security_descriptor_remove_right_def one(1) bind_faulty_Inr
    using two(1) sd'(1) by (simp add: bind_faulty_assoc [symmetric])
  have cl: "cleared k (dom_sid_image t) cfg cl r allow d'"
    using two(4) right_set_cong [OF sd'(4)] by (simp add: cleared_def)
  have "state_of k sd' t s allow = Inr False" if "s \<in> insert r (set (ad_security_get_subordinate_right_list k cfg r cl))" for s
  proof -
    obtain st where st: "security_descriptor_get_right_state k sd' t s = Inr st"
      using get_right_state_eq [OF h(1) sd'(2)] by blast
    then show ?thesis using cleared_no_state [OF h(1-4,6) sd'(2) cl that st] by (simp add: state_of_def)
  qed
  then show ?thesis using run h(8) sd'(2) keeps_filter [OF sd'(3)] by blast
qed


text \<open>The rest of adding a right, after the superiors of the opposite direction are replaced.\<close>

lemma adding_step:
  assumes "trustee_ok t" and "documented_masks k" and "documented_flags k" and "class_guids_ok k cfg cl" and "right_ok k r"
    and "sd_dacl sd = Some d" and "keeps k (dom_sid_image t) old d"
    and "object_type r \<noteq> [] \<longrightarrow> \<not> right_set k (dom_sid_image t) (no_object r) (\<not> allow) d"
    and subs: "subs = ad_security_get_subordinate_right_list k cfg r cl"
  shows "\<exists>sd' d'. bind_faulty (fold_faulty (\<lambda>s. security_descriptor_remove_right_base k t s allow) subs sd) (\<lambda>sd.
         bind_faulty (security_descriptor_remove_right_base k t r (\<not> allow) sd) (\<lambda>sd.
         bind_faulty (fold_faulty (\<lambda>s. security_descriptor_remove_right_base k t s (\<not> allow)) subs sd) (\<lambda>sd.
         security_descriptor_add_right_base k t r allow sd))) = Inr sd'
    \<and> sd_dacl sd' = Some d' \<and> keeps k (dom_sid_image t) old d'
    \<and> cleared k (dom_sid_image t) cfg cl r (\<not> allow) d' \<and> right_set k (dom_sid_image t) r allow d'"
proof -
  have ok: "\<forall>s \<in> set subs. right_ok k s" using subordinate_right_ok [OF assms(2,4,5)] by (simp add: subs)
  obtain sd1 d1 where one: "fold_faulty (\<lambda>s. security_descriptor_remove_right_base k t s allow) subs sd = Inr sd1"
    "sd_dacl sd1 = Some d1" "keeps k (dom_sid_image t) old d1"
    "\<forall>r' a'. right_set k (dom_sid_image t) r' a' d1 \<longrightarrow> right_set k (dom_sid_image t) r' a' d"
    using removes_keep [where allow = allow, OF assms(1-3) ok assms(6,7)] by (elim exE conjE)
  have no_object: "object_type r \<noteq> [] \<longrightarrow> \<not> right_set k (dom_sid_image t) (no_object r) (\<not> allow) d1"
    using one(4) assms(8) by blast
  obtain sd2 d2 where two: "bind_faulty (security_descriptor_remove_right_base k t r (\<not> allow) sd1)
        (fold_faulty (\<lambda>s. security_descriptor_remove_right_base k t s (\<not> allow)) subs) = Inr sd2"
    "sd_dacl sd2 = Some d2" "keeps k (dom_sid_image t) old d2" "cleared k (dom_sid_image t) cfg cl r (\<not> allow) d2"
    using clearing_step [OF assms(1-5) one(2,3) no_object] by (simp only: subs) (elim exE conjE)
  obtain sd' d' where sd': "security_descriptor_add_right_base k t r allow sd2 = Inr sd'" "sd_dacl sd' = Some d'"
    "keeps k (dom_sid_image t) old d'" and added: "added_to k (dom_sid_image t) r allow d2 d'"
    using add_base_keeps [OF assms(1,5,3) two(2,3)] by blast
  have "\<not> right_set k (dom_sid_image t) s (\<not> allow) d'"
    if "\<not> right_set k (dom_sid_image t) s (\<not> allow) d2" "right_ok k s" for s
    using added_right_set_other [OF added _ assms(5) that(2) assms(3)] that(1) by blast
  moreover have "right_ok k (no_object r)" using assms(5) by (simp add: right_ok_def)
  ultimately have "cleared k (dom_sid_image t) cfg cl r (\<not> allow) d'"
    using two(4) ok assms(5) by (simp add: cleared_def subs)
  then show ?thesis
    using one(1) two(1) sd' added_right_set [OF added]
    by (intro exI [of _ sd'] exI [of _ d']) (simp add: bind_faulty_assoc [symmetric])
qed

lemma added_state:
  assumes "trustee_ok t" and "documented_masks k" and "documented_flags k" and "class_guids_ok k cfg cl" and "right_ok k r"
    and "sd_dacl sd = Some d" and "keeps k (dom_sid_image t) old d" and "right_set k (dom_sid_image t) r allow d"
    and "s \<in> insert r (set (ad_security_get_subordinate_right_list k cfg r cl))"
  shows "state_of k sd t s allow = Inr True"
proof (cases "s = r")
  case True
  obtain st where st: "security_descriptor_get_right_state k sd t r = Inr st"
    using get_right_state_eq [OF assms(1,6)] by blast
  then show ?thesis using own_state(1) [OF assms(1,6,5,3) st assms(8)] True by (simp add: state_of_def)
next
  case False
  then have "s \<in> set (ad_security_get_subordinate_right_list k cfg r cl)" using assms(9) by simp
  then obtain c where c: "c \<in> set (ad_security_get_right_list_for_class k cfg cl)" "is_subordinate k (access_mask r) c"
    "s = make_right (access_mask c) (object_type c) (inherited_object_type r) (right_flags r)" "object_type r = []"
    by (rule subordinate_cases)
  have "bitmask_is_set (right_mask k r) (right_mask k s)"
    using subordinate_mask [OF assms(2) class_right_shape [OF c(1)] c(2)] c(3) by (simp add: right_mask_def)
  moreover have "\<forall>ace \<in> set d. guid_ok k ace" using assms(7) unfolding keeps_def by blast
  ultimately show ?thesis
    using superior_sets_state [OF assms(1,3,5) c(4) assms(6) _ assms(8), of s] c(3) by (auto simp: state_of_def)
qed

text \<open>
  C8. Adding a right, given an entry for another trustee or an inherited one in the DACL, returns a
  descriptor where the trustee has the right and every subordinate of it in the given direction, and
  none of them in the opposite direction, by entries of its own, also when a superior was set in
  the opposite direction before; the other trustees' entries and the inherited ones are the same.
\<close>

theorem add_right_correct:
  assumes "editable k cfg cl t r sd"
  shows "\<exists>sd' d d'. security_descriptor_add_right k cfg cl t r allow sd = Inr sd'
    \<and> sd_dacl sd = Some d \<and> sd_dacl sd' = Some d'
    \<and> mset (filter (untouched k (dom_sid_image t)) d') = mset (filter (untouched k (dom_sid_image t)) d)
    \<and> (\<forall>s \<in> insert r (set (ad_security_get_subordinate_right_list k cfg r cl)).
         state_of k sd' t s allow = Inr True \<and> state_of k sd' t s (\<not> allow) = Inr False)"
proof -
  obtain d where h: "trustee_ok t" "documented_masks k" "documented_flags k" "class_guids_ok k cfg cl" "qsort_permutes k"
    "right_ok k r" "right_shape k r" "sd_dacl sd = Some d" "keeps k (dom_sid_image t) d d"
    using assms by (rule editableE)
  obtain sd1 d1 where one: "fold_faulty (\<lambda>S sd. bind_faulty (is_superior_set k sd t S (\<not> allow))
        (\<lambda>set. if \<not> set then Inr sd else replace_superior k cfg cl t S (\<not> allow) sd))
        (ad_security_get_superior_right_list k r) sd = Inr sd1"
    "sd_dacl sd1 = Some d1" "keeps k (dom_sid_image t) d d1"
    "object_type r \<noteq> [] \<longrightarrow> \<not> right_set k (dom_sid_image t) (no_object r) (\<not> allow) d1"
    using superiors_clear [where dir = "\<not> allow", OF h(1-4,6-9)] by (elim exE conjE)
  note adding = adding_step [OF h(1-4,6) one(2-4) refl]
  obtain sd2 d2 where two: "bind_faulty (fold_faulty (\<lambda>s. security_descriptor_remove_right_base k t s allow)
           (ad_security_get_subordinate_right_list k cfg r cl) sd1) (\<lambda>sd.
         bind_faulty (security_descriptor_remove_right_base k t r (\<not> allow) sd) (\<lambda>sd.
         bind_faulty (fold_faulty (\<lambda>s. security_descriptor_remove_right_base k t s (\<not> allow))
           (ad_security_get_subordinate_right_list k cfg r cl) sd) (\<lambda>sd.
         security_descriptor_add_right_base k t r allow sd))) = Inr sd2"
    "sd_dacl sd2 = Some d2" "keeps k (dom_sid_image t) d d2"
    "cleared k (dom_sid_image t) cfg cl r (\<not> allow) d2" "right_set k (dom_sid_image t) r allow d2"
    using adding by (elim exE conjE)
  obtain sd' d' where sd': "security_descriptor_sort_dacl k sd2 = Inr sd'" "sd_dacl sd' = Some d'"
    "keeps k (dom_sid_image t) d d'" "set d' = set d2"
    using sort_keeps [OF h(5) two(2,3)] by blast
  have run: "security_descriptor_add_right k cfg cl t r allow sd = Inr sd'"
    unfolding security_descriptor_add_right_def Let_def opposite_superior one(1) bind_faulty_Inr
    using arg_cong [OF two(1), of "\<lambda>m. bind_faulty m (security_descriptor_sort_dacl k)"] sd'(1)
    by (simp add: bind_faulty_assoc)
  have cl: "cleared k (dom_sid_image t) cfg cl r (\<not> allow) d'" and set: "right_set k (dom_sid_image t) r allow d'"
    using two(4,5) right_set_cong [OF sd'(4)] by (simp_all add: cleared_def)
  have "state_of k sd' t s (\<not> allow) = Inr False" if "s \<in> insert r (set (ad_security_get_subordinate_right_list k cfg r cl))" for s
  proof -
    obtain st where st: "security_descriptor_get_right_state k sd' t s = Inr st"
      using get_right_state_eq [OF h(1) sd'(2)] by blast
    then show ?thesis using cleared_no_state [OF h(1-4,6) sd'(2) cl that st] by (simp add: state_of_def)
  qed
  moreover note added_state [OF h(1-4,6) sd'(2,3) set]
  ultimately show ?thesis using run h(8) sd'(2) keeps_filter [OF sd'(3)] by blast
qed


section \<open>Witnesses\<close>

text \<open>Full control denied to one trustee, and an entry of another trustee.\<close>

definition denied_sd :: security_descriptor where
  "denied_sd = example_sd [(example_ace 1 SEC_ACE_TYPE_ACCESS_DENIED 0xF01FF)\<lparr>ace_flags := 2\<rparr>,
     example_ace 2 SEC_ACE_TYPE_ACCESS_ALLOWED 0x10]"

lemma example_editable:
  "editable example_api empty_config [''user''] (dom_sid_to_bytes (example_sid 1)) example_right denied_sd"
proof -
  have "class_guids_ok example_api empty_config [''user'']"
    unfolding class_guids_ok_def example_class_rights by (simp add: ad_security_get_common_rights_def)
  moreover have "right_ok example_api example_right" "right_shape example_api example_right"
    by code_simp+
  moreover have "dacl_sat (\<lambda>d. (\<exists>ace \<in> set d. untouched example_api (example_sid 1) ace)
      \<and> (\<forall>ace \<in> set d. guid_ok example_api ace)) denied_sd"
  proof -
    have "untouched example_api (example_sid 1) (example_ace 2 SEC_ACE_TYPE_ACCESS_ALLOWED 0x10)" by code_simp
    then show ?thesis
      by (simp add: dacl_sat_def denied_sd_def example_sd_def guid_ok_def ace_object_present_def example_ace_def
          ace_types_with_object_def)
  qed
  ultimately show ?thesis using example_qsort by (simp add: editable_def)
qed

theorem remove_right_correct_witness:
  "\<exists>sd'. security_descriptor_remove_right example_api empty_config [''user''] (dom_sid_to_bytes (example_sid 1))
        example_right False denied_sd = Inr sd'
    \<and> state_of example_api sd' (dom_sid_to_bytes (example_sid 1)) example_right False = Inr False"
  using remove_right_correct [OF example_editable, of False] by blast

theorem add_right_correct_witness:
  "\<exists>sd'. security_descriptor_add_right example_api empty_config [''user''] (dom_sid_to_bytes (example_sid 1))
        example_right True denied_sd = Inr sd'
    \<and> state_of example_api sd' (dom_sid_to_bytes (example_sid 1)) example_right True = Inr True
    \<and> state_of example_api sd' (dom_sid_to_bytes (example_sid 1)) example_right False = Inr False"
  using add_right_correct [OF example_editable, of True] by auto

theorem superior_has_subordinate_witness:
  "plain_right 0x20094 \<in> set (ad_security_get_subordinate_right_list example_api empty_config (plain_right 0xF01FF) [''user''])
    \<and> object_type (plain_right 0xF01FF) = []"
proof (rule superior_has_subordinate)
  show "plain_right 0x20094 \<in> set (ad_security_get_right_list_for_class example_api empty_config [''user''])"
    unfolding example_class_rights by code_simp
  show "plain_right 0xF01FF \<in> set (ad_security_get_superior_right_list example_api (plain_right 0x20094))" by code_simp
qed simp

end
