(* ===== verification/AclSettings.thy ===== *)
theory AclSettings
  imports RightsFacts
begin

text \<open>
  The order of a DACL, removing trustees, and the two settings that \<open>src/adldap/ad_security.cpp\<close>
  stores as entries of the DACL: protection against deletion and "user cannot change password".
\<close>

section \<open>Order\<close>

text \<open>The canonical order: entries of the object before inherited ones, and denials first.\<close>

definition order_key :: "sec_api \<Rightarrow> security_ace \<Rightarrow> nat" where
  "order_key k ace = (if ace_is_inherited k ace then 2 else 0) + (if ace_is_access_allowed ace then 1 else 0)"

lemma simplified_key: "ace_compare_simplified k a b \<le> 0 \<longleftrightarrow> order_key k a \<le> order_key k b"
  by (auto simp: ace_compare_simplified_def order_key_def security_ace_equal_def ace_is_inherited_def ace_is_access_allowed_def)

lemma order_from_sorted: "order_from k cur rest = sorted (map (order_key k) (cur # rest))"
proof (induction rest arbitrary: cur)
  case Nil
  then show ?case by simp
next
  case (Cons a rest)
  have "order_key k cur \<le> order_key k a \<Longrightarrow> sorted (map (order_key k) (a # rest)) \<Longrightarrow>
      \<forall>x \<in> set rest. order_key k cur \<le> order_key k x" by force
  then show ?case using Cons.IH [of a] by (auto simp: simplified_key)
qed

text \<open>The contract of \<open>qsort\<close> on a list that the comparison orders.\<close>

definition qsort_sorts :: "sec_api \<Rightarrow> bool" where
  "qsort_sorts k = (\<forall>cmp aces. total_preorder_on cmp (set aces) \<longrightarrow>
     mset (ace_qsort k cmp aces) = mset aces \<and> sorted_wrt (\<lambda>a b. cmp a b \<le> 0) (ace_qsort k cmp aces))"

lemma compare_key:
  assumes "ace_compare k a b \<le> 0" and "ace_is_access a" and "ace_is_access b"
  shows "order_key k a \<le> order_key k b"
proof (cases "security_ace_equal k a b")
  case True
  then have "ace_compare_simplified k a b = 0" by (simp add: ace_compare_simplified_def)
  then show ?thesis using simplified_key [of k a b] by simp
next
  case False
  then show ?thesis using assms
    by (auto simp: ace_compare_def order_key_def split: if_splits)
qed

lemma order_check:
  "sd_dacl sd = Some dacl \<Longrightarrow> dacl \<noteq> [] \<Longrightarrow>
    security_descriptor_verify_acl_order k sd = Inr (sorted (map (order_key k) dacl))"
  by (cases dacl) (simp_all add: security_descriptor_verify_acl_order_def is_order_correct_def
      security_descriptor_get_dacl_def order_from_sorted)

text \<open>
  C14. The order of a DACL is reported as correct exactly when the entries of the object come before
  the inherited ones and in both parts those that do not allow come before those that do; for a
  DACL without entries the check takes the first element of an empty list.
\<close>

theorem verify_acl_order_spec:
  "security_descriptor_verify_acl_order k sd =
     (case sd_dacl sd of None \<Rightarrow> Inl Null_Dereference
      | Some dacl \<Rightarrow> if dacl = [] then Inl Empty_List else Inr (sorted (map (order_key k) dacl)))"
  using order_check [of sd]
  by (auto simp: security_descriptor_verify_acl_order_def is_order_correct_def security_descriptor_get_dacl_def
      split: option.splits)

text \<open>
  C13. Sorting a DACL of entries that allow or deny makes the check of its order succeed and keeps
  its entries, when the comparison of the entries is consistent (it also reads the size of an
  entry, which the program does not set).
\<close>

theorem sort_dacl_verified:
  assumes "qsort_sorts k" and "sd_dacl sd = Some dacl" and "dacl \<noteq> []"
    and "total_preorder_on (ace_compare k) (set dacl)" and "\<forall>ace \<in> set dacl. ace_is_access ace"
  shows "\<exists>sd' dacl'. security_descriptor_sort_dacl k sd = Inr sd' \<and> sd_dacl sd' = Some dacl' \<and> mset dacl' = mset dacl
    \<and> security_descriptor_verify_acl_order k sd' = Inr True"
proof -
  let ?d = "ace_qsort k (ace_compare k) dacl"
  have m: "mset ?d = mset dacl" and s: "sorted_wrt (\<lambda>a b. ace_compare k a b \<le> 0) ?d"
    using assms(1,4) by (simp_all add: qsort_sorts_def)
  have "set ?d = set dacl" using m by (rule mset_eq_setD)
  then have "sorted_wrt (\<lambda>a b. order_key k a \<le> order_key k b) ?d"
    using s assms(5) compare_key by (intro sorted_wrt_mono_rel [OF _ s]) auto
  then have "sorted (map (order_key k) ?d)" by (simp add: sorted_wrt_map)
  moreover have "?d \<noteq> []" using m assms(3) by auto
  ultimately show ?thesis using m assms(2) order_check [of "sd\<lparr>sd_dacl := Some ?d\<rparr>" ?d k]
    by (simp add: security_descriptor_sort_dacl_def)
qed


section \<open>Removing trustees\<close>

definition own_entry_of :: "sec_api \<Rightarrow> bytes list \<Rightarrow> security_ace \<Rightarrow> bool" where
  "own_entry_of k ts ace = ((\<exists>t \<in> set ts. trustee_is (dom_sid_image t) ace)
     \<and> \<not> flags_set (ace_flags ace) (SEC_ACE_FLAG_INHERITED_ACE k))"

lemma any_trustee_match_eq:
  "\<forall>t \<in> set ts. trustee_ok t \<Longrightarrow> any_trustee_match ace ts = Inr (\<exists>t \<in> set ts. trustee_is (dom_sid_image t) ace)"
  by (induction ts) (auto simp: dom_sid_from_bytes_ok trustee_is_def)

lemma filter_trustees_eq:
  "\<forall>t \<in> set ts. trustee_ok t \<Longrightarrow> filter_trustees k ts dacl = Inr (filter (\<lambda>ace. \<not> own_entry_of k ts ace) dacl)"
  by (induction dacl) (auto simp: are_trustees_match_def any_trustee_match_eq own_entry_of_def)


section \<open>Protection against deletion\<close>

text \<open>The two rights that are denied to everyone, and the list of entries after they are removed.\<close>

abbreviation delete_right :: "sec_api \<Rightarrow> SecurityRight" where
  "delete_right k \<equiv> make_right (SEC_STD_DELETE k) [] [] 0"

abbreviation delete_tree_right :: "sec_api \<Rightarrow> SecurityRight" where
  "delete_tree_right k \<equiv> make_right (SEC_ADS_DELETE_TREE k) [] [] 0"

abbreviation world_bytes :: "sec_api \<Rightarrow> bytes" where
  "world_bytes k \<equiv> sid_string_to_bytes k (SID_WORLD k)"

definition unprotected_dacl :: "sec_api \<Rightarrow> security_ace list \<Rightarrow> security_ace list" where
  "unprotected_dacl k d = removed_from k (dom_sid_image (world_bytes k)) (delete_tree_right k) False
     (removed_from k (dom_sid_image (world_bytes k)) (delete_right k) False d)"

lemma plain_mask_right:
  assumes "documented_masks k"
  shows "right_ok k (delete_right k)" "right_ok k (delete_tree_right k)"
  using assms by (simp_all add: right_ok_def documented_masks_def)

text \<open>For a right for every object, the own state is whether an entry sets it.\<close>

lemma plain_state:
  assumes "trustee_ok t" and "documented_flags k" and "right_ok k r" and "object_type r = []" and "sd_dacl sd = Some d"
  shows "state_of k sd t r allow = Inr (right_set k (dom_sid_image t) r allow d)"
proof -
  obtain st where st: "security_descriptor_get_right_state k sd t r = Inr st"
    using get_right_state_eq [OF assms(1,5)] by blast
  have "no_object r = r" using assms(4) by (intro SecurityRight.equality) auto
  then show ?thesis using own_state [OF assms(1,5,3,2) st, of allow] st by (auto simp: state_of_def)
qed

lemma denied_state: "bind_faulty (security_descriptor_get_right_state k sd t r)
    (\<lambda>st. f (st SecurityRightStateInherited_No SecurityRightStateType_Deny)) = bind_faulty (state_of k sd t r False) f"
  by (simp add: state_of_def allow_type_def bind_faulty_assoc)

lemma get_protected_eq:
  assumes "trustee_ok (world_bytes k)" and "documented_masks k" and "documented_flags k" and "sd_dacl sd = Some d"
  shows "ad_security_get_protected_against_deletion k (Some sd) = Inr
    (right_set k (dom_sid_image (world_bytes k)) (delete_right k) False d
      \<and> right_set k (dom_sid_image (world_bytes k)) (delete_tree_right k) False d)"
  using plain_state [OF assms(1,3) plain_mask_right(1) [OF assms(2)] _ assms(4), of False]
    plain_state [OF assms(1,3) plain_mask_right(2) [OF assms(2)] _ assms(4), of False]
  by (simp add: ad_security_get_protected_against_deletion_def deref_sd_def is_delete_protected_for_trustee_def
      protect_deletion_mask_list_def denied_state [where f = "\<lambda>b. if \<not> b then Inr False else g" for g])


lemma protect_on:
  assumes "trustee_ok (world_bytes k)" and "documented_masks k" and "documented_flags k" and "sd_dacl sd = Some d"
  shows "\<exists>sd' d'. protect_against_deletion k True (Some sd) = Inr sd' \<and> sd_dacl sd' = Some d'
    \<and> right_set k (dom_sid_image (world_bytes k)) (delete_right k) False d'
    \<and> right_set k (dom_sid_image (world_bytes k)) (delete_tree_right k) False d'
    \<and> filter (untouched k (dom_sid_image (world_bytes k))) d' = filter (untouched k (dom_sid_image (world_bytes k))) d"
proof -
  note ok = plain_mask_right [OF assms(2)]
  obtain sd1 d1 where one: "security_descriptor_add_right_base k (world_bytes k) (delete_right k) False sd = Inr sd1"
    "sd_dacl sd1 = Some d1" and a1: "added_to k (dom_sid_image (world_bytes k)) (delete_right k) False d d1"
    using add_right_base_eq [OF assms(1) ok(1) assms(3,4)] by blast
  obtain sd2 d2 where two: "security_descriptor_add_right_base k (world_bytes k) (delete_tree_right k) False sd1 = Inr sd2"
    "sd_dacl sd2 = Some d2" and a2: "added_to k (dom_sid_image (world_bytes k)) (delete_tree_right k) False d1 d2"
    using add_right_base_eq [OF assms(1) ok(2) assms(3) one(2)] by blast
  have "protect_against_deletion k True (Some sd) = Inr sd2"
    using one(1) two(1) by (simp add: protect_against_deletion_def deref_sd_def protect_deletion_mask_list_def)
  then show ?thesis
    using two(2) added_right_set_mono [OF a2 added_right_set [OF a1]] added_right_set [OF a2]
      added_untouched [OF a1 ok(1) assms(3)] added_untouched [OF a2 ok(2) assms(3)] by (intro exI [of _ sd2] exI [of _ d2]) simp
qed

lemma protect_off:
  assumes "trustee_ok (world_bytes k)" and "sd_dacl sd = Some d"
  shows "unprotected_dacl k d = [] \<Longrightarrow>
      bind_faulty (protect_against_deletion k False (Some sd)) (security_descriptor_sort_dacl k) = Inl Null_Dereference"
    and "unprotected_dacl k d \<noteq> [] \<Longrightarrow> \<exists>sd'. protect_against_deletion k False (Some sd) = Inr sd'
      \<and> sd_dacl sd' = Some (unprotected_dacl k d)"
proof -
  let ?d1 = "removed_from k (dom_sid_image (world_bytes k)) (delete_right k) False d"
  obtain sd1 where one: "security_descriptor_remove_right_base k (world_bytes k) (delete_right k) False sd = Inr sd1"
    "sd_dacl sd1 = (if ?d1 = [] then None else Some ?d1)"
    using remove_right_base_eq [OF assms, of k "delete_right k" False] by (auto simp only: Let_def)
  have run: "protect_against_deletion k False (Some sd) =
      security_descriptor_remove_right_base k (world_bytes k) (delete_tree_right k) False sd1"
    using one(1) by (cases "security_descriptor_remove_right_base k (world_bytes k) (delete_tree_right k) False sd1")
      (simp_all add: protect_against_deletion_def deref_sd_def protect_deletion_mask_list_def)
  have two: "\<exists>sd2. security_descriptor_remove_right_base k (world_bytes k) (delete_tree_right k) False sd1 = Inr sd2
      \<and> sd_dacl sd2 = (if unprotected_dacl k d = [] then None else Some (unprotected_dacl k d))" if "?d1 \<noteq> []"
    using remove_right_base_eq [OF assms(1), of sd1 ?d1 k "delete_tree_right k" False] one(2) that
    by (auto simp only: Let_def unprotected_dacl_def if_False)
  have none: "unprotected_dacl k d = []" if "?d1 = []"
    using that by (simp add: unprotected_dacl_def removed_from_def map_filter_simps)
  show "unprotected_dacl k d \<noteq> [] \<Longrightarrow> \<exists>sd'. protect_against_deletion k False (Some sd) = Inr sd'
      \<and> sd_dacl sd' = Some (unprotected_dacl k d)"
    using two none run by auto
  show "unprotected_dacl k d = [] \<Longrightarrow>
      bind_faulty (protect_against_deletion k False (Some sd)) (security_descriptor_sort_dacl k) = Inl Null_Dereference"
    using one(2) two
    by (cases "?d1 = []") (auto simp: run security_descriptor_sort_dacl_def security_descriptor_remove_right_base_def
        remove_access_rights_def security_descriptor_get_dacl_def)
qed

text \<open>
  C10. Turning protection against deletion on or off. A descriptor that has the setting already is not
  written. Turning it on gives a descriptor that is protected; turning it off gives one that is
  not, and dereferences a null pointer exactly when no entry is left. In both cases the entries of
  other trustees than Everyone and the inherited ones are the same.
\<close>

theorem protection_against_deletion:
  assumes "trustee_ok (world_bytes k)" and "documented_masks k" and "documented_flags k" and "qsort_permutes k"
    and "sd_dacl sd = Some d"
  shows "case ad_security_get_protected_against_deletion k (Some sd) of Inl e \<Rightarrow> False | Inr was \<Rightarrow>
     (case set_protected_against_deletion k enabled (Some sd) of
        Inl e \<Rightarrow> was \<and> \<not> enabled \<and> e = Null_Dereference \<and> unprotected_dacl k d = []
      | Inr None \<Rightarrow> was = enabled
      | Inr (Some sd') \<Rightarrow> was \<noteq> enabled \<and> (enabled \<or> unprotected_dacl k d \<noteq> [])
          \<and> ad_security_get_protected_against_deletion k (Some sd') = Inr enabled
          \<and> (\<exists>d'. sd_dacl sd' = Some d'
               \<and> mset (filter (untouched k (dom_sid_image (world_bytes k))) d') =
                 mset (filter (untouched k (dom_sid_image (world_bytes k))) d)))"
proof -
  let ?sid = "dom_sid_image (world_bytes k)"
  note ok = plain_mask_right [OF assms(2)]
  note get = get_protected_eq [OF assms(1-3)]
  obtain was where was: "ad_security_get_protected_against_deletion k (Some sd) = Inr was" using get [OF assms(5)] by blast
  have sorted: "\<exists>sd' d'. security_descriptor_sort_dacl k sd1 = Inr sd' \<and> sd_dacl sd' = Some d' \<and> mset d' = mset d1
      \<and> (\<forall>r al. right_set k ?sid r al d' = right_set k ?sid r al d1)" if "sd_dacl sd1 = Some d1" for sd1 d1
  proof -
    have m: "mset (ace_qsort k (ace_compare k) d1) = mset d1" using assms(4) by (simp add: qsort_permutes_def)
    then show ?thesis using that right_set_cong [OF mset_eq_setD [OF m]] by (simp add: security_descriptor_sort_dacl_def)
  qed
  consider (same) "was = enabled" | (on) "\<not> was" "enabled" | (off) "was" "\<not> enabled" by blast
  then show ?thesis
  proof cases
    case same
    then show ?thesis using was by (simp add: set_protected_against_deletion_def)
  next
    case on
    obtain sd1 d1 where one: "protect_against_deletion k True (Some sd) = Inr sd1" "sd_dacl sd1 = Some d1"
      "right_set k ?sid (delete_right k) False d1" "right_set k ?sid (delete_tree_right k) False d1"
      "filter (untouched k ?sid) d1 = filter (untouched k ?sid) d"
      using protect_on [OF assms(1-3,5)] by blast
    obtain sd' d' where sd': "security_descriptor_sort_dacl k sd1 = Inr sd'" "sd_dacl sd' = Some d'" "mset d' = mset d1"
      "\<forall>r al. right_set k ?sid r al d' = right_set k ?sid r al d1"
      using sorted [OF one(2)] by blast
    have "mset (filter (untouched k ?sid) d') = mset (filter (untouched k ?sid) d)"
      using one(5) sd'(3) by (metis mset_filter)
    then show ?thesis using was on one sd' get [OF sd'(2)] by (simp add: set_protected_against_deletion_def)
  next
    case off
    show ?thesis
    proof (cases "unprotected_dacl k d = []")
      case True
      then have "bind_faulty (protect_against_deletion k False (Some sd)) (security_descriptor_sort_dacl k) = Inl Null_Dereference"
        using protect_off(1) [OF assms(1,5)] by simp
      then have "set_protected_against_deletion k False (Some sd) = Inl Null_Dereference"
        using was off by (simp add: set_protected_against_deletion_def bind_faulty_assoc [symmetric])
      then show ?thesis using was off True by simp
    next
      case False
      obtain sd1 where one: "protect_against_deletion k False (Some sd) = Inr sd1" "sd_dacl sd1 = Some (unprotected_dacl k d)"
        using protect_off(2) [OF assms(1,5) False] by blast
      obtain sd' d' where sd': "security_descriptor_sort_dacl k sd1 = Inr sd'" "sd_dacl sd' = Some d'"
        "mset d' = mset (unprotected_dacl k d)" "\<forall>r al. right_set k ?sid r al d' = right_set k ?sid r al (unprotected_dacl k d)"
        using sorted [OF one(2)] by blast
      have "filter (untouched k ?sid) (unprotected_dacl k d) = filter (untouched k ?sid) d"
        unfolding unprotected_dacl_def using removed_untouched [OF _ assms(3)] ok by simp
      then have keep: "mset (filter (untouched k ?sid) d') = mset (filter (untouched k ?sid) d)"
        using sd'(3) by (metis mset_filter)
      have "\<not> right_set k ?sid (delete_tree_right k) False (unprotected_dacl k d)"
        unfolding unprotected_dacl_def using ok(2) by (intro removed_not_set [OF assms(2)]) (simp add: right_ok_def)
      then show ?thesis using was off one sd' keep False get [OF sd'(2)] by (simp add: set_protected_against_deletion_def)
    qed
  qed
qed


section \<open>User cannot change password\<close>

lemma removed_opposite:
  assumes "right_set k sid' r' (\<not> allow) d"
  shows "right_set k sid' r' (\<not> allow) (removed_from k sid r allow d)"
proof -
  obtain ace where ace: "ace \<in> set d" "sets_right k sid' r' (\<not> allow) ace" using assms by (auto simp: right_set_def)
  have "\<not> sets_right k sid r allow ace"
    using ace(2) type_is_exclusive [of ace] by (cases allow) (auto simp: sets_right_def edit_matches_def)
  then have "ace \<in> set (removed_from k sid r allow d)"
    using ace(1) by (auto simp: removed_from_def set_map_filter intro!: bexI [of _ ace])
  then show ?thesis using ace(2) by (auto simp: right_set_def)
qed

lemma added_opposite:
  assumes "added_to k sid r allow d d'" and "right_set k sid' r' (\<not> allow) d'"
  shows "right_set k sid' r' (\<not> allow) d"
proof -
  obtain ace where ace: "ace \<in> set d'" "sets_right k sid' r' (\<not> allow) ace" using assms(2) by (auto simp: right_set_def)
  have "\<not> edit_matches k sid r allow ace"
    using ace(2) type_is_exclusive [of ace] by (cases allow) (auto simp: sets_right_def edit_matches_def)
  then have "ace \<in> set d"
    using assms(1) ace(1) unfolding added_to_def by (auto dest!: set_update_subset_insert [THEN subsetD])
  then show ?thesis using ace(2) by (auto simp: right_set_def)
qed

text \<open>One trustee: the opposite entry is removed, then the right is added.\<close>

lemma flip_step:
  assumes "trustee_ok t" and "documented_masks k" and "documented_flags k" and "right_ok k r" and "sd_dacl sd = Some d"
    and "\<exists>ace \<in> set d. untouched k (dom_sid_image t) ace"
  shows "\<exists>sd' d'. bind_faulty (security_descriptor_remove_right_base k t r (\<not> allow) sd)
        (security_descriptor_add_right_base k t r allow) = Inr sd' \<and> sd_dacl sd' = Some d'
    \<and> right_set k (dom_sid_image t) r allow d' \<and> \<not> right_set k (dom_sid_image t) r (\<not> allow) d'
    \<and> (\<forall>sid r'. right_set k sid r' allow d \<longrightarrow> right_set k sid r' allow d')
    \<and> (\<forall>sid r'. right_set k sid r' (\<not> allow) d' \<longrightarrow> right_set k sid r' (\<not> allow) d)
    \<and> filter (untouched k (dom_sid_image t)) d' = filter (untouched k (dom_sid_image t)) d"
proof -
  let ?d1 = "removed_from k (dom_sid_image t) r (\<not> allow) d"
  have keep: "filter (untouched k (dom_sid_image t)) ?d1 = filter (untouched k (dom_sid_image t)) d"
    by (rule removed_untouched [OF assms(4,3)])
  have "filter (untouched k (dom_sid_image t)) d \<noteq> []" using assms(6) by (simp add: filter_empty_conv)
  then have "?d1 \<noteq> []" using keep by (cases ?d1) auto
  then obtain sd1 where one: "security_descriptor_remove_right_base k t r (\<not> allow) sd = Inr sd1" "sd_dacl sd1 = Some ?d1"
    using remove_right_base_eq [OF assms(1,5), of k r "\<not> allow"] by (auto simp only: Let_def if_False)
  obtain sd' d' where two: "security_descriptor_add_right_base k t r allow sd1 = Inr sd'" "sd_dacl sd' = Some d'"
    and added: "added_to k (dom_sid_image t) r allow ?d1 d'"
    using add_right_base_eq [OF assms(1,4,3) one(2)] by blast
  have "access_mask r \<noteq> 0" using assms(4) by (simp add: right_ok_def)
  then have "\<not> right_set k (dom_sid_image t) r (\<not> allow) d'"
    using removed_not_set [OF assms(2)] added_opposite [OF added] by blast
  moreover have "right_set k sid r' allow d'" if "right_set k sid r' allow d" for sid r'
    using that removed_opposite [of k sid r' "\<not> allow" d] added_right_set_mono [OF added] by simp
  moreover have "right_set k sid r' (\<not> allow) d" if "right_set k sid r' (\<not> allow) d'" for sid r'
    using removed_right_set [OF added_opposite [OF added that]] .
  ultimately show ?thesis
    using one two added_right_set [OF added] added_untouched [OF added assms(4,3)] keep
    by (intro exI [of _ sd'] exI [of _ d']) simp
qed


abbreviation self_bytes :: "sec_api \<Rightarrow> bytes" where
  "self_bytes k \<equiv> sid_string_to_bytes k (SID_NT_SELF k)"

lemma denied_for_trustee:
  assumes "trustee_ok (sid_string_to_bytes k cn)" and "documented_flags k" and "right_ok k (change_pass_right k cfg)"
    and "sd_dacl sd = Some d"
  shows "\<exists>b. is_password_change_denied_for_trustee k cfg sd cn = Inr b
    \<and> (right_set k (dom_sid_image (sid_string_to_bytes k cn)) (change_pass_right k cfg) False d \<longrightarrow> b)
    \<and> (b \<longrightarrow> right_set k (dom_sid_image (sid_string_to_bytes k cn)) (change_pass_right k cfg) False d
         \<or> right_set k (dom_sid_image (sid_string_to_bytes k cn)) (no_object (change_pass_right k cfg)) False d)"
proof -
  obtain st where st: "security_descriptor_get_right_state k sd (sid_string_to_bytes k cn) (change_pass_right k cfg) = Inr st"
    using get_right_state_eq [OF assms(1,4)] by blast
  then show ?thesis using own_state [OF assms(1,4,3,2) st, of False]
    by (simp add: is_password_change_denied_for_trustee_def allow_type_def)
qed



section \<open>Witnesses\<close>

lemma total_preorder_on_mono: "total_preorder_on cmp A \<Longrightarrow> B \<subseteq> A \<Longrightarrow> total_preorder_on cmp B"
  unfolding total_preorder_on_def by blast

lemma total_preorder_onD:
  assumes "total_preorder_on cmp A" and "x \<in> A" and "y \<in> A"
  shows "\<not> cmp x y \<le> 0 \<Longrightarrow> cmp y x \<le> 0"
    and "z \<in> A \<Longrightarrow> cmp x y \<le> 0 \<Longrightarrow> cmp y z \<le> 0 \<Longrightarrow> cmp x z \<le> 0"
  using assms unfolding total_preorder_on_def by blast+

lemma set_insert_by [simp]: "set (insert_by cmp x ys) = insert x (set ys)"
  by (induction ys) auto

lemma insert_by_sorts:
  "sorted_wrt (\<lambda>a b. cmp a b \<le> 0) ys \<Longrightarrow> total_preorder_on cmp (insert x (set ys)) \<Longrightarrow>
    sorted_wrt (\<lambda>a b. cmp a b \<le> 0) (insert_by cmp x ys)"
proof (induction ys)
  case (Cons y ys)
  have rest: "sorted_wrt (\<lambda>a b. cmp a b \<le> 0) (insert_by cmp x ys)"
    using Cons.prems by (intro Cons.IH total_preorder_on_mono [OF Cons.prems(2)]) auto
  have "cmp x z \<le> 0" if "cmp x y \<le> 0" "z \<in> set ys" for z
    using total_preorder_onD(2) [OF Cons.prems(2), of x y z] that Cons.prems(1) by simp
  moreover have "cmp y x \<le> 0" if "\<not> cmp x y \<le> 0"
    using total_preorder_onD(1) [OF Cons.prems(2), of x y] that by simp
  ultimately show ?case using Cons.prems(1) rest by simp
qed simp

lemma insertion_sort_sorts:
  "total_preorder_on cmp (set xs) \<Longrightarrow> sorted_wrt (\<lambda>a b. cmp a b \<le> 0) (insertion_sort cmp xs)"
proof (induction xs)
  case (Cons x xs)
  have set_eq: "set (insertion_sort cmp xs) = set xs" by (rule mset_eq_setD [OF insertion_sort_permutes])
  have "sorted_wrt (\<lambda>a b. cmp a b \<le> 0) (insertion_sort cmp xs)"
    using Cons.prems by (intro Cons.IH total_preorder_on_mono [OF Cons.prems]) auto
  then show ?case using insert_by_sorts [of cmp "insertion_sort cmp xs" x] Cons.prems set_eq by (simp add: insertion_sort_def)
qed (simp add: insertion_sort_def)

text \<open>Everyone is \<open>example_sid 1\<close>, the object itself is \<open>example_sid 5\<close>; the third entry is for another trustee.\<close>

abbreviation other_ace :: security_ace where
  "other_ace \<equiv> example_ace 2 SEC_ACE_TYPE_ACCESS_ALLOWED 0x10"

lemma example_trustees:
  "world_bytes example_api = dom_sid_to_bytes (example_sid 1)" "self_bytes example_api = dom_sid_to_bytes (example_sid 5)"
  by (simp_all add: example_api_def)

lemma example_world_ok: "trustee_ok (world_bytes example_api)" "trustee_ok (self_bytes example_api)"
  by (simp_all add: example_trustees)

theorem sort_dacl_verified_witness:
  "\<exists>sd'. security_descriptor_sort_dacl example_api (example_sd [other_ace, example_ace 1 SEC_ACE_TYPE_ACCESS_DENIED 0x10]) = Inr sd'
    \<and> security_descriptor_verify_acl_order example_api sd' = Inr True"
proof -
  let ?a = other_ace and ?b = "example_ace 1 SEC_ACE_TYPE_ACCESS_DENIED 0x10"
  have "\<exists>sd' dacl'. security_descriptor_sort_dacl example_api (example_sd [?a, ?b]) = Inr sd'
    \<and> sd_dacl sd' = Some dacl' \<and> mset dacl' = mset [?a, ?b]
    \<and> security_descriptor_verify_acl_order example_api sd' = Inr True"
  proof (rule sort_dacl_verified)
    show "qsort_sorts example_api"
      by (simp add: qsort_sorts_def example_api_def insertion_sort_permutes insertion_sort_sorts)
    have c: "ace_compare example_api ?a ?b = 1" "ace_compare example_api ?b ?a = -1"
        "ace_compare example_api ?a ?a = 0" "ace_compare example_api ?b ?b = 0" by code_simp+
    then show "total_preorder_on (ace_compare example_api) (set [?a, ?b])"
      by (simp add: total_preorder_on_def)
  qed (simp_all add: example_sd_def ace_is_access_def example_ace_def ace_type_allow_set_def ace_type_deny_set_def)
  then show ?thesis by auto
qed


theorem protection_against_deletion_witness:
  "case set_protected_against_deletion example_api True (Some (example_sd [other_ace])) of
     Inr (Some sd') \<Rightarrow> ad_security_get_protected_against_deletion example_api (Some sd') = Inr True
   | _ \<Rightarrow> False"
proof -
  have get: "ad_security_get_protected_against_deletion example_api (Some (example_sd [other_ace])) = Inr False" by code_simp
  show ?thesis
    using protection_against_deletion [of example_api "example_sd [other_ace]" "[other_ace]" True, OF example_world_ok(1) _ _ example_qsort]
      get by (auto simp: example_sd_def split: sum.splits option.splits)
qed


end
