(* ===== verification/QtDateTime.thy ===== *)
theory QtDateTime
  imports QtCore
begin

text \<open>
  \<open>QDateTime\<close> in UTC, as the program uses it: a number of milliseconds since the start of 1601 (the
  epoch of the large integers of the directory), or invalid; the proleptic Gregorian calendar, and
  the texts of the two formats in \<open>src/adldap/ad_utils.cpp\<close>, written and read by field.
\<close>

section \<open>Calendar\<close>

definition is_leap_year :: "int \<Rightarrow> bool" where
  "is_leap_year y = (y mod 4 = 0 \<and> (y mod 100 \<noteq> 0 \<or> y mod 400 = 0))"

definition days_in_year :: "int \<Rightarrow> nat" where
  "days_in_year y = (if is_leap_year y then 366 else 365)"

definition month_lengths :: "int \<Rightarrow> nat list" where
  "month_lengths y = [31, if is_leap_year y then 29 else 28, 31, 30, 31, 30, 31, 31, 30, 31, 30, 31]"

text \<open>The calendar repeats every 400 years, of 146097 days.\<close>

fun split_by :: "nat list \<Rightarrow> nat \<Rightarrow> nat \<times> nat" where
  "split_by [] d = (0, d)"
| "split_by (l # ls) d = (if d < l then (0, d) else let (i, r) = split_by ls (d - l) in (Suc i, r))"

definition cycle_lengths :: "nat list" where
  "cycle_lengths = map (\<lambda>i. days_in_year (1601 + int i)) [0..<400]"

record civil_date = c_year :: int  c_month :: nat  c_day :: nat

text \<open>The date that many days after 1601-01-01.\<close>

definition civil_of_days :: "int \<Rightarrow> civil_date" where
  "civil_of_days n =
     (let (i, d) = split_by cycle_lengths (nat (n mod 146097));
          y = 1601 + 400 * (n div 146097) + int i;
          (m, r) = split_by (month_lengths y) d
      in \<lparr>c_year = y, c_month = Suc m, c_day = Suc r\<rparr>)"

definition days_of_civil :: "civil_date \<Rightarrow> int" where
  "days_of_civil c =
     (let k = c_year c - 1601
      in 146097 * (k div 400) + int (sum_list (take (nat (k mod 400)) cycle_lengths))
         + int (sum_list (take (c_month c - 1) (month_lengths (c_year c)))) + int (c_day c) - 1)"

definition civil_valid :: "civil_date \<Rightarrow> bool" where
  "civil_valid c = (1 \<le> c_month c \<and> c_month c \<le> 12 \<and> 1 \<le> c_day c
     \<and> c_day c \<le> month_lengths (c_year c) ! (c_month c - 1))"

lemma split_by_sum: "d < sum_list ls \<Longrightarrow> split_by ls d = (i, r) \<Longrightarrow>
    i < length ls \<and> r < ls ! i \<and> sum_list (take i ls) + r = d"
proof (induction ls arbitrary: d i)
  case (Cons l ls)
  show ?case
  proof (cases "d < l")
    case True
    then show ?thesis using Cons.prems by auto
  next
    case False
    obtain j where j: "split_by ls (d - l) = (j, r)" "i = Suc j" using Cons.prems False by (auto split: prod.splits)
    have "d - l < sum_list ls" using Cons.prems False by simp
    then show ?thesis using Cons.IH [OF _ j(1)] j(2) False by auto
  qed
qed simp

lemma leap_since_1601: "is_leap_year (1601 + int n) \<longleftrightarrow> Suc n mod 4 = 0 \<and> (Suc n mod 100 \<noteq> 0 \<or> Suc n mod 400 = 0)"
proof -
  have "(1601 + int n) mod int m = int (Suc n mod m)" if dvd: "m dvd 1600" for m
  proof -
    obtain q where "1600 = m * q" using dvd unfolding dvd_def by blast
    then have "int 1600 = int m * int q" by (simp only: of_nat_mult)
    then have "(1601 + int n) = int (Suc n) + int m * int q" by simp
    then show ?thesis by (simp only: mod_mult_self2 of_nat_mod)
  qed
  from this [of 4] this [of 100] this [of 400] show ?thesis by (simp add: is_leap_year_def)
qed

lemma sum_years: "sum_list (map (\<lambda>i. days_in_year (1601 + int i)) [0..<n]) + n div 100 = 365 * n + n div 4 + n div 400"
proof (induction n)
  case (Suc n)
  have "Suc n mod 400 = 0 \<Longrightarrow> Suc n mod 100 = 0" "Suc n mod 100 = 0 \<Longrightarrow> Suc n mod 4 = 0"
    using mod_mod_cancel [of 100 400 "Suc n"] mod_mod_cancel [of 4 100 "Suc n"] by simp_all
  then show ?case using Suc by (simp add: days_in_year_def leap_since_1601 div_Suc)
qed simp

lemma sum_cycle: "sum_list cycle_lengths = 146097"
  using sum_years [of 400] by (simp add: cycle_lengths_def del: upt_Suc)

lemma length_cycle [simp]: "length cycle_lengths = 400"
  by (simp add: cycle_lengths_def)

lemma sum_months: "sum_list (month_lengths y) = days_in_year y"
  by (simp add: month_lengths_def days_in_year_def)

lemma length_months [simp]: "length (month_lengths y) = 12"
  by (simp add: month_lengths_def)

lemma is_leap_year_cycle: "is_leap_year (y + 400 * k) = is_leap_year y"
proof -
  have "(y + 4 * (100 * k)) mod 4 = y mod 4" "(y + 100 * (4 * k)) mod 100 = y mod 100" by (simp_all only: mod_mult_self2)
  then show ?thesis by (simp add: is_leap_year_def)
qed

lemma cycle_nth: "i < 400 \<Longrightarrow> cycle_lengths ! i = days_in_year (1601 + 400 * k + int i)"
  using is_leap_year_cycle [of "1601 + int i" k]
  by (simp add: cycle_lengths_def days_in_year_def algebra_simps)

text \<open>The date of a day is valid and is of that day.\<close>

lemma civil_of_days_inverse: "days_of_civil (civil_of_days n) = n \<and> civil_valid (civil_of_days n)"
proof -
  obtain i d where i: "split_by cycle_lengths (nat (n mod 146097)) = (i, d)" by force
  have "nat (n mod 146097) < sum_list cycle_lengths" unfolding sum_cycle by simp
  from split_by_sum [OF this i] have i': "i < 400" "d < cycle_lengths ! i"
    "sum_list (take i cycle_lengths) + d = nat (n mod 146097)" by simp_all
  define y where "y = 1601 + 400 * (n div 146097) + int i"
  obtain m r where m: "split_by (month_lengths y) d = (m, r)" by force
  have "d < sum_list (month_lengths y)" using i'(2) cycle_nth [OF i'(1)] by (simp add: sum_months y_def)
  from split_by_sum [OF this m] have m': "m < 12" "r < month_lengths y ! m"
    "sum_list (take m (month_lengths y)) + r = d" by simp_all
  have c: "civil_of_days n = \<lparr>c_year = y, c_month = Suc m, c_day = Suc r\<rparr>"
    using i m by (simp add: civil_of_days_def y_def)
  have k: "(y - 1601) div 400 = n div 146097" "nat ((y - 1601) mod 400) = i" using i'(1) by (auto simp: y_def)
  have "int (sum_list (take i cycle_lengths)) + int (sum_list (take m (month_lengths y))) + int r = n mod 146097"
    using i'(3) m'(3) by linarith
  moreover have "days_of_civil (civil_of_days n) = 146097 * (n div 146097)
      + (int (sum_list (take i cycle_lengths)) + int (sum_list (take m (month_lengths y))) + int r)"
    unfolding c days_of_civil_def by (simp add: Let_def k)
  ultimately have "days_of_civil (civil_of_days n) = n" by (simp only: mult_div_mod_eq)
  then show ?thesis using m' unfolding c by (simp add: civil_valid_def)
qed

section \<open>Date and time\<close>

text \<open>\<open>None\<close> is an invalid date and time.\<close>

type_synonym qdatetime = "int option"

definition msecs_per_day :: int where "msecs_per_day = 86400000"

record qdatetime_fields = dt_date :: civil_date  dt_hour :: nat  dt_minute :: nat  dt_second :: nat  dt_msec :: nat

definition fields_of :: "int \<Rightarrow> qdatetime_fields" where
  "fields_of t =
     (let r = nat (t mod msecs_per_day)
      in \<lparr>dt_date = civil_of_days (t div msecs_per_day), dt_hour = r div 3600000, dt_minute = r div 60000 mod 60,
          dt_second = r div 1000 mod 60, dt_msec = r mod 1000\<rparr>)"

definition of_fields :: "qdatetime_fields \<Rightarrow> qdatetime" where
  "of_fields f =
     (if civil_valid (dt_date f) \<and> dt_hour f < 24 \<and> dt_minute f < 60 \<and> dt_second f < 60 \<and> dt_msec f < 1000
      then Some (days_of_civil (dt_date f) * msecs_per_day
             + int (dt_hour f * 3600000 + dt_minute f * 60000 + dt_second f * 1000 + dt_msec f))
      else None)"

lemma time_split: "r div 3600000 * 3600000 + r div 60000 mod 60 * 60000 + r div 1000 mod 60 * 1000 + r mod 1000 = r" for r :: nat
proof -
  have "r div 1000 div 60 = r div 60000" "r div 60000 div 60 = r div 3600000"
    using div_mult2_eq [of r 1000 60] div_mult2_eq [of r 60000 60] by simp_all
  then show ?thesis
    using div_mult_mod_eq [of r 1000] div_mult_mod_eq [of "r div 1000" 60] div_mult_mod_eq [of "r div 60000" 60]
    by linarith
qed

lemma of_fields_of: "of_fields (fields_of t) = Some t"
proof -
  define r where "r = nat (t mod msecs_per_day)"
  have r: "int r = t mod msecs_per_day" by (simp add: r_def msecs_per_day_def)
  have "t mod msecs_per_day < 86400000" by (simp add: msecs_per_day_def)
  then have "r < 24 * 3600000" using r by linarith
  then have h: "r div 3600000 < 24" by (rule less_mult_imp_div_less)
  have f: "fields_of t = \<lparr>dt_date = civil_of_days (t div msecs_per_day), dt_hour = r div 3600000, dt_minute = r div 60000 mod 60,
      dt_second = r div 1000 mod 60, dt_msec = r mod 1000\<rparr>"
    by (simp only: fields_of_def r_def Let_def)
  have "of_fields (fields_of t) = Some (days_of_civil (civil_of_days (t div msecs_per_day)) * msecs_per_day
      + int (r div 3600000 * 3600000 + r div 60000 mod 60 * 60000 + r div 1000 mod 60 * 1000 + r mod 1000))"
    unfolding f of_fields_def using civil_of_days_inverse [of "t div msecs_per_day"] h by simp
  also have "\<dots> = Some (t div msecs_per_day * msecs_per_day + t mod msecs_per_day)"
    unfolding time_split r using civil_of_days_inverse [of "t div msecs_per_day"] by (simp only:)
  also have "\<dots> = Some t" by (simp only: div_mult_mod_eq)
  finally show ?thesis .
qed

section \<open>Texts\<close>

text \<open>
  The format \<open>z\<close> is the fraction of the second without trailing zeros; a text has between one and
  three of its digits. \<open>Z\<close> and the dot stand for themselves.
\<close>

definition fraction_text :: "nat \<Rightarrow> qstring" where
  "fraction_text ms = (if ms mod 100 = 0 then arg_padded 1 10 (ms div 100)
     else if ms mod 10 = 0 then arg_padded 2 10 (ms div 10) else arg_padded 3 10 ms)"

text \<open>Two digits of the year, or all four.\<close>

definition datetime_text :: "bool \<Rightarrow> qdatetime \<Rightarrow> qstring" where
  "datetime_text four dt =
     (case dt of None \<Rightarrow> [] | Some t \<Rightarrow>
        let f = fields_of t; c = dt_date f
        in (if four then arg_padded 4 10 (nat (c_year c)) else arg_padded 2 10 (nat (c_year c mod 100)))
           @ arg_padded 2 10 (c_month c) @ arg_padded 2 10 (c_day c) @ arg_padded 2 10 (dt_hour f)
           @ arg_padded 2 10 (dt_minute f) @ arg_padded 2 10 (dt_second f) @ ''.'' @ fraction_text (dt_msec f) @ ''Z'')"

text \<open>The next digits of a text, all of them required.\<close>

definition take_digits :: "nat \<Rightarrow> qstring \<Rightarrow> (nat \<times> qstring) option" where
  "take_digits n s = (if length s < n then None
     else map_option (\<lambda>v. (v, drop n s)) (of_digits 10 (take n s)))"

text \<open>A year of two digits is read as one of the 1900s.\<close>

definition datetime_of_text :: "bool \<Rightarrow> qstring \<Rightarrow> qdatetime" where
  "datetime_of_text four s =
     (case take_digits (if four then 4 else 2) s of None \<Rightarrow> None | Some (y, s1) \<Rightarrow>
      case take_digits 2 s1 of None \<Rightarrow> None | Some (mo, s2) \<Rightarrow>
      case take_digits 2 s2 of None \<Rightarrow> None | Some (d, s3) \<Rightarrow>
      case take_digits 2 s3 of None \<Rightarrow> None | Some (h, s4) \<Rightarrow>
      case take_digits 2 s4 of None \<Rightarrow> None | Some (mi, s5) \<Rightarrow>
      case take_digits 2 s5 of None \<Rightarrow> None | Some (se, s6) \<Rightarrow>
      if take 1 s6 \<noteq> ''.'' then None else
      let n = length s6 - 2; frac = take n (drop 1 s6)
      in if drop (Suc n) s6 \<noteq> ''Z'' \<or> n < 1 \<or> 3 < n then None
         else case of_digits 10 frac of None \<Rightarrow> None | Some z \<Rightarrow>
           of_fields \<lparr>dt_date = \<lparr>c_year = (if four then int y else 1900 + int y), c_month = mo, c_day = d\<rparr>,
             dt_hour = h, dt_minute = mi, dt_second = se, dt_msec = z * 10 ^ (3 - n)\<rparr>)"


section \<open>Reading a text back\<close>

lemma length_digits_less: "2 \<le> b \<Longrightarrow> n < b ^ w \<Longrightarrow> 0 < w \<Longrightarrow> length (digits_of b n) \<le> w"
proof (induction b n arbitrary: w rule: digits_of.induct)
  case (1 b n)
  show ?case
  proof (cases "n < b")
    case True
    then show ?thesis using 1 by (simp add: digits_of.simps)
  next
    case False
    obtain v where v: "w = Suc v" using 1 by (cases w) auto
    have "0 < v" using False 1 v by (cases v) auto
    moreover have "n div b < b ^ v" using 1 v by (simp add: less_mult_imp_div_less mult.commute)
    ultimately have "length (digits_of b (n div b)) \<le> v" using 1 False by simp
    then show ?thesis using False 1 v by (subst digits_of.simps) simp
  qed
qed

lemma length_arg_padded: "2 \<le> b \<Longrightarrow> n < b ^ w \<Longrightarrow> 0 < w \<Longrightarrow> length (arg_padded w b n) = w"
  using length_digits_less [of b n w] by (simp add: arg_padded_def Let_def)

lemma digits_value_zeros: "2 \<le> b \<Longrightarrow> digits_value b (replicate k (CHR ''0'') @ s) 0 = digits_value b s 0"
  by (induction k) (auto simp: digit_value_def Let_def)

lemma of_digits_padded: "2 \<le> b \<Longrightarrow> b \<le> 36 \<Longrightarrow> of_digits b (arg_padded w b n) = Some n"
  by (simp add: of_digits_def arg_padded_def Let_def digits_value_zeros digits_value_digits_of)

lemma take_digits_padded: "n < 10 ^ w \<Longrightarrow> 0 < w \<Longrightarrow> take_digits w (arg_padded w 10 n @ s) = Some (n, s)"
  using length_arg_padded [of 10 n w] by (simp add: take_digits_def of_digits_padded)

lemma fraction_read:
  assumes "ms < 1000"
  shows "\<exists>n z. length (fraction_text ms) = n \<and> 1 \<le> n \<and> n \<le> 3 \<and> of_digits 10 (fraction_text ms) = Some z \<and> z * 10 ^ (3 - n) = ms"
proof -
  consider "ms mod 100 = 0" | "ms mod 100 \<noteq> 0" "ms mod 10 = 0" | "ms mod 100 \<noteq> 0" "ms mod 10 \<noteq> 0" by blast
  then show ?thesis
  proof cases
    case 1
    have "ms div 100 * 100 = ms" using div_mult_mod_eq [of ms 100] 1 by linarith
    moreover have "length (fraction_text ms) = 1"
      using assms 1 length_arg_padded [of 10 "ms div 100" 1] by (simp add: fraction_text_def less_mult_imp_div_less)
    ultimately show ?thesis using 1 by (simp add: fraction_text_def of_digits_padded)
  next
    case 2
    have "ms div 10 * 10 = ms" using div_mult_mod_eq [of ms 10] 2 by linarith
    moreover have "length (fraction_text ms) = 2"
      using assms 2 length_arg_padded [of 10 "ms div 10" 2] by (simp add: fraction_text_def less_mult_imp_div_less)
    ultimately show ?thesis using 2 by (simp add: fraction_text_def of_digits_padded)
  next
    case 3
    then have "length (fraction_text ms) = 3" using assms length_arg_padded [of 10 ms 3] by (simp add: fraction_text_def)
    then show ?thesis using 3 by (simp add: fraction_text_def of_digits_padded)
  qed
qed

lemma fields_bounds:
  "c_month (dt_date (fields_of t)) < 100" "c_day (dt_date (fields_of t)) < 100" "dt_hour (fields_of t) < 100"
  "dt_minute (fields_of t) < 100" "dt_second (fields_of t) < 100" "dt_msec (fields_of t) < 1000"
proof -
  have "of_fields (fields_of t) \<noteq> None" by (simp add: of_fields_of)
  then have ok: "civil_valid (dt_date (fields_of t))" "dt_hour (fields_of t) < 24" "dt_minute (fields_of t) < 60"
    "dt_second (fields_of t) < 60" "dt_msec (fields_of t) < 1000"
    by (auto simp: of_fields_def split: if_splits)
  let ?c = "dt_date (fields_of t)"
  have "month_lengths y ! m \<le> 31" if "m < 12" for y m
  proof -
    have "month_lengths y ! m \<in> set (month_lengths y)" using that by simp
    then show ?thesis by (auto simp: month_lengths_def split: if_splits)
  qed
  then have "month_lengths (c_year ?c) ! (c_month ?c - 1) \<le> 31"
    if "c_month ?c - 1 < 12" using that by simp
  moreover have "c_month ?c - 1 < 12" using ok(1) unfolding civil_valid_def by linarith
  ultimately have "c_day ?c \<le> 31" using ok(1) unfolding civil_valid_def by linarith
  then show "c_month ?c < 100" "c_day ?c < 100" "dt_hour (fields_of t) < 100"
    "dt_minute (fields_of t) < 100" "dt_second (fields_of t) < 100" "dt_msec (fields_of t) < 1000"
    using ok by (auto simp: civil_valid_def)
qed

text \<open>A text of either format is read as the same fields, up to the century of a year of two digits.\<close>

lemma datetime_text_read:
  assumes "if four then 0 \<le> c_year (dt_date (fields_of t)) \<and> c_year (dt_date (fields_of t)) < 10000 else True"
  shows "datetime_of_text four (datetime_text four (Some t)) =
    of_fields (fields_of t \<lparr>dt_date := dt_date (fields_of t)
      \<lparr>c_year := if four then c_year (dt_date (fields_of t)) else 1900 + c_year (dt_date (fields_of t)) mod 100\<rparr>\<rparr>)"
proof -
  let ?f = "fields_of t"
  let ?y = "if four then nat (c_year (dt_date ?f)) else nat (c_year (dt_date ?f) mod 100)"
  obtain n z where z: "length (fraction_text (dt_msec ?f)) = n" "1 \<le> n" "n \<le> 3"
    "of_digits 10 (fraction_text (dt_msec ?f)) = Some z" "z * 10 ^ (3 - n) = dt_msec ?f"
    using fraction_read [OF fields_bounds(6)] by blast
  have y: "?y < 10 ^ (if four then 4 else 2)" using assms by (auto simp: nat_less_iff)
  note b = fields_bounds [of t]
  have written: "datetime_text four (Some t) = arg_padded (if four then 4 else 2) 10 ?y
      @ arg_padded 2 10 (c_month (dt_date ?f)) @ arg_padded 2 10 (c_day (dt_date ?f)) @ arg_padded 2 10 (dt_hour ?f)
      @ arg_padded 2 10 (dt_minute ?f) @ arg_padded 2 10 (dt_second ?f) @ ''.'' @ fraction_text (dt_msec ?f) @ ''Z''"
    by (simp add: datetime_text_def Let_def)
  have "(if four then int ?y else 1900 + int ?y) =
      (if four then c_year (dt_date ?f) else 1900 + c_year (dt_date ?f) mod 100)"
    using assms by simp
  then have same: "fields_of t \<lparr>dt_date := dt_date ?f
      \<lparr>c_year := if four then c_year (dt_date ?f) else 1900 + c_year (dt_date ?f) mod 100\<rparr>\<rparr> =
    \<lparr>dt_date = \<lparr>c_year = (if four then int ?y else 1900 + int ?y), c_month = c_month (dt_date ?f), c_day = c_day (dt_date ?f)\<rparr>,
      dt_hour = dt_hour ?f, dt_minute = dt_minute ?f, dt_second = dt_second ?f, dt_msec = dt_msec ?f\<rparr>"
    by (intro qdatetime_fields.equality civil_date.equality) auto
  show ?thesis
    unfolding same unfolding written datetime_of_text_def
    using y b z by (cases four) (simp_all add: take_digits_padded Let_def)
qed

text \<open>A date and time of the years 0 to 9999 is read back from its text with four digits of the year.\<close>

lemma datetime_text_four:
  assumes "0 \<le> c_year (dt_date (fields_of t))" and "c_year (dt_date (fields_of t)) < 10000"
  shows "datetime_of_text True (datetime_text True (Some t)) = Some t"
  using datetime_text_read [of True t] assms by (simp add: of_fields_of)

end
