(* ===== verification/AdDisplay.thy ===== *)
theory AdDisplay
  imports AdConfig QtDateTime
begin

text \<open>
  \<open>src/adldap/ad_display.cpp\<close>, the texts in which attribute values are shown, and the functions of
  \<open>src/adldap/ad_utils.cpp\<close> that convert dates. The local time zone, the memory behind an array that is
  read past its end, the order in which a hash is traversed and Samba's well-known relative
  identifiers are fields of a record that the definitions take as an argument.
\<close>

record display_env =
  local_time_text :: "qdatetime \<Rightarrow> qstring"
  time_zone_text :: "qdatetime \<Rightarrow> qstring"
  memory_after :: "nat \<Rightarrow> byte"
  hash_order :: "(mask \<times> qstring) list \<Rightarrow> (mask \<times> qstring) list"
  rid_value :: "qstring \<Rightarrow> int"

section \<open>Dates\<close>

text \<open>Division of C++ integers by a positive number.\<close>

definition cdiv :: "int \<Rightarrow> int \<Rightarrow> int" where
  "cdiv a b = (if a < 0 then - ((- a) div b) else a div b)"

text \<open>The large integer of a date is a product that may overflow.\<close>

definition datetime_qdatetime_to_string :: "ad_config option \<Rightarrow> qstring \<Rightarrow> qdatetime \<Rightarrow> qstring faulty" where
  "datetime_qdatetime_to_string adconfig attribute datetime =
     (case adconfig of None \<Rightarrow> Inr [] | Some cfg \<Rightarrow>
        (case get_attribute_type cfg attribute of
           AttributeType_LargeInteger \<Rightarrow>
             (let millis = (case datetime of None \<Rightarrow> 0 | Some t \<Rightarrow> t); hundred_nanos = millis * MILLIS_TO_100_NANOS
              in if in_range 64 hundred_nanos then Inr (number hundred_nanos) else Inl Signed_Overflow)
         | AttributeType_UTCTime \<Rightarrow> Inr (datetime_text False datetime)
         | AttributeType_GeneralizedTime \<Rightarrow> Inr (datetime_text True datetime)
         | _ \<Rightarrow> Inr []))"

definition attribute_to_date_time :: "ad_config \<Rightarrow> qstring \<Rightarrow> qstring \<Rightarrow> qdatetime" where
  "attribute_to_date_time cfg attribute raw_value =
     (case get_attribute_type cfg attribute of
        AttributeType_LargeInteger \<Rightarrow>
          (if get_attribute_large_integer_subtype attribute = LargeIntegerSubtype_Datetime
           then Some (cdiv (or_zero (to_long_long raw_value)) MILLIS_TO_100_NANOS) else None)
      | AttributeType_GeneralizedTime \<Rightarrow> datetime_of_text True raw_value
      | AttributeType_UTCTime \<Rightarrow> datetime_of_text False raw_value
      | _ \<Rightarrow> None)"

definition datetime_string_to_qdatetime :: "ad_config option \<Rightarrow> qstring \<Rightarrow> qstring \<Rightarrow> qdatetime" where
  "datetime_string_to_qdatetime adconfig attribute raw_value =
     (case adconfig of None \<Rightarrow> None | Some cfg \<Rightarrow> attribute_to_date_time cfg attribute raw_value)"

definition get_datetime :: "ad_config option \<Rightarrow> ad_object \<Rightarrow> qstring \<Rightarrow> qdatetime" where
  "get_datetime adconfig obj attribute = datetime_string_to_qdatetime adconfig attribute (get_string obj attribute)"

definition large_integer_datetime_display_value :: "display_env \<Rightarrow> ad_config option \<Rightarrow> qstring \<Rightarrow> bytes \<Rightarrow> qstring" where
  "large_integer_datetime_display_value env adconfig attribute val =
     (let value_string = string_of_bytes val
      in if large_integer_datetime_is_never value_string then ''(never)''
         else local_time_text env (datetime_string_to_qdatetime adconfig attribute value_string))"

definition datetime_display_value :: "display_env \<Rightarrow> ad_config option \<Rightarrow> qstring \<Rightarrow> bytes \<Rightarrow> qstring" where
  "datetime_display_value env adconfig attribute val =
     (let datetime = datetime_string_to_qdatetime adconfig attribute (string_of_bytes val)
      in local_time_text env datetime @ time_zone_text env datetime)"

section \<open>Timespans\<close>

definition get_seconds_total :: "int \<Rightarrow> int" where
  "get_seconds_total hundred_nanos_negative =
     cdiv (cdiv (- hundred_nanos_negative) MILLIS_TO_100_NANOS) 1000"

definition time_unit_to_string :: "int \<Rightarrow> qstring" where
  "time_unit_to_string time =
     (let time = (if time > 99 then 99 else time); time_string = number time
      in if time = 0 then ''00'' else if time < 10 then ''0'' @ time_string else time_string)"

definition timespan_display_value :: "bytes \<Rightarrow> qstring" where
  "timespan_display_value val =
     (let hundred_nanos_negative = or_zero (to_long_long (string_of_bytes val))
      in if hundred_nanos_negative = - (2 ^ 63) then ''(never)''
         else if hundred_nanos_negative = 0 then ''(none)''
         else
           (let seconds_total = get_seconds_total hundred_nanos_negative;
                days = cdiv seconds_total 86400; seconds_total = seconds_total - days * 86400;
                hours = cdiv seconds_total 3600; seconds_total = seconds_total - hours * 3600;
                minutes = cdiv seconds_total 60; seconds_total = seconds_total - minutes * 60
            in number days @ '':'' @ time_unit_to_string hours @ '':'' @ time_unit_to_string minutes @ '':''
               @ time_unit_to_string seconds_total))"

section \<open>Bytes\<close>

definition hex_byte :: "byte \<Rightarrow> qstring" where
  "hex_byte b = arg_padded 2 16 (unat b)"

definition to_hex :: "bytes \<Rightarrow> qstring" where
  "to_hex b = concat (map hex_byte b)"

definition make_guid_string :: "bytes list \<Rightarrow> qstring" where
  "make_guid_string segments = join ''-'' (map to_hex segments)"

definition bytes_mid :: "bytes \<Rightarrow> nat \<Rightarrow> nat \<Rightarrow> bytes" where
  "bytes_mid b pos n = take n (drop pos b)"

definition guid_to_display_value :: "bytes \<Rightarrow> qstring" where
  "guid_to_display_value b = make_guid_string [rev (bytes_mid b 0 4), rev (bytes_mid b 4 2), rev (bytes_mid b 6 2),
     bytes_mid b 8 2, bytes_mid b 10 6]"

definition insert_at :: "nat \<Rightarrow> qstring \<Rightarrow> qstring \<Rightarrow> qstring" where
  "insert_at i s out = take i out @ s @ drop i out"

text \<open>The loop runs over the even positions from the last to the first.\<close>

definition octet_display_value :: "bytes \<Rightarrow> qstring" where
  "octet_display_value b =
     (let bytes_hex = to_hex b
      in fold (\<lambda>i out. let out = insert_at i ''0x'' out in if i \<noteq> 0 then insert_at i '' '' out else out)
           (rev (map (\<lambda>j. 2 * j) [0..<length bytes_hex div 2])) bytes_hex)"

text \<open>
  \<open>dom_sid_string\<close> of the bytes seen as a \<open>struct dom_sid\<close>, whatever their number; the text buffer has
  190 characters.
\<close>

definition memory_byte :: "display_env \<Rightarrow> bytes \<Rightarrow> nat \<Rightarrow> byte" where
  "memory_byte env b i = (if i < length b then b ! i else memory_after env (i - length b))"

definition sid_text :: "display_env \<Rightarrow> bytes \<Rightarrow> qstring" where
  "sid_text env b =
     (let m = memory_byte env b;
          ia = foldl (\<lambda>acc i. acc * 256 + unat (m i)) 0 [2..<8];
          auth = (\<lambda>i. unat (bytes_word (map (\<lambda>j. m (8 + 4 * i + j)) [0..<4])))
      in ''S-'' @ digits_of 10 (unat (m 0)) @ ''-''
         @ (if 2 ^ 32 - 1 \<le> ia then ''0x'' @ digits_of 16 ia else digits_of 10 ia)
         @ concat (map (\<lambda>i. ''-'' @ digits_of 10 (auth i)) [0..<nat (sint (m 1))]))"

definition object_sid_display_value :: "display_env \<Rightarrow> bytes \<Rightarrow> qstring" where
  "object_sid_display_value env b =
     (let s = sid_text env b in if 190 < length s + 1 then ''(SID ERR)'' else s)"

section \<open>Masks and numbers\<close>

definition get_mask_name_list :: "mask \<Rightarrow> mask list \<Rightarrow> (mask \<times> qstring) list \<Rightarrow> qstring list" where
  "get_mask_name_list uac mask_list mask_name_map =
     map (\<lambda>m. case map_of mask_name_map m of None \<Rightarrow> [] | Some name \<Rightarrow> name)
       (filter (\<lambda>m. bitmask_is_set uac m) mask_list)"

definition UAC_MASK_LIST :: "mask list" where
  "UAC_MASK_LIST = [
     UAC_SCRIPT, UAC_ACCOUNTDISABLE, UAC_HOMEDIR_REQUIRED, UAC_LOCKOUT, UAC_PASSWD_NOTREQD,
     UAC_PASSWD_CANT_CHANGE, UAC_ENCRYPTED_TEXT_PASSWORD_ALLOWED, UAC_TEMP_DUPLICATE_ACCOUNT,
     UAC_NORMAL_ACCOUNT, UAC_INTERDOMAIN_TRUST_ACCOUNT, UAC_WORKSTATION_TRUST_ACCOUNT, UAC_SERVER_TRUST_ACCOUNT,
     UAC_DONT_EXPIRE_PASSWORD, UAC_MNS_LOGON_ACCOUNT, UAC_SMARTCARD_REQUIRED, UAC_TRUSTED_FOR_DELEGATION,
     UAC_NOT_DELEGATED, UAC_USE_DES_KEY_ONLY, UAC_DONT_REQUIRE_PREAUTH, UAC_ERROR_PASSWORD_EXPIRED,
     UAC_TRUSTED_TO_AUTHENTICATE_FOR_DELEGATION, UAC_PARTIAL_SECRETS_ACCOUNT, UAC_USER_USE_AES_KEYS]"

definition UAC_MASK_NAME_MAP :: "(mask \<times> qstring) list" where
  "UAC_MASK_NAME_MAP = [
     (UAC_SCRIPT, ''SCRIPT''), (UAC_ACCOUNTDISABLE, ''ACCOUNTDISABLE''),
     (UAC_HOMEDIR_REQUIRED, ''HOMEDIR_REQUIRED''), (UAC_LOCKOUT, ''LOCKOUT''),
     (UAC_PASSWD_NOTREQD, ''PASSWD_NOTREQD''), (UAC_PASSWD_CANT_CHANGE, ''PASSWD_CANT_CHANGE''),
     (UAC_ENCRYPTED_TEXT_PASSWORD_ALLOWED, ''ENCRYPTED_TEXT_PASSWORD_ALLOWED''),
     (UAC_TEMP_DUPLICATE_ACCOUNT, ''TEMP_DUPLICATE_ACCOUNT''), (UAC_NORMAL_ACCOUNT, ''NORMAL_ACCOUNT''),
     (UAC_INTERDOMAIN_TRUST_ACCOUNT, ''INTERDOMAIN_TRUST_ACCOUNT''),
     (UAC_WORKSTATION_TRUST_ACCOUNT, ''WORKSTATION_TRUST_ACCOUNT''),
     (UAC_SERVER_TRUST_ACCOUNT, ''SERVER_TRUST_ACCOUNT''), (UAC_DONT_EXPIRE_PASSWORD, ''DONT_EXPIRE_PASSWORD''),
     (UAC_MNS_LOGON_ACCOUNT, ''MNS_LOGON_ACCOUNT''), (UAC_SMARTCARD_REQUIRED, ''SMARTCARD_REQUIRED''),
     (UAC_TRUSTED_FOR_DELEGATION, ''TRUSTED_FOR_DELEGATION''), (UAC_NOT_DELEGATED, ''NOT_DELEGATED''),
     (UAC_USE_DES_KEY_ONLY, ''USE_DES_KEY_ONLY''), (UAC_DONT_REQUIRE_PREAUTH, ''DONT_REQUIRE_PREAUTH''),
     (UAC_ERROR_PASSWORD_EXPIRED, ''ERROR_PASSWORD_EXPIRED''),
     (UAC_TRUSTED_TO_AUTHENTICATE_FOR_DELEGATION, ''TRUSTED_TO_AUTHENTICATE_FOR_DELEGATION''),
     (UAC_PARTIAL_SECRETS_ACCOUNT, ''PARTIAL_SECRETS_ACCOUNT''), (UAC_USER_USE_AES_KEYS, ''USER_USE_AES_KEYS'')]"

definition mask_list_to_string :: "qstring list \<Rightarrow> qstring" where
  "mask_list_to_string list = join '' | '' list"

definition make_masks_string :: "mask \<Rightarrow> qstring" where
  "make_masks_string uac = mask_list_to_string (get_mask_name_list uac UAC_MASK_LIST UAC_MASK_NAME_MAP)"

definition hex_number :: "int \<Rightarrow> qstring" where
  "hex_number n = digits_of 16 (unat (word_of_int n :: mask))"

definition uac_to_display_value :: "bytes \<Rightarrow> qstring" where
  "uac_to_display_value val =
     (case to_int (string_of_bytes val) of None \<Rightarrow> ''<invalid UAC value>''
      | Some uac \<Rightarrow> ''0x'' @ hex_number uac @ '' = ( '' @ make_masks_string (word_of_int uac) @ '' )'')"

text \<open>Of two names for one value in the initialiser of a hash the later one is kept.\<close>

definition sam_account_type_names :: "(mask \<times> qstring) list" where
  "sam_account_type_names = [
     (SAM_DOMAIN_OBJECT, ''DOMAIN_OBJECT''), (SAM_GROUP_OBJECT, ''GROUP_OBJECT''),
     (SAM_NON_SECURITY_GROUP_OBJECT, ''NON_SECURITY_GROUP_OBJECT''), (SAM_ALIAS_OBJECT, ''ALIAS_OBJECT''),
     (SAM_NON_SECURITY_ALIAS_OBJECT, ''NON_SECURITY_ALIAS_OBJECT''), (SAM_USER_OBJECT, ''USER_OBJECT''),
     (SAM_NORMAL_USER_ACCOUNT, ''NORMAL_USER_ACCOUNT''), (SAM_MACHINE_ACCOUNT, ''MACHINE_ACCOUNT''),
     (SAM_TRUST_ACCOUNT, ''TRUST_ACCOUNT''), (SAM_APP_BASIC_GROUP, ''APP_BASIC_GROUP''),
     (SAM_APP_QUERY_GROUP, ''APP_QUERY_GROUP''), (SAM_ACCOUNT_TYPE_MAX, ''ACCOUNT_TYPE_MAX'')]"

definition samaccounttype_to_display_value :: "bytes \<Rightarrow> qstring" where
  "samaccounttype_to_display_value val =
     (case to_int (string_of_bytes val) of None \<Rightarrow> ''<invalid value>''
      | Some value_int \<Rightarrow> string_of_bytes val @ '' = ( ''
          @ (case map_of (rev sam_account_type_names) (word_of_int value_int) of None \<Rightarrow> [] | Some name \<Rightarrow> name) @ '' )'')"

definition primary_group_names :: "(qstring \<times> qstring) list" where
  "primary_group_names = [
     (''DOMAIN_RID_ADMINS'', ''GROUP_RID_ADMINS''), (''DOMAIN_RID_USERS'', ''GROUP_RID_USERS''),
     (''DOMAIN_RID_GUESTS'', ''GROUP_RID_GUESTS''),
     (''DOMAIN_RID_DOMAIN_MEMBERS'', ''GROUP_RID_DOMAIN_MEMBERS''), (''DOMAIN_RID_DCS'', ''GROUP_RID_DCS''),
     (''DOMAIN_RID_CERT_ADMINS'', ''GROUP_RID_CERT_ADMINS''),
     (''DOMAIN_RID_SCHEMA_ADMINS'', ''GROUP_RID_SCHEMA_ADMINS''),
     (''DOMAIN_RID_ENTERPRISE_ADMINS'', ''GROUP_RID_ENTERPRISE_ADMINS''),
     (''DOMAIN_RID_POLICY_ADMINS'', ''GROUP_RID_POLICY_ADMINS''),
     (''DOMAIN_RID_READONLY_DCS'', ''GROUP_RID_READONLY_DCS''),
     (''DOMAIN_RID_RAS_SERVERS'', ''GROUP_RID_RAS_SERVERS'')]"

definition primarygrouptype_to_display_value :: "display_env \<Rightarrow> bytes \<Rightarrow> qstring" where
  "primarygrouptype_to_display_value env val =
     (case to_int (string_of_bytes val) of None \<Rightarrow> ''<invalid value>''
      | Some value_int \<Rightarrow>
          (case map_of (rev (map (\<lambda>(rid, name). (rid_value env rid, name)) primary_group_names)) value_int of
             Some name \<Rightarrow> string_of_bytes val @ '' = ( '' @ name @ '' )''
           | None \<Rightarrow> number value_int))"

definition attribute_value_is_hex_displayed :: "qstring \<Rightarrow> bool" where
  "attribute_value_is_hex_displayed attribute =
     (attribute = ATTRIBUTE_GROUP_TYPE \<or> attribute = ATTRIBUTE_USER_ACCOUNT_CONTROL
      \<or> attribute = ATTRIBUTE_MS_DS_SUPPORTED_ETYPES \<or> attribute = ATTRIBUTE_SYSTEM_FLAGS)"

definition etypes_names :: "(mask \<times> qstring) list" where
  "etypes_names = [(ETYPES_DES_CBC_CRC, ''DES_CBC_CRC''), (ETYPES_DES_CBC_MD5, ''DES_CBC_MD5''),
     (ETYPES_RC4_HMAC_MD5, ''RC4_HMAC_MD5''), (ETYPES_AES128_CTS_HMAC_SHA1_96, ''AES128_CTS_HMAC_SHA1_96''),
     (ETYPES_AES256_CTS_HMAC_SHA1_96, ''AES256_CTS_HMAC_SHA1_96'')]"

definition msds_supported_etypes_to_display_value :: "bytes \<Rightarrow> qstring" where
  "msds_supported_etypes_to_display_value val =
     (case to_int (string_of_bytes val) of None \<Rightarrow> ''<invalid value>''
      | Some n \<Rightarrow> ''0x'' @ hex_number n @ '' = ( ''
          @ mask_list_to_string (get_mask_name_list (word_of_int n) (map fst etypes_names) etypes_names) @ '' )'')"

definition attribute_hex_displayed_value :: "display_env \<Rightarrow> qstring \<Rightarrow> bytes \<Rightarrow> qstring" where
  "attribute_hex_displayed_value env attribute val =
     (case to_int (string_of_bytes val) of None \<Rightarrow> ''<invalid value>''
      | Some n \<Rightarrow>
          (let mask_name_map = hash_order env (attribute_value_bit_string_map attribute);
               masks_strings = get_mask_name_list (word_of_int n) (map fst mask_name_map) mask_name_map
           in if masks_strings = [] then ''0x'' @ hex_number n
              else ''0x'' @ hex_number n @ '' = ( '' @ mask_list_to_string masks_strings @ '' )''))"

section \<open>Values of an attribute\<close>

definition attribute_display_value :: "display_env \<Rightarrow> ad_config option \<Rightarrow> qstring \<Rightarrow> bytes \<Rightarrow> qstring" where
  "attribute_display_value env adconfig attribute val =
     (case adconfig of None \<Rightarrow> string_of_bytes val | Some cfg \<Rightarrow>
        (case get_attribute_type cfg attribute of
           AttributeType_Integer \<Rightarrow>
             (if attribute = ATTRIBUTE_USER_ACCOUNT_CONTROL then uac_to_display_value val
              else if attribute = ATTRIBUTE_SAM_ACCOUNT_TYPE then samaccounttype_to_display_value val
              else if attribute = ATTRIBUTE_PRIMARY_GROUP_ID then primarygrouptype_to_display_value env val
              else if attribute \<in> {ATTRIBUTE_GROUP_TYPE, ATTRIBUTE_SYSTEM_FLAGS, ATTRIBUTE_MSDS_USER_ACCOUNT_CONTROL_COMPUTED}
                then attribute_hex_displayed_value env attribute val
              else if attribute = ATTRIBUTE_MS_DS_SUPPORTED_ETYPES then msds_supported_etypes_to_display_value val
              else string_of_bytes val)
         | AttributeType_LargeInteger \<Rightarrow>
             (case get_attribute_large_integer_subtype attribute of
                LargeIntegerSubtype_Datetime \<Rightarrow> large_integer_datetime_display_value env adconfig attribute val
              | LargeIntegerSubtype_Timespan \<Rightarrow> timespan_display_value val
              | LargeIntegerSubtype_Integer \<Rightarrow> string_of_bytes val)
         | AttributeType_UTCTime \<Rightarrow> datetime_display_value env adconfig attribute val
         | AttributeType_GeneralizedTime \<Rightarrow> datetime_display_value env adconfig attribute val
         | AttributeType_Sid \<Rightarrow> object_sid_display_value env val
         | AttributeType_Octet \<Rightarrow>
             (if attribute = ATTRIBUTE_OBJECT_GUID then guid_to_display_value val else octet_display_value val)
         | AttributeType_NTSecDesc \<Rightarrow> ''<BINARY VALUE>''
         | _ \<Rightarrow> string_of_bytes val))"

definition attribute_display_values :: "display_env \<Rightarrow> ad_config option \<Rightarrow> qstring \<Rightarrow> bytes list \<Rightarrow> qstring" where
  "attribute_display_values env adconfig attribute vals =
     (if vals = [] then ''<unset>'' else join '';'' (map (attribute_display_value env adconfig attribute) vals))"

definition extract_rid_from_sid :: "display_env \<Rightarrow> ad_config option \<Rightarrow> bytes \<Rightarrow> qstring" where
  "extract_rid_from_sid env adconfig sid =
     (let sid_string = attribute_display_value env adconfig ATTRIBUTE_OBJECT_SID sid
      in mid_from sid_string (last_index_of_char sid_string (CHR ''-'') + 1))"

end
