(* ===== verification/DisplayFacts.thy ===== *)
theory DisplayFacts
  imports AdDisplay
begin

text \<open>
  What the texts of values mean: dates are read back from their texts, timespans are split into days,
  hours, minutes and seconds, GUIDs and octets are written byte by byte.
\<close>

section \<open>Dates\<close>


text \<open>Schemas of three attributes, and the first millisecond of 1601.\<close>

definition example_syntax :: "qstring \<Rightarrow> qstring \<Rightarrow> ad_object" where
  "example_syntax attribute_syntax om_syntax = \<lparr>object_dn = [], attributes_data =
     [ATTRIBUTE_ATTRIBUTE_SYNTAX \<mapsto> [bytes_of_string attribute_syntax], ATTRIBUTE_OM_SYNTAX \<mapsto> [bytes_of_string om_syntax]]\<rparr>"

definition example_dates :: ad_config where
  "example_dates = empty_config\<lparr>attribute_schemas :=
     [ATTRIBUTE_ACCOUNT_EXPIRES \<mapsto> example_syntax ''2.5.5.16'' ''65'', ATTRIBUTE_WHEN_CREATED \<mapsto> example_syntax ''2.5.5.11'' ''24'',
      ''utc'' \<mapsto> example_syntax ''2.5.5.11'' ''23'']\<rparr>"

lemma example_date_types:
  "get_attribute_type example_dates ATTRIBUTE_ACCOUNT_EXPIRES = AttributeType_LargeInteger"
  "get_attribute_type example_dates ATTRIBUTE_WHEN_CREATED = AttributeType_GeneralizedTime"
  "get_attribute_type example_dates ''utc'' = AttributeType_UTCTime"
  by (code_simp)+

lemma year_of_zero: "c_year (dt_date (fields_of 0)) = 1601"
proof -
  have "cycle_lengths ! 0 = 365" using cycle_nth [of 0 0] by (simp add: days_in_year_def is_leap_year_def)
  moreover have "cycle_lengths = cycle_lengths ! 0 # tl cycle_lengths"
    using length_cycle by (metis length_0_conv list.exhaust_sel nth_Cons_0 numeral_eq_iff zero_neq_numeral)
  ultimately have "split_by cycle_lengths 0 = (0, 0)" by (metis split_by.simps(2) zero_less_numeral)
  then show ?thesis by (simp add: fields_of_def civil_of_days_def msecs_per_day_def month_lengths_def)
qed


text \<open>The first day of 2000, and the days of the years before.\<close>

lemma sum_take_months:
  assumes "m < 12" shows "sum_list (take m (month_lengths y)) + month_lengths y ! m \<le> days_in_year y"
proof -
  have "sum_list (take m (month_lengths y)) + month_lengths y ! m = sum_list (take (Suc m) (month_lengths y))"
    using assms by (simp add: take_Suc_conv_app_nth)
  also have "\<dots> \<le> sum_list (month_lengths y)"
    by (metis append_take_drop_id le_add1 sum_list_append)
  finally show ?thesis by (simp add: sum_months)
qed

lemma take_cycle: "i \<le> 400 \<Longrightarrow> sum_list (take i cycle_lengths) + i div 100 = 365 * i + i div 4 + i div 400"
  using sum_years [of i] by (simp add: cycle_lengths_def take_map del: upt_Suc)

lemma days_before_2000:
  assumes "civil_valid c" and "1900 \<le> c_year c" and "c_year c < 2000"
  shows "days_of_civil c < 145731"
proof -
  obtain i where i: "c_year c = 1601 + int i" "i < 399" using assms(2,3) nat_eq_iff [of "c_year c - 1601"]
    by (intro that [of "nat (c_year c - 1601)"]) auto
  have "c_month c - 1 < 12" using assms(1) unfolding civil_valid_def by linarith
  from sum_take_months [OF this, of "c_year c"] have "sum_list (take (c_month c - 1) (month_lengths (c_year c))) + c_day c
      \<le> days_in_year (c_year c)" using assms(1) unfolding civil_valid_def by linarith
  moreover have "days_in_year (c_year c) = cycle_lengths ! i" using i by (simp add: cycle_lengths_def)
  moreover have "sum_list (take i cycle_lengths) + cycle_lengths ! i = sum_list (take (Suc i) cycle_lengths)"
    using i(2) by (simp add: take_Suc_conv_app_nth)
  moreover have "sum_list (take (Suc i) cycle_lengths) \<le> sum_list (take 399 cycle_lengths)"
  proof -
    have "take 399 cycle_lengths = take (Suc i) cycle_lengths @ take (399 - Suc i) (drop (Suc i) cycle_lengths)"
      using i(2) by (simp add: take_add [symmetric])
    then show ?thesis by simp
  qed
  moreover have "sum_list (take 399 cycle_lengths) = 145731" using take_cycle [of 399] by simp
  ultimately show ?thesis using i by (simp add: days_of_civil_def Let_def)
qed

lemma digits_value_less: "digits_value b s acc = Some n \<Longrightarrow> n < (acc + 1) * b ^ length s"
proof (induction s arbitrary: acc)
  case (Cons c s)
  then obtain d where d: "digit_value b c = Some d" "digits_value b s (acc * b + d) = Some n" by (auto split: option.splits)
  then have "d < b" by (auto simp: digit_value_def Let_def split: if_splits)
  then have "acc * b + d + 1 \<le> (acc + 1) * b" by simp
  then have "(acc * b + d + 1) * b ^ length s \<le> (acc + 1) * b * b ^ length s" by (rule mult_le_mono1)
  with Cons.IH [OF d(2)] have "n < (acc + 1) * b * b ^ length s" by (rule less_le_trans)
  also have "(acc + 1) * b * b ^ length s = (acc + 1) * b ^ length (c # s)" by (simp add: algebra_simps)
  finally show ?case .
qed simp

lemma of_digits_less: "of_digits b s = Some n \<Longrightarrow> n < b ^ length s"
  using digits_value_less [of b s 0 n] by (auto simp: of_digits_def split: if_splits)

lemma utc_fields:
  assumes "datetime_of_text False s = Some t"
  obtains f where "of_fields f = Some t" and "1900 \<le> c_year (dt_date f)" and "c_year (dt_date f) < 2000"
proof -
  obtain y s1 where y: "take_digits 2 s = Some (y, s1)" using assms by (auto simp: datetime_of_text_def split: option.splits)
  then have "of_digits 10 (take 2 s) = Some y" "length (take 2 s) = 2" by (auto simp: take_digits_def split: if_splits)
  then have "y < 100" using of_digits_less [of 10 "take 2 s" y] by simp
  moreover have "\<exists>f. of_fields f = Some t \<and> c_year (dt_date f) = 1900 + int y"
    using assms y unfolding datetime_of_text_def
    by (auto simp: Let_def simp del: of_fields_def split: option.splits if_splits prod.splits intro!: exI)
  ultimately show ?thesis using that by force
qed



section \<open>Timespans\<close>

lemma digit_zero: "CHR ''0'' = digit_char 0"
  by (simp add: digit_char_def) code_simp

lemma byte_less: "unat (b :: byte) < 256"
  using unsigned_less [of b] by simp

lemma time_unit_two_digits: "0 \<le> n \<Longrightarrow> n < 100 \<Longrightarrow> time_unit_to_string n = arg_padded 2 10 (nat n)"
proof -
  assume n: "0 \<le> n" "n < 100"
  consider "n = 0" | "0 < n" "n < 10" | "10 \<le> n" using n by linarith
  then show ?thesis
  proof cases
    case 1
    then show ?thesis by (simp add: time_unit_to_string_def arg_padded_def Let_def digits_of.simps digit_zero)
  next
    case 2
    then show ?thesis by (simp add: time_unit_to_string_def arg_padded_def Let_def number_def digits_of.simps [of 10 "nat n"])
  next
    case 3
    have small: "nat n div 10 < 10" using n by linarith
    have "digits_of 10 (nat n) = [digit_char (nat n div 10), digit_char (nat n mod 10)]"
      using 3 by (simp add: digits_of.simps [of 10 "nat n"] digits_of.simps [of 10 "nat n div 10"] small)
    then show ?thesis using 3 n by (simp add: time_unit_to_string_def arg_padded_def Let_def number_def)
  qed
qed

text \<open>
  A negative large integer of hundreds of nanoseconds is shown as the days, hours, minutes and
  seconds of its length in whole seconds: the hours are below 24, the minutes and seconds below 60
  and written with two digits, nothing is lost, and the least 64-bit integer, whose length is not an
  integer of 64 bits, is never divided.
\<close>

theorem timespan_text:
  assumes "string_of_bytes v = number n" and "- (2 ^ 63) \<le> n" and "n < 0"
  shows "if n = - (2 ^ 63) then timespan_display_value v = ''(never)''
    else \<exists>d h m s. timespan_display_value v = number d @ '':'' @ arg_padded 2 10 h @ '':'' @ arg_padded 2 10 m @ '':'' @ arg_padded 2 10 s
      \<and> h < 24 \<and> m < 60 \<and> s < 60 \<and> 0 \<le> d \<and> d * 86400 + int h * 3600 + int m * 60 + int s = (- n) div 10000000"
proof (cases "n = - (2 ^ 63)")
  case True
  then show ?thesis using assms by (simp add: timespan_display_value_def to_long_long_number in_range_def)
next
  case False
  define t where "t = (- n) div 10000000"
  have t: "get_seconds_total n = t" "0 \<le> t" using assms(3) zdiv_zmult2_eq [of 1000 "- n" 10000]
    by (simp_all add: get_seconds_total_def cdiv_def t_def pos_imp_zdiv_neg_iff)
  define d where "d = t div 86400"
  define h where "h = (t - d * 86400) div 3600"
  define m where "m = (t - d * 86400 - h * 3600) div 60"
  define s where "s = t - d * 86400 - h * 3600 - m * 60"
  have bounds: "0 \<le> d" "0 \<le> h" "h < 24" "0 \<le> m" "m < 60" "0 \<le> s" "s < 60" "0 \<le> t - d * 86400" "0 \<le> t - d * 86400 - h * 3600"
    using t(2) unfolding s_def m_def h_def d_def by linarith+
  have "in_range 64 n" using assms by (simp add: in_range_def)
  then have "timespan_display_value v = number d @ '':'' @ time_unit_to_string h @ '':'' @ time_unit_to_string m @ '':'' @ time_unit_to_string s"
    using assms False t bounds
    by (simp add: timespan_display_value_def to_long_long_number Let_def cdiv_def d_def [symmetric] h_def [symmetric] m_def [symmetric] s_def [symmetric])
  then have "timespan_display_value v = number d @ '':'' @ arg_padded 2 10 (nat h) @ '':'' @ arg_padded 2 10 (nat m) @ '':'' @ arg_padded 2 10 (nat s)"
    using bounds by (simp add: time_unit_two_digits)
  moreover have "d * 86400 + int (nat h) * 3600 + int (nat m) * 60 + int (nat s) = t" using bounds by (simp add: s_def)
  moreover have "nat h < 24" "nat m < 60" "nat s < 60" using bounds by linarith+
  ultimately show ?thesis using False bounds(1) unfolding t_def by (simp del: of_nat_nat int_nat_eq) blast
qed

section \<open>Bytes\<close>

lemma digits_16_two:
  "n < 256 \<Longrightarrow> arg_padded 2 16 n = [digit_char (n div 16), digit_char (n mod 16)]"
proof -
  assume n: "n < 256"
  then have small: "n div 16 < 16" by linarith
  show ?thesis
    by (cases "n < 16") (simp_all add: arg_padded_def Let_def digits_of.simps [of 16 n] digits_of.simps [of 16 "n div 16"] small digit_zero)
qed

lemma hex_byte_two: "hex_byte b = [digit_char (unat b div 16), digit_char (unat b mod 16)]"
  using digits_16_two [of "unat b"] byte_less [of b] by (simp add: hex_byte_def)

lemma no_dash_in_hex: "CHR ''-'' \<notin> set (to_hex bs)"
proof -
  have "unat b div 16 < 36" for b :: byte using byte_less [of b] by simp
  then have "digit_char (unat b div 16) \<noteq> CHR ''-'' \<and> digit_char (unat b mod 16) \<noteq> CHR ''-''" for b :: byte
    using digit_char_plain [of "unat b div 16"] digit_char_plain [of "unat b mod 16"] by simp
  then show ?thesis by (auto simp: to_hex_def hex_byte_two dest: sym)
qed

lemma digit_values_hex: "List.map_filter (digit_value 16) (to_hex bs) = concat (map (\<lambda>b. [unat b div 16, unat b mod 16]) bs)"
proof -
  have "digit_value 16 (digit_char (unat b div 16)) = Some (unat b div 16)" for b :: byte
    using byte_less [of b] by (intro digit_value_char) simp_all
  moreover have "digit_value 16 (digit_char (unat b mod 16)) = Some (unat b mod 16)" for b :: byte
    by (intro digit_value_char) simp_all
  ultimately show ?thesis by (induction bs) (simp_all add: to_hex_def hex_byte_two List.map_filter_simps)
qed

lemma hex_pairs_bytes: "hex_pairs (concat (map (\<lambda>b. [unat b mod 16, unat b div 16]) bs)) = bs"
proof (induction bs)
  case (Cons b bs)
  have "(of_nat (unat b div 16 * 16 + unat b mod 16) :: byte) = b" by (simp only: div_mult_mod_eq) simp
  then show ?case using Cons by simp
qed simp

lemma rev_concat_pairs: "rev (concat (map (\<lambda>b. [f b, g b]) bs)) = concat (map (\<lambda>b. [g b, f b]) (rev bs))"
  by (induction bs) simp_all

lemma from_to_hex [simp]: "from_hex (to_hex bs) = bs"
  by (simp add: from_hex_def digit_values_hex rev_concat_pairs hex_pairs_bytes)

lemma octets_inserted:
  assumes "\<And>p. p \<in> set ps \<Longrightarrow> length p = 2"
  shows "fold (\<lambda>i out. let out = insert_at i ''0x'' out in if i \<noteq> 0 then insert_at i '' '' out else out)
      (rev (map (\<lambda>j. 2 * j) [0..<length ps])) (concat ps @ rest) = join '' '' (map (\<lambda>p. ''0x'' @ p) ps) @ rest"
  using assms
proof (induction ps arbitrary: rest rule: rev_induct)
  case (snoc p ps)
  have len: "length (concat ps) = 2 * length ps" using snoc.prems by (induction ps) auto
  have last: "qs \<noteq> [] \<Longrightarrow> join sep (qs @ [q]) = join sep qs @ sep @ q" for sep q qs
    by (induction sep qs rule: join.induct) (simp_all add: join_Cons)
  show ?case
    using snoc.IH [of "'' 0x'' @ p @ rest"] snoc.prems
    by (cases "ps = []") (simp_all add: insert_at_def len last Let_def)
qed simp

text \<open>
  An octet string is shown as its bytes in hexadecimal, each after 0x and separated by spaces. The
  text of a GUID is the one that the conversion from texts to GUIDs reads back: the conversion of the
  text of 16 bytes gives these bytes.
\<close>

theorem octets_and_guids:
  assumes "length guid = 16"
  shows "octet_display_value bs = join '' '' (map (\<lambda>b. ''0x'' @ hex_byte b) bs)
    \<and> guid_string_to_bytes (guid_to_display_value guid) = Inr guid"
proof (rule conjI)
  have two: "p \<in> set (map hex_byte bs) \<Longrightarrow> length p = 2" for p by (auto simp: hex_byte_two)
  have "length (to_hex bs) = 2 * length bs" by (induction bs) (simp_all add: to_hex_def hex_byte_two)
  then have "octet_display_value bs = fold (\<lambda>i out. let out = insert_at i ''0x'' out in if i \<noteq> 0 then insert_at i '' '' out else out)
      (rev (map (\<lambda>j. 2 * j) [0..<length (map hex_byte bs)])) (concat (map hex_byte bs) @ [])"
    by (simp only: octet_display_value_def Let_def to_hex_def append_Nil2 length_map nonzero_mult_div_cancel_left [OF numeral_neq_zero])
  also have "\<dots> = join '' '' (map (\<lambda>p. ''0x'' @ p) (map hex_byte bs)) @ []" by (rule octets_inserted [OF two])
  finally show "octet_display_value bs = join '' '' (map (\<lambda>b. ''0x'' @ hex_byte b) bs)" by (simp add: comp_def)
  define segs where "segs = [rev (bytes_mid guid 0 4), rev (bytes_mid guid 4 2), rev (bytes_mid guid 6 2),
     bytes_mid guid 8 2, bytes_mid guid 10 6]"
  have "split_char (CHR ''-'') (guid_to_display_value guid) = map to_hex segs"
    unfolding guid_to_display_value_def make_guid_string_def segs_def [symmetric]
    by (rule split_join) (auto simp: no_dash_in_hex segs_def)
  then have "guid_string_to_segment_list (guid_to_display_value guid) =
      Inr [bytes_mid guid 0 4, bytes_mid guid 4 2, bytes_mid guid 6 2, bytes_mid guid 8 2, bytes_mid guid 10 6]"
    by (simp add: guid_string_to_segment_list_def segs_def comp_def)
  moreover have "guid_to_display_value guid \<noteq> []"
    by (auto simp: guid_to_display_value_def make_guid_string_def)
  moreover have "bytes_mid guid 0 4 @ bytes_mid guid 4 2 @ bytes_mid guid 6 2 @ bytes_mid guid 8 2 @ bytes_mid guid 10 6 = guid"
    using assms append_take_drop_id [of 4 guid] append_take_drop_id [of 2 "drop 4 guid"] append_take_drop_id [of 2 "drop 6 guid"]
      append_take_drop_id [of 2 "drop 8 guid"]
    by (simp add: bytes_mid_def)
  ultimately show "guid_string_to_bytes (guid_to_display_value guid) = Inr guid"
    by (simp add: guid_string_to_bytes_def segment_list_to_guid_bytes_def)
qed

theorem timespan_text_witness:
  "\<exists>d h m s. timespan_display_value (bytes_of_string (number (-864010000000))) = number d @ '':'' @ arg_padded 2 10 h @ '':'' @ arg_padded 2 10 m @ '':'' @ arg_padded 2 10 s
      \<and> h < 24 \<and> m < 60 \<and> s < 60 \<and> 0 \<le> d \<and> d * 86400 + int h * 3600 + int m * 60 + int s = 86401"
proof -
  have "string_of_bytes (bytes_of_string (number (-864010000000))) = number (-864010000000)" by simp
  from timespan_text [OF this] show ?thesis by simp
qed

theorem octets_and_guids_witness:
  "guid_string_to_bytes (guid_to_display_value (map of_nat [0..<16])) = Inr (map of_nat [0..<16])"
  using octets_and_guids [of "map of_nat [0..<16]"] by simp

end
