(* ===== verification/LdapClient.thy ===== *)
theory LdapClient
  imports SecurityRights AdDisplay Directory "HOL-Library.AList"
begin

text \<open>
  The ground of \<open>src/adldap/ad_interface.cpp\<close>: the state of \<open>AdInterface\<close> and the messages it collects,
  the functions of the LDAP client library and of libsmbclient it calls, which are not part of the
  repository and are fields of a record, and operations as functions from the state to a result and
  a new state that may fault.
\<close>

section \<open>The libraries\<close>

datatype ldap_code = LDAP_SUCCESS | LDAP_PARTIAL_RESULTS | LDAP_NO_SUCH_OBJECT | LDAP_CONSTRAINT_VIOLATION
  | LDAP_UNWILLING_TO_PERFORM | LDAP_ALREADY_EXISTS | LDAP_NAMING_VIOLATION | LDAP_NOT_ALLOWED_ON_NONLEAF | LDAP_OTHER int

datatype ldap_scope = LDAP_SCOPE_BASE | LDAP_SCOPE_ONELEVEL | LDAP_SCOPE_SUBTREE | LDAP_SCOPE_CHILDREN

datatype ldap_control = Page_Control nat "bytes option" | SD_Flags_Control mask | Tree_Delete_Control

datatype ldap_mod_op = LDAP_MOD_ADD | LDAP_MOD_DELETE | LDAP_MOD_REPLACE

record ldap_mod =
  mod_op :: ldap_mod_op
  mod_type :: qstring
  mod_values :: "bytes list"

text \<open>
  The reply to a search: its code, its entries (the values of an attribute may be missing), the
  code of parsing the message, and the page response control, if there is one, as the code of
  parsing it and the cookie.
\<close>

type_synonym ldap_entry = "qstring \<times> (qstring \<times> bytes list option) list"

record ldap_reply =
  reply_code :: ldap_code
  reply_entries :: "ldap_entry list"
  parse_code :: ldap_code
  page_response :: "(ldap_code \<times> bytes) option"

text \<open>Everything outside of the process is one value of a type \<open>'srv\<close>.\<close>

record 'srv ldap_api =
  ldap_search_ext :: "qstring \<Rightarrow> ldap_scope \<Rightarrow> qstring option \<Rightarrow> qstring list option \<Rightarrow> ldap_control list \<Rightarrow> 'srv \<Rightarrow> ldap_reply \<times> 'srv"
  ldap_modify_ext :: "qstring \<Rightarrow> ldap_mod list \<Rightarrow> ldap_control list \<Rightarrow> 'srv \<Rightarrow> ldap_code \<times> 'srv"
  ldap_add_ext :: "qstring \<Rightarrow> ldap_mod list \<Rightarrow> 'srv \<Rightarrow> ldap_code \<times> 'srv"
  ldap_delete_ext :: "qstring \<Rightarrow> ldap_control list \<Rightarrow> 'srv \<Rightarrow> ldap_code \<times> 'srv"
  ldap_rename :: "qstring \<Rightarrow> qstring \<Rightarrow> qstring option \<Rightarrow> 'srv \<Rightarrow> ldap_code \<times> 'srv"
  ldap_option_result_code :: "'srv \<Rightarrow> ldap_code"
  ldap_err2string :: "ldap_code \<Rightarrow> qstring"
  ldap_create_page_control :: ldap_code
  ldap_control_create :: "qstring \<Rightarrow> ldap_code"
  LDAP_CONTROL_X_TREE_DELETE :: qstring

text \<open>
  libsmbclient. A number below zero is an error, and so is any number but zero where the code tests
  for zero; \<open>smbc_stat\<close> tells whether the path is a directory, and \<open>None\<close> is an error of it, of
  \<open>smbc_read\<close> and of \<open>smbc_getxattr\<close>, and the end of a directory. \<open>errno\<close> is part of the outside.
\<close>

record 'srv smb_api =
  smb_context_valid :: bool
  smbc_stat :: "qstring \<Rightarrow> 'srv \<Rightarrow> bool option \<times> 'srv"
  smbc_mkdir :: "qstring \<Rightarrow> 'srv \<Rightarrow> int \<times> 'srv"
  smbc_create :: "qstring \<Rightarrow> 'srv \<Rightarrow> int \<times> 'srv"
  smbc_open :: "qstring \<Rightarrow> 'srv \<Rightarrow> int \<times> 'srv"
  smbc_write :: "int \<Rightarrow> qstring \<Rightarrow> 'srv \<Rightarrow> int \<times> 'srv"
  smbc_read :: "int \<Rightarrow> nat \<Rightarrow> 'srv \<Rightarrow> bytes option \<times> 'srv"
  smbc_close :: "int \<Rightarrow> 'srv \<Rightarrow> 'srv"
  smbc_opendir :: "qstring \<Rightarrow> 'srv \<Rightarrow> int \<times> 'srv"
  smbc_readdir :: "int \<Rightarrow> 'srv \<Rightarrow> qstring option \<times> 'srv"
  smbc_closedir :: "int \<Rightarrow> 'srv \<Rightarrow> 'srv"
  smbc_rmdir :: "qstring \<Rightarrow> 'srv \<Rightarrow> int \<times> 'srv"
  smbc_unlink :: "qstring \<Rightarrow> 'srv \<Rightarrow> int \<times> 'srv"
  smbc_setxattr :: "qstring \<Rightarrow> qstring \<Rightarrow> 'srv \<Rightarrow> int \<times> 'srv"
  smbc_getxattr :: "qstring \<Rightarrow> nat \<Rightarrow> 'srv \<Rightarrow> qstring option \<times> 'srv"
  smb_errno :: "'srv \<Rightarrow> int"
  clear_errno :: "'srv \<Rightarrow> 'srv"
  ERANGE :: int
  strerror :: "int \<Rightarrow> qstring"
  uuid_generate_random :: "'srv \<Rightarrow> qstring \<times> 'srv"

text \<open>
  The parts of a security descriptor that the record \<open>security_descriptor\<close> leaves out: its revision,
  the owner, and whether there is a list for auditing.
\<close>

record sd_header =
  sd_revision :: nat
  sd_owner :: "dom_sid option"
  sd_has_sacl :: bool

text \<open>Further constants of Samba's headers.\<close>

record gpt_api =
  SEC_STD_SYNCHRONIZE :: mask
  SEC_DIR_LIST :: mask
  SEC_DIR_READ_ATTRIBUTE :: mask
  SEC_DIR_READ_EA :: mask
  SEC_DIR_TRAVERSE :: mask
  SEC_DIR_WRITE_ATTRIBUTE :: mask
  SEC_DIR_WRITE_EA :: mask
  SEC_DIR_ADD_FILE :: mask
  SEC_DIR_ADD_SUBDIR :: mask
  SEC_DIR_DELETE_CHILD :: mask
  SEC_ACE_FLAG_OBJECT_INHERIT :: byte
  SID_BUILTIN_PREW2K :: qstring
  SID_CREATOR_OWNER :: qstring

record 'srv ad_env =
  ldap :: "'srv ldap_api"
  smb :: "'srv smb_api"
  adconfig :: "ad_config option"
  display :: display_env
  sec :: sec_api
  gpt :: gpt_api
  decode_sd_header :: "bytes \<Rightarrow> sd_header"
  decode_sd :: "bytes \<Rightarrow> sd_pointer"
  encode_sd :: "security_descriptor \<Rightarrow> bytes"
  hash_keys :: "qstring list \<Rightarrow> qstring list"
  writes_bom :: bool
  fuel :: nat

section \<open>State\<close>

datatype ad_message_type = AdMessageType_Success | AdMessageType_Error | AdMessageType_Info

datatype do_status_msg = DoStatusMsg_Yes | DoStatusMsg_No

record ad_message =
  message_text :: qstring
  message_type :: ad_message_type

datatype cert_strategy = CertStrategy_Never | CertStrategy_Hard | CertStrategy_Demand | CertStrategy_Allow | CertStrategy_Try

record 'srv ad_interface =
  server :: 'srv
  ad_messages :: "ad_message list"
  is_connected :: bool
  ad_domain :: qstring
  ad_dc :: qstring
  client_user :: qstring
  s_log_searches :: bool
  s_dc :: qstring
  s_custom_dc :: "qstring option"
  s_domain_is_default :: bool
  s_custom_domain :: qstring
  s_sasl_nocanon :: bool
  s_port :: int
  s_cert_strat :: cert_strategy

section \<open>Operations\<close>

type_synonym ('srv, 'a) ad_op = "'srv ad_interface \<Rightarrow> ('a \<times> 'srv ad_interface) faulty"

named_theorems ad_simps \<open>running the operations of the interface\<close>

definition give :: "'a \<Rightarrow> ('srv, 'a) ad_op" where
  "give x s = Inr (x, s)"

definition and_then :: "('srv, 'a) ad_op \<Rightarrow> ('a \<Rightarrow> ('srv, 'b) ad_op) \<Rightarrow> ('srv, 'b) ad_op" where
  "and_then m f s = bind_faulty (m s) (\<lambda>(x, s'). f x s')"

definition after :: "('srv, unit) ad_op \<Rightarrow> ('srv, 'b) ad_op \<Rightarrow> ('srv, 'b) ad_op" where
  "after m f = and_then m (\<lambda>_. f)"

definition get_state :: "('srv ad_interface \<Rightarrow> 'a) \<Rightarrow> ('srv, 'a) ad_op" where
  "get_state f s = Inr (f s, s)"

text \<open>A call of a library.\<close>

definition call :: "('srv \<Rightarrow> 'a \<times> 'srv) \<Rightarrow> ('srv, 'a) ad_op" where
  "call f s = (let (x, srv) = f (server s) in Inr (x, s\<lparr>server := srv\<rparr>))"

definition lift :: "'a faulty \<Rightarrow> ('srv, 'a) ad_op" where
  "lift m s = bind_faulty m (\<lambda>x. Inr (x, s))"

fun for_each :: "('x \<Rightarrow> ('srv, bool) ad_op) \<Rightarrow> 'x list \<Rightarrow> ('srv, bool) ad_op" where
  "for_each f [] = give True"
| "for_each f (x # xs) = and_then (f x) (\<lambda>ok. if ok then for_each f xs else give False)"

lemma give_run [ad_simps]: "give x s = Inr (x, s)"
  by (simp add: give_def)

lemma and_then_run [ad_simps]: "and_then m f s = (case m s of Inl e \<Rightarrow> Inl e | Inr (x, s') \<Rightarrow> f x s')"
  by (simp add: and_then_def bind_faulty_def split: sum.split)

lemma after_run [ad_simps]: "after m f s = (case m s of Inl e \<Rightarrow> Inl e | Inr (x, s') \<Rightarrow> f s')"
  by (simp add: after_def and_then_run)

lemma get_state_run [ad_simps]: "get_state f s = Inr (f s, s)"
  by (simp add: get_state_def)

lemma call_run [ad_simps]: "call f s = Inr (fst (f (server s)), s\<lparr>server := snd (f (server s))\<rparr>)"
  by (simp add: call_def split: prod.split)

lemma lift_run [ad_simps]: "lift m s = (case m of Inl e \<Rightarrow> Inl e | Inr x \<Rightarrow> Inr (x, s))"
  by (simp add: lift_def bind_faulty_def split: sum.split)

lemma and_then_give [simp]: "and_then (give x) f = f x"
  by (rule ext) (simp add: ad_simps)

section \<open>Messages\<close>

definition quoted :: "qstring \<Rightarrow> qstring" where
  "quoted s = [CHR 0x22] @ s @ [CHR 0x22]"

definition append_message :: "qstring \<Rightarrow> ad_message_type \<Rightarrow> ('srv, unit) ad_op" where
  "append_message txt type s = Inr ((), s\<lparr>ad_messages := ad_messages s @ [\<lparr>message_text = txt, message_type = type\<rparr>]\<rparr>)"

definition success_message :: "qstring \<Rightarrow> do_status_msg \<Rightarrow> ('srv, unit) ad_op" where
  "success_message msg do_msg = (if do_msg = DoStatusMsg_No then give () else append_message msg AdMessageType_Success)"

definition error_text :: "qstring \<Rightarrow> qstring \<Rightarrow> qstring" where
  "error_text ctxt error =
     (if error = [] then ctxt
      else let msg = ctxt @ '' Error: '' @ quoted error
           in if last msg = CHR ''.'' then msg else msg @ ''.'')"

definition error_message :: "qstring \<Rightarrow> qstring \<Rightarrow> do_status_msg \<Rightarrow> ('srv, unit) ad_op" where
  "error_message ctxt error do_msg =
     (if do_msg = DoStatusMsg_No then give () else append_message (error_text ctxt error) AdMessageType_Error)"

definition error_message_plain :: "qstring \<Rightarrow> do_status_msg \<Rightarrow> ('srv, unit) ad_op" where
  "error_message_plain txt do_msg = (if do_msg = DoStatusMsg_No then give () else append_message txt AdMessageType_Error)"

definition any_error_messages :: "'srv ad_interface \<Rightarrow> bool" where
  "any_error_messages s = (\<exists>m \<in> set (ad_messages s). message_type m = AdMessageType_Error)"

definition clear_messages :: "'srv ad_interface \<Rightarrow> 'srv ad_interface" where
  "clear_messages s = s\<lparr>ad_messages := []\<rparr>"

definition get_ldap_result :: "'srv ad_env \<Rightarrow> 'srv ad_interface \<Rightarrow> ldap_code" where
  "get_ldap_result env s = ldap_option_result_code (ldap env) (server s)"

definition default_error :: "'srv ad_env \<Rightarrow> 'srv ad_interface \<Rightarrow> qstring" where
  "default_error env s =
     (case get_ldap_result env s of
        LDAP_NO_SUCH_OBJECT \<Rightarrow> ''No such object''
      | LDAP_CONSTRAINT_VIOLATION \<Rightarrow> ''Constraint violation''
      | LDAP_UNWILLING_TO_PERFORM \<Rightarrow> ''Server is unwilling to perform''
      | LDAP_ALREADY_EXISTS \<Rightarrow> ''Already exists''
      | code \<Rightarrow> ''Server error: '' @ ldap_err2string (ldap env) code)"

text \<open>\<open>error_message (context, default_error ())\<close>.\<close>

definition error_message_default :: "'srv ad_env \<Rightarrow> qstring \<Rightarrow> do_status_msg \<Rightarrow> ('srv, unit) ad_op" where
  "error_message_default env ctxt do_msg =
     and_then (get_state (default_error env)) (\<lambda>error. error_message ctxt error do_msg)"

text \<open>The end of most operations: a message of one of the two types, and the result.\<close>

definition report :: "'srv ad_env \<Rightarrow> bool \<Rightarrow> qstring \<Rightarrow> qstring \<Rightarrow> do_status_msg \<Rightarrow> ('srv, bool) ad_op" where
  "report env success success_text error_context do_msg =
     (if success then after (success_message success_text do_msg) (give True)
      else after (error_message_default env error_context do_msg) (give False))"

section \<open>Searching\<close>

text \<open>A hash from DNs to objects as a list of pairs with distinct keys.\<close>

type_synonym search_results = "(qstring \<times> ad_object) list"

text \<open>The cookie of a search in pages: null, allocated, or pointing to memory that was freed.\<close>

datatype ad_cookie = No_Cookie | Cookie bytes | Freed_Cookie

definition more_pages :: "ad_cookie \<Rightarrow> bool" where
  "more_pages cookie = (cookie \<noteq> No_Cookie)"

definition destroy_cookie :: "ad_cookie \<Rightarrow> unit faulty" where
  "destroy_cookie cookie = (if cookie = Freed_Cookie then Inl Double_Free else Inr ())"

definition values_to_bytes :: "bytes list option \<Rightarrow> bytes list" where
  "values_to_bytes values_ldap = (case values_ldap of None \<Rightarrow> [] | Some values \<Rightarrow> values)"

definition object_attributes_to_bytes :: "(qstring \<times> bytes list option) list \<Rightarrow> qstring \<rightharpoonup> bytes list" where
  "object_attributes_to_bytes entry_attributes =
     fold (\<lambda>(attribute, values) m. m(attribute \<mapsto> values_to_bytes values)) entry_attributes Map.empty"

definition load_entry :: "ldap_entry \<Rightarrow> search_results \<Rightarrow> search_results" where
  "load_entry entry results =
     AList.update (fst entry) (object_load (fst entry) (object_attributes_to_bytes (snd entry)) empty_object) results"

definition sd_flags :: "bool \<Rightarrow> bool \<Rightarrow> mask" where
  "sd_flags get_sacl set_dacl =
     (let all_flags = OWNER_SECURITY_INFORMATION OR GROUP_SECURITY_INFORMATION OR DACL_SECURITY_INFORMATION
      in if get_sacl then all_flags OR SACL_SECURITY_INFORMATION
         else if set_dacl then DACL_SECURITY_INFORMATION else all_flags)"

definition create_sd_control :: "'srv ad_env \<Rightarrow> bool \<Rightarrow> bool \<Rightarrow> ldap_code \<times> ldap_control" where
  "create_sd_control env get_sacl set_dacl =
     (ldap_control_create (ldap env) LDAP_SERVER_SD_FLAGS_OID, SD_Flags_Control (sd_flags get_sacl set_dacl))"

definition page_size :: nat where "page_size = 100"

record query =
  q_base :: qstring
  q_scope :: ldap_scope
  q_filter :: "qstring option"
  q_attributes :: "qstring list option"
  q_get_sacl :: bool

text \<open>
  The cookie that \<open>cleanup\<close> frees is the one the search started with; the structure keeps pointing
  to it unless the search succeeds.
\<close>

definition freed :: "ad_cookie \<Rightarrow> ad_cookie" where
  "freed cookie = (case cookie of No_Cookie \<Rightarrow> No_Cookie | _ \<Rightarrow> Freed_Cookie)"

definition cookie_bytes :: "ad_cookie \<Rightarrow> bytes option faulty" where
  "cookie_bytes cookie =
     (case cookie of No_Cookie \<Rightarrow> Inr None | Cookie c \<Rightarrow> Inr (Some c) | Freed_Cookie \<Rightarrow> Inl Use_After_Free)"

definition search_paged_internal ::
  "'srv ad_env \<Rightarrow> query \<Rightarrow> search_results \<Rightarrow> ad_cookie \<Rightarrow> ('srv, bool \<times> search_results \<times> ad_cookie) ad_op" where
  "search_paged_internal env q results cookie =
     (let (sd_code, sd_control) = create_sd_control env (q_get_sacl q) False
      in if sd_code \<noteq> LDAP_SUCCESS then give (False, results, freed cookie)
         else and_then (lift (cookie_bytes cookie)) (\<lambda>prev_cookie.
           if ldap_create_page_control (ldap env) \<noteq> LDAP_SUCCESS then give (False, results, freed cookie)
           else and_then (call (ldap_search_ext (ldap env) (q_base q) (q_scope q) (q_filter q) (q_attributes q)
                    [Page_Control page_size prev_cookie, sd_control])) (\<lambda>reply.
             if reply_code reply \<noteq> LDAP_SUCCESS \<and> reply_code reply \<noteq> LDAP_PARTIAL_RESULTS
               then give (False, results, freed cookie)
             else let results = fold load_entry (reply_entries reply) results
               in if parse_code reply \<noteq> LDAP_SUCCESS then give (False, results, freed cookie)
                  else (case page_response reply of
                     None \<Rightarrow> give (True, results, No_Cookie)
                   | Some (code, new_cookie) \<Rightarrow>
                       if code \<noteq> LDAP_SUCCESS then give (False, results, freed cookie)
                       else if 0 < length new_cookie then give (True, results, Cookie new_cookie)
                       else give (True, results, No_Cookie)))))"

fun scope_to_int :: "search_scope \<Rightarrow> ldap_scope" where
  "scope_to_int SearchScope_Object = LDAP_SCOPE_BASE"
| "scope_to_int SearchScope_Children = LDAP_SCOPE_ONELEVEL"
| "scope_to_int SearchScope_All = LDAP_SCOPE_SUBTREE"
| "scope_to_int SearchScope_Descendants = LDAP_SCOPE_CHILDREN"

definition filter_to_cstr :: "qstring \<Rightarrow> qstring option" where
  "filter_to_cstr flt = (if flt = [] then None else Some flt)"

definition make_query :: "qstring \<Rightarrow> search_scope \<Rightarrow> qstring \<Rightarrow> qstring list \<Rightarrow> bool \<Rightarrow> query" where
  "make_query base scope flt attributes get_sacl =
     \<lparr>q_base = base, q_scope = scope_to_int scope, q_filter = filter_to_cstr flt,
      q_attributes = (if attributes = [] then None else Some attributes), q_get_sacl = get_sacl\<rparr>"

definition search_log_text :: "qstring \<Rightarrow> search_scope \<Rightarrow> qstring \<Rightarrow> qstring list \<Rightarrow> qstring" where
  "search_log_text base scope flt attributes =
     ''Search:'' @ [CHR 0x0A, CHR 0x09] @ ''filter = '' @ quoted flt
     @ [CHR 0x0A, CHR 0x09] @ ''attributes = {'' @ join '','' attributes @ ''}''
     @ [CHR 0x0A, CHR 0x09] @ ''scope = '' @ quoted (scope_to_string scope)
     @ [CHR 0x0A, CHR 0x09] @ ''base = '' @ quoted base"

definition search_paged ::
  "'srv ad_env \<Rightarrow> qstring \<Rightarrow> search_scope \<Rightarrow> qstring \<Rightarrow> qstring list \<Rightarrow> bool \<Rightarrow> search_results \<Rightarrow> ad_cookie \<Rightarrow>
     ('srv, bool \<times> search_results \<times> ad_cookie) ad_op" where
  "search_paged env base scope flt attributes get_sacl results cookie =
     and_then (get_state (\<lambda>s. s_log_searches s \<and> results = [])) (\<lambda>need_to_log.
     after (if need_to_log then success_message (search_log_text base scope flt attributes) DoStatusMsg_Yes else give ())
     (and_then (search_paged_internal env (make_query base scope flt attributes get_sacl) results cookie)
       (\<lambda>(search_success, results, cookie).
          if search_success then give (True, results, cookie) else give (False, [], cookie))))"

fun search_loop ::
  "nat \<Rightarrow> 'srv ad_env \<Rightarrow> qstring \<Rightarrow> search_scope \<Rightarrow> qstring \<Rightarrow> qstring list \<Rightarrow> bool \<Rightarrow> search_results \<Rightarrow> ad_cookie \<Rightarrow>
     ('srv, search_results \<times> ad_cookie) ad_op" where
  "search_loop 0 env base scope flt attributes get_sacl results cookie = lift (Inl Out_Of_Fuel)"
| "search_loop (Suc n) env base scope flt attributes get_sacl results cookie =
     and_then (search_paged env base scope flt attributes get_sacl results cookie) (\<lambda>(success, results, cookie).
       if \<not> success then give (results, cookie)
       else if \<not> more_pages cookie then give (results, cookie)
       else search_loop n env base scope flt attributes get_sacl results cookie)"

definition search ::
  "'srv ad_env \<Rightarrow> qstring \<Rightarrow> search_scope \<Rightarrow> qstring \<Rightarrow> qstring list \<Rightarrow> bool \<Rightarrow> ('srv, search_results) ad_op" where
  "search env base scope flt attributes get_sacl =
     and_then (search_loop (fuel env) env base scope flt attributes get_sacl [] No_Cookie) (\<lambda>(results, cookie).
     and_then (lift (destroy_cookie cookie)) (\<lambda>_. give results))"

definition search_object_of :: "search_results \<Rightarrow> qstring \<Rightarrow> ad_object" where
  "search_object_of results dn = (case map_of results dn of Some obj \<Rightarrow> obj | None \<Rightarrow> empty_object)"

definition search_object :: "'srv ad_env \<Rightarrow> qstring \<Rightarrow> qstring list \<Rightarrow> bool \<Rightarrow> ('srv, ad_object) ad_op" where
  "search_object env dn attributes get_sacl =
     and_then (search env dn SearchScope_Object [] attributes get_sacl) (\<lambda>results. give (search_object_of results dn))"

text \<open>The values of the hash in the order it is traversed.\<close>

definition hash_values :: "'srv ad_env \<Rightarrow> search_results \<Rightarrow> ad_object list" where
  "hash_values env results = map (search_object_of results) (hash_keys env (map fst results))"

end
