(* ===== verification/AdOperations.thy ===== *)
theory AdOperations
  imports LdapClient
begin

text \<open>
  The operations of \<open>AdInterface\<close> (\<open>src/adldap/ad_interface.cpp\<close>) on attributes, objects, groups and
  users, and the functions of \<open>src/adldap/ad_security.cpp\<close> that read and write a security descriptor
  through it.
\<close>

section \<open>Attributes\<close>

definition config_of :: "'srv ad_env \<Rightarrow> ad_config faulty" where
  "config_of env = (case adconfig env of None \<Rightarrow> Inl Null_Dereference | Some cfg \<Rightarrow> Inr cfg)"

definition attribute_replace_values ::
  "'srv ad_env \<Rightarrow> qstring \<Rightarrow> qstring \<Rightarrow> bytes list \<Rightarrow> do_status_msg \<Rightarrow> bool \<Rightarrow> ('srv, bool) ad_op" where
  "attribute_replace_values env dn attribute vals do_msg set_dacl =
     and_then (search_object env dn [attribute] False) (\<lambda>obj.
       let old_values = get_values obj attribute;
           name = dn_get_name dn;
           values_display = attribute_display_values (display env) (adconfig env) attribute vals;
           old_values_display = attribute_display_values (display env) (adconfig env) attribute old_values;
           (sd_code, sd_control) = create_sd_control env False set_dacl
       in if old_values = [] \<and> vals = [] then give True
          else if set_dacl \<and> sd_code \<noteq> LDAP_SUCCESS then give False
          else and_then (call (ldap_modify_ext (ldap env) dn
                  [\<lparr>mod_op = LDAP_MOD_REPLACE, mod_type = attribute, mod_values = vals\<rparr>]
                  (if set_dacl then [sd_control] else []))) (\<lambda>result.
            report env (result = LDAP_SUCCESS)
              (''Attribute '' @ attribute @ '' of object '' @ name @ '' was changed from ''
                 @ quoted old_values_display @ '' to '' @ quoted values_display @ ''.'')
              (''Failed to change attribute '' @ attribute @ '' of object '' @ name @ '' from ''
                 @ quoted old_values_display @ '' to '' @ quoted values_display @ ''.'') do_msg))"

definition value_to_list :: "bytes \<Rightarrow> bytes list" where
  "value_to_list val = (if val = [] then [] else [val])"

definition attribute_replace_value ::
  "'srv ad_env \<Rightarrow> qstring \<Rightarrow> qstring \<Rightarrow> bytes \<Rightarrow> do_status_msg \<Rightarrow> bool \<Rightarrow> ('srv, bool) ad_op" where
  "attribute_replace_value env dn attribute val do_msg set_dacl =
     attribute_replace_values env dn attribute (value_to_list val) do_msg set_dacl"

definition attribute_add_value ::
  "'srv ad_env \<Rightarrow> qstring \<Rightarrow> qstring \<Rightarrow> bytes \<Rightarrow> do_status_msg \<Rightarrow> ('srv, bool) ad_op" where
  "attribute_add_value env dn attribute val do_msg =
     and_then (call (ldap_modify_ext (ldap env) dn
        [\<lparr>mod_op = LDAP_MOD_ADD, mod_type = attribute, mod_values = [val]\<rparr>] [])) (\<lambda>result.
       let name = dn_get_name dn;
           new_display_value = attribute_display_value (display env) (adconfig env) attribute val
       in report env (result = LDAP_SUCCESS)
            (''Value '' @ quoted new_display_value @ '' was added for attribute '' @ attribute @ '' of object '' @ name @ ''.'')
            (''Failed to add value '' @ quoted new_display_value @ '' for attribute '' @ attribute @ '' of object '' @ name @ ''.'')
            do_msg)"

definition attribute_delete_value ::
  "'srv ad_env \<Rightarrow> qstring \<Rightarrow> qstring \<Rightarrow> bytes \<Rightarrow> do_status_msg \<Rightarrow> ('srv, bool) ad_op" where
  "attribute_delete_value env dn attribute val do_msg =
     (let name = dn_get_name dn;
          value_display = attribute_display_value (display env) (adconfig env) attribute val
      in and_then (call (ldap_modify_ext (ldap env) dn
           [\<lparr>mod_op = LDAP_MOD_DELETE, mod_type = attribute, mod_values = [val]\<rparr>] [])) (\<lambda>result.
         report env (result = LDAP_SUCCESS)
           (''Value '' @ quoted value_display @ '' for attribute '' @ attribute @ '' of object '' @ name @ '' was deleted.'')
           (''Failed to delete value '' @ quoted value_display @ '' for attribute '' @ attribute @ '' of object '' @ name @ ''.'')
           do_msg))"

definition attribute_replace_string ::
  "'srv ad_env \<Rightarrow> qstring \<Rightarrow> qstring \<Rightarrow> qstring \<Rightarrow> do_status_msg \<Rightarrow> ('srv, bool) ad_op" where
  "attribute_replace_string env dn attribute val do_msg =
     attribute_replace_value env dn attribute (bytes_of_string val) do_msg False"

definition attribute_replace_int ::
  "'srv ad_env \<Rightarrow> qstring \<Rightarrow> qstring \<Rightarrow> int \<Rightarrow> do_status_msg \<Rightarrow> ('srv, bool) ad_op" where
  "attribute_replace_int env dn attribute val do_msg = attribute_replace_string env dn attribute (number val) do_msg"

definition attribute_replace_datetime ::
  "'srv ad_env \<Rightarrow> qstring \<Rightarrow> qstring \<Rightarrow> qdatetime \<Rightarrow> ('srv, bool) ad_op" where
  "attribute_replace_datetime env dn attribute datetime =
     and_then (lift (datetime_qdatetime_to_string (adconfig env) attribute datetime)) (\<lambda>datetime_string.
       attribute_replace_string env dn attribute datetime_string DoStatusMsg_Yes)"

section \<open>Objects\<close>

text \<open>The attributes of a new object, in the order of the keys of the hash.\<close>

definition attribute_map_to_ldap_mods :: "(qstring \<times> qstring list) list \<Rightarrow> ldap_mod list" where
  "attribute_map_to_ldap_mods attrs_map =
     map (\<lambda>(attr_name, value_list).
       \<lparr>mod_op = LDAP_MOD_ADD, mod_type = attr_name, mod_values = map bytes_of_string value_list\<rparr>) attrs_map"

definition is_wrong_ou_parent :: "'srv ad_env \<Rightarrow> qstring \<Rightarrow> 'srv ad_interface \<Rightarrow> bool" where
  "is_wrong_ou_parent env dn s =
     (let is_ou = starts_with dn ''OU=''; bad_parent = starts_with (dn_get_parent dn) ''CN=''
      in get_ldap_result env s = LDAP_NAMING_VIOLATION \<and> is_ou \<and> bad_parent)"

definition object_add_attributes :: "'srv ad_env \<Rightarrow> qstring \<Rightarrow> (qstring \<times> qstring list) list \<Rightarrow> ('srv, bool) ad_op" where
  "object_add_attributes env dn attrs_map =
     and_then (call (ldap_add_ext (ldap env) dn (attribute_map_to_ldap_mods attrs_map))) (\<lambda>result.
       if result = LDAP_SUCCESS
       then after (success_message (''Object '' @ dn @ '' was created.'') DoStatusMsg_Yes) (give True)
       else and_then (get_state (is_wrong_ou_parent env dn)) (\<lambda>wrong_parent.
         let ctxt = ''Failed to create object '' @ dn @ ''.''
         in after (if wrong_parent then error_message ctxt ''Can't create OU under this object type.'' DoStatusMsg_Yes
                   else error_message_default env ctxt DoStatusMsg_Yes) (give False)))"

definition object_add :: "'srv ad_env \<Rightarrow> qstring \<Rightarrow> qstring \<Rightarrow> ('srv, bool) ad_op" where
  "object_add env dn object_class = object_add_attributes env dn [(''objectClass'', [object_class])]"

definition get_security_descriptor :: "'srv ad_env \<Rightarrow> ad_object \<Rightarrow> sd_pointer" where
  "get_security_descriptor env obj = decode_sd env (get_value obj ATTRIBUTE_SECURITY_DESCRIPTOR)"

text \<open>
  Deepest first. The order of equal depths, which \<open>std::sort\<close> leaves open, follows from that of the
  hash.
\<close>

definition sort_by_depth :: "qstring list \<Rightarrow> qstring list" where
  "sort_by_depth dn_list = sort_key (\<lambda>dn. - int (count_list dn (CHR '',''))) dn_list"

definition delete_child :: "'srv ad_env \<Rightarrow> qstring \<Rightarrow> do_status_msg \<Rightarrow> qstring \<Rightarrow> ('srv, bool) ad_op" where
  "delete_child env error_context do_msg child_dn =
     and_then (call (ldap_delete_ext (ldap env) child_dn [])) (\<lambda>result.
       report env (result = LDAP_SUCCESS) (''Object '' @ dn_get_name child_dn @ '' was deleted.'') error_context do_msg)"

text \<open>\<open>children_obj_map [dn]\<close> inserts a default object when there is none.\<close>

definition hash_subscript :: "qstring \<Rightarrow> search_results \<Rightarrow> search_results" where
  "hash_subscript dn results = (if dn \<in> fst ` set results then results else AList.update dn empty_object results)"

definition object_delete_fallback :: "'srv ad_env \<Rightarrow> qstring \<Rightarrow> do_status_msg \<Rightarrow> qstring \<Rightarrow> ('srv, bool) ad_op" where
  "object_delete_fallback env dn do_msg error_context =
     and_then (search env dn SearchScope_All [] [ATTRIBUTE_DN, ATTRIBUTE_SECURITY_DESCRIPTOR] False) (\<lambda>found.
       let children_obj_map = hash_subscript dn found;
           deletable_obj = search_object_of children_obj_map dn
       in and_then (lift (ad_security_get_protected_against_deletion (sec env) (get_security_descriptor env deletable_obj)))
         (\<lambda>is_protected.
           if is_protected
           then after (error_message error_context (''Object '' @ dn_get_name dn @ '' is protected against deletion'') do_msg) (give False)
           else and_then (call (ldap_delete_ext (ldap env) dn [])) (\<lambda>result.
             if result \<noteq> LDAP_SUCCESS \<and> result \<noteq> LDAP_NOT_ALLOWED_ON_NONLEAF
             then after (error_message_default env error_context do_msg) (give False)
             else for_each (delete_child env error_context do_msg)
                    (sort_by_depth (hash_keys env (map fst children_obj_map))))))"

definition object_delete :: "'srv ad_env \<Rightarrow> qstring \<Rightarrow> do_status_msg \<Rightarrow> ('srv, bool) ad_op" where
  "object_delete env dn do_msg =
     (let name = dn_get_name dn; error_context = ''Failed to delete object '' @ name @ ''.''
      in if ldap_control_create (ldap env) (LDAP_CONTROL_X_TREE_DELETE (ldap env)) \<noteq> LDAP_SUCCESS
         then after (error_message error_context ''LDAP Operation error - Failed to create tree delete control.'' DoStatusMsg_Yes)
                (give False)
         else and_then (lift (config_of env)) (\<lambda>cfg.
           let server_controls = (if control_is_supported cfg (LDAP_CONTROL_X_TREE_DELETE (ldap env)) then [Tree_Delete_Control] else [])
           in and_then (call (ldap_delete_ext (ldap env) dn server_controls)) (\<lambda>result.
             if result = LDAP_SUCCESS then after (success_message (''Object '' @ name @ '' was deleted.'') do_msg) (give True)
             else object_delete_fallback env dn do_msg error_context)))"

definition object_move :: "'srv ad_env \<Rightarrow> qstring \<Rightarrow> qstring \<Rightarrow> ('srv, bool) ad_op" where
  "object_move env dn new_container =
     (let rdn = hd (split_char (CHR '','') dn); object_name = dn_get_name dn; container_name = dn_get_name new_container
      in and_then (call (ldap_rename (ldap env) dn rdn (Some new_container))) (\<lambda>result.
         report env (result = LDAP_SUCCESS)
           (''Object '' @ object_name @ '' was moved to '' @ new_container @ ''.'')
           (''Failed to move object '' @ object_name @ '' to '' @ container_name @ ''.'') DoStatusMsg_Yes))"

definition object_rename :: "'srv ad_env \<Rightarrow> qstring \<Rightarrow> qstring \<Rightarrow> ('srv, bool) ad_op" where
  "object_rename env dn new_name =
     (let new_rdn = hd (split_char (CHR '','') (dn_rename dn new_name)); old_name = dn_get_name dn
      in and_then (call (ldap_rename (ldap env) dn new_rdn None)) (\<lambda>result.
         report env (result = LDAP_SUCCESS)
           (''Object '' @ old_name @ '' was renamed to '' @ new_name @ ''.'')
           (''Failed to rename object '' @ old_name @ '' to '' @ new_name @ ''.'') DoStatusMsg_Yes))"

section \<open>Groups\<close>

definition group_add_member :: "'srv ad_env \<Rightarrow> qstring \<Rightarrow> qstring \<Rightarrow> ('srv, bool) ad_op" where
  "group_add_member env group_dn user_dn =
     and_then (attribute_add_value env group_dn ATTRIBUTE_MEMBER (bytes_of_string user_dn) DoStatusMsg_No) (\<lambda>success.
       let user_name = dn_get_name user_dn; group_name = dn_get_name group_dn
       in report env success
            (''Object '' @ user_name @ '' was added to group '' @ group_name @ ''.'')
            (''Failed to add object '' @ user_name @ '' to group '' @ group_name @ ''.'') DoStatusMsg_Yes)"

definition group_remove_member :: "'srv ad_env \<Rightarrow> qstring \<Rightarrow> qstring \<Rightarrow> ('srv, bool) ad_op" where
  "group_remove_member env group_dn user_dn =
     and_then (attribute_delete_value env group_dn ATTRIBUTE_MEMBER (bytes_of_string user_dn) DoStatusMsg_No) (\<lambda>success.
       let user_name = dn_get_name user_dn; group_name = dn_get_name group_dn
       in report env success
            (''Object '' @ user_name @ '' was removed from group '' @ group_name @ ''.'')
            (''Failed to remove object '' @ user_name @ '' from group '' @ group_name @ ''.'') DoStatusMsg_Yes)"

definition is_universal_scope_needed :: "'srv ad_env \<Rightarrow> qstring \<Rightarrow> group_scope \<Rightarrow> ('srv, bool) ad_op" where
  "is_universal_scope_needed env dn scope =
     and_then (search_object env dn [ATTRIBUTE_GROUP_TYPE] False) (\<lambda>obj.
       let current_scope = get_group_scope obj
       in give ((current_scope = GroupScope_Global \<and> scope = GroupScope_DomainLocal)
              \<or> (current_scope = GroupScope_DomainLocal \<and> scope = GroupScope_Global)))"

definition scope_bits_set :: "mask \<Rightarrow> group_scope \<Rightarrow> mask" where
  "scope_bits_set old_type scope =
     bitmask_set (fold (\<lambda>this_scope m. bitmask_set m (group_scope_bit this_scope) False) group_scopes old_type)
       (group_scope_bit scope) True"

text \<open>\<open>group_set_scope\<close> after the question whether the universal scope is needed.\<close>

definition group_write_scope :: "'srv ad_env \<Rightarrow> qstring \<Rightarrow> group_scope \<Rightarrow> do_status_msg \<Rightarrow> ('srv, bool) ad_op" where
  "group_write_scope env dn scope do_msg =
     and_then (search_object env dn [ATTRIBUTE_GROUP_TYPE] False) (\<lambda>obj.
       let group_type = scope_bits_set (get_mask obj ATTRIBUTE_GROUP_TYPE) scope;
           name = dn_get_name dn; scope_string = group_scope_string scope
       in and_then (attribute_replace_int env dn ATTRIBUTE_GROUP_TYPE (sint group_type) DoStatusMsg_Yes) (\<lambda>result.
         report env result
           (''Group scope for '' @ name @ '' was changed to '' @ quoted scope_string @ ''.'')
           (''Failed to change group scope for '' @ name @ '' to '' @ quoted scope_string @ ''.'') do_msg))"

text \<open>The inner call never needs the universal scope, as that is the scope it sets.\<close>

definition group_set_scope :: "'srv ad_env \<Rightarrow> qstring \<Rightarrow> group_scope \<Rightarrow> do_status_msg \<Rightarrow> ('srv, bool) ad_op" where
  "group_set_scope env dn scope do_msg =
     and_then (is_universal_scope_needed env dn scope) (\<lambda>needed.
       and_then (if needed
                 then and_then (is_universal_scope_needed env dn GroupScope_Universal)
                        (\<lambda>_. group_write_scope env dn GroupScope_Universal DoStatusMsg_No)
                 else give True) (\<lambda>_.
       group_write_scope env dn scope do_msg))"

definition group_set_type :: "'srv ad_env \<Rightarrow> qstring \<Rightarrow> group_type \<Rightarrow> ('srv, bool) ad_op" where
  "group_set_type env dn type =
     and_then (search_object env dn [ATTRIBUTE_GROUP_TYPE] False) (\<lambda>obj.
       let update_group_type = bitmask_set (get_mask obj ATTRIBUTE_GROUP_TYPE) GROUP_TYPE_BIT_SECURITY (type = GroupType_Security);
           name = dn_get_name dn; type_string = group_type_string type
       in and_then (attribute_replace_string env dn ATTRIBUTE_GROUP_TYPE (number (sint update_group_type)) DoStatusMsg_Yes) (\<lambda>result.
         report env result
           (''Group type for '' @ name @ '' was changed to '' @ quoted type_string @ ''.'')
           (''Failed to change group type for '' @ name @ '' to '' @ quoted type_string @ ''.'') DoStatusMsg_Yes))"

definition user_set_primary_group :: "'srv ad_env \<Rightarrow> qstring \<Rightarrow> qstring \<Rightarrow> ('srv, bool) ad_op" where
  "user_set_primary_group env group_dn user_dn =
     and_then (search_object env group_dn [ATTRIBUTE_OBJECT_SID, ATTRIBUTE_MEMBER] False) (\<lambda>group_object.
       let user_is_in_group = (user_dn \<in> set (get_strings group_object ATTRIBUTE_MEMBER))
       in and_then (if user_is_in_group then give True else group_add_member env group_dn user_dn) (\<lambda>_.
         let group_rid = extract_rid_from_sid (display env) (adconfig env) (get_value group_object ATTRIBUTE_OBJECT_SID)
         in and_then (attribute_replace_string env user_dn ATTRIBUTE_PRIMARY_GROUP_ID group_rid DoStatusMsg_No) (\<lambda>success.
           let user_name = dn_get_name user_dn; group_name = dn_get_name group_dn
           in report env success
                (''Primary group for object '' @ user_name @ '' was changed to '' @ group_name @ ''.'')
                (''Failed to change primary group for user '' @ user_name @ '' to '' @ group_name @ ''.'') DoStatusMsg_Yes)))"

section \<open>Users\<close>

definition utf16le :: "bool \<Rightarrow> qstring \<Rightarrow> bytes" where
  "utf16le bom s = (if bom then [0xFF, 0xFE] else []) @ concat (map (\<lambda>c. [of_nat (of_char c), 0]) s)"

definition encode_password_for_ad :: "bool \<Rightarrow> qstring \<Rightarrow> bytes" where
  "encode_password_for_ad bom password =
     (let password_bytes = utf16le bom (quoted password)
      in if hd password_bytes \<noteq> 0x22 then drop 2 password_bytes else password_bytes)"

definition user_set_pass :: "'srv ad_env \<Rightarrow> qstring \<Rightarrow> qstring \<Rightarrow> do_status_msg \<Rightarrow> ('srv, bool) ad_op" where
  "user_set_pass env dn password do_msg =
     and_then (attribute_replace_value env dn ATTRIBUTE_PASSWORD (encode_password_for_ad (writes_bom env) password) DoStatusMsg_No False)
       (\<lambda>success.
         let name = dn_get_name dn
         in if success then after (success_message (''Password for object '' @ name @ '' was changed.'') do_msg) (give True)
            else and_then (get_state (get_ldap_result env)) (\<lambda>ldap_result.
              let ctxt = ''Failed to change password for object '' @ name @ ''.''
              in after (if ldap_result = LDAP_CONSTRAINT_VIOLATION then error_message ctxt ''Password doesn't match rules.'' do_msg
                        else error_message_default env ctxt do_msg) (give False)))"

definition get_uac :: "'srv ad_env \<Rightarrow> qstring \<Rightarrow> ('srv, mask) ad_op" where
  "get_uac env dn =
     and_then (search_object env dn [ATTRIBUTE_USER_ACCOUNT_CONTROL] False) (\<lambda>obj.
       give (get_mask obj ATTRIBUTE_USER_ACCOUNT_CONTROL))"

definition option_success_context :: "account_option \<Rightarrow> bool \<Rightarrow> qstring \<Rightarrow> qstring" where
  "option_success_context option set_on name =
     (if option = AccountOption_Disabled
      then ''Object '' @ name @ (if set_on then '' has been disabled.'' else '' has been enabled.'')
      else ''Account option '' @ quoted (account_option_string option)
             @ (if set_on then '' was turned ON for object '' else '' was turned OFF for object '') @ name @ ''.'')"

definition option_error_context :: "account_option \<Rightarrow> bool \<Rightarrow> qstring \<Rightarrow> qstring" where
  "option_error_context option set_on name =
     (if option = AccountOption_Disabled
      then (if set_on then ''Failed to disable object '' else ''Failed to enable object '') @ name @ ''.''
      else (if set_on then ''Failed to turn ON account option '' else ''Failed to turn OFF account option '')
             @ quoted (account_option_string option) @ '' for object '' @ name @ ''.'')"

definition ad_security_replace_security_descriptor ::
  "'srv ad_env \<Rightarrow> qstring \<Rightarrow> security_descriptor \<Rightarrow> ('srv, bool) ad_op" where
  "ad_security_replace_security_descriptor env dn new_sd =
     attribute_replace_value env dn ATTRIBUTE_SECURITY_DESCRIPTOR (encode_sd env new_sd) DoStatusMsg_Yes True"

definition get_dn_security_descriptor :: "'srv ad_env \<Rightarrow> qstring \<Rightarrow> ('srv, sd_pointer) ad_op" where
  "get_dn_security_descriptor env dn =
     and_then (search_object env dn [ATTRIBUTE_SECURITY_DESCRIPTOR] False) (\<lambda>obj. give (get_security_descriptor env obj))"

definition ad_security_set_user_cant_change_pass :: "'srv ad_env \<Rightarrow> qstring \<Rightarrow> bool \<Rightarrow> ('srv, bool) ad_op" where
  "ad_security_set_user_cant_change_pass env dn enabled =
     and_then (get_dn_security_descriptor env dn) (\<lambda>sd.
     and_then (lift (config_of env)) (\<lambda>cfg.
     and_then (lift (set_user_cant_change_pass (sec env) cfg enabled sd)) (\<lambda>new_sd.
       ad_security_replace_security_descriptor env dn new_sd)))"

definition ad_security_set_protected_against_deletion :: "'srv ad_env \<Rightarrow> qstring \<Rightarrow> bool \<Rightarrow> ('srv, bool) ad_op" where
  "ad_security_set_protected_against_deletion env dn enabled =
     and_then (search_object env dn [] False) (\<lambda>obj.
     and_then (lift (set_protected_against_deletion (sec env) enabled (get_security_descriptor env obj))) (\<lambda>changed.
       case changed of None \<Rightarrow> give True | Some new_sd \<Rightarrow> ad_security_replace_security_descriptor env dn new_sd))"

definition get_account_option :: "'srv ad_env \<Rightarrow> ad_object \<Rightarrow> account_option \<Rightarrow> bool faulty" where
  "get_account_option env obj option =
     (if option = AccountOption_CantChangePassword
      then bind_faulty (config_of env) (\<lambda>cfg.
             ad_security_get_user_cant_change_pass (sec env) cfg (get_security_descriptor env obj))
      else if option = AccountOption_PasswordExpired
      then Inr (object_contains obj ATTRIBUTE_PWD_LAST_SET
             \<and> get_string obj ATTRIBUTE_PWD_LAST_SET = AD_PWD_LAST_SET_EXPIRED)
      else Inr (object_contains obj ATTRIBUTE_USER_ACCOUNT_CONTROL
             \<and> get_mask obj ATTRIBUTE_USER_ACCOUNT_CONTROL AND account_option_bit option \<noteq> 0))"

definition user_set_account_option :: "'srv ad_env \<Rightarrow> qstring \<Rightarrow> account_option \<Rightarrow> bool \<Rightarrow> ('srv, bool) ad_op" where
  "user_set_account_option env dn option set_on =
     (if dn = [] then give False
      else and_then
        (if option = AccountOption_CantChangePassword then ad_security_set_user_cant_change_pass env dn set_on
         else if option = AccountOption_PasswordExpired
         then attribute_replace_string env dn ATTRIBUTE_PWD_LAST_SET
                (if set_on then AD_PWD_LAST_SET_EXPIRED else AD_PWD_LAST_SET_RESET) DoStatusMsg_No
         else and_then (get_uac env dn) (\<lambda>uac.
           attribute_replace_int env dn ATTRIBUTE_USER_ACCOUNT_CONTROL
             (sint (bitmask_set uac (account_option_bit option) set_on)) DoStatusMsg_No))
        (\<lambda>success.
          let name = dn_get_name dn
          in report env success (option_success_context option set_on name) (option_error_context option set_on name) DoStatusMsg_Yes))"

definition user_unlock :: "'srv ad_env \<Rightarrow> qstring \<Rightarrow> ('srv, bool) ad_op" where
  "user_unlock env dn =
     and_then (attribute_replace_string env dn ATTRIBUTE_LOCKOUT_TIME LOCKOUT_UNLOCKED_VALUE DoStatusMsg_Yes) (\<lambda>result.
       let name = dn_get_name dn
       in report env result (''User '' @ quoted name @ '' was unlocked.'') (''Failed to unlock user '' @ name @ ''.'') DoStatusMsg_Yes)"

definition computer_reset_account :: "'srv ad_env \<Rightarrow> qstring \<Rightarrow> ('srv, bool) ad_op" where
  "computer_reset_account env dn =
     (let name = dn_get_name dn; reset_password = name @ ''$''
      in and_then (user_set_pass env dn reset_password DoStatusMsg_No) (\<lambda>success.
         report env success (''Computer '' @ quoted name @ '' was reset.'') (''Failed to reset computer '' @ name @ ''.'') DoStatusMsg_Yes))"

end
