(* ===== verification/GpoOperations.thy ===== *)
theory GpoOperations
  imports AdOperations Gplink
begin

text \<open>
  Group Policy objects (\<open>src/adldap/ad_interface.cpp\<close>): an object of the directory (the GPC) and a
  folder on the system volume (the GPT) that are created and deleted together and whose access
  control lists are kept in step (\<open>src/adldap/samba/gp_manage.c\<close>).
\<close>

section \<open>Paths\<close>

definition backslash :: qstring where "backslash = [CHR 0x5C]"

text \<open>\<open>remove (0, n)\<close> does nothing when the position is -1.\<close>

definition filesys_path_to_smb_path :: "qstring \<Rightarrow> qstring \<Rightarrow> qstring" where
  "filesys_path_to_smb_path dc filesys_path =
     (let out = replace_all (backslash @ ''SysVol'' @ backslash) (backslash @ ''sysvol'' @ backslash) filesys_path;
          out = replace_all backslash ''/'' out;
          sysvol_i = index_of_str out ''/sysvol/''
      in ''smb://'' @ dc @ drop (nat sysvol_i) out)"

section \<open>The folder of a policy\<close>

definition smb_error :: "'srv ad_env \<Rightarrow> 'srv ad_interface \<Rightarrow> qstring" where
  "smb_error env s = strerror (smb env) (smb_errno (smb env) (server s))"

definition smb_failure :: "'srv ad_env \<Rightarrow> qstring \<Rightarrow> ('srv, unit) ad_op" where
  "smb_failure env ctxt =
     and_then (get_state (smb_error env)) (\<lambda>error. error_message ctxt error DoStatusMsg_Yes)"

text \<open>The result and \<open>ok\<close>.\<close>

definition smb_path_is_dir :: "'srv ad_env \<Rightarrow> qstring \<Rightarrow> ('srv, bool \<times> bool) ad_op" where
  "smb_path_is_dir env path =
     and_then (call (smbc_stat (smb env) path)) (\<lambda>filestat.
       case filestat of
         None \<Rightarrow> after (smb_failure env (''Failed to get filestat for '' @ quoted path @ ''.'')) (give (False, False))
       | Some is_dir \<Rightarrow> give (is_dir, True))"

text \<open>\<open>None\<close> is a return with \<open>ok\<close> false.\<close>

fun gpt_read_dir ::
  "nat \<Rightarrow> 'srv ad_env \<Rightarrow> qstring \<Rightarrow> int \<Rightarrow> qstring list \<Rightarrow> qstring list \<Rightarrow> ('srv, (qstring list \<times> qstring list) option) ad_op" where
  "gpt_read_dir 0 env path dirp explore_stack seen_stack = lift (Inl Out_Of_Fuel)"
| "gpt_read_dir (Suc n) env path dirp explore_stack seen_stack =
     and_then (call (smbc_readdir (smb env) dirp)) (\<lambda>child_dirent.
       case child_dirent of
         None \<Rightarrow> give (Some (explore_stack, seen_stack))
       | Some child_name \<Rightarrow>
           if child_name = ''.'' \<or> child_name = ''..'' then gpt_read_dir n env path dirp explore_stack seen_stack
           else (let child_path = path @ ''/'' @ child_name; seen_stack = seen_stack @ [child_path]
             in and_then (smb_path_is_dir env child_path) (\<lambda>(child_is_dir, ok).
                  if \<not> ok then give None
                  else gpt_read_dir n env path dirp (if child_is_dir then explore_stack @ [child_path] else explore_stack) seen_stack)))"

fun gpt_walk ::
  "nat \<Rightarrow> 'srv ad_env \<Rightarrow> qstring \<Rightarrow> qstring list \<Rightarrow> qstring list \<Rightarrow> ('srv, qstring list option) ad_op" where
  "gpt_walk 0 env error_context explore_stack seen_stack = lift (Inl Out_Of_Fuel)"
| "gpt_walk (Suc n) env error_context explore_stack seen_stack =
     (if explore_stack = [] then give (Some seen_stack)
      else let path = last explore_stack
        in and_then (call (smbc_opendir (smb env) path)) (\<lambda>dirp.
          if dirp < 0 then after (error_message error_context ''Failed to open dir.'' DoStatusMsg_Yes) (give None)
          else and_then (call (\<lambda>srv. ((), clear_errno (smb env) srv))) (\<lambda>_.
            and_then (gpt_read_dir (fuel env) env path dirp (butlast explore_stack) seen_stack) (\<lambda>read.
              case read of None \<Rightarrow> give None
              | Some (explore_stack, seen_stack) \<Rightarrow>
                  and_then (get_state (\<lambda>s. smb_errno (smb env) (server s))) (\<lambda>errno.
                    if errno \<noteq> 0 then after (error_message error_context ''Failed to read dir.'' DoStatusMsg_Yes) (give None)
                    else and_then (call (\<lambda>srv. ((), smbc_closedir (smb env) dirp srv))) (\<lambda>_.
                      gpt_walk n env error_context explore_stack seen_stack))))))"

definition gpo_get_gpt_contents :: "'srv ad_env \<Rightarrow> qstring \<Rightarrow> ('srv, qstring list \<times> bool) ad_op" where
  "gpo_get_gpt_contents env gpt_root_path =
     and_then (gpt_walk (fuel env) env (''Failed to get contents of GPT '' @ quoted gpt_root_path @ ''.'') [gpt_root_path] [gpt_root_path])
       (\<lambda>walked. case walked of None \<Rightarrow> give ([], False) | Some seen_stack \<Rightarrow> give (seen_stack, True))"

definition delete_gpt_path :: "'srv ad_env \<Rightarrow> qstring \<Rightarrow> ('srv, bool) ad_op" where
  "delete_gpt_path env path =
     and_then (smb_path_is_dir env path) (\<lambda>(is_dir, ok).
       if \<not> ok then give False
       else if is_dir
       then and_then (call (smbc_rmdir (smb env) path)) (\<lambda>result_rmdir.
         if result_rmdir \<noteq> 0 then after (smb_failure env (''Failed to delete GPT folder '' @ path @ ''.'')) (give False)
         else give True)
       else and_then (call (smbc_unlink (smb env) path)) (\<lambda>result_unlink.
         if result_unlink \<noteq> 0 then after (smb_failure env (''Failed to delete GPT file '' @ path @ ''.'')) (give False)
         else give True))"

definition delete_gpt :: "'srv ad_env \<Rightarrow> qstring \<Rightarrow> ('srv, bool) ad_op" where
  "delete_gpt env parent_path =
     and_then (gpo_get_gpt_contents env parent_path) (\<lambda>(path_list, ok).
       if \<not> ok then give False else for_each (delete_gpt_path env) (rev path_list))"

section \<open>The descriptor of the folder\<close>

definition gp_ads_to_dir_access_mask :: "sec_api \<Rightarrow> gpt_api \<Rightarrow> mask \<Rightarrow> mask" where
  "gp_ads_to_dir_access_mask k g amask =
     (amask AND 0x001F0000)
     OR (if amask AND SEC_ADS_READ_PROP k \<noteq> 0 \<and> amask AND SEC_ADS_LIST k \<noteq> 0
         then SEC_STD_SYNCHRONIZE g OR SEC_DIR_LIST g OR SEC_DIR_READ_ATTRIBUTE g OR SEC_DIR_READ_EA g OR SEC_DIR_TRAVERSE g else 0)
     OR (if amask AND SEC_ADS_WRITE_PROP k \<noteq> 0
         then SEC_STD_SYNCHRONIZE g OR SEC_DIR_WRITE_ATTRIBUTE g OR SEC_DIR_WRITE_EA g OR SEC_DIR_ADD_FILE g OR SEC_DIR_ADD_SUBDIR g else 0)
     OR (if amask AND SEC_ADS_CREATE_CHILD k \<noteq> 0 then SEC_DIR_ADD_FILE g OR SEC_DIR_ADD_SUBDIR g else 0)
     OR (if amask AND SEC_ADS_DELETE_CHILD k \<noteq> 0 then SEC_DIR_DELETE_CHILD g else 0)"

definition dom_sid_string :: "dom_sid \<Rightarrow> qstring" where
  "dom_sid_string sid =
     (let ia = foldl (\<lambda>acc b. acc * 256 + unat b) 0 (id_auth sid);
          s = ''S-'' @ digits_of 10 (unat (sid_rev_num sid)) @ ''-''
            @ (if 2 ^ 32 - 1 \<le> ia then ''0x'' @ digits_of 16 ia else digits_of 10 ia)
            @ concat (map (\<lambda>auth. ''-'' @ digits_of 10 (unat auth)) (used_auths sid))
      in if 190 < length s + 1 then ''(SID ERR)'' else s)"

text \<open>What one entry becomes, if it is kept.\<close>

definition gpt_ace :: "sec_api \<Rightarrow> gpt_api \<Rightarrow> security_ace \<Rightarrow> security_ace option" where
  "gpt_ace k g ace =
     (let trustee = dom_sid_string (ace_trustee ace);
          object_bits = word_of_nat (ace_type_value k (ace_type ace)) AND
            (word_of_nat (ace_type_value k SEC_ACE_TYPE_ACCESS_ALLOWED_OBJECT) :: mask)
      in if object_bits = 0 \<and> trustee = SID_BUILTIN_PREW2K g then None
         else let inherit = SEC_ACE_FLAG_OBJECT_INHERIT g OR SEC_ACE_FLAG_CONTAINER_INHERIT k;
                  inherit_only = (if trustee = SID_CREATOR_OWNER g then SEC_ACE_FLAG_INHERIT_ONLY k else 0);
                  amask = gp_ads_to_dir_access_mask k g (ace_mask ace)
              in if amask = 0 then None
                 else Some (ace\<lparr>ace_flags := ace_flags ace OR inherit OR inherit_only, ace_mask := amask\<rparr>))"

text \<open>\<open>None\<close> is an error status: an owner or a list for auditing that is missing.\<close>

definition gp_create_gpt_security_descriptor ::
  "sec_api \<Rightarrow> gpt_api \<Rightarrow> sd_header \<Rightarrow> security_descriptor \<Rightarrow> security_descriptor option faulty" where
  "gp_create_gpt_security_descriptor k g header_of_sd ds_sd =
     (if sd_owner header_of_sd = None \<or> \<not> sd_has_sacl header_of_sd then Inr None
      else (case sd_dacl ds_sd of
          None \<Rightarrow> Inl Null_Dereference
        | Some aces \<Rightarrow> Inr (Some (fold (\<lambda>ace sd. case gpt_ace k g ace of
              None \<Rightarrow> sd | Some fs_ace \<Rightarrow> security_descriptor_dacl_add sd fs_ace) aces (ds_sd\<lparr>sd_dacl := Some []\<rparr>)))))"

datatype ace_mask_format = AceMaskFormat_Hexadecimal | AceMaskFormat_Decimal

definition mask_format_to_string :: "ace_mask_format \<Rightarrow> mask \<Rightarrow> qstring" where
  "mask_format_to_string format m =
     (case format of AceMaskFormat_Decimal \<Rightarrow> number (sint m) | AceMaskFormat_Hexadecimal \<Rightarrow> ''0x'' @ arg_padded 8 16 (unat m))"

definition ace_element :: "sec_api \<Rightarrow> ace_mask_format \<Rightarrow> security_ace \<Rightarrow> qstring" where
  "ace_element k format ace =
     ''ACL:'' @ dom_sid_string (ace_trustee ace) @ '':'' @ digits_of 10 (ace_type_value k (ace_type ace)) @ ''/''
       @ digits_of 10 (unat (ace_flags ace)) @ ''/'' @ mask_format_to_string format (ace_mask ace)"

definition get_gpt_sd_string :: "'srv ad_env \<Rightarrow> ad_object \<Rightarrow> ace_mask_format \<Rightarrow> qstring faulty" where
  "get_gpt_sd_string env gpc_object format =
     (case get_security_descriptor env gpc_object of
        None \<Rightarrow> Inr []
      | Some gpc_sd \<Rightarrow>
          (let header_of_sd = decode_sd_header env (get_value gpc_object ATTRIBUTE_SECURITY_DESCRIPTOR)
           in bind_faulty (gp_create_gpt_security_descriptor (sec env) (gpt env) header_of_sd gpc_sd) (\<lambda>created.
                case created of None \<Rightarrow> Inr []
                | Some gpt_sd \<Rightarrow>
                    bind_faulty (security_descriptor_sort_dacl (sec env) gpt_sd) (\<lambda>gpt_sd.
                    bind_faulty (security_descriptor_get_dacl gpt_sd) (\<lambda>aces.
                      let owner = dom_sid_string (the (sd_owner header_of_sd));
                          all_elements = [''REVISION:'' @ digits_of 10 (sd_revision header_of_sd), ''OWNER:'' @ owner, ''GROUP:'' @ owner]
                            @ map (ace_element (sec env) format) aces
                      in Inr (join '','' (dedup all_elements)))))))"

text \<open>The buffer is doubled as long as it is too small.\<close>

fun get_gpt_sd_loop :: "nat \<Rightarrow> 'srv ad_env \<Rightarrow> qstring \<Rightarrow> qstring \<Rightarrow> nat \<Rightarrow> ('srv, qstring) ad_op" where
  "get_gpt_sd_loop 0 env error_context smb_path buffer_size = lift (Inl Out_Of_Fuel)"
| "get_gpt_sd_loop (Suc n) env error_context smb_path buffer_size =
     and_then (call (smbc_getxattr (smb env) smb_path buffer_size)) (\<lambda>getxattr_result.
       case getxattr_result of
         Some buffer \<Rightarrow> give buffer
       | None \<Rightarrow> and_then (get_state (\<lambda>s. smb_errno (smb env) (server s))) (\<lambda>errno.
           if errno = ERANGE (smb env) then get_gpt_sd_loop n env error_context smb_path (2 * buffer_size)
           else after (error_message error_context
                  (''Failed to get GPT security descriptor, '' @ strerror (smb env) errno @ ''.'') DoStatusMsg_Yes) (give [])))"

definition get_gpt_sd :: "'srv ad_env \<Rightarrow> ad_object \<Rightarrow> qstring \<Rightarrow> ('srv, qstring) ad_op" where
  "get_gpt_sd env gpc_object error_context =
     and_then (get_state ad_dc) (\<lambda>dc.
       get_gpt_sd_loop (fuel env) env error_context
         (filesys_path_to_smb_path dc (get_string gpc_object ATTRIBUTE_GPC_FILE_SYS_PATH)) 1024)"

definition get_gpc_sd :: "'srv ad_env \<Rightarrow> ad_object \<Rightarrow> qstring \<Rightarrow> ('srv, qstring) ad_op" where
  "get_gpc_sd env gpc_object error_context =
     and_then (lift (get_gpt_sd_string env gpc_object AceMaskFormat_Hexadecimal)) (\<lambda>out.
       if out = [] then after (error_message error_context ''Failed to get GPT security descriptor.'' DoStatusMsg_Yes) (give [])
       else give out)"

definition are_sd_lists_match :: "qstring \<Rightarrow> qstring \<Rightarrow> bool" where
  "are_sd_lists_match gpt_sd gpc_sd =
     (let gpt_list = split_char (CHR '','') gpt_sd; gpc_list = split_char (CHR '','') gpc_sd
      in list_all (\<lambda>line. line \<in> set gpc_list) gpt_list \<and> list_all (\<lambda>line. line \<in> set gpt_list) gpc_list)"

section \<open>Administrators\<close>

definition logged_in_as_domain_admin :: "'srv ad_env \<Rightarrow> ('srv, bool) ad_op" where
  "logged_in_as_domain_admin env =
     and_then (get_state (\<lambda>s. hd (split_char (CHR ''@'') (client_user s)))) (\<lambda>sam_account_name.
     and_then (lift (config_of env)) (\<lambda>cfg.
     and_then (search env (cfg_domain_dn cfg) SearchScope_All
         (filter_CONDITION Condition_Equals ATTRIBUTE_SAM_ACCOUNT_NAME sam_account_name) [ATTRIBUTE_PRIMARY_GROUP_ID] False)
       (\<lambda>client_user_results.
       if client_user_results = [] then give False
       else let user_dn = hd (hash_keys env (map fst client_user_results));
                primary_group_id = get_int (hd (hash_values env client_user_results)) ATTRIBUTE_PRIMARY_GROUP_ID;
                domain_admins_sid = cfg_domain_sid cfg @ ''-'' @ number 512
         in if user_dn = [] then give False
            else if primary_group_id = 512 then give True
            else and_then (search env (cfg_domain_dn cfg) SearchScope_All
                (filter_AND [filter_CONDITION Condition_Equals ATTRIBUTE_OBJECT_CLASS CLASS_GROUP,
                             filter_CONDITION Condition_Equals ATTRIBUTE_OBJECT_SID domain_admins_sid]) [] False)
              (\<lambda>admin_group_results.
              if admin_group_results = []
              then after (error_message ''Failed to check user permissions.''
                     (''Can't find domain admins group with SID '' @ domain_admins_sid) DoStatusMsg_Yes) (give False)
              else and_then (search env user_dn SearchScope_Object
                  (filter_matching_rule_in_chain ATTRIBUTE_MEMBER_OF (object_dn (hd (hash_values env admin_group_results)))) [] False)
                (\<lambda>res. give (user_dn \<in> fst ` set res))))))"

section \<open>Checking and synchronising permissions\<close>

text \<open>The result and \<open>ok\<close>.\<close>

definition gpo_check_perms :: "'srv ad_env \<Rightarrow> qstring \<Rightarrow> ('srv, bool \<times> bool) ad_op" where
  "gpo_check_perms env gpo =
     and_then (logged_in_as_domain_admin env) (\<lambda>is_admin.
       if \<not> is_admin then give (True, True)
       else and_then (search_object env gpo [] True) (\<lambda>gpc_object.
         let name = get_string gpc_object ATTRIBUTE_DISPLAY_NAME;
             error_context = ''Failed to check permissions for GPO '' @ quoted name @ ''.''
         in and_then (get_gpc_sd env gpc_object error_context) (\<lambda>gpc_sd.
            and_then (get_gpt_sd env gpc_object error_context) (\<lambda>gpt_sd.
              if gpc_sd = [] \<or> gpt_sd = [] then give (False, False)
              else give (are_sd_lists_match gpt_sd gpc_sd, True)))))"

definition set_path_sd :: "'srv ad_env \<Rightarrow> qstring \<Rightarrow> qstring \<Rightarrow> qstring \<Rightarrow> ('srv, bool) ad_op" where
  "set_path_sd env error_context gpt_sd_string path =
     and_then (call (smbc_setxattr (smb env) path gpt_sd_string)) (\<lambda>set_sd_result.
       if set_sd_result \<noteq> 0
       then and_then (get_state (smb_error env)) (\<lambda>error.
         after (error_message error_context (''Failed to set permissions, '' @ error @ ''.'') DoStatusMsg_Yes) (give False))
       else give True)"

definition gpo_sync_perms :: "'srv ad_env \<Rightarrow> qstring \<Rightarrow> ('srv, bool) ad_op" where
  "gpo_sync_perms env dn =
     and_then (search_object env dn [] True) (\<lambda>gpc_object.
     and_then (lift (get_gpt_sd_string env gpc_object AceMaskFormat_Decimal)) (\<lambda>gpt_sd_string.
       let name = get_string gpc_object ATTRIBUTE_DISPLAY_NAME;
           error_context = ''Failed to sync permissions of GPO '' @ quoted name @ ''.''
       in if gpt_sd_string = []
          then after (error_message error_context ''Failed to generate GPT security descriptor.'' DoStatusMsg_Yes) (give False)
          else and_then (get_state (\<lambda>s. filesys_path_to_smb_path (ad_dc s) (get_string gpc_object ATTRIBUTE_GPC_FILE_SYS_PATH)))
            (\<lambda>smb_path.
            and_then (gpo_get_gpt_contents env smb_path) (\<lambda>(path_list, ok).
              if \<not> ok \<or> path_list = []
              then after (error_message error_context (''Failed to read GPT contents of '' @ quoted smb_path @ ''.'') DoStatusMsg_Yes)
                     (give False)
              else and_then (for_each (set_path_sd env error_context gpt_sd_string) path_list) (\<lambda>all_set.
                if all_set
                then after (success_message (''Synced permissions of GPO '' @ quoted name @ ''.'') DoStatusMsg_Yes) (give True)
                else give False)))))"

section \<open>Versions\<close>

definition get_version :: "qstring \<Rightarrow> qstring \<Rightarrow> ('srv, int) ad_op" where
  "get_version ini_contents error_context =
     (let version = gpt_ini_get_version ini_contents
      in if version < 0
         then after (error_message error_context ''Failed to extract version from GPT.INI.'' DoStatusMsg_Yes) (give version)
         else give version)"

text \<open>At most 2000 bytes of the file; it stays open when reading fails.\<close>

definition read_gpt_ini :: "'srv ad_env \<Rightarrow> ad_object \<Rightarrow> qstring \<Rightarrow> ('srv, qstring) ad_op" where
  "read_gpt_ini env gpc_object error_context =
     and_then (get_state (\<lambda>s. filesys_path_to_smb_path (ad_dc s) (get_string gpc_object ATTRIBUTE_GPC_FILE_SYS_PATH))) (\<lambda>smb_path.
     and_then (call (smbc_open (smb env) (smb_path @ ''/GPT.INI''))) (\<lambda>ini_fd.
       let failed = and_then (get_state (smb_error env)) (\<lambda>error.
             after (error_message error_context (''Failed to open GPT.INI, '' @ error @ ''.'') DoStatusMsg_Yes) (give []))
       in if ini_fd < 0 then failed
          else and_then (call (smbc_read (smb env) ini_fd 2000)) (\<lambda>bytes_read.
            case bytes_read of None \<Rightarrow> failed
            | Some buffer \<Rightarrow> and_then (call (\<lambda>srv. ((), smbc_close (smb env) ini_fd srv))) (\<lambda>_. give (string_of_bytes buffer)))))"

text \<open>\<open>None\<close> is a failure; the version is stored only otherwise.\<close>

definition gpo_get_sysvol_version :: "'srv ad_env \<Rightarrow> ad_object \<Rightarrow> ('srv, int option) ad_op" where
  "gpo_get_sysvol_version env gpc_object =
     (let error_context = ''Failed to load GPO's sysvol version.''
      in and_then (read_gpt_ini env gpc_object error_context) (\<lambda>ini_contents.
         if ini_contents = [] then give None
         else and_then (get_version ini_contents error_context) (\<lambda>version.
           give (if 0 \<le> version then Some version else None))))"

section \<open>Creating and deleting\<close>

definition generate_uuid :: "'srv ad_env \<Rightarrow> ('srv, qstring) ad_op" where
  "generate_uuid env = and_then (call (uuid_generate_random (smb env))) (\<lambda>uuid_text. give (''{'' @ uuid_text @ ''}''))"

definition gpo_add_error :: "bool \<Rightarrow> qstring \<Rightarrow> ('srv, unit) ad_op" where
  "gpo_add_error is_domain_admin error =
     after (if \<not> is_domain_admin then error_message_plain ''Warning: User is not domain administrator.'' DoStatusMsg_Yes else give ())
       (error_message ''Failed to create GPO.'' error DoStatusMsg_Yes)"

definition gpo_add_cleanup :: "'srv ad_env \<Rightarrow> qstring \<Rightarrow> qstring \<Rightarrow> ('srv, unit) ad_op" where
  "gpo_add_cleanup env gpc_dn gpt_path =
     and_then (search_object env gpc_dn [] False) (\<lambda>gpc_object.
     and_then (if object_is_empty gpc_object then give True else object_delete env gpc_dn DoStatusMsg_Yes) (\<lambda>_.
     and_then (call (smbc_stat (smb env) gpt_path)) (\<lambda>stat_result.
     and_then (if stat_result = None then give True else delete_gpt env gpt_path) (\<lambda>_. give ()))))"

text \<open>A step of \<open>gpo_add\<close>: on failure the error is reported and what was created is removed.\<close>

definition gpo_add_step :: "('srv, unit) ad_op \<Rightarrow> (qstring \<Rightarrow> ('srv, unit) ad_op) \<Rightarrow> bool \<Rightarrow> qstring \<Rightarrow> ('srv, qstring option) ad_op \<Rightarrow> ('srv, qstring option) ad_op" where
  "gpo_add_step cleanup report_error success error rest =
     (if success then rest else after (report_error error) (after cleanup (give None)))"

definition gpc_attributes :: "qstring \<Rightarrow> qstring \<Rightarrow> (qstring \<times> qstring) list" where
  "gpc_attributes display_name filesys_path =
     [(ATTRIBUTE_DISPLAY_NAME, display_name), (ATTRIBUTE_GPC_FILE_SYS_PATH, filesys_path), (ATTRIBUTE_FLAGS, ''0''),
      (ATTRIBUTE_VERSION_NUMBER, ''0''), (ATTRIBUTE_SHOW_IN_ADVANCED_VIEW_ONLY, ''TRUE''), (ATTRIBUTE_GPC_FUNCTIONALITY_VERSION, ''2'')]"

definition gpt_ini_contents :: qstring where
  "gpt_ini_contents = ''[General]'' @ [CHR 0x0D, CHR 0x0A] @ ''Version=0'' @ [CHR 0x0D, CHR 0x0A]"

text \<open>The attributes up to the first that cannot be set, which is the result.\<close>

fun set_gpc_attributes :: "'srv ad_env \<Rightarrow> qstring \<Rightarrow> (qstring \<times> qstring) list \<Rightarrow> qstring list \<Rightarrow> ('srv, qstring option) ad_op" where
  "set_gpc_attributes env gpc_dn value_map [] = give None"
| "set_gpc_attributes env gpc_dn value_map (attribute # rest) =
     and_then (attribute_replace_string env gpc_dn attribute (case map_of value_map attribute of Some v \<Rightarrow> v | None \<Rightarrow> []) DoStatusMsg_Yes)
       (\<lambda>ok. if ok then set_gpc_attributes env gpc_dn value_map rest else give (Some attribute))"

text \<open>The objects of a policy, in the order they are created, and the attributes of the first.\<close>

definition gpo_add_objects ::
  "'srv ad_env \<Rightarrow> (bool \<Rightarrow> qstring \<Rightarrow> ('srv, qstring option) ad_op \<Rightarrow> ('srv, qstring option) ad_op) \<Rightarrow> qstring \<Rightarrow> qstring \<Rightarrow> qstring \<Rightarrow>
     ('srv, qstring option) ad_op" where
  "gpo_add_objects env step gpc_dn display_name filesys_path =
     and_then (object_add env gpc_dn CLASS_GP_CONTAINER) (\<lambda>result_add.
     step result_add ''Failed to create GPC object.''
     (and_then (set_gpc_attributes env gpc_dn (gpc_attributes display_name filesys_path)
          (hash_keys env (map fst (gpc_attributes display_name filesys_path)))) (\<lambda>failed_attribute.
     step (failed_attribute = None) (''Failed to set GPC attribute '' @ (case failed_attribute of Some a \<Rightarrow> a | None \<Rightarrow> []) @ ''.'')
     (and_then (object_add env (''CN=User,'' @ gpc_dn) CLASS_CONTAINER) (\<lambda>result_add_user.
      and_then (attribute_replace_string env gpc_dn ATTRIBUTE_SHOW_IN_ADVANCED_VIEW_ONLY ''TRUE'' DoStatusMsg_Yes) (\<lambda>_.
     step result_add_user ''Failed to create user folder object for GPO.''
     (and_then (object_add env (''CN=Machine,'' @ gpc_dn) CLASS_CONTAINER) (\<lambda>result_add_machine.
      and_then (attribute_replace_string env gpc_dn ATTRIBUTE_SHOW_IN_ADVANCED_VIEW_ONLY ''TRUE'' DoStatusMsg_Yes) (\<lambda>_.
     step result_add_machine ''Failed to create machine folder object for GPO.''
     (and_then (gpo_sync_perms env gpc_dn) (\<lambda>_. give (Some gpc_dn))))))))))))"

text \<open>The folder of a policy and its file \<open>GPT.INI\<close>.\<close>

definition gpo_add_files ::
  "'srv ad_env \<Rightarrow> (bool \<Rightarrow> qstring \<Rightarrow> ('srv, qstring option) ad_op \<Rightarrow> ('srv, qstring option) ad_op) \<Rightarrow> qstring \<Rightarrow>
     ('srv, qstring option) ad_op \<Rightarrow> ('srv, qstring option) ad_op" where
  "gpo_add_files env step gpt_path rest =
     and_then (call (smbc_mkdir (smb env) gpt_path)) (\<lambda>result_mkdir_gpt.
     step (result_mkdir_gpt = 0) ''Failed to create GPT root dir.''
     (and_then (call (smbc_mkdir (smb env) (gpt_path @ ''/Machine''))) (\<lambda>result_mkdir_machine.
     step (result_mkdir_machine = 0) ''Failed to create GPT machine dir.''
     (and_then (call (smbc_mkdir (smb env) (gpt_path @ ''/User''))) (\<lambda>result_mkdir_user.
     step (result_mkdir_user = 0) ''Failed to create GPT user dir.''
     (and_then (call (smbc_create (smb env) (gpt_path @ ''/GPT.INI''))) (\<lambda>ini_file.
     step (0 \<le> ini_file) ''Failed to open GPT ini file.''
     (and_then (call (smbc_write (smb env) ini_file gpt_ini_contents)) (\<lambda>bytes_written.
      and_then (call (\<lambda>srv. ((), smbc_close (smb env) ini_file srv))) (\<lambda>_.
     step (0 \<le> bytes_written) ''Failed to write GPT ini file.'' rest))))))))))"

definition gpo_add :: "'srv ad_env \<Rightarrow> qstring \<Rightarrow> ('srv, qstring option) ad_op" where
  "gpo_add env display_name =
     and_then (logged_in_as_domain_admin env) (\<lambda>is_domain_admin.
     and_then (generate_uuid env) (\<lambda>uuid.
     and_then (get_state (\<lambda>s. (to_lower (ad_domain s), ad_dc s))) (\<lambda>(domain, dc).
     and_then (lift (config_of env)) (\<lambda>cfg.
       let filesys_path = backslash @ backslash @ domain @ backslash @ ''sysvol'' @ backslash @ domain @ backslash
             @ ''Policies'' @ backslash @ uuid;
           gpt_path = filesys_path_to_smb_path dc filesys_path;
           gpc_dn = ''CN='' @ uuid @ '',CN=Policies,CN=System,'' @ cfg_domain_dn cfg;
           step = gpo_add_step (gpo_add_cleanup env gpc_dn gpt_path) (gpo_add_error is_domain_admin)
       in gpo_add_files env step gpt_path (gpo_add_objects env step gpc_dn display_name filesys_path)))))"

definition unlink_policy :: "'srv ad_env \<Rightarrow> qstring \<Rightarrow> ad_object \<Rightarrow> ('srv, bool) ad_op" where
  "unlink_policy env dn linked_object =
     (let gplink = gplink_remove dn (gplink_parse (get_string linked_object ATTRIBUTE_GPLINK))
      in and_then (attribute_replace_string env (object_dn linked_object) ATTRIBUTE_GPLINK (gplink_to_string gplink) DoStatusMsg_Yes)
           (\<lambda>_. give True))"

text \<open>The result and \<open>deleted_object\<close>.\<close>

definition gpo_delete :: "'srv ad_env \<Rightarrow> qstring \<Rightarrow> ('srv, bool \<times> bool) ad_op" where
  "gpo_delete env dn =
     and_then (search_object env dn [ATTRIBUTE_GPC_FILE_SYS_PATH, ATTRIBUTE_DISPLAY_NAME, ATTRIBUTE_IS_CRITICAL_SYSTEM_OBJECT] False) (\<lambda>obj.
       let name = get_string obj ATTRIBUTE_DISPLAY_NAME
       in if get_bool obj ATTRIBUTE_IS_CRITICAL_SYSTEM_OBJECT
          then after (error_message_plain (''System policy '' @ quoted name @ '' is critical and cannot be deleted.'') DoStatusMsg_Yes)
                 (give (False, False))
          else and_then (get_state (\<lambda>s. filesys_path_to_smb_path (ad_dc s) (get_string obj ATTRIBUTE_GPC_FILE_SYS_PATH))) (\<lambda>smb_path.
            and_then (object_delete env dn DoStatusMsg_Yes) (\<lambda>delete_gpc_success.
            after (if \<not> delete_gpc_success then error_message_default env ''Failed to delete GPC.'' DoStatusMsg_Yes else give ())
            (and_then (delete_gpt env smb_path) (\<lambda>delete_gpt_success.
            after (if \<not> delete_gpt_success then error_message_plain ''Failed to delete GPT.'' DoStatusMsg_Yes else give ())
            (and_then (lift (config_of env)) (\<lambda>cfg.
             and_then (search env (cfg_domain_dn cfg) SearchScope_All (filter_CONDITION Condition_Contains ATTRIBUTE_GPLINK dn)
                 [ATTRIBUTE_GPLINK] False) (\<lambda>results.
             and_then (for_each (unlink_policy env dn) (hash_values env results)) (\<lambda>_.
               let total_success = (delete_gpc_success \<and> delete_gpt_success);
                   partial_success = (delete_gpc_success \<or> delete_gpt_success)
               in after (success_message
                    (if total_success then ''Group policy '' @ name @ '' was deleted.''
                     else if partial_success then ''Errors happened while trying to delete policy '' @ name @ ''.''
                     else ''Failed to delete policy '' @ name @ ''.'') DoStatusMsg_Yes)
                  (give (total_success, delete_gpc_success)))))))))))"

end
