(* ===== verification/AdConnection.thy ===== *)
theory AdConnection
  imports GpoOperations
begin

text \<open>
  Finding domain controllers and connecting (\<open>src/adldap/ad_interface.cpp\<close>): the reply of a name
  server as bytes that are read by position, the constructor of \<open>AdInterface\<close>, and the options of the
  LDAP connection in the order they are set.
\<close>

section \<open>Name servers\<close>

text \<open>
  The resolver: \<open>res_search\<close> gives the length of the reply and the whole buffer it was written to;
  \<open>dn_skipname\<close> and \<open>dn_expand\<close> work on the buffer between a position and the end of the message.
\<close>

record dns_api =
  res_search :: "qstring \<Rightarrow> int \<times> bytes"
  dn_skipname :: "bytes \<Rightarrow> nat \<Rightarrow> nat \<Rightarrow> int"
  dn_expand :: "bytes \<Rightarrow> nat \<Rightarrow> nat \<Rightarrow> (nat \<times> qstring) option"

definition read_byte :: "bytes \<Rightarrow> nat \<Rightarrow> nat faulty" where
  "read_byte buf i = (if i < length buf then Inr (unat (buf ! i)) else Inl Buffer_Overread)"

text \<open>Numbers of a message are big-endian.\<close>

definition get_short :: "bytes \<Rightarrow> nat \<Rightarrow> nat faulty" where
  "get_short buf i = bind_faulty (read_byte buf i) (\<lambda>high. bind_faulty (read_byte buf (i + 1)) (\<lambda>low. Inr (high * 256 + low)))"

definition get_long :: "bytes \<Rightarrow> nat \<Rightarrow> nat faulty" where
  "get_long buf i = bind_faulty (get_short buf i) (\<lambda>high. bind_faulty (get_short buf (i + 2)) (\<lambda>low. Inr (high * 65536 + low)))"

definition HEADER_SIZE :: nat where "HEADER_SIZE = 12"
definition QFIXEDSZ :: nat where "QFIXEDSZ = 4"
definition RRFIXEDSZ :: nat where "RRFIXEDSZ = 10"
definition ns_t_srv :: nat where "ns_t_srv = 33"

text \<open>\<open>None\<close> is the return with an empty list.\<close>

fun skip_packets :: "dns_api \<Rightarrow> bytes \<Rightarrow> nat \<Rightarrow> nat \<Rightarrow> nat \<Rightarrow> nat option" where
  "skip_packets dns buf eom 0 curr_pos = Some curr_pos"
| "skip_packets dns buf eom (Suc i) curr_pos =
     (if curr_pos < eom
      then (let packet_len = dn_skipname dns buf curr_pos eom
            in if packet_len < 0 then None else skip_packets dns buf eom i (curr_pos + nat packet_len + QFIXEDSZ))
      else Some curr_pos)"

text \<open>One answer: the position after it and the host, if it is a server record.\<close>

definition read_answer :: "dns_api \<Rightarrow> bytes \<Rightarrow> nat \<Rightarrow> nat \<Rightarrow> (nat \<times> qstring option) option faulty" where
  "read_answer dns buf eom curr_pos =
     (case dn_expand dns buf eom curr_pos of
        None \<Rightarrow> Inr None
      | Some (server_len, _) \<Rightarrow>
          (let curr_pos = curr_pos + server_len
           in if curr_pos + RRFIXEDSZ > eom then Inr None
              else bind_faulty (get_short buf curr_pos) (\<lambda>record_type.
                   bind_faulty (get_short buf (curr_pos + 2)) (\<lambda>record_class.
                   bind_faulty (get_long buf (curr_pos + 4)) (\<lambda>ttl.
                   bind_faulty (get_short buf (curr_pos + 8)) (\<lambda>record_len.
                     let curr_pos = curr_pos + 10; record_end = curr_pos + record_len
                     in if record_end > eom then Inr None
                        else if record_type \<noteq> ns_t_srv then Inr (Some (record_end, None))
                        else bind_faulty (get_short buf curr_pos) (\<lambda>priority.
                             bind_faulty (get_short buf (curr_pos + 2)) (\<lambda>weight.
                             bind_faulty (get_short buf (curr_pos + 4)) (\<lambda>port.
                               case dn_expand dns buf eom (curr_pos + 6) of
                                 None \<Rightarrow> Inr None
                               | Some (_, host) \<Rightarrow> Inr (Some (record_end, Some host)))))))))))"

fun read_answers :: "dns_api \<Rightarrow> bytes \<Rightarrow> nat \<Rightarrow> nat \<Rightarrow> nat \<Rightarrow> qstring list \<Rightarrow> qstring list faulty" where
  "read_answers dns buf eom 0 curr_pos hosts = Inr hosts"
| "read_answers dns buf eom (Suc i) curr_pos hosts =
     bind_faulty (read_answer dns buf eom curr_pos) (\<lambda>answer.
       case answer of None \<Rightarrow> Inr []
       | Some (record_end, None) \<Rightarrow> read_answers dns buf eom i record_end hosts
       | Some (record_end, Some host) \<Rightarrow> read_answers dns buf eom i record_end (hosts @ [host]))"

definition query_server_for_hosts :: "dns_api \<Rightarrow> qstring \<Rightarrow> qstring list faulty" where
  "query_server_for_hosts dns dname =
     (let (msg_len, buf) = res_search dns dname
      in if msg_len < 0 then Inr []
         else if msg_len < int HEADER_SIZE then Inr []
         else bind_faulty (get_short buf 4) (\<lambda>packet_count.
              bind_faulty (get_short buf 6) (\<lambda>answer_count.
                case skip_packets dns buf (nat msg_len) packet_count HEADER_SIZE of
                  None \<Rightarrow> Inr []
                | Some curr_pos \<Rightarrow> read_answers dns buf (nat msg_len) answer_count curr_pos [])))"

definition DNAME_SIZE :: nat where "DNAME_SIZE = 1000"

definition get_domain_hosts :: "dns_api \<Rightarrow> qstring \<Rightarrow> qstring \<Rightarrow> qstring list faulty" where
  "get_domain_hosts dns dns_domain site =
     (let dname = ''_ldap._tcp.'' @ site @ ''._sites.'' @ dns_domain; dname_default = ''_ldap._tcp.'' @ dns_domain
      in if site \<noteq> [] \<and> DNAME_SIZE \<le> length dname then Inr []
         else bind_faulty (if site = [] then Inr [] else query_server_for_hosts dns dname) (\<lambda>site_hosts.
           if DNAME_SIZE \<le> length dname_default then Inr []
           else bind_faulty (query_server_for_hosts dns dname_default) (\<lambda>default_hosts.
             Inr (dedup (site_hosts @ default_hosts)))))"

definition find_domain_controller :: "dns_api \<Rightarrow> ('srv, qstring) ad_op" where
  "find_domain_controller dns =
     and_then (get_state ad_domain) (\<lambda>domain.
     and_then (lift (get_domain_hosts dns domain [])) (\<lambda>dc_list.
       if dc_list = []
       then after (error_message_plain ''Failed to find domain controllers. Make sure your computer is in the domain and that domain controllers are operational.'' DoStatusMsg_Yes) (give [])
       else get_state (\<lambda>s. if s_dc s \<noteq> [] \<and> s_dc s \<in> set dc_list then s_dc s else hd dc_list)))"

section \<open>The connection\<close>

text \<open>
  The functions of the LDAP library that open a connection; each option is set with a code. The last
  ones are the default domain of Kerberos and the name of the user after a successful bind.
\<close>

datatype ldap_option = LDAP_OPT_PROTOCOL_VERSION | LDAP_OPT_REFERRALS | LDAP_OPT_X_SASL_SECPROPS
  | LDAP_OPT_X_SASL_NOCANON bool | LDAP_OPT_X_TLS_REQUIRE_CERT cert_strategy

record 'srv connect_api =
  ldap_initialize :: "qstring \<Rightarrow> 'srv \<Rightarrow> ldap_code \<times> 'srv"
  ldap_set_option :: "ldap_option \<Rightarrow> 'srv \<Rightarrow> ldap_code \<times> 'srv"
  ldap_sasl_interactive_bind :: "'srv \<Rightarrow> ldap_code \<times> 'srv"
  ldap_unbind :: "'srv \<Rightarrow> 'srv"
  sasl_username :: "'srv \<Rightarrow> qstring option"
  get_default_domain_from_krb5 :: qstring

definition make_ldap_uri :: "'srv ad_interface \<Rightarrow> qstring" where
  "make_ldap_uri s =
     (if ad_dc s \<noteq> [] then ''ldap://'' @ ad_dc s @ (if 0 < s_port s then '':'' @ number (s_port s) else []) else [])"

definition get_ldap_sasl_username :: "'srv connect_api \<Rightarrow> 'srv \<Rightarrow> qstring" where
  "get_ldap_sasl_username conn srv = (case sasl_username conn srv of None \<Rightarrow> [] | Some name \<Rightarrow> to_lower name)"

text \<open>Set an option; when that fails, the error names it.\<close>

definition set_option_or_fail :: "'srv connect_api \<Rightarrow> ldap_option \<Rightarrow> qstring \<Rightarrow> ('srv, bool) ad_op" where
  "set_option_or_fail conn opt name =
     and_then (call (ldap_set_option conn opt)) (\<lambda>result.
       if result = LDAP_SUCCESS then give True
       else after (error_message ''Failed to connect.'' (''Failed to set ldap option '' @ name @ ''.'') DoStatusMsg_Yes) (give False))"

text \<open>
  The certificate option is the last one and its code is not looked at: the test after it reads the
  code of the option before, which is a success there.
\<close>

definition ldap_init :: "'srv ad_env \<Rightarrow> 'srv connect_api \<Rightarrow> ('srv, bool) ad_op" where
  "ldap_init env conn =
     and_then (get_state make_ldap_uri) (\<lambda>uri.
       if uri = [] then give False
       else and_then (call (ldap_initialize conn uri)) (\<lambda>result.
         if result \<noteq> LDAP_SUCCESS
         then and_then (get_state (smb_error env)) (\<lambda>error.
           after (error_message ''Failed to initialize LDAP library.'' error DoStatusMsg_Yes) (give False))
         else and_then (get_state s_sasl_nocanon) (\<lambda>nocanon.
           and_then (for_each (\<lambda>(opt, name). set_option_or_fail conn opt name)
             [(LDAP_OPT_PROTOCOL_VERSION, ''LDAP_OPT_PROTOCOL_VERSION''), (LDAP_OPT_REFERRALS, ''LDAP_OPT_REFERRALS''),
              (LDAP_OPT_X_SASL_SECPROPS, ''LDAP_OPT_X_SASL_SECPROPS''), (LDAP_OPT_X_SASL_NOCANON nocanon, ''LDAP_OPT_X_SASL_NOCANON'')])
             (\<lambda>options_set.
             if \<not> options_set then give False
             else and_then (get_state s_cert_strat) (\<lambda>strat.
               and_then (call (ldap_set_option conn (LDAP_OPT_X_TLS_REQUIRE_CERT strat))) (\<lambda>_.
               and_then (call (ldap_sasl_interactive_bind conn)) (\<lambda>result.
                 if result \<noteq> LDAP_SUCCESS
                 then after (error_message_plain ''Failed to connect to server. Check your connection and make sure you have initialized your credentials using kinit.'' DoStatusMsg_Yes)
                   (and_then (get_state (default_error env)) (\<lambda>error.
                     after (error_message_plain error DoStatusMsg_Yes) (give False)))
                 else (\<lambda>s. Inr (True, s\<lparr>client_user := get_ldap_sasl_username conn (server s)\<rparr>)))))))))"

definition ldap_free :: "'srv connect_api \<Rightarrow> ('srv, unit) ad_op" where
  "ldap_free conn =
     and_then (get_state is_connected) (\<lambda>connected.
       if connected then call (\<lambda>srv. ((), ldap_unbind conn srv)) else give ())"

text \<open>The constructor, on the state that the static settings and the outside determine.\<close>

definition ad_interface_connect :: "'srv ad_env \<Rightarrow> dns_api \<Rightarrow> 'srv connect_api \<Rightarrow> ('srv, unit) ad_op" where
  "ad_interface_connect env dns conn =
     and_then (\<lambda>s. Inr ((), s\<lparr>is_connected := False, ad_messages := [], client_user := [], ad_dc := [],
        ad_domain := (if s_domain_is_default s then get_default_domain_from_krb5 conn else s_custom_domain s)\<rparr>)) (\<lambda>_.
     and_then (get_state ad_domain) (\<lambda>domain.
       if domain = []
       then error_message ''Failed to connect.'' ''Failed to get a domain. Check that you have initialized kerberos credentials (kinit).'' DoStatusMsg_Yes
       else and_then (get_state s_custom_dc) (\<lambda>custom_dc.
         and_then (case custom_dc of None \<Rightarrow> find_domain_controller dns | Some dc \<Rightarrow> give dc) (\<lambda>dc.
         and_then (\<lambda>s. Inr ((), s\<lparr>ad_dc := dc, s_dc := (if s_dc s = [] then dc else s_dc s)\<rparr>)) (\<lambda>_.
         and_then (ldap_init env conn) (\<lambda>initialised.
           if \<not> initialised
           then error_message ''Failed to connect.'' ''Failed to initialize LDAP connection.'' DoStatusMsg_Yes
           else if \<not> smb_context_valid (smb env)
           then error_message ''Failed to connect.'' ''Failed to initialize SMB context.'' DoStatusMsg_Yes
           else (\<lambda>s. Inr ((), s\<lparr>is_connected := True\<rparr>))))))))"

definition update_dc :: "'srv ad_env \<Rightarrow> 'srv connect_api \<Rightarrow> ('srv, unit) ad_op" where
  "update_dc env conn =
     and_then (\<lambda>s. Inr ((), s\<lparr>ad_dc := s_dc s\<rparr>)) (\<lambda>_.
     and_then (ldap_free conn) (\<lambda>_.
     and_then (ldap_init env conn) (\<lambda>initialised.
       (\<lambda>s. Inr ((), s\<lparr>is_connected := initialised \<and> smb_context_valid (smb env)\<rparr>)))))"

text \<open>The static settings.\<close>

definition set_log_searches :: "bool \<Rightarrow> 'srv ad_interface \<Rightarrow> 'srv ad_interface" where
  "set_log_searches enabled s = s\<lparr>s_log_searches := enabled\<rparr>"
definition set_dc :: "qstring \<Rightarrow> 'srv ad_interface \<Rightarrow> 'srv ad_interface" where
  "set_dc dc s = s\<lparr>s_dc := dc\<rparr>"
definition set_custom_dc :: "qstring option \<Rightarrow> 'srv ad_interface \<Rightarrow> 'srv ad_interface" where
  "set_custom_dc dc s = s\<lparr>s_custom_dc := dc\<rparr>"
definition set_sasl_nocanon :: "bool \<Rightarrow> 'srv ad_interface \<Rightarrow> 'srv ad_interface" where
  "set_sasl_nocanon is_on s = s\<lparr>s_sasl_nocanon := is_on\<rparr>"
definition set_port :: "int \<Rightarrow> 'srv ad_interface \<Rightarrow> 'srv ad_interface" where
  "set_port port s = s\<lparr>s_port := port\<rparr>"
definition set_cert_strategy :: "cert_strategy \<Rightarrow> 'srv ad_interface \<Rightarrow> 'srv ad_interface" where
  "set_cert_strategy strategy s = s\<lparr>s_cert_strat := strategy\<rparr>"
definition set_domain_is_default :: "bool \<Rightarrow> 'srv ad_interface \<Rightarrow> 'srv ad_interface" where
  "set_domain_is_default is_default s = s\<lparr>s_domain_is_default := is_default\<rparr>"
definition set_custom_domain :: "qstring \<Rightarrow> 'srv ad_interface \<Rightarrow> 'srv ad_interface" where
  "set_custom_domain domain s = s\<lparr>s_custom_domain := domain\<rparr>"

section \<open>Authentication\<close>

text \<open>
  The requests of the SASL library, up to the end of its list, each answered with a text; a default
  may be missing (a null pointer).
\<close>

datatype sasl_callback = SASL_CB_GETREALM | SASL_CB_AUTHNAME | SASL_CB_PASS | SASL_CB_USER
  | SASL_CB_NOECHOPROMPT | SASL_CB_ECHOPROMPT | SASL_CB_OTHER int

record sasl_defaults_gssapi =
  mech :: qstring
  realm :: "qstring option"
  authcid :: "qstring option"
  passwd :: "qstring option"
  authzid :: "qstring option"

definition sasl_answer :: "sasl_defaults_gssapi option \<Rightarrow> sasl_callback \<times> qstring option \<Rightarrow> qstring" where
  "sasl_answer defaults interact =
     (let (callback_id, defresult) = interact;
          dflt = (case defaults of None \<Rightarrow> defresult | Some d \<Rightarrow>
            (case callback_id of SASL_CB_GETREALM \<Rightarrow> realm d | SASL_CB_AUTHNAME \<Rightarrow> authcid d | SASL_CB_PASS \<Rightarrow> passwd d
             | SASL_CB_USER \<Rightarrow> authzid d | _ \<Rightarrow> defresult))
      in case dflt of None \<Rightarrow> [] | Some s \<Rightarrow> s)"

definition sasl_interact_gssapi ::
  "bool \<Rightarrow> sasl_defaults_gssapi option \<Rightarrow> (sasl_callback \<times> qstring option) list \<Rightarrow> (qstring \<times> nat) list option" where
  "sasl_interact_gssapi ld_is_null defaults interacts =
     (if ld_is_null then None
      else Some (map (\<lambda>interact. let result = sasl_answer defaults interact in (result, length result)) interacts))"

end
