(* ===== verification/ReportFacts.thy ===== *)
theory ReportFacts
  imports GpoOperations
begin

text \<open>
  What the user is told: an operation whose messages are on adds an error message exactly when it
  returns false. The rules follow the structure of the operations; a locale states the contract and
  what follows from it for sequences of operations.
\<close>

named_theorems report_intros \<open>how messages follow the structure of an operation\<close>

definition adds :: "'srv ad_interface \<Rightarrow> 'srv ad_interface \<Rightarrow> bool \<Rightarrow> bool" where
  "adds s s' failed = (\<exists>ms. ad_messages s' = ad_messages s @ ms \<and> ((\<exists>m \<in> set ms. message_type m = AdMessageType_Error) \<longleftrightarrow> failed))"

lemma adds_refl [simp, intro]: "adds s s False"
  by (simp add: adds_def)

lemma adds_trans: "adds s t a \<Longrightarrow> adds t u b \<Longrightarrow> adds s u (a \<or> b)"
proof -
  assume "adds s t a" "adds t u b"
  then obtain ms ms' where "ad_messages t = ad_messages s @ ms" "(\<exists>m \<in> set ms. message_type m = AdMessageType_Error) \<longleftrightarrow> a"
    "ad_messages u = ad_messages t @ ms'" "(\<exists>m \<in> set ms'. message_type m = AdMessageType_Error) \<longleftrightarrow> b"
    unfolding adds_def by blast
  then show ?thesis unfolding adds_def by (intro exI [of _ "ms @ ms'"]) auto
qed

text \<open>No error message; an error message only with the result false; exactly with it.\<close>

definition quiet :: "('srv, 'a) ad_op \<Rightarrow> bool" where
  "quiet m = (\<forall>s x s'. m s = Inr (x, s') \<longrightarrow> adds s s' False)"

definition blames :: "('srv, bool) ad_op \<Rightarrow> bool" where
  "blames m = (\<forall>s b s'. m s = Inr (b, s') \<longrightarrow> (\<exists>e. adds s s' e \<and> (e \<longrightarrow> \<not> b)))"

definition reports :: "('srv, bool) ad_op \<Rightarrow> bool" where
  "reports m = (\<forall>s b s'. m s = Inr (b, s') \<longrightarrow> adds s s' (\<not> b))"

lemma quietI: "(\<And>s x s'. m s = Inr (x, s') \<Longrightarrow> adds s s' False) \<Longrightarrow> quiet m"
  by (simp add: quiet_def)

lemma quiet_basic [report_intros]:
  "quiet (give x)" "quiet (get_state f)" "quiet (call g)" "quiet (lift r)" "quiet (success_message txt do_msg)"
  "quiet (error_message ctxt err DoStatusMsg_No)"
  by (auto simp: quiet_def adds_def ad_simps success_message_def error_message_def append_message_def split: if_splits sum.splits)

lemma quiet_and_then [report_intros]: "quiet m \<Longrightarrow> (\<And>x. quiet (f x)) \<Longrightarrow> quiet (and_then m f)"
  unfolding quiet_def by (fastforce simp: ad_simps split: sum.splits prod.splits dest: adds_trans)

lemma quiet_after [report_intros]: "quiet m \<Longrightarrow> quiet f \<Longrightarrow> quiet (after m f)"
  unfolding after_def by (rule quiet_and_then)

lemma reports_and_then [report_intros]: "quiet m \<Longrightarrow> (\<And>x. reports (f x)) \<Longrightarrow> reports (and_then m f)"
  unfolding quiet_def reports_def by (fastforce simp: ad_simps split: sum.splits prod.splits dest: adds_trans)

lemma blames_and_then [report_intros]: "quiet m \<Longrightarrow> (\<And>x. blames (f x)) \<Longrightarrow> blames (and_then m f)"
  unfolding quiet_def blames_def by (fastforce simp: ad_simps split: sum.splits prod.splits dest: adds_trans)

lemma reports_blames: "reports m \<Longrightarrow> blames m"
  by (auto simp: reports_def blames_def)

lemma quiet_blames: "quiet m \<Longrightarrow> blames m"
  by (auto simp: quiet_def blames_def)

lemma reports_success [report_intros]: "reports (after (success_message txt do_msg) (give True))"
  by (auto simp: reports_def adds_def ad_simps success_message_def append_message_def)

lemma reports_error [report_intros]: "reports (after (error_message ctxt err DoStatusMsg_Yes) (give False))"
  by (auto simp: reports_def adds_def ad_simps error_message_def append_message_def)

lemma reports_error_default [report_intros]: "reports (after (error_message_default env ctxt DoStatusMsg_Yes) (give False))"
  by (auto simp: reports_def adds_def ad_simps error_message_default_def error_message_def append_message_def)

lemma reports_give [report_intros]: "reports (give True)"
  by (auto simp: reports_def ad_simps)

lemma quiet_report [report_intros]: "quiet (report env b txt ctxt DoStatusMsg_No)"
  by (auto simp: report_def error_message_default_def intro!: report_intros)

lemma reports_report [report_intros]: "reports (report env b txt ctxt DoStatusMsg_Yes)"
  by (auto simp: report_def intro!: report_intros)

text \<open>An operation that reports the result of another one.\<close>

lemma reports_inner: "blames m \<Longrightarrow> reports (and_then m (\<lambda>b. report env b (txt b) (ctxt b) DoStatusMsg_Yes))"
proof -
  assume m: "blames m"
  have "adds s s' (\<not> b)" if r: "and_then m (\<lambda>b. report env b (txt b) (ctxt b) DoStatusMsg_Yes) s = Inr (b, s')" for s b s'
  proof -
    obtain b' t where t: "m s = Inr (b', t)" "report env b' (txt b') (ctxt b') DoStatusMsg_Yes t = Inr (b, s')"
      using r by (auto simp: ad_simps split: sum.splits)
    obtain e where e: "adds s t e" "e \<longrightarrow> \<not> b'" using m t(1) unfolding blames_def by blast
    have "adds t s' (\<not> b)" using reports_report t(2) unfolding reports_def by blast
    moreover have "b = b'" using t(2) by (auto simp: report_def ad_simps split: if_splits sum.splits)
    ultimately show ?thesis using adds_trans [OF e(1)] e(2) by force
  qed
  then show ?thesis by (simp add: reports_def)
qed

lemma reports_for_each [report_intros]: "(\<And>x. reports (f x)) \<Longrightarrow> reports (for_each f xs)"
proof (induction xs)
  case Nil
  then show ?case by (auto intro: report_intros)
next
  case (Cons x xs)
  have "adds s s' (\<not> b)" if r: "for_each f (x # xs) s = Inr (b, s')" for s b s'
  proof -
    obtain c t where t: "f x s = Inr (c, t)" "(if c then for_each f xs else give False) t = Inr (b, s')"
      using r by (auto simp: ad_simps split: sum.splits)
    have "adds s t (\<not> c)" using Cons.prems t(1) unfolding reports_def by blast
    moreover have "c \<Longrightarrow> adds t s' (\<not> b)" using Cons t(2) unfolding reports_def by simp
    ultimately show ?thesis using t(2) adds_trans by (cases c) (force simp: ad_simps)+
  qed
  then show ?case by (simp add: reports_def)
qed

lemma if_intros [report_intros]:
  "(b \<Longrightarrow> quiet m) \<Longrightarrow> (\<not> b \<Longrightarrow> quiet m') \<Longrightarrow> quiet (if b then m else m')"
  "(b \<Longrightarrow> reports r) \<Longrightarrow> (\<not> b \<Longrightarrow> reports r') \<Longrightarrow> reports (if b then r else r')"
  "(b \<Longrightarrow> blames r) \<Longrightarrow> (\<not> b \<Longrightarrow> blames r') \<Longrightarrow> blames (if b then r else r')"
  by auto

text \<open>Messages do not touch the server.\<close>

lemma success_message_run: "\<exists>t. success_message txt do_msg s = Inr ((), t) \<and> server t = server s \<and> s_log_searches t = s_log_searches s"
  by (simp add: success_message_def append_message_def ad_simps)

lemma error_message_run: "\<exists>t. error_message ctxt err do_msg s = Inr ((), t) \<and> server t = server s \<and> s_log_searches t = s_log_searches s"
  by (simp add: error_message_def append_message_def ad_simps)

lemma report_run: "\<exists>t. report env b txt ctxt do_msg s = Inr (b, t) \<and> server t = server s \<and> s_log_searches t = s_log_searches s"
  using success_message_run [of "txt" do_msg s] error_message_run [of ctxt "default_error env s" do_msg s]
  by (cases b) (auto simp: report_def error_message_default_def ad_simps)

section \<open>The operations\<close>

lemma quiet_search_paged: "quiet (search_paged env base scope flt attributes get_sacl results cookie)"
  unfolding search_paged_def search_paged_internal_def create_sd_control_def Let_def prod.case
  by (intro report_intros) (auto split: prod.split option.split intro!: report_intros)

lemma quiet_search_loop: "quiet (search_loop n env base scope flt attributes get_sacl results cookie)"
proof (induction n arbitrary: results cookie)
  case (Suc n)
  show ?case unfolding search_loop.simps
    by (rule quiet_and_then [OF quiet_search_paged]) (auto split: prod.split intro!: report_intros Suc.IH)
qed (auto intro: report_intros)

lemma quiet_search [report_intros]: "quiet (search env base scope flt attributes get_sacl)"
  unfolding search_def by (rule quiet_and_then [OF quiet_search_loop]) (auto split: prod.split intro!: report_intros)

lemma quiet_search_object [report_intros]: "quiet (search_object env dn attributes get_sacl)"
  unfolding search_object_def by (intro report_intros)

lemma replace_values_messages [report_intros]:
  "reports (attribute_replace_values env dn attribute vals DoStatusMsg_Yes False)"
  "quiet (attribute_replace_values env dn attribute vals DoStatusMsg_No set_dacl)"
  unfolding attribute_replace_values_def create_sd_control_def Let_def prod.case
  by (intro report_intros; simp)+

lemma blames_replace_values: "blames (attribute_replace_values env dn attribute vals DoStatusMsg_Yes set_dacl)"
  unfolding attribute_replace_values_def create_sd_control_def Let_def prod.case
  by (intro report_intros reports_blames [OF reports_report] quiet_blames [OF quiet_basic(1)])

lemma replace_messages [report_intros]:
  "reports (attribute_replace_value env dn attribute val DoStatusMsg_Yes False)"
  "quiet (attribute_replace_value env dn attribute val DoStatusMsg_No set_dacl)"
  "reports (attribute_replace_string env dn attribute txt DoStatusMsg_Yes)"
  "quiet (attribute_replace_string env dn attribute txt DoStatusMsg_No)"
  "reports (attribute_replace_int env dn attribute n DoStatusMsg_Yes)"
  "quiet (attribute_replace_int env dn attribute n DoStatusMsg_No)"
  "reports (attribute_replace_datetime env dn attribute datetime)"
  unfolding attribute_replace_value_def attribute_replace_string_def attribute_replace_int_def attribute_replace_datetime_def
  by (intro report_intros)+

lemma value_messages [report_intros]:
  "reports (attribute_add_value env dn attribute val DoStatusMsg_Yes)"
  "quiet (attribute_add_value env dn attribute val DoStatusMsg_No)"
  "reports (attribute_delete_value env dn attribute val DoStatusMsg_Yes)"
  "quiet (attribute_delete_value env dn attribute val DoStatusMsg_No)"
  unfolding attribute_add_value_def attribute_delete_value_def Let_def by (intro report_intros)+

lemma wrong_parent_error [report_intros]:
  "reports (after (if w then error_message ctxt err DoStatusMsg_Yes else error_message_default env ctxt DoStatusMsg_Yes) (give False))"
  by (cases w) (auto intro: report_intros)

lemma object_messages [report_intros]:
  "reports (object_add_attributes env dn attrs)"
  "reports (object_add env dn object_class)"
  "reports (object_move env dn new_container)"
  "reports (object_rename env dn new_name)"
  unfolding object_add_def object_add_attributes_def object_move_def object_rename_def Let_def by (intro report_intros)+

lemma reports_object_delete [report_intros]: "reports (object_delete env dn DoStatusMsg_Yes)"
  unfolding object_delete_def object_delete_fallback_def delete_child_def Let_def by (intro report_intros)

lemma group_messages [report_intros]:
  "reports (group_add_member env group_dn user_dn)"
  "reports (group_remove_member env group_dn user_dn)"
  unfolding group_add_member_def group_remove_member_def Let_def
  by (rule reports_inner [OF quiet_blames], rule value_messages)+

lemma reports_set_type [report_intros]: "reports (group_set_type env dn type)"
  unfolding group_set_type_def Let_def
  by (rule reports_and_then, rule quiet_search_object, rule reports_inner [OF reports_blames], rule replace_messages)

lemma set_pass_messages [report_intros]:
  "reports (user_set_pass env dn password DoStatusMsg_Yes)"
  "quiet (user_set_pass env dn password DoStatusMsg_No)"
  unfolding user_set_pass_def error_message_default_def Let_def
  by (intro report_intros) (auto simp: error_message_default_def [symmetric] intro!: report_intros)+

lemma blames_cant_change_pass: "blames (ad_security_set_user_cant_change_pass env dn enabled)"
  unfolding ad_security_set_user_cant_change_pass_def get_dn_security_descriptor_def
    ad_security_replace_security_descriptor_def attribute_replace_value_def
  by (intro report_intros blames_replace_values)

lemma reports_account_option [report_intros]: "dn \<noteq> [] \<Longrightarrow> reports (user_set_account_option env dn option enabled)"
  unfolding user_set_account_option_def get_uac_def Let_def
  by (simp only: if_False, rule reports_inner)
    (intro if_intros blames_cant_change_pass quiet_blames report_intros)

lemma user_messages [report_intros]:
  "reports (user_unlock env dn)"
  "reports (computer_reset_account env dn)"
  unfolding user_unlock_def computer_reset_account_def Let_def
  by (rule reports_inner [OF reports_blames], rule replace_messages, rule reports_inner [OF quiet_blames], rule set_pass_messages)

end
