(* ===== verification/SearchFacts.thy ===== *)
theory SearchFacts
  imports LdapClient
begin

text \<open>
  Searching in pages. What the server sends is a relation between the cookie of a request and the
  pages from there on; the search puts them together, and the search for one object implements the
  function that the schema and the display specifiers are loaded with.
\<close>

section \<open>What the server sends\<close>

definition controls_ok :: "'srv ad_env \<Rightarrow> bool" where
  "controls_ok env = (ldap_control_create (ldap env) LDAP_SERVER_SD_FLAGS_OID = LDAP_SUCCESS
     \<and> ldap_create_page_control (ldap env) = LDAP_SUCCESS)"

definition page_reply :: "'srv ad_env \<Rightarrow> query \<Rightarrow> bytes option \<Rightarrow> 'srv \<Rightarrow> ldap_reply \<times> 'srv" where
  "page_reply env q cookie srv = ldap_search_ext (ldap env) (q_base q) (q_scope q) (q_filter q) (q_attributes q)
     [Page_Control page_size cookie, SD_Flags_Control (sd_flags (q_get_sacl q) False)] srv"

definition page_ok :: "ldap_reply \<Rightarrow> bool" where
  "page_ok reply = (reply_code reply \<in> {LDAP_SUCCESS, LDAP_PARTIAL_RESULTS} \<and> parse_code reply = LDAP_SUCCESS
     \<and> (case page_response reply of None \<Rightarrow> True | Some (code, _) \<Rightarrow> code = LDAP_SUCCESS))"

definition next_cookie :: "ldap_reply \<Rightarrow> bytes option" where
  "next_cookie reply = (case page_response reply of Some (_, c) \<Rightarrow> if c = [] then None else Some c | None \<Rightarrow> None)"

text \<open>The pages from a cookie on, whether they are complete, and the outside afterwards.\<close>

inductive serves ::
  "'srv ad_env \<Rightarrow> query \<Rightarrow> bytes option \<Rightarrow> 'srv \<Rightarrow> ldap_entry list list \<Rightarrow> bool \<Rightarrow> 'srv \<Rightarrow> bool" for env q where
  serves_last: "page_reply env q c srv = (reply, srv') \<Longrightarrow> page_ok reply \<Longrightarrow> next_cookie reply = None \<Longrightarrow>
    serves env q c srv [reply_entries reply] True srv'"
| serves_more: "page_reply env q c srv = (reply, srv') \<Longrightarrow> page_ok reply \<Longrightarrow> next_cookie reply = Some c' \<Longrightarrow>
    serves env q (Some c') srv' pages complete srv'' \<Longrightarrow>
    serves env q c srv (reply_entries reply # pages) complete srv''"
| serves_failed: "page_reply env q c srv = (reply, srv') \<Longrightarrow> \<not> page_ok reply \<Longrightarrow> serves env q c srv [] False srv'"

definition cookie_of :: "bytes option \<Rightarrow> ad_cookie" where
  "cookie_of c = (case c of None \<Rightarrow> No_Cookie | Some b \<Rightarrow> Cookie b)"

lemma cookie_of_simps [simp]:
  "cookie_bytes (cookie_of c) = Inr c" "more_pages (cookie_of c) \<longleftrightarrow> c \<noteq> None"
  "freed (cookie_of c) = (if c = None then No_Cookie else Freed_Cookie)"
  "freed No_Cookie = No_Cookie"
  by (auto simp: cookie_of_def cookie_bytes_def more_pages_def freed_def split: option.splits)

text \<open>One page.\<close>

lemma search_paged_page:
  assumes "controls_ok env" and "\<not> s_log_searches s"
    and "page_reply env (make_query base scope flt attributes get_sacl) c (server s) = (reply, srv')"
  shows "search_paged env base scope flt attributes get_sacl results (cookie_of c) s =
    Inr (if page_ok reply then (True, fold load_entry (reply_entries reply) results, cookie_of (next_cookie reply))
         else (False, [], freed (cookie_of c)), s\<lparr>server := srv'\<rparr>)"
proof -
  let ?q = "make_query base scope flt attributes get_sacl"
  have "search_paged_internal env ?q results (cookie_of c) s =
      Inr (if page_ok reply then (True, fold load_entry (reply_entries reply) results, cookie_of (next_cookie reply))
           else (False, if reply_code reply \<in> {LDAP_SUCCESS, LDAP_PARTIAL_RESULTS}
               then fold load_entry (reply_entries reply) results else results, freed (cookie_of c)), s\<lparr>server := srv'\<rparr>)"
    using assms(1,3)
    by (cases "page_response reply")
      (auto simp: search_paged_internal_def create_sd_control_def controls_ok_def page_reply_def page_ok_def next_cookie_def
        ad_simps Let_def cookie_of_def [of None] cookie_of_def [of "Some b" for b] split: prod.splits)
  then show ?thesis using assms(2) by (simp add: search_paged_def ad_simps split: if_splits)
qed

lemma search_loop_pages:
  assumes "serves env (make_query base scope flt attributes get_sacl) c srv pages complete srv'" and "controls_ok env"
    and "server s = srv" and "\<not> s_log_searches s" and "length pages < n"
  shows "search_loop n env base scope flt attributes get_sacl results (cookie_of c) s =
    Inr (if complete then (fold load_entry (concat pages) results, No_Cookie)
         else ([], if pages = [] then freed (cookie_of c) else Freed_Cookie), s\<lparr>server := srv'\<rparr>)"
  using assms
proof (induction arbitrary: n results s rule: serves.induct)
  case (serves_last c srv reply srv')
  then obtain m where m: "n = Suc m" by (cases n) auto
  show ?case using search_paged_page [OF serves_last.prems(1,3), of base scope flt attributes get_sacl c reply srv' results] serves_last
    by (simp add: m ad_simps) (simp add: cookie_of_def)
next
  case (serves_more c srv reply srv' c' pages complete srv'')
  then obtain m where m: "n = Suc m" by (cases n) auto
  have "search_loop m env base scope flt attributes get_sacl (fold load_entry (reply_entries reply) results) (cookie_of (Some c')) (s\<lparr>server := srv'\<rparr>) =
      Inr (if complete then (fold load_entry (concat pages) (fold load_entry (reply_entries reply) results), No_Cookie)
           else ([], if pages = [] then freed (cookie_of (Some c')) else Freed_Cookie), s\<lparr>server := srv''\<rparr>)"
    using serves_more.IH [of "s\<lparr>server := srv'\<rparr>" m] serves_more.prems m by simp
  then show ?case
    using search_paged_page [OF serves_more.prems(1,3), of base scope flt attributes get_sacl c reply srv' results] serves_more
    by (simp add: m ad_simps)
next
  case (serves_failed c srv reply srv')
  then obtain m where m: "n = Suc m" by (cases n) auto
  show ?case using search_paged_page [OF serves_failed.prems(1,3), of base scope flt attributes get_sacl c reply srv' results] serves_failed
    by (simp add: m ad_simps)
qed

text \<open>The keys of the results.\<close>

definition keyed :: "search_results \<Rightarrow> bool" where
  "keyed results = (distinct (map fst results) \<and> (\<forall>(dn, obj) \<in> set results. object_dn obj = dn))"

lemma set_update_keys: "fst ` set (AList.update k v al) = insert k (fst ` set al)"
  using update_keys [of k v al] by (auto simp flip: set_map)

lemma keyed_load: "keyed results \<Longrightarrow> keyed (load_entry e results)"
proof -
  assume k: "keyed results"
  have "object_dn obj = dn" if "(dn, obj) \<in> set (AList.update (fst e) o' results)" "object_dn o' = fst e" for dn obj o'
    using k that by (induction results) (auto simp: keyed_def split: if_splits)
  then show ?thesis using k by (auto simp: keyed_def load_entry_def distinct_update object_load_def)
qed

lemma keyed_fold: "keyed results \<Longrightarrow> keyed (fold load_entry es results)"
  by (induction es arbitrary: results) (auto simp: keyed_load)

lemma keys_fold: "fst ` set (fold load_entry es results) = fst ` set results \<union> fst ` set es"
  by (induction es arbitrary: results) (auto simp: load_entry_def set_update_keys)


text \<open>What every search returns is keyed by DN.\<close>

lemma search_paged_keyed:
  assumes "search_paged env base scope flt attributes get_sacl results cookie s = Inr ((ok, results', cookie'), s')" and "keyed results"
  shows "keyed results'"
  using assms
  by (auto simp: search_paged_def search_paged_internal_def ad_simps Let_def keyed_fold keyed_def [of "[]"]
      split: if_splits sum.splits prod.splits option.splits)

lemma search_loop_keyed:
  "search_loop n env base scope flt attributes get_sacl results cookie s = Inr ((results', cookie'), s') \<Longrightarrow> keyed results \<Longrightarrow> keyed results'"
proof (induction n arbitrary: results cookie s)
  case (Suc n)
  obtain ok r c t where p: "search_paged env base scope flt attributes get_sacl results cookie s = Inr ((ok, r, c), t)"
    using Suc.prems(1) by (auto simp: ad_simps split: sum.splits prod.splits)
  have "keyed r" using search_paged_keyed [OF p Suc.prems(2)] .
  then show ?case using Suc.prems(1) p Suc.IH [of r c t] by (auto simp: ad_simps split: if_splits)
qed (simp add: ad_simps)

lemma search_keyed: "search env base scope flt attributes get_sacl s = Inr (results, s') \<Longrightarrow> keyed results"
  using search_loop_keyed [of "fuel env" env base scope flt attributes get_sacl "[]" No_Cookie s]
  by (auto simp: search_def ad_simps keyed_def split: sum.splits prod.splits)

lemma permuted_keys:
  "mset (hash_keys env ks) = mset ks \<Longrightarrow> set (hash_keys env ks) = set ks"
  "mset (hash_keys env ks) = mset ks \<Longrightarrow> distinct (hash_keys env ks) = distinct ks"
  by (metis set_mset_mset) (metis mset_eq_imp_distinct_iff)

lemma keyed_find:
  assumes "keyed results" and "set ks = fst ` set results"
  shows "(case find (\<lambda>obj. object_dn obj = dn) (map (search_object_of results) ks) of Some obj \<Rightarrow> obj | None \<Rightarrow> empty_object) =
    search_object_of results dn"
proof -
  have key: "object_dn (search_object_of results k) = k" if "k \<in> fst ` set results" for k
    using that assms(1) map_of_SomeD by (force simp: search_object_of_def keyed_def map_of_eq_None_iff split: option.splits)
  have "find (\<lambda>obj. object_dn obj = dn) (map (search_object_of results) ks) =
      (if dn \<in> set ks then Some (search_object_of results dn) else None)"
    if "set ks \<subseteq> fst ` set results" for ks
    using that key by (induction ks) auto
  moreover have "map_of results dn = None" if "dn \<notin> set ks" using that assms(2) by (simp add: map_of_eq_None_iff)
  ultimately show ?thesis using assms(2) by (auto simp: search_object_of_def)
qed


end
