(* ===== verification/ExampleServer.thy ===== *)
theory ExampleServer
  imports GpoOperations DaclFacts
begin

text \<open>
  A small server on which the theorems about the interface are tried out: a list of objects that is
  searched one entry per page, and a tree of folders. It is an instance of the parameters of the
  model, not a part of the program.
\<close>

record example_server =
  ex_objects :: "(qstring \<times> (qstring \<times> bytes list) list) list"
  ex_code :: ldap_code
  ex_files :: "(qstring \<times> qstring list option) list"
  ex_reading :: "qstring list"

definition ex_position :: "ldap_control list \<Rightarrow> nat" where
  "ex_position controls = (case controls of Page_Control n (Some (b # _)) # _ \<Rightarrow> unat b | _ \<Rightarrow> 0)"

definition ex_matches :: "qstring \<Rightarrow> ldap_scope \<Rightarrow> example_server \<Rightarrow> (qstring \<times> (qstring \<times> bytes list) list) list" where
  "ex_matches base scope srv =
     filter (\<lambda>(dn, _). if scope = LDAP_SCOPE_BASE then dn = base else ends_with dn base) (ex_objects srv)"

definition ex_search :: "qstring \<Rightarrow> ldap_scope \<Rightarrow> qstring option \<Rightarrow> qstring list option \<Rightarrow> ldap_control list \<Rightarrow> example_server \<Rightarrow> ldap_reply \<times> example_server" where
  "ex_search base scope flt attributes controls srv =
     (let found = ex_matches base scope srv; pos = ex_position controls
      in (\<lparr>reply_code = (if found = [] then LDAP_NO_SUCH_OBJECT else LDAP_SUCCESS),
           reply_entries = map (\<lambda>(dn, attrs). (dn, map (\<lambda>(a, vs). (a, Some vs)) attrs)) (take 1 (drop pos found)),
           parse_code = LDAP_SUCCESS,
           page_response = Some (LDAP_SUCCESS, if pos + 1 < length found then [of_nat (pos + 1)] else [])\<rparr>, srv))"

definition ex_modify :: "qstring \<Rightarrow> ldap_mod list \<Rightarrow> ldap_control list \<Rightarrow> example_server \<Rightarrow> ldap_code \<times> example_server" where
  "ex_modify dn mods controls srv =
     (case (map_of (ex_objects srv) dn, mods) of
        (Some attrs, [m]) \<Rightarrow> (LDAP_SUCCESS, srv\<lparr>ex_objects := AList.update dn (AList.update (mod_type m) (mod_values m) attrs) (ex_objects srv)\<rparr>)
      | _ \<Rightarrow> (LDAP_NO_SUCH_OBJECT, srv\<lparr>ex_code := LDAP_NO_SUCH_OBJECT\<rparr>))"

definition ex_delete :: "qstring \<Rightarrow> ldap_control list \<Rightarrow> example_server \<Rightarrow> ldap_code \<times> example_server" where
  "ex_delete dn controls srv =
     (if map_of (ex_objects srv) dn = None then (LDAP_NO_SUCH_OBJECT, srv)
      else if list_ex (\<lambda>(d, _). ends_with d (CHR '','' # dn)) (ex_objects srv) then (LDAP_NOT_ALLOWED_ON_NONLEAF, srv)
      else (LDAP_SUCCESS, srv\<lparr>ex_objects := filter (\<lambda>(d, _). d \<noteq> dn) (ex_objects srv)\<rparr>))"

definition ex_readdir :: "int \<Rightarrow> example_server \<Rightarrow> qstring option \<times> example_server" where
  "ex_readdir h srv = (case ex_reading srv of [] \<Rightarrow> (None, srv) | x # xs \<Rightarrow> (Some x, srv\<lparr>ex_reading := xs\<rparr>))"

definition example_ldap :: "example_server ldap_api" where
  "example_ldap = \<lparr>ldap_search_ext = ex_search, ldap_modify_ext = ex_modify,
     ldap_add_ext = (\<lambda>dn mods srv. (LDAP_SUCCESS, srv\<lparr>ex_objects := ex_objects srv @ [(dn, map (\<lambda>m. (mod_type m, mod_values m)) mods)]\<rparr>)),
     ldap_delete_ext = ex_delete, ldap_rename = (\<lambda>dn rdn parent srv. (LDAP_UNWILLING_TO_PERFORM, srv)),
     ldap_option_result_code = ex_code, ldap_err2string = (\<lambda>_. ''error''), ldap_create_page_control = LDAP_SUCCESS,
     ldap_control_create = (\<lambda>_. LDAP_SUCCESS), LDAP_CONTROL_X_TREE_DELETE = ''1.2.840.113556.1.4.805''\<rparr>"

definition example_smb :: "example_server smb_api" where
  "example_smb = \<lparr>smb_context_valid = True,
     smbc_stat = (\<lambda>path srv. (map_option (\<lambda>children. children \<noteq> None) (map_of (ex_files srv) path), srv)),
     smbc_mkdir = (\<lambda>path srv. (0, srv)), smbc_create = (\<lambda>path srv. (3, srv)), smbc_open = (\<lambda>path srv. (3, srv)),
     smbc_write = (\<lambda>fd txt srv. (int (length txt), srv)), smbc_read = (\<lambda>fd n srv. (Some [], srv)), smbc_close = (\<lambda>fd srv. srv),
     smbc_opendir = (\<lambda>path srv. (3, srv\<lparr>ex_reading := (case map_of (ex_files srv) path of Some (Some names) \<Rightarrow> names | _ \<Rightarrow> [])\<rparr>)),
     smbc_readdir = ex_readdir, smbc_closedir = (\<lambda>fd srv. srv),
     smbc_rmdir = (\<lambda>path srv. (0, srv)), smbc_unlink = (\<lambda>path srv. (0, srv)),
     smbc_setxattr = (\<lambda>path txt srv. (0, srv)), smbc_getxattr = (\<lambda>path size srv. (Some [], srv)),
     smb_errno = (\<lambda>srv. 0), clear_errno = (\<lambda>srv. srv), ERANGE = 34, strerror = (\<lambda>n. ''error''),
     uuid_generate_random = (\<lambda>srv. (''FF7E0880-F3AD-4540-8F1D-4472CB4A7044'', srv))\<rparr>"

definition example_display :: display_env where
  "example_display = \<lparr>local_time_text = (\<lambda>_. []), time_zone_text = (\<lambda>_. []), memory_after = (\<lambda>_. 0), hash_order = id, rid_value = (\<lambda>_. 0)\<rparr>"

definition example_gpt :: gpt_api where
  "example_gpt = \<lparr>SEC_STD_SYNCHRONIZE = 0x100000, SEC_DIR_LIST = 1, SEC_DIR_READ_ATTRIBUTE = 0x80, SEC_DIR_READ_EA = 8,
     SEC_DIR_TRAVERSE = 0x20, SEC_DIR_WRITE_ATTRIBUTE = 0x100, SEC_DIR_WRITE_EA = 0x10, SEC_DIR_ADD_FILE = 2,
     SEC_DIR_ADD_SUBDIR = 4, SEC_DIR_DELETE_CHILD = 0x40, SEC_ACE_FLAG_OBJECT_INHERIT = 1,
     SID_BUILTIN_PREW2K = ''S-1-5-32-554'', SID_CREATOR_OWNER = ''S-1-3-0''\<rparr>"

text \<open>Every descriptor that is present is the empty one.\<close>

definition example_env :: "example_server ad_env" where
  "example_env = \<lparr>ldap = example_ldap, smb = example_smb, adconfig = Some empty_config, display = example_display,
     sec = example_api, gpt = example_gpt,
     decode_sd_header = (\<lambda>_. \<lparr>sd_revision = 1, sd_owner = Some (example_sid 5), sd_has_sacl = True\<rparr>),
     decode_sd = (\<lambda>b. if b = [] then None else Some (example_sd [])), encode_sd = (\<lambda>_. [1]),
     hash_keys = id, writes_bom = False, fuel = 10\<rparr>"

definition example_state :: "(qstring \<times> (qstring \<times> bytes list) list) list \<Rightarrow> (qstring \<times> qstring list option) list \<Rightarrow> example_server ad_interface" where
  "example_state objects files = \<lparr>server = \<lparr>ex_objects = objects, ex_code = LDAP_SUCCESS, ex_files = files, ex_reading = []\<rparr>,
     ad_messages = [], is_connected = True, ad_domain = ''domain.alt'', ad_dc = ''dc.domain.alt'', client_user = ''administrator@domain.alt'',
     s_log_searches = False, s_dc = [], s_custom_dc = None, s_domain_is_default = True, s_custom_domain = [],
     s_sasl_nocanon = True, s_port = 0, s_cert_strat = CertStrategy_Never\<rparr>"

lemma example_env_fields [simp]:
  "ldap example_env = example_ldap" "smb example_env = example_smb" "adconfig example_env = Some empty_config"
  "sec example_env = example_api" "hash_keys example_env = id" "fuel example_env = 10" "writes_bom example_env = False"
  "decode_sd example_env = (\<lambda>b. if b = [] then None else Some (example_sd []))"
  by (simp_all add: example_env_def)

lemma example_ldap_fields [simp]:
  "ldap_search_ext example_ldap = ex_search" "ldap_modify_ext example_ldap = ex_modify" "ldap_delete_ext example_ldap = ex_delete"
  "ldap_create_page_control example_ldap = LDAP_SUCCESS" "ldap_control_create example_ldap oid = LDAP_SUCCESS"
  by (simp_all add: example_ldap_def)

lemma example_state_fields [simp]:
  "ex_objects (server (example_state objects files)) = objects" "ex_files (server (example_state objects files)) = files"
  "ad_messages (example_state objects files) = []" "s_log_searches (example_state objects files) = False"
  by (simp_all add: example_state_def)

end
