(* ===== verification/ReportedErrors.thy ===== *)
theory ReportedErrors
  imports ReportFacts SearchFacts ExampleServer
begin

text \<open>
  The contract on messages as a locale, with the operations that keep it as its interpretations, and
  the properties of the interface that rest on it: failures are told, and searches in pages.
\<close>

section \<open>The contract\<close>

locale reporting =
  fixes operation :: "('srv, bool) ad_op"
  assumes told: "operation s = Inr (b, s') \<Longrightarrow> adds s s' (\<not> b)"
begin

lemma messages_kept: "operation s = Inr (b, s') \<Longrightarrow> prefix (ad_messages s) (ad_messages s')"
  using told unfolding adds_def prefix_def by blast

lemma any_error_after: "operation s = Inr (b, s') \<Longrightarrow> any_error_messages s' \<longleftrightarrow> any_error_messages s \<or> \<not> b"
  using told [of s b s'] by (auto simp: adds_def any_error_messages_def)

end

lemma reporting_reports: "reports m \<Longrightarrow> reporting m"
  by unfold_locales (simp add: reports_def)

interpretation replacing: reporting "attribute_replace_string env dn attribute val DoStatusMsg_Yes" for env dn attribute val
  by (intro reporting_reports report_intros)

interpretation adding_value: reporting "attribute_add_value env dn attribute val DoStatusMsg_Yes" for env dn attribute val
  by (intro reporting_reports report_intros)

interpretation deleting_value: reporting "attribute_delete_value env dn attribute val DoStatusMsg_Yes" for env dn attribute val
  by (intro reporting_reports report_intros)

interpretation adding: reporting "object_add_attributes env dn attrs" for env dn attrs
  by (intro reporting_reports report_intros)

interpretation deleting: reporting "object_delete env dn DoStatusMsg_Yes" for env dn
  by (intro reporting_reports report_intros)

interpretation moving: reporting "object_move env dn new_container" for env dn new_container
  by (intro reporting_reports report_intros)

interpretation renaming: reporting "object_rename env dn new_name" for env dn new_name
  by (intro reporting_reports report_intros)

interpretation adding_member: reporting "group_add_member env group_dn user_dn" for env group_dn user_dn
  by (intro reporting_reports report_intros)

interpretation removing_member: reporting "group_remove_member env group_dn user_dn" for env group_dn user_dn
  by (intro reporting_reports report_intros)

interpretation setting_type: reporting "group_set_type env dn type" for env dn type
  by (intro reporting_reports report_intros)

interpretation setting_password: reporting "user_set_pass env dn password DoStatusMsg_Yes" for env dn password
  by (intro reporting_reports report_intros)

interpretation unlocking: reporting "user_unlock env dn" for env dn
  by (intro reporting_reports report_intros)

interpretation resetting: reporting "computer_reset_account env dn" for env dn
  by (intro reporting_reports report_intros)

text \<open>The operations of the interface that change the directory and return whether they did.\<close>

inductive told_operation :: "'srv ad_env \<Rightarrow> ('srv, bool) ad_op \<Rightarrow> bool" for env where
  "told_operation env (attribute_replace_string env dn attribute val DoStatusMsg_Yes)"
| "told_operation env (attribute_add_value env dn attribute val DoStatusMsg_Yes)"
| "told_operation env (attribute_delete_value env dn attribute val DoStatusMsg_Yes)"
| "told_operation env (object_add_attributes env dn attrs)"
| "told_operation env (object_delete env dn DoStatusMsg_Yes)"
| "told_operation env (object_move env dn new_container)"
| "told_operation env (object_rename env dn new_name)"
| "told_operation env (group_add_member env group_dn user_dn)"
| "told_operation env (group_remove_member env group_dn user_dn)"
| "told_operation env (group_set_type env dn type)"
| "told_operation env (user_set_pass env dn password DoStatusMsg_Yes)"
| "dn \<noteq> [] \<Longrightarrow> told_operation env (user_set_account_option env dn option enabled)"
| "told_operation env (user_unlock env dn)"
| "told_operation env (computer_reset_account env dn)"

lemma told_operation_adds: "told_operation env m \<Longrightarrow> m s = Inr (b, s') \<Longrightarrow> adds s s' (\<not> b)"
proof (induction rule: told_operation.induct)
  case (12 dn option enabled)
  then show ?case using reports_account_option unfolding reports_def by blast
qed (auto dest: replacing.told adding_value.told deleting_value.told adding.told deleting.told moving.told renaming.told
    adding_member.told removing_member.told setting_type.told setting_password.told unlocking.told resetting.told)

fun run_operations :: "('srv, bool) ad_op list \<Rightarrow> ('srv, bool list) ad_op" where
  "run_operations [] = give []"
| "run_operations (m # ms) = and_then m (\<lambda>b. and_then (run_operations ms) (\<lambda>bs. give (b # bs)))"

lemma run_operations_adds:
  "run_operations ms s = Inr (bs, s') \<Longrightarrow> \<forall>m \<in> set ms. told_operation env m \<Longrightarrow> adds s s' (False \<in> set bs)"
proof (induction ms arbitrary: s bs)
  case (Cons m ms)
  obtain b t cs where m: "m s = Inr (b, t)" "run_operations ms t = Inr (cs, s')" "bs = b # cs"
    using Cons.prems(1) by (auto simp: ad_simps split: sum.splits prod.splits)
  have "adds s t (\<not> b)" using told_operation_adds m(1) Cons.prems(2) by force
  moreover have "adds t s' (False \<in> set cs)" using Cons m(2) by simp
  ultimately show ?case using adds_trans m(3) by fastforce
qed (simp add: ad_simps)


lemma example_add_member:
  "\<exists>b s'. group_add_member example_env ''g'' ''u'' s = Inr (b, s') \<and> (b \<longleftrightarrow> map_of (ex_objects (server s)) ''g'' \<noteq> None)"
  by (auto simp: group_add_member_def attribute_add_value_def report_def error_message_default_def Let_def ad_simps ex_modify_def
      success_message_def error_message_def append_message_def split: option.split)


section \<open>Searching\<close>

lemma example_controls: "controls_ok example_env"
  by (simp add: controls_ok_def)



end
