(* ===== verification/DeleteFacts.thy ===== *)
theory DeleteFacts
  imports ReportedErrors
begin

text \<open>
  Deleting an object and what is below it (\<open>AdInterface::object_delete\<close>), against a directory in which
  only objects without children can be deleted.
\<close>

section \<open>Deepest first\<close>

definition below :: "qstring \<Rightarrow> qstring \<Rightarrow> bool" where
  "below d dn = (\<exists>p. d = p @ CHR '','' # dn)"

definition subtree :: "qstring \<Rightarrow> qstring set \<Rightarrow> qstring set" where
  "subtree dn dns = {d \<in> dns. d = dn \<or> below d dn}"

lemma below_depth: "below d dn \<Longrightarrow> count_list dn (CHR '','') < count_list d (CHR '','')"
  by (auto simp: below_def count_list_append)

lemma below_trans: "below a b \<Longrightarrow> below b c \<Longrightarrow> below a c"
  unfolding below_def by (metis append_Cons append_assoc)

lemma sort_by_depth_props:
  "mset (sort_by_depth ks) = mset ks"
  "sort_by_depth ks = xs @ k # ys \<Longrightarrow> d \<in> set ys \<Longrightarrow> \<not> below d k"
proof -
  show "mset (sort_by_depth ks) = mset ks" by (simp add: sort_by_depth_def)
  assume s: "sort_by_depth ks = xs @ k # ys" "d \<in> set ys"
  have "sorted (map (\<lambda>dn. - int (count_list dn (CHR '',''))) (sort_by_depth ks))" by (simp add: sort_by_depth_def)
  then have "- int (count_list k (CHR '','')) \<le> - int (count_list d (CHR '',''))"
    using s by (simp add: sorted_append)
  then show "\<not> below d k" using below_depth by fastforce
qed

section \<open>A directory without tree deletion\<close>

text \<open>
  \<open>hold dns\<close> is the outside while the directory holds these DNs, out of those it had at first. An object
  is deleted when it exists and nothing is below it (RFC 4511, 4.8).
\<close>

definition deletes_leaves :: "'srv ad_env \<Rightarrow> (qstring set \<Rightarrow> 'srv) \<Rightarrow> qstring set \<Rightarrow> bool" where
  "deletes_leaves env hold dns0 = (\<forall>dns k. dns \<subseteq> dns0 \<longrightarrow> ldap_delete_ext (ldap env) k [] (hold dns) =
     (if k \<notin> dns then (LDAP_NO_SUCH_OBJECT, hold dns)
      else if \<exists>d \<in> dns. below d k then (LDAP_NOT_ALLOWED_ON_NONLEAF, hold dns)
      else (LDAP_SUCCESS, hold (dns - {k}))))"

lemma delete_child_run:
  "\<exists>t. delete_child env ctxt do_msg k s = Inr (fst (ldap_delete_ext (ldap env) k [] (server s)) = LDAP_SUCCESS, t)
    \<and> server t = snd (ldap_delete_ext (ldap env) k [] (server s))"
  unfolding delete_child_def and_then_run call_run sum.case prod.case
  using report_run [of env _ _ ctxt do_msg "s\<lparr>server := snd (ldap_delete_ext (ldap env) k [] (server s))\<rparr>"] by force

lemma delete_children_run:
  assumes "deletes_leaves env hold dns0" and "distinct ks" and "set ks \<subseteq> dns" and "dns \<subseteq> dns0"
    and "\<And>k d. k \<in> set ks \<Longrightarrow> d \<in> dns \<Longrightarrow> below d k \<Longrightarrow> d \<in> set ks"
    and "\<And>xs k ys d. ks = xs @ k # ys \<Longrightarrow> d \<in> set ys \<Longrightarrow> \<not> below d k"
    and "server s = hold dns"
  shows "\<exists>s'. for_each (delete_child env ctxt do_msg) ks s = Inr (True, s') \<and> server s' = hold (dns - set ks)"
  using assms(2-)
proof (induction ks arbitrary: dns s)
  case (Cons k ks)
  have "\<not> below d k" if "d \<in> dns" for d
  proof
    assume b: "below d k"
    then have "d \<in> set (k # ks)" using Cons.prems(4) [of k d] that by simp
    moreover have "d \<noteq> k" using b below_depth by blast
    ultimately show False using Cons.prems(5) [of "[]" k ks d] b by simp
  qed
  then have "ldap_delete_ext (ldap env) k [] (hold dns) = (LDAP_SUCCESS, hold (dns - {k}))"
    using assms(1) Cons.prems(2,3) unfolding deletes_leaves_def by auto
  then obtain t where t: "delete_child env ctxt do_msg k s = Inr (True, t)" "server t = hold (dns - {k})"
    using Cons.prems(6) delete_child_run [of env ctxt do_msg k s] by auto
  have "\<exists>s'. for_each (delete_child env ctxt do_msg) ks t = Inr (True, s') \<and> server s' = hold (dns - {k} - set ks)"
  proof (rule Cons.IH)
    show "distinct ks" "set ks \<subseteq> dns - {k}" "dns - {k} \<subseteq> dns0" "server t = hold (dns - {k})" using Cons.prems(1-3) t(2) by auto
    show "d \<in> set ks" if "k' \<in> set ks" "d \<in> dns - {k}" "below d k'" for k' d
      using Cons.prems(4) [of k' d] that by auto
    show "\<not> below d k'" if "ks = xs @ k' # ys" "d \<in> set ys" for xs k' ys d
      using Cons.prems(5) [of "k # xs" k' ys d] that by simp
  qed
  then show ?case using t(1) by (simp add: ad_simps Diff_insert2 [symmetric])
qed (simp add: ad_simps)


text \<open>A directory of two objects, one below the other.\<close>

definition example_objects :: "(qstring \<times> (qstring \<times> bytes list) list) list" where
  "example_objects = [(''DC=c'', [(ATTRIBUTE_SECURITY_DESCRIPTOR, [[1]])]), (''CN=a,DC=c'', [(ATTRIBUTE_SECURITY_DESCRIPTOR, [[1]])])]"

definition example_hold :: "qstring set \<Rightarrow> example_server" where
  "example_hold dns = (server (example_state [] []))\<lparr>ex_objects := filter (\<lambda>(d, _). d \<in> dns) example_objects\<rparr>"

lemma below_ends_with: "below d dn \<longleftrightarrow> ends_with d (CHR '','' # dn)"
  by (simp add: below_def ends_with_iff)

lemma example_deletes: "deletes_leaves example_env example_hold {''DC=c'', ''CN=a,DC=c''}"
  unfolding deletes_leaves_def
proof (intro allI impI)
  fix dns k assume dns: "dns \<subseteq> {''DC=c'', ''CN=a,DC=c''}"
  let ?objs = "filter (\<lambda>(d, _). d \<in> dns) example_objects"
  have 1: "map_of ?objs k = None \<longleftrightarrow> k \<notin> dns" using dns by (auto simp: example_objects_def map_of_eq_None_iff)
  have "fst ` set ?objs = dns" using dns by (auto simp: example_objects_def)
  then have 2: "list_ex (\<lambda>(d, _). ends_with d (CHR '','' # k)) ?objs \<longleftrightarrow> (\<exists>d \<in> dns. below d k)"
    unfolding below_ends_with list_ex_iff by force
  have 3: "filter (\<lambda>(d, _). d \<noteq> k) ?objs = filter (\<lambda>(d, _). d \<in> dns - {k}) example_objects"
    unfolding filter_filter by (rule filter_cong) auto
  have objs: "ex_objects (example_hold dns) = ?objs" by (simp add: example_hold_def)
  show "ldap_delete_ext (ldap example_env) k [] (example_hold dns) =
     (if k \<notin> dns then (LDAP_NO_SUCH_OBJECT, example_hold dns)
      else if \<exists>d \<in> dns. below d k then (LDAP_NOT_ALLOWED_ON_NONLEAF, example_hold dns)
      else (LDAP_SUCCESS, example_hold (dns - {k})))"
    by (simp only: example_env_fields example_ldap_fields ex_delete_def objs 1 2 3) (simp add: example_hold_def)
qed


text \<open>
  Deleting an object that is not there crashes: when the server refuses, nothing is found under the DN
  and no bytes decode to no descriptor, the check for protection reads through a null pointer.
\<close>

theorem object_delete_missing:
  assumes "ldap_control_create (ldap env) (LDAP_CONTROL_X_TREE_DELETE (ldap env)) = LDAP_SUCCESS" and "adconfig env = Some cfg"
    and "\<And>controls. \<exists>code. code \<noteq> LDAP_SUCCESS \<and> ldap_delete_ext (ldap env) dn controls (server s) = (code, server s)"
    and "search env dn SearchScope_All [] [ATTRIBUTE_DN, ATTRIBUTE_SECURITY_DESCRIPTOR] False s = Inr ([], s)"
    and "decode_sd env [] = None"
  shows "object_delete env dn do_msg s = Inl Null_Dereference"
proof -
  have fallback: "object_delete_fallback env dn do_msg ctxt s = Inl Null_Dereference" for ctxt
    using assms(4,5)
    by (simp add: object_delete_fallback_def ad_simps hash_subscript_def search_object_of_def get_security_descriptor_def
        get_value_def get_values_def empty_object_def ad_security_get_protected_against_deletion_def deref_sd_def Let_def)
  obtain code where "code \<noteq> LDAP_SUCCESS" "ldap_delete_ext (ldap env) dn
      (if control_is_supported cfg (LDAP_CONTROL_X_TREE_DELETE (ldap env)) then [Tree_Delete_Control] else []) (server s) = (code, server s)"
    using assms(3) by blast
  then show ?thesis using assms(1,2) by (auto simp: object_delete_def ad_simps config_of_def Let_def fallback)
qed

theorem object_delete_missing_witness:
  "object_delete example_env ''CN=gone,c'' DoStatusMsg_Yes (example_state [] []) = Inl Null_Dereference"
proof (rule object_delete_missing)
  have "page_reply example_env (make_query ''CN=gone,c'' SearchScope_All [] [ATTRIBUTE_DN, ATTRIBUTE_SECURITY_DESCRIPTOR] False) None
      (server (example_state [] [])) = (\<lparr>reply_code = LDAP_NO_SUCH_OBJECT, reply_entries = [], parse_code = LDAP_SUCCESS,
      page_response = Some (LDAP_SUCCESS, [])\<rparr>, server (example_state [] []))"
    by (simp add: page_reply_def ex_search_def ex_matches_def Let_def)
  from search_loop_pages [OF serves_failed [OF this] example_controls refl, of 10 "[]"]
  show "search example_env ''CN=gone,c'' SearchScope_All [] [ATTRIBUTE_DN, ATTRIBUTE_SECURITY_DESCRIPTOR] False (example_state [] []) =
      Inr ([], example_state [] [])"
    by (simp add: page_ok_def search_def ad_simps destroy_cookie_def cookie_of_def)
qed (simp_all add: ex_delete_def Let_def)

end
