(* ===== verification/AccountFacts.thy ===== *)
theory AccountFacts
  imports ReportedErrors
begin

text \<open>
  Account options and the scope of a group: what is read from the directory after an operation that
  reads a mask, changes bits of it and writes it back. The directory is abstract: \<open>hold m\<close> is the
  outside while the attribute holds the mask \<open>m\<close>, as the decimal text of a signed integer.
\<close>

section \<open>Attributes that hold a mask\<close>

text \<open>Reading the attribute of an object, which leaves everything as it is.\<close>

definition reads :: "'srv ad_env \<Rightarrow> 'srv \<Rightarrow> qstring \<Rightarrow> qstring \<Rightarrow> ad_object \<Rightarrow> bool" where
  "reads env srv dn a obj = (\<forall>s. server s = srv \<longrightarrow> \<not> s_log_searches s \<longrightarrow> search_object env dn [a] False s = Inr (obj, s))"

definition mask_value :: "mask \<Rightarrow> bytes" where
  "mask_value m = bytes_of_string (number (sint m))"

definition holds_mask :: "'srv ad_env \<Rightarrow> (mask \<Rightarrow> 'srv) \<Rightarrow> qstring \<Rightarrow> qstring \<Rightarrow> (mask \<Rightarrow> ad_object) \<Rightarrow> bool" where
  "holds_mask env hold dn a obj = (\<forall>m. reads env (hold m) dn a (obj m) \<and> attributes_data (obj m) a = Some [mask_value m])"

lemma sint_in_range: "in_range 32 (sint (m :: mask))"
  using sint_range_size [of m] by (simp add: in_range_def word_size)

lemma get_mask_value: "attributes_data obj a = Some [mask_value m] \<Longrightarrow> get_mask obj a = m"
  by (simp add: get_mask_def get_int_def get_ints_def get_strings_def get_values_def mask_value_def to_int_number [OF sint_in_range] or_zero_def)

lemma replace_values_run:
  assumes "reads env (server s) dn a obj" and "\<not> s_log_searches s" and "vals \<noteq> [] \<or> get_values obj a \<noteq> []"
  shows "\<exists>t. attribute_replace_values env dn a vals do_msg False s =
      Inr (fst (ldap_modify_ext (ldap env) dn [\<lparr>mod_op = LDAP_MOD_REPLACE, mod_type = a, mod_values = vals\<rparr>] [] (server s)) = LDAP_SUCCESS, t)
    \<and> server t = snd (ldap_modify_ext (ldap env) dn [\<lparr>mod_op = LDAP_MOD_REPLACE, mod_type = a, mod_values = vals\<rparr>] [] (server s))
    \<and> \<not> s_log_searches t"
proof -
  have r: "search_object env dn [a] False s = Inr (obj, s)" using assms(1,2) by (simp add: reads_def)
  show ?thesis
    unfolding attribute_replace_values_def and_then_run r sum.case prod.case Let_def create_sd_control_def call_run
    using assms(2,3) report_run [of env "fst (ldap_modify_ext (ldap env) dn [\<lparr>mod_op = LDAP_MOD_REPLACE, mod_type = a, mod_values = vals\<rparr>] [] (server s)) = LDAP_SUCCESS" _ _ do_msg
        "s\<lparr>server := snd (ldap_modify_ext (ldap env) dn [\<lparr>mod_op = LDAP_MOD_REPLACE, mod_type = a, mod_values = vals\<rparr>] [] (server s))\<rparr>"]
    by (auto simp: and_then_run call_run)
qed

lemma replace_mask_run:
  assumes "reads env (server s) dn a obj" and "\<not> s_log_searches s"
    and "ldap_modify_ext (ldap env) dn [\<lparr>mod_op = LDAP_MOD_REPLACE, mod_type = a, mod_values = [mask_value m]\<rparr>] [] (server s) = (code, srv')"
  shows "\<exists>t. attribute_replace_int env dn a (sint m) do_msg s = Inr (code = LDAP_SUCCESS, t) \<and> server t = srv' \<and> \<not> s_log_searches t"
proof -
  have "bytes_of_string (number (sint m)) \<noteq> []" by (simp add: bytes_of_string_def)
  then have "attribute_replace_int env dn a (sint m) do_msg s = attribute_replace_values env dn a [mask_value m] do_msg False s"
    by (simp add: attribute_replace_int_def attribute_replace_string_def attribute_replace_value_def value_to_list_def mask_value_def)
  then show ?thesis using replace_values_run [OF assms(1,2), of "[mask_value m]" do_msg] assms(3) by simp
qed

section \<open>Account options\<close>

lemma and_power: "m AND 2 ^ n = (if bit m n then 2 ^ n else 0)" for m :: mask
  by (rule bit_eqI) (auto simp: bit_and_iff bit_exp_iff)

lemma option_bit_read:
  "option_has_bit opt \<Longrightarrow> (m AND account_option_bit opt \<noteq> 0) = bitmask_is_set m (account_option_bit opt)"
proof -
  assume has: "option_has_bit opt"
  have "\<exists>n \<in> {1, 7, 16, 18, 19, 20, 21, 22}. account_option_bit opt = 2 ^ n"
    using has by (cases opt) (simp_all add: option_has_bit_def)
  then obtain n where n: "account_option_bit opt = 2 ^ n" by blast
  have "(2 :: mask) ^ n \<noteq> 0" using has n by (simp add: option_has_bit_def)
  then show ?thesis unfolding bitmask_is_set_def n and_power by simp
qed

lemma get_account_option_bit:
  assumes "attributes_data obj ATTRIBUTE_USER_ACCOUNT_CONTROL = Some [mask_value m]" and "option_has_bit opt"
  shows "get_account_option env obj opt = Inr (bitmask_is_set m (account_option_bit opt))"
proof -
  have "opt \<noteq> AccountOption_CantChangePassword" "opt \<noteq> AccountOption_PasswordExpired"
    using assms(2) by (auto simp: option_has_bit_def)
  then show ?thesis using assms get_mask_value [OF assms(1)] option_bit_read [OF assms(2)]
    by (simp add: get_account_option_def object_contains_def)
qed

text \<open>
  C26. Turning an account option that is a bit of userAccountControl on or off succeeds when the
  directory stores what it is told, and afterwards the option reads as it was set and every other
  such option as before.
\<close>

theorem account_option_set:
  assumes "holds_mask env hold dn ATTRIBUTE_USER_ACCOUNT_CONTROL obj"
    and "\<And>m m'. ldap_modify_ext (ldap env) dn [\<lparr>mod_op = LDAP_MOD_REPLACE, mod_type = ATTRIBUTE_USER_ACCOUNT_CONTROL,
      mod_values = [mask_value m']\<rparr>] [] (hold m) = (LDAP_SUCCESS, hold m')"
    and "dn \<noteq> []" and "option_has_bit option" and "server s = hold m" and "\<not> s_log_searches s"
  shows "\<exists>s' m'. user_set_account_option env dn option on s = Inr (True, s') \<and> server s' = hold m'
    \<and> (\<forall>opt. option_has_bit opt \<longrightarrow> get_account_option env (obj m') opt =
        (if opt = option then Inr on else get_account_option env (obj m) opt))"
proof -
  let ?m' = "bitmask_set m (account_option_bit option) on"
  have r: "reads env (server s) dn ATTRIBUTE_USER_ACCOUNT_CONTROL (obj m)"
    and data: "\<And>m. attributes_data (obj m) ATTRIBUTE_USER_ACCOUNT_CONTROL = Some [mask_value m]"
    using assms(1,5) by (auto simp: holds_mask_def)
  have uac: "get_uac env dn s = Inr (m, s)"
    using r assms(6) get_mask_value [OF data] by (simp add: get_uac_def reads_def ad_simps)
  obtain t where t: "attribute_replace_int env dn ATTRIBUTE_USER_ACCOUNT_CONTROL (sint ?m') DoStatusMsg_No s = Inr (True, t)"
    "server t = hold ?m'"
    using replace_mask_run [OF r assms(6) assms(2) [of ?m' m, folded assms(5)]] by auto
  have special: "option \<noteq> AccountOption_CantChangePassword" "option \<noteq> AccountOption_PasswordExpired"
    using assms(4) by (auto simp: option_has_bit_def)
  have "\<exists>s'. user_set_account_option env dn option on s = Inr (True, s') \<and> server s' = hold ?m'"
    unfolding user_set_account_option_def Let_def
    using special assms(3) uac t report_run [of env True "option_success_context option on (dn_get_name dn)" "option_error_context option on (dn_get_name dn)" DoStatusMsg_Yes t]
    by (auto simp: and_then_run)
  moreover have "get_account_option env (obj ?m') opt = (if opt = option then Inr on else get_account_option env (obj m) opt)"
    if "option_has_bit opt" for opt
    using uac.read_write [where f = option and g = opt and v = on and s = m] assms(4) that by (simp add: get_account_option_bit [OF data that])
  ultimately show ?thesis by blast
qed

section \<open>The scope of a group\<close>

definition scope_of :: "mask \<Rightarrow> group_scope" where
  "scope_of m = first_scope m group_scopes"

definition scope_mask :: mask where
  "scope_mask = 0xE"

text \<open>The change that a directory refuses: between global and domain local.\<close>

definition direct_switch :: "mask \<Rightarrow> mask \<Rightarrow> bool" where
  "direct_switch m m' = ({scope_of m, scope_of m'} = {GroupScope_Global, GroupScope_DomainLocal})"

lemma scope_bits_set_mask: "scope_bits_set m scope = (m AND NOT scope_mask) OR group_scope_bit scope"
proof -
  have m: "scope_mask = group_scope_bit GroupScope_Global OR group_scope_bit GroupScope_DomainLocal OR group_scope_bit GroupScope_Universal"
    by (simp add: scope_mask_def)
  show ?thesis unfolding m
    by (simp only: scope_bits_set_def group_scopes_def fold_simps bitmask_set_def if_True if_False bit.de_Morgan_disj and.assoc)
qed

lemma scope_of_set: "scope \<noteq> GroupScope_COUNT \<Longrightarrow> scope_of (scope_bits_set m scope) = scope"
proof -
  assume c: "scope \<noteq> GroupScope_COUNT"
  have bits: "bitmask_is_set (scope_bits_set m scope) (group_scope_bit f) \<longleftrightarrow> f = scope" if "f \<noteq> GroupScope_COUNT" for f
    using that c scope_bits.read_write_all [of "map (\<lambda>f. (f, False)) group_scopes @ [(scope, True)]" f m]
    by (cases f; cases scope) (simp_all add: scope_bits_set_def group_scopes_def)
  show ?thesis using c bits [of GroupScope_Global] bits [of GroupScope_DomainLocal] bits [of GroupScope_Universal]
    by (cases scope) (simp_all add: scope_of_def group_scopes_def)
qed

lemma scope_bits_set_twice: "scope_bits_set (scope_bits_set m a) b = scope_bits_set m b"
proof -
  have "group_scope_bit a AND NOT scope_mask = 0" by (cases a) (simp_all add: scope_mask_def)
  then show ?thesis by (simp add: scope_bits_set_mask bit.conj_disj_distrib2 and.assoc)
qed

lemma write_scope_run:
  assumes "holds_mask env hold dn ATTRIBUTE_GROUP_TYPE obj"
    and "\<And>m m'. ldap_modify_ext (ldap env) dn [\<lparr>mod_op = LDAP_MOD_REPLACE, mod_type = ATTRIBUTE_GROUP_TYPE,
      mod_values = [mask_value m']\<rparr>] [] (hold m) = (if direct_switch m m' then (LDAP_UNWILLING_TO_PERFORM, hold m) else (LDAP_SUCCESS, hold m'))"
    and "server s = hold m" and "\<not> s_log_searches s" and "\<not> direct_switch m (scope_bits_set m scope)"
  shows "\<exists>t. group_write_scope env dn scope do_msg s = Inr (True, t) \<and> server t = hold (scope_bits_set m scope) \<and> \<not> s_log_searches t"
proof -
  let ?m' = "scope_bits_set m scope"
  have r: "reads env (server s) dn ATTRIBUTE_GROUP_TYPE (obj m)"
    and data: "attributes_data (obj m) ATTRIBUTE_GROUP_TYPE = Some [mask_value m]"
    using assms(1,3) by (auto simp: holds_mask_def)
  have found: "search_object env dn [ATTRIBUTE_GROUP_TYPE] False s = Inr (obj m, s)" using r assms(4) by (simp add: reads_def)
  have "ldap_modify_ext (ldap env) dn [\<lparr>mod_op = LDAP_MOD_REPLACE, mod_type = ATTRIBUTE_GROUP_TYPE,
      mod_values = [mask_value ?m']\<rparr>] [] (server s) = (LDAP_SUCCESS, hold ?m')" using assms(2,3,5) by simp
  from replace_mask_run [OF r assms(4) this]
  obtain t where t: "attribute_replace_int env dn ATTRIBUTE_GROUP_TYPE (sint ?m') DoStatusMsg_Yes s = Inr (True, t)"
    "server t = hold ?m'" "\<not> s_log_searches t" by auto
  show ?thesis
    unfolding group_write_scope_def and_then_run found sum.case prod.case Let_def get_mask_value [OF data] t(1)
    using report_run [of env True _ _ do_msg t] t(2,3) by auto
qed

lemma universal_needed_run:
  assumes "holds_mask env hold dn ATTRIBUTE_GROUP_TYPE obj" and "server s = hold m" and "\<not> s_log_searches s"
    and "scope \<noteq> GroupScope_COUNT"
  shows "is_universal_scope_needed env dn scope s = Inr (direct_switch m (scope_bits_set m scope), s)"
proof -
  have r: "reads env (server s) dn ATTRIBUTE_GROUP_TYPE (obj m)"
    and data: "attributes_data (obj m) ATTRIBUTE_GROUP_TYPE = Some [mask_value m]"
    using assms(1,2) by (auto simp: holds_mask_def)
  have "get_group_scope (obj m) = scope_of m" by (simp add: get_group_scope_def scope_of_def get_mask_value [OF data])
  then show ?thesis using r assms(3)
    by (auto simp: is_universal_scope_needed_def reads_def ad_simps direct_switch_def scope_of_set [OF assms(4)] Let_def doubleton_eq_iff)
qed

text \<open>
  C27. Setting the scope of a group succeeds from every scope to every scope, even when the directory
  refuses to go from global to domain local or back directly: the group becomes universal in between.
  Afterwards the group has the scope, and the other bits of its type are as before.
\<close>

theorem group_scope_set:
  assumes "holds_mask env hold dn ATTRIBUTE_GROUP_TYPE obj"
    and "\<And>m m'. ldap_modify_ext (ldap env) dn [\<lparr>mod_op = LDAP_MOD_REPLACE, mod_type = ATTRIBUTE_GROUP_TYPE,
      mod_values = [mask_value m']\<rparr>] [] (hold m) = (if direct_switch m m' then (LDAP_UNWILLING_TO_PERFORM, hold m) else (LDAP_SUCCESS, hold m'))"
    and "server s = hold m" and "\<not> s_log_searches s" and "scope \<noteq> GroupScope_COUNT"
  shows "\<exists>s' m'. group_set_scope env dn scope do_msg s = Inr (True, s') \<and> server s' = hold m'
    \<and> get_group_scope (obj m') = scope \<and> m' AND NOT scope_mask = m AND NOT scope_mask"
proof -
  let ?m' = "scope_bits_set m scope"
  have "get_group_scope (obj ?m') = scope" using assms(1,5) scope_of_set [of scope m]
    by (simp add: holds_mask_def get_group_scope_def get_mask_value [of _ _ ?m'] scope_of_def)
  moreover have "?m' AND NOT scope_mask = m AND NOT scope_mask"
  proof -
    have "group_scope_bit scope AND NOT scope_mask = 0" by (cases scope) (simp_all add: scope_mask_def)
    then show ?thesis by (simp add: scope_bits_set_mask bit.conj_disj_distrib2 and.assoc)
  qed
  moreover have "\<exists>s'. group_set_scope env dn scope do_msg s = Inr (True, s') \<and> server s' = hold ?m'"
  proof (cases "direct_switch m ?m'")
    case False
    then show ?thesis
      using write_scope_run [OF assms(1-4) False, of do_msg] universal_needed_run [OF assms(1,3-5)]
      by (auto simp: group_set_scope_def ad_simps)
  next
    case True
    let ?u = "scope_bits_set m GroupScope_Universal"
    have u: "scope_of ?u = GroupScope_Universal" by (simp add: scope_of_set)
    then have "\<not> direct_switch m ?u" "\<not> direct_switch ?u (scope_bits_set ?u scope)" by (auto simp: direct_switch_def)
    from write_scope_run [OF assms(1-4) this(1), of DoStatusMsg_No] obtain t where
      t: "group_write_scope env dn GroupScope_Universal DoStatusMsg_No s = Inr (True, t)" "server t = hold ?u" "\<not> s_log_searches t"
      by blast
    from write_scope_run [OF assms(1,2) t(2,3) \<open>\<not> direct_switch ?u (scope_bits_set ?u scope)\<close>, of do_msg]
    obtain s' where "group_write_scope env dn scope do_msg t = Inr (True, s')" "server s' = hold ?m'"
      by (auto simp: scope_bits_set_twice)
    then show ?thesis
      using t(1) True universal_needed_run [OF assms(1,3,4,5)] universal_needed_run [OF assms(1,3,4), of GroupScope_Universal]
      by (auto simp: group_set_scope_def ad_simps)
  qed
  ultimately show ?thesis by blast
qed

section \<open>Examples\<close>

text \<open>A server with one object that has one attribute, a mask.\<close>

definition mask_server :: "qstring \<Rightarrow> qstring \<Rightarrow> mask \<Rightarrow> example_server" where
  "mask_server dn a m = (server (example_state [] []))\<lparr>ex_objects := [(dn, [(a, [mask_value m])])]\<rparr>"

definition mask_object :: "qstring \<Rightarrow> qstring \<Rightarrow> mask \<Rightarrow> ad_object" where
  "mask_object dn a m = \<lparr>object_dn = dn, attributes_data = [a \<mapsto> [mask_value m]]\<rparr>"

lemma mask_server_reads:
  assumes "ldap_search_ext (ldap env) = ex_search" and "controls_ok env" and "fuel env = 10"
  shows "holds_mask env (mask_server dn a) dn a (mask_object dn a)"
proof -
  have "search_object env dn [a] False s = Inr (mask_object dn a m, s)"
    if s: "server s = mask_server dn a m" "\<not> s_log_searches s" for m s
  proof -
    let ?q = "make_query dn SearchScope_Object [] [a] False"
    have reply: "page_reply env ?q None (server s) = (\<lparr>reply_code = LDAP_SUCCESS, reply_entries = [(dn, [(a, Some [mask_value m])])],
        parse_code = LDAP_SUCCESS, page_response = Some (LDAP_SUCCESS, [])\<rparr>, server s)"
      by (simp add: assms(1) s(1) page_reply_def make_query_def ex_search_def ex_matches_def ex_position_def Let_def mask_server_def)
    from search_loop_pages [OF serves_last [OF reply] assms(2) refl s(2), of 10 "[]"]
    show ?thesis
      by (simp add: page_ok_def next_cookie_def search_object_def search_def ad_simps destroy_cookie_def cookie_of_def assms(3)
          load_entry_def search_object_of_def object_load_def empty_object_def object_attributes_to_bytes_def values_to_bytes_def mask_object_def)
  qed
  then show ?thesis by (simp add: holds_mask_def reads_def mask_object_def)
qed

lemma mask_server_modify:
  "ex_modify dn [\<lparr>mod_op = LDAP_MOD_REPLACE, mod_type = a, mod_values = [mask_value m']\<rparr>] [] (mask_server dn a m) = (LDAP_SUCCESS, mask_server dn a m')"
  by (simp add: ex_modify_def mask_server_def)

definition mask_state :: "qstring \<Rightarrow> qstring \<Rightarrow> mask \<Rightarrow> example_server ad_interface" where
  "mask_state dn a m = (example_state [] [])\<lparr>server := mask_server dn a m\<rparr>"

theorem account_option_set_witness:
  "\<exists>s' m'. user_set_account_option example_env ''CN=u'' AccountOption_Disabled True (mask_state ''CN=u'' ATTRIBUTE_USER_ACCOUNT_CONTROL 0x200) = Inr (True, s')
    \<and> server s' = mask_server ''CN=u'' ATTRIBUTE_USER_ACCOUNT_CONTROL m'
    \<and> get_account_option example_env (mask_object ''CN=u'' ATTRIBUTE_USER_ACCOUNT_CONTROL m') AccountOption_Disabled = Inr True"
proof -
  have "holds_mask example_env (mask_server ''CN=u'' ATTRIBUTE_USER_ACCOUNT_CONTROL) ''CN=u'' ATTRIBUTE_USER_ACCOUNT_CONTROL
      (mask_object ''CN=u'' ATTRIBUTE_USER_ACCOUNT_CONTROL)"
    by (rule mask_server_reads) (simp_all add: example_controls)
  moreover have "option_has_bit AccountOption_Disabled" by (simp add: option_has_bit_def)
  ultimately show ?thesis
    using account_option_set [where env = example_env and hold = "mask_server ''CN=u'' ATTRIBUTE_USER_ACCOUNT_CONTROL" and dn = "''CN=u''"
        and obj = "mask_object ''CN=u'' ATTRIBUTE_USER_ACCOUNT_CONTROL" and option = AccountOption_Disabled and on = True and m = "0x200"
        and s = "mask_state ''CN=u'' ATTRIBUTE_USER_ACCOUNT_CONTROL 0x200"]
    by (simp add: mask_server_modify mask_state_def) metis
qed

text \<open>A server that refuses direct switches.\<close>

definition stored_mask :: "example_server \<Rightarrow> mask" where
  "stored_mask srv = (case ex_objects srv of [(_, [(_, [v])])] \<Rightarrow> word_of_int (or_zero (to_int (string_of_bytes v))) | _ \<Rightarrow> 0)"

definition refusing_modify :: "qstring \<Rightarrow> ldap_mod list \<Rightarrow> ldap_control list \<Rightarrow> example_server \<Rightarrow> ldap_code \<times> example_server" where
  "refusing_modify dn mods controls srv =
     (let (code, srv') = ex_modify dn mods controls srv
      in if direct_switch (stored_mask srv) (stored_mask srv') then (LDAP_UNWILLING_TO_PERFORM, srv) else (code, srv'))"

definition scope_env :: "example_server ad_env" where
  "scope_env = example_env\<lparr>ldap := example_ldap\<lparr>ldap_modify_ext := refusing_modify\<rparr>\<rparr>"

lemma stored_mask_server: "stored_mask (mask_server dn a m) = m"
  by (simp add: stored_mask_def mask_server_def mask_value_def to_int_number [OF sint_in_range] or_zero_def)

theorem group_scope_set_witness:
  "\<exists>s' m'. group_set_scope scope_env ''CN=g'' GroupScope_DomainLocal DoStatusMsg_Yes (mask_state ''CN=g'' ATTRIBUTE_GROUP_TYPE 0x80000002) = Inr (True, s')
    \<and> server s' = mask_server ''CN=g'' ATTRIBUTE_GROUP_TYPE m' \<and> m' AND NOT scope_mask = 0x80000000"
proof -
  have "holds_mask scope_env (mask_server ''CN=g'' ATTRIBUTE_GROUP_TYPE) ''CN=g'' ATTRIBUTE_GROUP_TYPE (mask_object ''CN=g'' ATTRIBUTE_GROUP_TYPE)"
    by (rule mask_server_reads) (simp_all add: scope_env_def controls_ok_def)
  moreover have "(0x80000002 :: mask) AND NOT scope_mask = 0x80000000" by (simp add: scope_mask_def)
  ultimately show ?thesis
    using group_scope_set [where env = scope_env and hold = "mask_server ''CN=g'' ATTRIBUTE_GROUP_TYPE" and dn = "''CN=g''"
        and obj = "mask_object ''CN=g'' ATTRIBUTE_GROUP_TYPE" and scope = GroupScope_DomainLocal and m = "0x80000002" and do_msg = DoStatusMsg_Yes
        and s = "mask_state ''CN=g'' ATTRIBUTE_GROUP_TYPE 0x80000002"]
    by (auto simp: scope_env_def refusing_modify_def mask_server_modify stored_mask_server mask_state_def)
qed

end
