(* ===== verification/GptFacts.thy ===== *)
theory GptFacts
  imports ExampleServer
begin

text \<open>
  The folder of a policy: the list that \<open>gpo_get_gpt_contents\<close> collects and that permissions are set
  along and files are deleted along, in reverse, against a tree of folders of any shape.
\<close>

section \<open>Trees of folders\<close>

text \<open>
  \<open>dir p\<close> is the names in the folder \<open>p\<close>, and \<open>None\<close> when \<open>p\<close> is a file. Folders may list themselves and
  their parents as dots.
\<close>

definition plain_names :: "qstring list \<Rightarrow> qstring list" where
  "plain_names names = filter (\<lambda>n. n \<noteq> ''.'' \<and> n \<noteq> ''..'') names"

definition child_path :: "qstring \<Rightarrow> qstring \<Rightarrow> qstring" where
  "child_path p n = p @ ''/'' @ n"

inductive_set tree_paths :: "(qstring \<Rightarrow> qstring list option) \<Rightarrow> qstring \<Rightarrow> qstring set" for dir root where
  root: "root \<in> tree_paths dir root"
| child: "p \<in> tree_paths dir root \<Longrightarrow> dir p = Some names \<Longrightarrow> n \<in> set (plain_names names) \<Longrightarrow> child_path p n \<in> tree_paths dir root"

definition tree_ok :: "(qstring \<Rightarrow> qstring list option) \<Rightarrow> qstring \<Rightarrow> bool" where
  "tree_ok dir root = (finite (tree_paths dir root) \<and> dir root \<noteq> None
     \<and> (\<forall>p names. dir p = Some names \<longrightarrow> distinct names \<and> (\<forall>n \<in> set names. CHR ''/'' \<notin> set n)))"

text \<open>
  What libsmbclient does while the tree is on the server (\<open>holds srv\<close>): \<open>reading srv h\<close> is the names
  still to be read from a handle. Other paths may be there or not.
\<close>

definition smb_lists ::
  "'srv ad_env \<Rightarrow> (qstring \<Rightarrow> qstring list option) \<Rightarrow> qstring \<Rightarrow> ('srv \<Rightarrow> bool) \<Rightarrow> ('srv \<Rightarrow> int \<Rightarrow> qstring list) \<Rightarrow> bool" where
  "smb_lists env dir root holds reading =
     ((\<forall>p names srv. holds srv \<longrightarrow> p \<in> tree_paths dir root \<longrightarrow> dir p = Some names \<longrightarrow>
         (\<exists>h srv'. smbc_opendir (smb env) p srv = (h, srv') \<and> 0 \<le> h \<and> reading srv' h = names \<and> holds srv'))
    \<and> (\<forall>h srv. holds srv \<longrightarrow> (\<exists>srv'. smbc_readdir (smb env) h srv =
         (case reading srv h of [] \<Rightarrow> (None, srv') | x # xs \<Rightarrow> (Some x, srv'))
         \<and> reading srv' h = tl (reading srv h) \<and> smb_errno (smb env) srv' = smb_errno (smb env) srv \<and> holds srv'))
    \<and> (\<forall>p srv. holds srv \<longrightarrow> p \<in> tree_paths dir root \<longrightarrow> (\<exists>srv'. smbc_stat (smb env) p srv = (Some (dir p \<noteq> None), srv')
         \<and> reading srv' = reading srv \<and> smb_errno (smb env) srv' = smb_errno (smb env) srv \<and> holds srv'))
    \<and> (\<forall>srv. holds srv \<longrightarrow> smb_errno (smb env) (clear_errno (smb env) srv) = 0
         \<and> reading (clear_errno (smb env) srv) = reading srv \<and> holds (clear_errno (smb env) srv))
    \<and> (\<forall>h srv. holds srv \<longrightarrow> holds (smbc_closedir (smb env) h srv)))"

lemma smb_lists_rules:
  assumes "smb_lists env dir root holds reading" and "holds srv"
  shows "p \<in> tree_paths dir root \<Longrightarrow> dir p = Some names \<Longrightarrow>
      \<exists>h srv'. smbc_opendir (smb env) p srv = (h, srv') \<and> 0 \<le> h \<and> reading srv' h = names \<and> holds srv'"
    and "\<exists>srv'. smbc_readdir (smb env) h srv = (case reading srv h of [] \<Rightarrow> (None, srv') | x # xs \<Rightarrow> (Some x, srv'))
      \<and> reading srv' h = tl (reading srv h) \<and> smb_errno (smb env) srv' = smb_errno (smb env) srv \<and> holds srv'"
    and "p \<in> tree_paths dir root \<Longrightarrow> \<exists>srv'. smbc_stat (smb env) p srv = (Some (dir p \<noteq> None), srv')
      \<and> reading srv' = reading srv \<and> smb_errno (smb env) srv' = smb_errno (smb env) srv \<and> holds srv'"
    and "smb_errno (smb env) (clear_errno (smb env) srv) = 0" and "reading (clear_errno (smb env) srv) = reading srv"
    and "holds (clear_errno (smb env) srv)" and "holds (smbc_closedir (smb env) h srv)"
  using assms unfolding smb_lists_def by meson+

lemma child_path_inject: "CHR ''/'' \<notin> set n \<Longrightarrow> CHR ''/'' \<notin> set n' \<Longrightarrow> child_path p n = child_path p' n' \<Longrightarrow> p = p' \<and> n = n'"
proof -
  assume plain: "CHR ''/'' \<notin> set n" "CHR ''/'' \<notin> set n'" and eq: "child_path p n = child_path p' n'"
  have "takeWhile (\<lambda>c. c \<noteq> CHR ''/'') (rev (child_path p n)) = rev n" if "CHR ''/'' \<notin> set n" for p n
    unfolding child_path_def using that by (simp, subst takeWhile_append2) auto
  then have "n = n'" using plain eq by (metis rev_rev_ident)
  then show ?thesis using eq by (simp add: child_path_def)
qed

lemma child_path_longer: "child_path p n \<noteq> p"
  by (simp add: child_path_def)

section \<open>One folder\<close>

lemma gpt_read_dir_run:
  assumes "smb_lists env dir root holds reading" and "length (reading (server s) h) < n" and "holds (server s)"
    and "\<forall>x \<in> set (plain_names (reading (server s) h)). child_path p x \<in> tree_paths dir root"
  shows "\<exists>s'. gpt_read_dir n env p h explore seen s =
      Inr (Some (explore @ filter (\<lambda>c. dir c \<noteq> None) (map (child_path p) (plain_names (reading (server s) h))),
        seen @ map (child_path p) (plain_names (reading (server s) h))), s')
    \<and> smb_errno (smb env) (server s') = smb_errno (smb env) (server s) \<and> ad_messages s' = ad_messages s \<and> holds (server s')"
  using assms(2-4)
proof (induction n arbitrary: explore seen s)
  case (Suc n)
  obtain srv1 where r: "smbc_readdir (smb env) h (server s) =
      (case reading (server s) h of [] \<Rightarrow> (None, srv1) | x # xs \<Rightarrow> (Some x, srv1))"
    "reading srv1 h = tl (reading (server s) h)" "smb_errno (smb env) srv1 = smb_errno (smb env) (server s)" "holds srv1"
    using smb_lists_rules(2) [OF assms(1) Suc.prems(2)] by blast
  let ?s1 = "s\<lparr>server := srv1\<rparr>"
  show ?case
  proof (cases "reading (server s) h")
    case Nil
    then show ?thesis using r by (simp add: ad_simps plain_names_def)
  next
    case (Cons x xs)
    then have len: "length (reading (server ?s1) h) < n" "reading (server ?s1) h = xs" using Suc.prems r(2) by simp_all
    show ?thesis
    proof (cases "x = ''.'' \<or> x = ''..''")
      case True
      then show ?thesis using Suc.IH [OF len(1), of explore seen] len(2) r Cons Suc.prems(3)
        by (auto simp: ad_simps plain_names_def)
    next
      case False
      then have "child_path p x \<in> tree_paths dir root" using Suc.prems(3) Cons by (simp add: plain_names_def)
      then obtain srv2 where st: "smbc_stat (smb env) (child_path p x) srv1 = (Some (dir (child_path p x) \<noteq> None), srv2)"
        "reading srv2 = reading srv1" "smb_errno (smb env) srv2 = smb_errno (smb env) srv1" "holds srv2"
        using smb_lists_rules(3) [OF assms(1) r(4)] by blast
      let ?s2 = "s\<lparr>server := srv2\<rparr>"
      have "length (reading (server ?s2) h) < n" "reading (server ?s2) h = xs" using len st(2) by simp_all
      then show ?thesis
        using Suc.IH [of ?s2 "if dir (child_path p x) \<noteq> None then explore @ [child_path p x] else explore" "seen @ [child_path p x]"]
          False r st Cons Suc.prems(3)
        by (auto simp: ad_simps plain_names_def smb_path_is_dir_def Let_def child_path_def split: if_splits)
    qed
  qed
qed simp

section \<open>The whole tree\<close>

text \<open>
  The invariant of the walk: what was seen, and which folders among it are still to be explored. The
  parent of everything seen, but for the root, has been explored.
\<close>

definition parents_first :: "qstring \<Rightarrow> qstring list \<Rightarrow> bool" where
  "parents_first root paths = (\<forall>xs p ys. paths = xs @ p # ys \<longrightarrow> p = root \<or> (\<exists>q \<in> set xs. \<exists>n. p = child_path q n))"

definition walk_ok :: "(qstring \<Rightarrow> qstring list option) \<Rightarrow> qstring \<Rightarrow> qstring list \<Rightarrow> qstring list \<Rightarrow> bool" where
  "walk_ok dir root explore seen =
     (distinct seen \<and> distinct explore \<and> set explore \<subseteq> set seen \<and> set seen \<subseteq> tree_paths dir root \<and> root \<in> set seen
      \<and> (\<forall>p \<in> set explore. dir p \<noteq> None)
      \<and> (\<forall>p \<in> set seen - set explore. \<forall>names. dir p = Some names \<longrightarrow> child_path p ` set (plain_names names) \<subseteq> set seen)
      \<and> (\<forall>p \<in> set seen. p = root \<or> (\<exists>q n names. q \<in> set seen - set explore \<and> dir q = Some names \<and> n \<in> set (plain_names names) \<and> p = child_path q n))
      \<and> parents_first root seen)"

definition unexplored :: "(qstring \<Rightarrow> qstring list option) \<Rightarrow> qstring \<Rightarrow> qstring list \<Rightarrow> qstring list \<Rightarrow> qstring set" where
  "unexplored dir root explore seen = {p \<in> tree_paths dir root. dir p \<noteq> None} - (set seen - set explore)"

lemma parents_first_append:
  assumes "parents_first root xs" and "\<And>c. c \<in> set cs \<Longrightarrow> \<exists>q \<in> set xs. \<exists>n. c = child_path q n"
  shows "parents_first root (xs @ cs)"
  unfolding parents_first_def
proof (intro allI impI)
  fix us p vs assume "xs @ cs = us @ p # vs"
  then consider ws where "xs = us @ p # ws" | ws where "us = xs @ ws" "cs = ws @ p # vs"
    by (auto simp: append_eq_append_conv2 append_eq_Cons_conv)
  then show "p = root \<or> (\<exists>q \<in> set us. \<exists>n. p = child_path q n)"
  proof cases
    case 1
    then show ?thesis using assms(1) unfolding parents_first_def by blast
  next
    case 2
    then show ?thesis using assms(2) [of p] by auto
  qed
qed

lemma walk_step:
  assumes "tree_ok dir root" and "walk_ok dir root explore seen" and "explore \<noteq> []" and "dir (last explore) = Some names"
  defines "kids \<equiv> map (child_path (last explore)) (plain_names names)"
  shows "walk_ok dir root (butlast explore @ filter (\<lambda>c. dir c \<noteq> None) kids) (seen @ kids)"
    and "unexplored dir root (butlast explore @ filter (\<lambda>c. dir c \<noteq> None) kids) (seen @ kids) =
      unexplored dir root explore seen - {last explore}" and "last explore \<in> unexplored dir root explore seen"
proof -
  let ?p = "last explore"
  note w = assms(2) [unfolded walk_ok_def]
  have e: "explore = butlast explore @ [?p]" using assms(3) by simp
  then have ep: "set explore = insert ?p (set (butlast explore))" "?p \<notin> set (butlast explore)" "distinct (butlast explore)"
    using w by (metis list.simps(15) rotate1.simps(2) set_rotate1 append_butlast_last_id, metis distinct_append distinct.simps(2) not_distinct_conv_prefix append_Nil2 in_set_conv_decomp e, metis distinct_append e)
  have names: "distinct names" "\<And>n. n \<in> set names \<Longrightarrow> CHR ''/'' \<notin> set n"
    using assms(1,4) by (auto simp: tree_ok_def)
  have slash: "CHR ''/'' \<notin> set n" if "dir q = Some ns" "n \<in> set (plain_names ns)" for q ns n
    using assms(1) that by (auto simp: tree_ok_def plain_names_def)
  have p: "?p \<in> set seen" "?p \<in> tree_paths dir root" using w ep(1) by auto
  have kids: "distinct kids"
    using names child_path_inject by (auto simp: kids_def distinct_map plain_names_def inj_on_def)
  have fresh: "c \<notin> set seen" if c: "c \<in> set kids" for c
  proof
    assume seen: "c \<in> set seen"
    obtain n where n: "c = child_path ?p n" "n \<in> set (plain_names names)" using c by (auto simp: kids_def)
    from w seen consider "c = root" | q m ns where "q \<in> set seen - set explore" "dir q = Some ns" "m \<in> set (plain_names ns)" "c = child_path q m"
      by blast
    then show False
    proof cases
      case 1
      have "length root \<le> length q" if "q \<in> tree_paths dir root" for q
        using that by induction (auto simp: child_path_def)
      from this [OF p(2)] have "length root \<le> length ?p" .
      moreover have "length root = length (child_path ?p n)" using 1 n(1) by simp
      ultimately show False by (simp add: child_path_def)
    next
      case 2
      have "child_path ?p n = child_path q m" using n(1) 2(4) by simp
      then have "q = ?p" using child_path_inject [OF slash [OF assms(4) n(2)] slash [OF 2(2,3)]] by blast
      then show False using 2(1) ep(1) by simp
    qed
  qed
  have in_tree: "set kids \<subseteq> tree_paths dir root"
    using tree_paths.child [OF p(2) assms(4)] by (auto simp: kids_def)
  have done_eq: "set (seen @ kids) - set (butlast explore @ filter (\<lambda>c. dir c \<noteq> None) kids) =
      insert ?p (set seen - set explore) \<union> {c \<in> set kids. dir c = None}"
    using ep fresh p w by auto
  show "walk_ok dir root (butlast explore @ filter (\<lambda>c. dir c \<noteq> None) kids) (seen @ kids)"
    unfolding walk_ok_def done_eq
  proof (intro conjI)
    show "distinct (seen @ kids)" using w kids fresh by auto
    show "distinct (butlast explore @ filter (\<lambda>c. dir c \<noteq> None) kids)" using ep kids fresh w by auto
    show "set (butlast explore @ filter (\<lambda>c. dir c \<noteq> None) kids) \<subseteq> set (seen @ kids)" using w ep by auto
    show "set (seen @ kids) \<subseteq> tree_paths dir root" "root \<in> set (seen @ kids)" using w in_tree by auto
    show "\<forall>p \<in> set (butlast explore @ filter (\<lambda>c. dir c \<noteq> None) kids). dir p \<noteq> None" using w ep by auto
    show "\<forall>p \<in> insert ?p (set seen - set explore) \<union> {c \<in> set kids. dir c = None}.
        \<forall>names. dir p = Some names \<longrightarrow> child_path p ` set (plain_names names) \<subseteq> set (seen @ kids)"
    proof (intro ballI allI impI)
      fix q ns assume "q \<in> insert ?p (set seen - set explore) \<union> {c \<in> set kids. dir c = None}" and ns: "dir q = Some ns"
      then consider "q = ?p" | "q \<in> set seen - set explore" by auto
      then show "child_path q ` set (plain_names ns) \<subseteq> set (seen @ kids)"
      proof cases
        case 1
        then show ?thesis using ns assms(4) by (auto simp: kids_def)
      next
        case 2
        then have "child_path q ` set (plain_names ns) \<subseteq> set seen" using w ns by blast
        then show ?thesis by auto
      qed
    qed
    show "\<forall>p \<in> set (seen @ kids). p = root \<or> (\<exists>q n names. q \<in> insert ?p (set seen - set explore) \<union> {c \<in> set kids. dir c = None}
        \<and> dir q = Some names \<and> n \<in> set (plain_names names) \<and> p = child_path q n)"
    proof
      fix c assume "c \<in> set (seen @ kids)"
      then consider "c \<in> set seen" | "c \<in> set kids" by auto
      then show "c = root \<or> (\<exists>q n names. q \<in> insert ?p (set seen - set explore) \<union> {c \<in> set kids. dir c = None}
        \<and> dir q = Some names \<and> n \<in> set (plain_names names) \<and> c = child_path q n)"
      proof cases
        case 1
        then show ?thesis using w by blast
      next
        case 2
        then show ?thesis using assms(4) by (auto simp: kids_def)
      qed
    qed
    show "parents_first root (seen @ kids)"
      using w p(1) by (intro parents_first_append) (auto simp: kids_def)
  qed
  show "unexplored dir root (butlast explore @ filter (\<lambda>c. dir c \<noteq> None) kids) (seen @ kids) = unexplored dir root explore seen - {?p}"
    unfolding unexplored_def done_eq by auto
  show "?p \<in> unexplored dir root explore seen" using p ep assms(4) by (auto simp: unexplored_def)
qed

lemma gpt_walk_run:
  assumes lists: "smb_lists env dir root holds reading" and tree: "tree_ok dir root"
    and short: "\<forall>p names. dir p = Some names \<longrightarrow> length names < fuel env"
    and "walk_ok dir root explore seen" and "card (unexplored dir root explore seen) < n" and "holds (server s)"
  shows "\<exists>seen' s'. gpt_walk n env ctxt explore seen s = Inr (Some seen', s') \<and> walk_ok dir root [] seen'
    \<and> ad_messages s' = ad_messages s \<and> holds (server s')"
  using assms(4-6)
proof (induction n arbitrary: explore seen s)
  case (Suc n)
  show ?case
  proof (cases "explore = []")
    case True
    then show ?thesis using Suc.prems by (simp add: ad_simps)
  next
    case False
    let ?p = "last explore"
    have p: "?p \<in> tree_paths dir root" "dir ?p \<noteq> None"
      using Suc.prems(1) last_in_set [OF False] unfolding walk_ok_def by blast+
    then obtain names where names: "dir ?p = Some names" by blast
    define kids where "kids = map (child_path ?p) (plain_names names)"
    define explore' where "explore' = butlast explore @ filter (\<lambda>c. dir c \<noteq> None) kids"
    note step = walk_step [OF tree Suc.prems(1) False names, folded kids_def, folded explore'_def]
    obtain h srv1 where h: "smbc_opendir (smb env) ?p (server s) = (h, srv1)" "0 \<le> h" "reading srv1 h = names" "holds srv1"
      using smb_lists_rules(1) [OF lists Suc.prems(3) p(1) names] by blast
    define s1 where "s1 = s\<lparr>server := clear_errno (smb env) srv1\<rparr>"
    have s1: "reading (server s1) h = names" "smb_errno (smb env) (server s1) = 0" "holds (server s1)" "ad_messages s1 = ad_messages s"
      using smb_lists_rules(4-6) [OF lists h(4)] h(3) by (simp_all add: s1_def)
    have "\<forall>x \<in> set (plain_names names). child_path ?p x \<in> tree_paths dir root"
      using tree_paths.child [OF p(1) names] by blast
    from gpt_read_dir_run [OF lists, of s1 h "fuel env" ?p "butlast explore" seen] this s1 short names
    obtain s2 where s2: "gpt_read_dir (fuel env) env ?p h (butlast explore) seen s1 = Inr (Some (explore', seen @ kids), s2)"
      "smb_errno (smb env) (server s2) = 0" "ad_messages s2 = ad_messages s" "holds (server s2)"
      unfolding explore'_def kids_def by auto
    define s3 where "s3 = s2\<lparr>server := smbc_closedir (smb env) h (server s2)\<rparr>"
    have "finite (unexplored dir root explore seen)" using tree by (simp add: tree_ok_def unexplored_def)
    then have "card (unexplored dir root explore' (seen @ kids)) < n"
      using step(2,3) Suc.prems(2) card_Diff1_less by fastforce
    from Suc.IH [OF step(1) this, of s3]
    obtain seen' s' where w: "gpt_walk n env ctxt explore' (seen @ kids) s3 = Inr (Some seen', s')"
      "walk_ok dir root [] seen'" "ad_messages s' = ad_messages s" "holds (server s')"
      using s2(3) smb_lists_rules(7) [OF lists s2(4)] by (auto simp: s3_def)
    have "gpt_walk (Suc n) env ctxt explore seen s = gpt_walk n env ctxt explore' (seen @ kids) s3"
      unfolding gpt_walk.simps Let_def using False h(1,2) s2(1,2)
      by (simp add: and_then_def call_def get_state_def s1_def [symmetric] s3_def [symmetric])
    then show ?thesis using w by auto
  qed
qed simp

lemma walk_complete:
  assumes "walk_ok dir root [] seen" shows "set seen = tree_paths dir root"
proof -
  have "p \<in> set seen" if "p \<in> tree_paths dir root" for p
    using that
  proof induction
    case root
    then show ?case using assms by (simp add: walk_ok_def)
  next
    case (child p names n)
    then have "child_path p ` set (plain_names names) \<subseteq> set seen" using assms by (simp add: walk_ok_def)
    then show ?case using child by blast
  qed
  then show ?thesis using assms by (auto simp: walk_ok_def)
qed


definition example_files :: "(qstring \<times> qstring list option) list" where
  "example_files = [(''gpt'', Some [''.'', ''..'', ''Machine'', ''GPT.INI'']), (''gpt/GPT.INI'', None),
     (''gpt/Machine'', Some [''.'', ''..'', ''Registry.pol'']), (''gpt/Machine/Registry.pol'', None)]"

definition example_dir :: "qstring \<Rightarrow> qstring list option" where
  "example_dir p = (case map_of example_files p of Some names \<Rightarrow> names | None \<Rightarrow> None)"

lemma example_tree: "tree_paths example_dir ''gpt'' \<subseteq> set (map fst example_files)"
proof
  fix p assume "p \<in> tree_paths example_dir ''gpt''"
  then show "p \<in> set (map fst example_files)"
  proof induction
    case (child p names n)
    then have "n \<in> set (plain_names names)" "example_dir p = Some names" by simp_all
    then show ?case by (auto simp: example_dir_def example_files_def plain_names_def child_path_def split: if_splits)
  qed (simp add: example_files_def)
qed

lemma example_smb_lists:
  "smb_lists example_env example_dir ''gpt'' (\<lambda>srv. ex_files srv = example_files) (\<lambda>srv h. ex_reading srv)"
  unfolding smb_lists_def
proof (intro conjI allI impI)
  fix p and srv :: example_server assume p: "ex_files srv = example_files" "p \<in> tree_paths example_dir ''gpt''"
  have "map_of example_files p \<noteq> None" unfolding map_of_eq_None_iff using subsetD [OF example_tree p(2)] by simp
  then obtain names where "map_of example_files p = Some names" by blast
  then show "\<exists>srv'. smbc_stat (smb example_env) p srv = (Some (example_dir p \<noteq> None), srv') \<and> (\<lambda>h. ex_reading srv') = (\<lambda>h. ex_reading srv)
    \<and> smb_errno (smb example_env) srv' = smb_errno (smb example_env) srv \<and> ex_files srv' = example_files"
    using p by (simp add: example_smb_def example_dir_def)
next
  fix p names and srv :: example_server assume "example_dir p = Some names" "ex_files srv = example_files"
  then show "\<exists>h srv'. smbc_opendir (smb example_env) p srv = (h, srv') \<and> 0 \<le> h \<and> ex_reading srv' = names \<and> ex_files srv' = example_files"
    by (auto simp: example_smb_def example_dir_def split: option.splits)
qed (auto simp: example_smb_def ex_readdir_def split: list.splits)


end
