(* ===== verification/DnsFacts.thy ===== *)
theory DnsFacts
  imports AdConnection
begin

text \<open>
  Replies of name servers: how far the parser reads, and where the hosts it returns come from.
\<close>

lemma get_short_in_bounds: "i + 2 \<le> length buf \<Longrightarrow> \<exists>n. get_short buf i = Inr n"
  by (simp add: get_short_def read_byte_def)

lemma get_long_in_bounds: "i + 4 \<le> length buf \<Longrightarrow> \<exists>n. get_long buf i = Inr n"
  by (simp add: get_long_def get_short_def read_byte_def)

lemma get_short_bounded: "get_short buf i = Inr n \<Longrightarrow> n < 65536"
proof -
  assume "get_short buf i = Inr n"
  then have "n = unat (buf ! i) * 256 + unat (buf ! (i + 1))"
    by (simp add: get_short_def read_byte_def split: if_splits)
  then show ?thesis using unsigned_less [of "buf ! i", where 'a = nat] unsigned_less [of "buf ! (i + 1)", where 'a = nat] by simp
qed

definition expansions :: "dns_api \<Rightarrow> bytes \<Rightarrow> nat \<Rightarrow> qstring set" where
  "expansions dns buf eom = {host. \<exists>pos n. dn_expand dns buf eom pos = Some (n, host)}"

lemma read_answer_in_bounds:
  assumes "eom + 6 \<le> length buf"
  shows "\<exists>answer. read_answer dns buf eom pos = Inr answer
    \<and> (\<forall>record_end host. answer = Some (record_end, Some host) \<longrightarrow> host \<in> expansions dns buf eom)"
proof (cases "dn_expand dns buf eom pos")
  case None
  then show ?thesis by (simp add: read_answer_def)
next
  case (Some se)
  then obtain n name where se: "dn_expand dns buf eom pos = Some (n, name)" by (cases se) auto
  show ?thesis
  proof (cases "pos + n + RRFIXEDSZ > eom")
    case True
    then show ?thesis using se by (simp add: read_answer_def)
  next
    case False
    then have fits: "pos + n + 10 \<le> eom" by (simp add: RRFIXEDSZ_def)
    obtain t c l ttl where fixed: "get_short buf (pos + n) = Inr t" "get_short buf (pos + n + 2) = Inr c"
      "get_long buf (pos + n + 4) = Inr ttl" "get_short buf (pos + n + 8) = Inr l"
      using get_short_in_bounds [of "pos + n" buf] get_short_in_bounds [of "pos + n + 2" buf]
        get_long_in_bounds [of "pos + n + 4" buf] get_short_in_bounds [of "pos + n + 8" buf] fits assms by auto
    obtain a b d where srv: "get_short buf (pos + n + 10) = Inr a" "get_short buf (pos + n + 12) = Inr b" "get_short buf (pos + n + 14) = Inr d"
      using get_short_in_bounds [of "pos + n + 10" buf] get_short_in_bounds [of "pos + n + 12" buf]
        get_short_in_bounds [of "pos + n + 14" buf] fits assms by auto
    show ?thesis using se False fixed srv
      by (auto simp: read_answer_def expansions_def Let_def ac_simps split: option.splits)
  qed
qed

lemma read_answers_in_bounds:
  assumes "eom + 6 \<le> length buf" and "set hosts \<subseteq> expansions dns buf eom"
  shows "\<exists>found. read_answers dns buf eom n pos hosts = Inr found \<and> set found \<subseteq> expansions dns buf eom
    \<and> length found \<le> length hosts + n"
  using assms(2)
proof (induction n arbitrary: pos hosts)
  case (Suc n)
  obtain answer where answer: "read_answer dns buf eom pos = Inr answer"
    "\<And>record_end host. answer = Some (record_end, Some host) \<Longrightarrow> host \<in> expansions dns buf eom"
    using read_answer_in_bounds [OF assms(1)] by blast
  show ?case
  proof (cases answer)
    case None
    then show ?thesis using answer(1) by simp
  next
    case (Some a)
    then obtain record_end host where a: "answer = Some (record_end, host)" by (cases a) auto
    define hosts' where "hosts' = (case host of None \<Rightarrow> hosts | Some h \<Rightarrow> hosts @ [h])"
    have "set hosts' \<subseteq> expansions dns buf eom" "length hosts' \<le> Suc (length hosts)"
      using Suc.prems answer(2) a by (auto simp: hosts'_def split: option.splits)
    moreover have "read_answers dns buf eom (Suc n) pos hosts = read_answers dns buf eom n record_end hosts'"
      using answer(1) a by (simp add: hosts'_def split: option.splits)
    ultimately show ?thesis using Suc.IH [of hosts' record_end] by force
  qed
qed simp

text \<open>
  C29. When the reply of a name server ends at least 6 bytes before the end of the buffer, parsing it
  never reads outside of the buffer, whatever its bytes are and whatever lengths and counts they
  claim; the hosts are names that the resolver expanded in the reply, and at most as many as the 65535
  answers that the header can announce. (Without the 6 bytes, see \<open>srv_record_overread\<close>.)
\<close>

theorem dns_reply_in_bounds:
  assumes "res_search dns dname = (msg_len, buf)" and "msg_len + 6 \<le> int (length buf)"
  shows "\<exists>hosts. query_server_for_hosts dns dname = Inr hosts \<and> set hosts \<subseteq> expansions dns buf (nat msg_len) \<and> length hosts < 65536"
proof (cases "msg_len < 12")
  case True
  then show ?thesis using assms(1) by (simp add: query_server_for_hosts_def HEADER_SIZE_def)
next
  case False
  obtain packets where p: "get_short buf 4 = Inr packets" using get_short_in_bounds [of 4 buf] False assms(2) by auto
  obtain answers where a: "get_short buf 6 = Inr answers" using get_short_in_bounds [of 6 buf] False assms(2) by auto
  have bound: "answers < 65536" using get_short_bounded [OF a] .
  have "nat msg_len + 6 \<le> length buf" using False assms(2) by linarith
  from read_answers_in_bounds [OF this, of "[]" dns answers] show ?thesis
    using False assms(1) p a bound
    by (fastforce simp: query_server_for_hosts_def HEADER_SIZE_def split: option.splits)
qed

text \<open>
  A name server that answers with one server record: the header, and at byte 12 a name of one zero
  byte, the type and the class, the time, and a record of 7 bytes.
\<close>

definition example_dns :: "nat \<Rightarrow> bytes \<Rightarrow> dns_api" where
  "example_dns padding record = \<lparr>
     res_search = (\<lambda>_. (int (23 + length record),
       [0, 0, 0, 0, 0, 0, 0, 1, 0, 0, 0, 0, 0, 0, 33, 0, 1, 0, 0, 0, 9, 0, of_nat (length record)] @ record @ replicate padding 0)),
     dn_skipname = (\<lambda>_ _ _. 1), dn_expand = (\<lambda>buf eom pos. if pos < eom then Some (1, ''dc.alt'') else None)\<rparr>"

theorem dns_reply_in_bounds_witness:
  "\<exists>hosts. query_server_for_hosts (example_dns 6 [0, 0, 0, 100, 1, 133, 0]) ''_ldap._tcp.alt'' = Inr hosts
     \<and> set hosts \<subseteq> expansions (example_dns 6 [0, 0, 0, 100, 1, 133, 0])
         ([0, 0, 0, 0, 0, 0, 0, 1, 0, 0, 0, 0, 0, 0, 33, 0, 1, 0, 0, 0, 9, 0, 7] @ [0, 0, 0, 100, 1, 133, 0] @ replicate 6 0) (nat 30)
     \<and> length hosts < 65536"
  by (rule dns_reply_in_bounds) (simp_all add: example_dns_def)

text \<open>
  A server record is not tested to have the 6 bytes of its numbers: an empty one at the end of a full
  buffer is read past the end.
\<close>

lemma srv_record_overread: "query_server_for_hosts (example_dns 0 []) ''_ldap._tcp.alt'' = Inl Buffer_Overread"
proof -
  let ?buf = "[0, 0, 0, 0, 0, 0, 0, 1, 0, 0, 0, 0, 0, 0, 33, 0, 1, 0, 0, 0, 9, 0, 0] :: bytes"
  have reads: "get_short ?buf 4 = Inr 0" "get_short ?buf 6 = Inr (Suc 0)" "get_short ?buf 13 = Inr 33" "get_short ?buf 15 = Inr 1"
    "get_long ?buf 17 = Inr 9" "get_short ?buf 21 = Inr 0" "get_short ?buf 23 = Inl Buffer_Overread"
    by (simp_all add: get_short_def get_long_def read_byte_def)
  have dns: "res_search (example_dns 0 []) ''_ldap._tcp.alt'' = (23, ?buf)" "dn_expand (example_dns 0 []) ?buf 23 12 = Some (1, ''dc.alt'')"
    by (simp_all add: example_dns_def)
  have "read_answer (example_dns 0 []) ?buf 23 12 = Inl Buffer_Overread"
    unfolding read_answer_def dns by (simp add: reads RRFIXEDSZ_def ns_t_srv_def Let_def)
  then show ?thesis unfolding query_server_for_hosts_def dns by (simp add: reads HEADER_SIZE_def)
qed

end
