(* ===== verification/Krb5Client.thy ===== *)
theory Krb5Client
  imports AdUtils "HOL-Library.AList"
begin

text \<open>
  Kerberos tickets (\<open>src/adldap/krb5client.cpp\<close>). The client keeps, for each principal, a handle of its
  credential cache and what is known of its ticket. The Kerberos library and the file system are a
  record of functions; handles that are open are part of the state, so that using one that was closed
  or destroyed, or a null one, is a fault.
\<close>

section \<open>The library\<close>

record krb5_creds =
  creds_starttime :: int
  creds_endtime :: int
  creds_renew_till :: int

text \<open>The type and the name of a cache, as in \<open>FILE:/tmp/krb5cc\<close>.\<close>

record krb5_cache =
  cc_type :: qstring
  cc_name :: qstring

text \<open>
  Everything outside of the process is one value of a type \<open>'os\<close>; a principal is of a type \<open>'p\<close>. Functions
  that may fail give \<open>Inl\<close> with a code. \<open>krb5_change_password\<close> gives its code and the answer of the server.
\<close>

record ('os, 'p) krb5_api =
  krb5_init_context :: "'os \<Rightarrow> int \<times> 'os"
  make_path :: "qstring \<Rightarrow> 'os \<Rightarrow> bool \<times> 'os"
  set_owner_permissions :: "qstring \<Rightarrow> 'os \<Rightarrow> bool \<times> 'os"
  ccache_files :: "'os \<Rightarrow> qstring list"
  getuid :: nat
  current_time :: "'os \<Rightarrow> int"
  setenv :: "qstring \<Rightarrow> qstring \<Rightarrow> 'os \<Rightarrow> int \<times> 'os"
  krb5_parse_name :: "bool \<Rightarrow> qstring \<Rightarrow> int + 'p"
  krb5_unparse_name :: "'p \<Rightarrow> int + qstring"
  krb5_princ_realm :: "'p \<Rightarrow> qstring"
  krb5_build_principal :: "qstring \<Rightarrow> qstring list \<Rightarrow> int + 'p"
  krb5_get_init_creds_password :: "'p \<Rightarrow> qstring \<Rightarrow> qstring option \<Rightarrow> 'os \<Rightarrow> (int + krb5_creds) \<times> 'os"
  krb5_get_renewed_creds :: "'p \<Rightarrow> krb5_cache \<Rightarrow> 'os \<Rightarrow> (int + krb5_creds) \<times> 'os"
  krb5_change_password :: "krb5_creds \<Rightarrow> qstring \<Rightarrow> 'os \<Rightarrow> (int \<times> int) \<times> 'os"
  krb5_cc_default :: "'os \<Rightarrow> (int + krb5_cache) \<times> 'os"
  krb5_cc_resolve :: "qstring \<Rightarrow> 'os \<Rightarrow> (int + krb5_cache) \<times> 'os"
  krb5_cc_initialize :: "krb5_cache \<Rightarrow> 'p \<Rightarrow> 'os \<Rightarrow> int \<times> 'os"
  krb5_cc_store_cred :: "krb5_cache \<Rightarrow> krb5_creds \<Rightarrow> 'os \<Rightarrow> int \<times> 'os"
  krb5_cc_get_principal :: "krb5_cache \<Rightarrow> 'os \<Rightarrow> (int + 'p) \<times> 'os"
  krb5_cc_retrieve_cred :: "krb5_cache \<Rightarrow> 'p \<Rightarrow> 'os \<Rightarrow> (int + krb5_creds) \<times> 'os"
  krb5_cc_delete :: "krb5_cache \<Rightarrow> 'os \<Rightarrow> 'os"
  krb5_get_error_message :: "int \<Rightarrow> qstring"
  key_order :: "qstring list \<Rightarrow> qstring list"

section \<open>State\<close>

datatype krb5_tgt_state = Krb5TgtState_Active | Krb5TgtState_Expired | Krb5TgtState_Outdated | Krb5TgtState_Invalid

text \<open>Dates are seconds since the epoch; \<open>None\<close> is a date that is not valid.\<close>

record krb5_tgt_data =
  tgt_state :: krb5_tgt_state
  tgt_principal :: qstring
  tgt_realm :: qstring
  tgt_starts :: "int option"
  tgt_expires :: "int option"
  tgt_renew_until :: "int option"

definition no_tgt_data :: krb5_tgt_data where
  "no_tgt_data = \<lparr>tgt_state = Krb5TgtState_Invalid, tgt_principal = [], tgt_realm = [], tgt_starts = None,
     tgt_expires = None, tgt_renew_until = None\<rparr>"

datatype krb5_failure = Kerberos_Error qstring int | Runtime_Error qstring

type_synonym cc_handle = nat

text \<open>\<open>open_caches\<close> is the handles that were given out and not yet given back, below \<open>next_handle\<close>.\<close>

record 'os krb5_client =
  os :: 'os
  open_caches :: "cc_handle \<Rightarrow> krb5_cache option"
  next_handle :: cc_handle
  curr_principal :: qstring
  sys_principal :: qstring
  principal_tgt_map :: "(qstring \<times> krb5_tgt_data) list"
  principal_cache_map :: "(qstring \<times> cc_handle) list"
  sys_ccache :: qstring
  krb_temp_caches :: "qstring list"

text \<open>An operation may fault, or throw an exception, which leaves the state it has reached.\<close>

type_synonym ('os, 'a) krb_op = "'os krb5_client \<Rightarrow> ((krb5_failure + 'a) \<times> 'os krb5_client) faulty"

definition kgive :: "'a \<Rightarrow> ('os, 'a) krb_op" where
  "kgive x c = Inr (Inr x, c)"

definition kthrow :: "krb5_failure \<Rightarrow> ('os, 'a) krb_op" where
  "kthrow e c = Inr (Inl e, c)"

definition kfault :: "fault \<Rightarrow> ('os, 'a) krb_op" where
  "kfault f c = Inl f"

definition kthen :: "('os, 'a) krb_op \<Rightarrow> ('a \<Rightarrow> ('os, 'b) krb_op) \<Rightarrow> ('os, 'b) krb_op" where
  "kthen m f c = bind_faulty (m c) (\<lambda>(r, c'). case r of Inl e \<Rightarrow> Inr (Inl e, c') | Inr x \<Rightarrow> f x c')"

definition kdo :: "('os, unit) krb_op \<Rightarrow> ('os, 'b) krb_op \<Rightarrow> ('os, 'b) krb_op" where
  "kdo m f = kthen m (\<lambda>_. f)"

definition kget :: "('os krb5_client \<Rightarrow> 'a) \<Rightarrow> ('os, 'a) krb_op" where
  "kget f c = Inr (Inr (f c), c)"

definition kput :: "('os krb5_client \<Rightarrow> 'os krb5_client) \<Rightarrow> ('os, unit) krb_op" where
  "kput f c = Inr (Inr (), f c)"

definition kcall :: "('os \<Rightarrow> 'a \<times> 'os) \<Rightarrow> ('os, 'a) krb_op" where
  "kcall f c = (let (x, w) = f (os c) in Inr (Inr x, c\<lparr>os := w\<rparr>))"

fun kfor :: "('x \<Rightarrow> ('os, unit) krb_op) \<Rightarrow> 'x list \<Rightarrow> ('os, unit) krb_op" where
  "kfor f [] = kgive ()"
| "kfor f (x # xs) = kdo (f x) (kfor f xs)"

section \<open>Handles\<close>

definition open_handle :: "krb5_cache \<Rightarrow> ('os, cc_handle) krb_op" where
  "open_handle cc c = Inr (Inr (next_handle c), c\<lparr>open_caches := (open_caches c)(next_handle c \<mapsto> cc), next_handle := next_handle c + 1\<rparr>)"

definition cache_of :: "cc_handle \<Rightarrow> ('os, krb5_cache) krb_op" where
  "cache_of h c = (case open_caches c h of None \<Rightarrow> Inl Use_After_Free | Some cc \<Rightarrow> Inr (Inr cc, c))"

definition krb5_cc_close :: "cc_handle option \<Rightarrow> ('os, unit) krb_op" where
  "krb5_cc_close handle = (case handle of
     None \<Rightarrow> kfault Null_Dereference
   | Some h \<Rightarrow> kthen (cache_of h) (\<lambda>cc. kput (\<lambda>c. c\<lparr>open_caches := (open_caches c)(h := None)\<rparr>)))"

text \<open>Destroying deletes the cache and closes the handle.\<close>

definition krb5_cc_destroy :: "('os, 'p) krb5_api \<Rightarrow> cc_handle \<Rightarrow> ('os, unit) krb_op" where
  "krb5_cc_destroy api h =
     kthen (cache_of h) (\<lambda>cc. kdo (kcall (\<lambda>w. ((), krb5_cc_delete api cc w)))
       (kput (\<lambda>c. c\<lparr>open_caches := (open_caches c)(h := None)\<rparr>)))"

definition cleanup :: "cc_handle option \<Rightarrow> ('os, unit) krb_op" where
  "cleanup handle = (if handle = None then kgive () else krb5_cc_close handle)"

definition throw_error :: "('os, 'p) krb5_api \<Rightarrow> qstring \<Rightarrow> int \<Rightarrow> ('os, 'a) krb_op" where
  "throw_error api error err_code =
     kthrow (Kerberos_Error (if err_code \<noteq> 0 then error @ '': '' @ krb5_get_error_message api err_code else error) err_code)"

definition cleanup_and_throw :: "('os, 'p) krb5_api \<Rightarrow> qstring \<Rightarrow> int \<Rightarrow> cc_handle option \<Rightarrow> ('os, 'a) krb_op" where
  "cleanup_and_throw api error err_code handle = kdo (cleanup handle) (throw_error api error err_code)"

section \<open>Caches\<close>

definition ccaches_path :: "('os, 'p) krb5_api \<Rightarrow> qstring" where
  "ccaches_path api = ''/tmp/admc_uid'' @ number (int (getuid api)) @ ''/ccaches/''"

definition ccache_name_prefix :: qstring where "ccache_name_prefix = ''krb5cc_''"

definition cache_is_system :: "krb5_cache \<Rightarrow> bool" where
  "cache_is_system cc = contains_str (cc_type cc) ''KEYRING''"

definition full_cache_name :: "krb5_cache \<Rightarrow> qstring" where
  "full_cache_name cc = cc_type cc @ '':'' @ cc_name cc"

definition tgt_state_from_creds :: "int \<Rightarrow> krb5_creds \<Rightarrow> krb5_tgt_state" where
  "tgt_state_from_creds now creds =
     (if now > creds_renew_till creds then Krb5TgtState_Outdated
      else if now > creds_endtime creds then Krb5TgtState_Expired
      else Krb5TgtState_Active)"

definition update_tgt_state_from_creds :: "int \<Rightarrow> krb5_tgt_data \<Rightarrow> krb5_creds \<Rightarrow> krb5_tgt_data" where
  "update_tgt_state_from_creds now data creds =
     data\<lparr>tgt_expires := Some (creds_endtime creds), tgt_renew_until := Some (creds_renew_till creds),
       tgt_state := tgt_state_from_creds now creds\<rparr>"

definition remember_ticket :: "qstring \<Rightarrow> krb5_tgt_data \<Rightarrow> cc_handle \<Rightarrow> ('os, unit) krb_op" where
  "remember_ticket who data h =
     kput (\<lambda>c. c\<lparr>principal_tgt_map := AList.update who data (principal_tgt_map c),
       principal_cache_map := AList.update who h (principal_cache_map c)\<rparr>)"

definition load_cache_data :: "('os, 'p) krb5_api \<Rightarrow> cc_handle \<Rightarrow> bool \<Rightarrow> ('os, unit) krb_op" where
  "load_cache_data api h is_system =
     kthen (cache_of h) (\<lambda>cc.
     kthen (kcall (krb5_cc_get_principal api cc)) (\<lambda>res.
       case res of Inl _ \<Rightarrow> cleanup (Some h) | Inr who \<Rightarrow>
       (case krb5_unparse_name api who of Inl _ \<Rightarrow> cleanup (Some h) | Inr princ \<Rightarrow>
       (let realm = krb5_princ_realm api who
        in case krb5_build_principal api realm [''krbtgt'', realm] of Inl _ \<Rightarrow> cleanup (Some h) | Inr match_server \<Rightarrow>
          kthen (kcall (krb5_cc_retrieve_cred api cc match_server)) (\<lambda>res.
            case res of Inl _ \<Rightarrow> cleanup (Some h) | Inr creds \<Rightarrow>
              kdo (kput (\<lambda>c. if is_system then c\<lparr>sys_principal := princ\<rparr> else c))
             (kthen (kget (\<lambda>c. current_time api (os c))) (\<lambda>now.
                remember_ticket princ
                  \<lparr>tgt_state = tgt_state_from_creds now creds, tgt_principal = princ, tgt_realm = realm,
                   tgt_starts = Some (creds_starttime creds), tgt_expires = Some (creds_endtime creds),
                   tgt_renew_until = Some (creds_renew_till creds)\<rparr> h)))))))"

definition principal_from_ccache :: "('os, 'p) krb5_api \<Rightarrow> cc_handle \<Rightarrow> ('os, qstring) krb_op" where
  "principal_from_ccache api h =
     kthen (cache_of h) (\<lambda>cc.
     kthen (kcall (krb5_cc_get_principal api cc)) (\<lambda>res.
       case res of Inl _ \<Rightarrow> kgive []
       | Inr who \<Rightarrow> (case krb5_unparse_name api who of Inl _ \<Rightarrow> kgive [] | Inr princ \<Rightarrow> kgive princ)))"

text \<open>The default cache, or the one of the system once it is known; \<open>None\<close> ends the loading.\<close>

definition load_default_cache :: "('os, 'p) krb5_api \<Rightarrow> ('os, cc_handle option) krb_op" where
  "load_default_cache api =
     kthen (kget sys_ccache) (\<lambda>sys.
       if sys = []
       then kthen (kcall (krb5_cc_default api)) (\<lambda>res.
         case res of
           Inl _ \<Rightarrow> kdo (krb5_cc_close None) (kgive None)
         | Inr cc \<Rightarrow> kthen (open_handle cc) (\<lambda>h.
             kdo (kput (\<lambda>c. if cache_is_system cc then c\<lparr>sys_ccache := full_cache_name cc\<rparr> else c)) (kgive (Some h))))
       else kthen (kcall (krb5_cc_resolve api sys)) (\<lambda>res.
         case res of
           Inl _ \<Rightarrow> kdo (krb5_cc_close None) (kgive None)
         | Inr cc \<Rightarrow> kthen (open_handle cc) (\<lambda>h. kgive (Some h))))"

definition load_custom_cache :: "('os, 'p) krb5_api \<Rightarrow> qstring \<Rightarrow> ('os, unit) krb_op" where
  "load_custom_cache api ccache_name =
     kthen (kcall (krb5_cc_resolve api (''FILE:'' @ ccaches_path api @ ccache_name))) (\<lambda>res.
       case res of Inl _ \<Rightarrow> kgive ()
       | Inr cc \<Rightarrow> kthen (open_handle cc) (\<lambda>h.
           kthen (principal_from_ccache api h) (\<lambda>who.
           kthen (kget principal_cache_map) (\<lambda>caches.
             if who = [] \<or> map_of caches who \<noteq> None
             then krb5_cc_close (Some h)
             else load_cache_data api h False))))"

definition load_caches :: "('os, 'p) krb5_api \<Rightarrow> ('os, unit) krb_op" where
  "load_caches api =
     kthen (load_default_cache api) (\<lambda>def_ccache.
       case def_ccache of None \<Rightarrow> kgive ()
       | Some h \<Rightarrow>
           kdo (kthen (cache_of h) (\<lambda>cc. load_cache_data api h (cache_is_system cc)))
          (kthen (kget (\<lambda>c. ccache_files api (os c))) (\<lambda>names.
           kdo (kfor (load_custom_cache api) names)
             (kput (\<lambda>c. if curr_principal c = [] then c\<lparr>curr_principal := sys_principal c\<rparr> else c)))))"

definition krb5_client_start :: "('os, 'p) krb5_api \<Rightarrow> ('os, unit) krb_op" where
  "krb5_client_start api =
     kthen (kcall (krb5_init_context api)) (\<lambda>res.
       if res \<noteq> 0 then kthrow (Runtime_Error ''Kerberos initialization failed'')
       else kthen (kcall (make_path api (ccaches_path api))) (\<lambda>made.
         if \<not> made then kthrow (Runtime_Error ''Failed to create caches path'')
         else kthen (kcall (set_owner_permissions api (''/tmp/admc_uid'' @ number (int (getuid api))))) (\<lambda>set_ok.
           if \<not> set_ok then kthrow (Runtime_Error ''Failed to set caches path permissions'')
           else load_caches api)))"

text \<open>Before the constructor: the static name of the system's cache and the outside are what they were.\<close>

definition new_client :: "'os \<Rightarrow> qstring \<Rightarrow> 'os krb5_client" where
  "new_client w sys = \<lparr>os = w, open_caches = (\<lambda>_. None), next_handle = 0, curr_principal = [], sys_principal = [],
     principal_tgt_map = [], principal_cache_map = [], sys_ccache = sys, krb_temp_caches = []\<rparr>"

definition krb5_client_end :: "('os, unit) krb_op" where
  "krb5_client_end = kthen (kget (\<lambda>c. map snd (principal_cache_map c))) (\<lambda>handles. kfor (\<lambda>h. krb5_cc_close (Some h)) handles)"

section \<open>Requests\<close>

text \<open>The part of \<open>kinit\<close> with the new cache open.\<close>

definition kinit_store :: "('os, 'p) krb5_api \<Rightarrow> qstring \<Rightarrow> 'p \<Rightarrow> krb5_creds \<Rightarrow> qstring \<Rightarrow> cc_handle \<Rightarrow> krb5_cache \<Rightarrow> ('os, unit) krb_op" where
  "kinit_store api error princ creds cache_name h cc =
     kthen (kcall (krb5_cc_initialize api cc princ)) (\<lambda>res.
       if res \<noteq> 0 then cleanup_and_throw api error res (Some h)
       else kthen (kcall (krb5_cc_store_cred api cc creds)) (\<lambda>res.
         if res \<noteq> 0 then cleanup_and_throw api error res (Some h)
         else kthen (kcall (setenv api ''KRB5CCNAME'' cache_name)) (\<lambda>res.
           if res \<noteq> 0 then cleanup_and_throw api ''Failed to set KRB5CCNAME'' 0 (Some h)
           else load_cache_data api h (cache_is_system cc))))"

definition kinit_forget :: "('os, 'p) krb5_api \<Rightarrow> qstring \<Rightarrow> ('os, unit) krb_op" where
  "kinit_forget api who =
     kthen (kget (\<lambda>c. map_of (principal_cache_map c) who)) (\<lambda>old_ccache.
     kdo (case old_ccache of None \<Rightarrow> kgive () | Some h \<Rightarrow> krb5_cc_destroy api h)
       (kput (\<lambda>c. c\<lparr>principal_cache_map := AList.delete who (principal_cache_map c),
          principal_tgt_map := AList.delete who (principal_tgt_map c)\<rparr>)))"

definition kinit_cache_name :: "('os, 'p) krb5_api \<Rightarrow> qstring \<Rightarrow> qstring" where
  "kinit_cache_name api who = ''FILE:'' @ ccaches_path api @ ccache_name_prefix @ takeWhile (\<lambda>c. c \<noteq> CHR ''@'') who"

definition kinit :: "('os, 'p) krb5_api \<Rightarrow> qstring \<Rightarrow> qstring \<Rightarrow> bool \<Rightarrow> ('os, unit) krb_op" where
  "kinit api who password enterprise =
     (let error = ''Authentication failed''
      in kdo (kinit_forget api who)
        (case krb5_parse_name api enterprise who of
           Inl res \<Rightarrow> cleanup_and_throw api error res None
         | Inr princ \<Rightarrow>
             kthen (kcall (krb5_get_init_creds_password api princ password None)) (\<lambda>res.
               case res of Inl res \<Rightarrow> cleanup_and_throw api error res None
               | Inr creds \<Rightarrow>
                   kthen (kcall (krb5_cc_resolve api (kinit_cache_name api who))) (\<lambda>res.
                     case res of Inl res \<Rightarrow> cleanup_and_throw api error res None
                     | Inr cc \<Rightarrow> kthen (open_handle cc) (\<lambda>h.
                         kdo (kinit_store api error princ creds (kinit_cache_name api who) h cc)
                           (kput (\<lambda>c. c\<lparr>curr_principal := who\<rparr>)))))))"

definition change_password :: "('os, 'p) krb5_api \<Rightarrow> qstring \<Rightarrow> qstring \<Rightarrow> qstring \<Rightarrow> bool \<Rightarrow> ('os, unit) krb_op" where
  "change_password api who old_password new_password enterprise =
     (let error = ''Password change failed''
      in case krb5_parse_name api enterprise who of
           Inl result \<Rightarrow> cleanup_and_throw api error result None
         | Inr princ \<Rightarrow>
             kthen (kcall (krb5_get_init_creds_password api princ old_password (Some ''kadmin/changepw''))) (\<lambda>result.
               case result of Inl result \<Rightarrow> cleanup_and_throw api error result None
               | Inr creds \<Rightarrow>
                   kthen (kcall (krb5_change_password api creds new_password)) (\<lambda>(result, result_code).
                     if result \<noteq> 0 then cleanup_and_throw api error result None else kgive ())))"

definition set_current_principal :: "('os, 'p) krb5_api \<Rightarrow> qstring \<Rightarrow> ('os, unit) krb_op" where
  "set_current_principal api who =
     kthen (kget (\<lambda>c. map_of (principal_cache_map c) who)) (\<lambda>ccache.
       case ccache of None \<Rightarrow> throw_error api ''Principal is not found'' 0
       | Some h \<Rightarrow> kthen (cache_of h) (\<lambda>cc.
           kthen (kcall (setenv api ''KRB5CCNAME'' (full_cache_name cc))) (\<lambda>res.
             if res \<noteq> 0 then throw_error api ''Failed to switch principal'' res
             else kput (\<lambda>c. c\<lparr>curr_principal := who\<rparr>))))"

definition tgt_data :: "'os krb5_client \<Rightarrow> qstring \<Rightarrow> krb5_tgt_data" where
  "tgt_data c who = (case map_of (principal_tgt_map c) who of None \<Rightarrow> no_tgt_data | Some data \<Rightarrow> data)"

definition refresh_tgt :: "('os, 'p) krb5_api \<Rightarrow> qstring \<Rightarrow> ('os, unit) krb_op" where
  "refresh_tgt api who =
     (let error = ''Failed to refresh TGT''
      in kthen (kget (\<lambda>c. map_of (principal_cache_map c) who)) (\<lambda>ccache.
        case ccache of None \<Rightarrow> throw_error api error 0
        | Some h \<Rightarrow> kthen (cache_of h) (\<lambda>cc.
            kthen (kcall (krb5_cc_get_principal api cc)) (\<lambda>res.
              case res of Inl res \<Rightarrow> throw_error api error res
              | Inr princ \<Rightarrow> kthen (kcall (krb5_get_renewed_creds api princ cc)) (\<lambda>res.
                  case res of Inl res \<Rightarrow> throw_error api error res
                  | Inr new_creds \<Rightarrow> kthen (kcall (krb5_cc_store_cred api cc new_creds)) (\<lambda>res.
                      if res \<noteq> 0 then cleanup_and_throw api error res None
                      else kthen (kget (\<lambda>c. current_time api (os c))) (\<lambda>now.
                        kput (\<lambda>c. c\<lparr>principal_tgt_map := AList.update who
                          (update_tgt_state_from_creds now (tgt_data c who) new_creds) (principal_tgt_map c)\<rparr>))))))))"

definition current_principal :: "'os krb5_client \<Rightarrow> qstring" where "current_principal c = curr_principal c"

definition system_principal :: "'os krb5_client \<Rightarrow> qstring" where "system_principal c = sys_principal c"

definition principal_has_cache :: "'os krb5_client \<Rightarrow> qstring \<Rightarrow> bool" where
  "principal_has_cache c who = (map_of (principal_cache_map c) who \<noteq> None)"

definition available_principals :: "('os, 'p) krb5_api \<Rightarrow> 'os krb5_client \<Rightarrow> qstring list" where
  "available_principals api c = key_order api (map fst (principal_cache_map c))"

text \<open>\<open>operator[]\<close> of a hash inserts a default value for a key that is missing.\<close>

fun active_principals_of :: "qstring list \<Rightarrow> qstring list \<Rightarrow> ('os, qstring list) krb_op" where
  "active_principals_of [] out = kgive out"
| "active_principals_of (who # whos) out =
     kdo (kput (\<lambda>c. if map_of (principal_tgt_map c) who = None
           then c\<lparr>principal_tgt_map := AList.update who no_tgt_data (principal_tgt_map c)\<rparr> else c))
    (kthen (kget (\<lambda>c. tgt_data c who)) (\<lambda>data.
       active_principals_of whos (if tgt_state data = Krb5TgtState_Active then out @ [who] else out)))"

definition active_tgt_principals :: "('os, 'p) krb5_api \<Rightarrow> ('os, qstring list) krb_op" where
  "active_tgt_principals api = kthen (kget (available_principals api)) (\<lambda>whos. active_principals_of whos [])"

definition logout :: "('os, 'p) krb5_api \<Rightarrow> bool \<Rightarrow> ('os, unit) krb_op" where
  "logout api delete_creds =
     kthen (kcall (setenv api ''KRB5CCNAME'' ''MEMORY:empty_ccache'')) (\<lambda>_.
     kthen (kget (\<lambda>c. curr_principal c \<noteq> sys_principal c)) (\<lambda>creds_not_system.
     kdo (if delete_creds \<and> creds_not_system
          then kthen (kget curr_principal) (\<lambda>who. kinit_forget api who)
          else kgive ())
       (kput (\<lambda>c. c\<lparr>curr_principal := []\<rparr>))))"

definition update_temp_caches :: "('os, 'p) krb5_api \<Rightarrow> qstring list \<Rightarrow> ('os, unit) krb_op" where
  "update_temp_caches api remembered_principals =
     kdo (kput (\<lambda>c. c\<lparr>krb_temp_caches := []\<rparr>))
    (kthen (kget (\<lambda>c. key_order api (filter (\<lambda>p. p \<notin> set remembered_principals) (map fst (principal_cache_map c))))) (\<lambda>unremembered.
       kfor (\<lambda>who.
         kthen (kget (\<lambda>c. map_of (principal_cache_map c) who)) (\<lambda>ccache.
           case ccache of None \<Rightarrow> kfault Null_Dereference
           | Some h \<Rightarrow> kthen (cache_of h) (\<lambda>cc. kput (\<lambda>c. c\<lparr>krb_temp_caches := krb_temp_caches c @ [cc_name cc]\<rparr>)))) unremembered))"

end
