(* ===== verification/Krb5Facts.thy ===== *)
theory Krb5Facts
  imports Krb5Client
begin

text \<open>
  The Kerberos client: its two hashes agree and every handle in them is open, in every state that
  requests can lead to, so no request uses a handle that was closed; what a login changes; which
  tickets count as active; and what changing a password reports.
\<close>

section \<open>Running operations\<close>

text \<open>
  \<open>runs P m Q E\<close>: from a state with \<open>P\<close> the operation does not fault, and it returns with \<open>Q\<close> or throws
  with \<open>E\<close>.
\<close>

definition runs :: "('os krb5_client \<Rightarrow> bool) \<Rightarrow> ('os, 'a) krb_op \<Rightarrow> ('a \<Rightarrow> 'os krb5_client \<Rightarrow> bool) \<Rightarrow> ('os krb5_client \<Rightarrow> bool) \<Rightarrow> bool" where
  "runs P m Q E = (\<forall>c. P c \<longrightarrow> (\<exists>r c'. m c = Inr (r, c') \<and> (case r of Inl _ \<Rightarrow> E c' | Inr x \<Rightarrow> Q x c')))"

named_theorems krb_rules \<open>rules for operations of the Kerberos client\<close>

lemma runs_kgive: "(\<And>c. P c \<Longrightarrow> Q x c) \<Longrightarrow> runs P (kgive x) Q E"
  by (simp add: runs_def kgive_def)

lemma runs_kthrow: "(\<And>c. P c \<Longrightarrow> E c) \<Longrightarrow> runs P (kthrow e) Q E"
  by (simp add: runs_def kthrow_def)

lemma runs_kthen: "runs P m R E \<Longrightarrow> (\<And>x. runs (R x) (f x) Q E) \<Longrightarrow> runs P (kthen m f) Q E"
  unfolding runs_def
proof (intro allI impI)
  fix c assume m: "\<forall>c. P c \<longrightarrow> (\<exists>r c'. m c = Inr (r, c') \<and> (case r of Inl _ \<Rightarrow> E c' | Inr x \<Rightarrow> R x c'))" and "P c"
    and f: "\<And>x. \<forall>c. R x c \<longrightarrow> (\<exists>r c'. f x c = Inr (r, c') \<and> (case r of Inl _ \<Rightarrow> E c' | Inr x \<Rightarrow> Q x c'))"
  then obtain r c' where r: "m c = Inr (r, c')" "case r of Inl _ \<Rightarrow> E c' | Inr x \<Rightarrow> R x c'" by blast
  then show "\<exists>r c'. kthen m f c = Inr (r, c') \<and> (case r of Inl _ \<Rightarrow> E c' | Inr x \<Rightarrow> Q x c')"
    using f by (cases r) (auto simp: kthen_def)
qed

lemma runs_kdo: "runs P m (\<lambda>_. R) E \<Longrightarrow> runs R f Q E \<Longrightarrow> runs P (kdo m f) Q E"
  unfolding kdo_def by (rule runs_kthen)

lemma runs_kget: "runs P (kget f) (\<lambda>x c. P c \<and> x = f c) E"
  by (simp add: runs_def kget_def)

lemma runs_kput: "(\<And>c. P c \<Longrightarrow> Q () (f c)) \<Longrightarrow> runs P (kput f) Q E"
  by (simp add: runs_def kput_def)

lemma runs_kcall: "(\<And>c w. P c \<Longrightarrow> P (c\<lparr>os := w\<rparr>)) \<Longrightarrow> runs P (kcall f) (\<lambda>_. P) E"
  by (simp add: runs_def kcall_def Let_def case_prod_beta)

lemma runs_cache_of: "(\<And>c. P c \<Longrightarrow> open_caches c h \<noteq> None) \<Longrightarrow> runs P (cache_of h) (\<lambda>cc c. P c \<and> open_caches c h = Some cc) E"
  unfolding runs_def cache_of_def by (metis (mono_tags, lifting) option.exhaust_sel option.simps(5) sum.case(2))

lemma runs_weaken: "runs P m Q E \<Longrightarrow> (\<And>c. P' c \<Longrightarrow> P c) \<Longrightarrow> (\<And>x c. Q x c \<Longrightarrow> Q' x c) \<Longrightarrow> (\<And>c. E c \<Longrightarrow> E' c) \<Longrightarrow> runs P' m Q' E'"
  unfolding runs_def
proof (intro allI impI)
  fix c assume m: "\<forall>c. P c \<longrightarrow> (\<exists>r c'. m c = Inr (r, c') \<and> (case r of Inl _ \<Rightarrow> E c' | Inr x \<Rightarrow> Q x c'))"
    and w: "\<And>c. P' c \<Longrightarrow> P c" "\<And>x c. Q x c \<Longrightarrow> Q' x c" "\<And>c. E c \<Longrightarrow> E' c" and "P' c"
  then obtain r c' where "m c = Inr (r, c')" "case r of Inl _ \<Rightarrow> E c' | Inr x \<Rightarrow> Q x c'" by blast
  then show "\<exists>r c'. m c = Inr (r, c') \<and> (case r of Inl _ \<Rightarrow> E' c' | Inr x \<Rightarrow> Q' x c')" using w by (cases r) auto
qed

lemma runs_kfor: "(\<And>x. x \<in> set xs \<Longrightarrow> runs P (f x) (\<lambda>_. P) E) \<Longrightarrow> runs P (kfor f xs) (\<lambda>_. P) E"
  by (induction xs) (auto intro: runs_kgive runs_kdo)

section \<open>The invariant\<close>

definition client_ok :: "'os krb5_client \<Rightarrow> bool" where
  "client_ok c =
     (distinct (map fst (principal_cache_map c)) \<and> distinct (map fst (principal_tgt_map c))
      \<and> dom (map_of (principal_cache_map c)) = dom (map_of (principal_tgt_map c))
      \<and> (\<forall>p h. map_of (principal_cache_map c) p = Some h \<longrightarrow> open_caches c h \<noteq> None)
      \<and> (\<forall>p q h. map_of (principal_cache_map c) p = Some h \<longrightarrow> map_of (principal_cache_map c) q = Some h \<longrightarrow> p = q)
      \<and> (\<forall>h. open_caches c h \<noteq> None \<longrightarrow> h < next_handle c)
      \<and> (\<forall>p data. map_of (principal_tgt_map c) p = Some data \<longrightarrow> tgt_principal data = p))"

text \<open>A handle that is open and not in the hash: the operation that has it must close it or store it.\<close>

definition holds_handle :: "cc_handle \<Rightarrow> 'os krb5_client \<Rightarrow> bool" where
  "holds_handle h c = (client_ok c \<and> open_caches c h \<noteq> None \<and> h \<notin> ran (map_of (principal_cache_map c)))"

lemma client_ok_os [simp]: "client_ok (c\<lparr>os := w\<rparr>) = client_ok c"
  by (simp add: client_ok_def)

lemma client_ok_names [simp]:
  "client_ok (c\<lparr>curr_principal := a\<rparr>) = client_ok c" "client_ok (c\<lparr>sys_principal := a\<rparr>) = client_ok c"
  "client_ok (c\<lparr>sys_ccache := a\<rparr>) = client_ok c" "client_ok (c\<lparr>krb_temp_caches := l\<rparr>) = client_ok c"
  by (simp_all add: client_ok_def)

lemma holds_handle_names [simp]:
  "holds_handle h (c\<lparr>os := w\<rparr>) = holds_handle h c"
  "holds_handle h (c\<lparr>sys_principal := a\<rparr>) = holds_handle h c" "holds_handle h (c\<lparr>sys_ccache := a\<rparr>) = holds_handle h c"
  by (simp_all add: holds_handle_def)

lemma holds_handle_ok: "holds_handle h c \<Longrightarrow> client_ok c"
  by (simp add: holds_handle_def)

lemma client_ok_close: "holds_handle h c \<Longrightarrow> client_ok (c\<lparr>open_caches := (open_caches c)(h := None)\<rparr>)"
  by (auto simp: holds_handle_def client_ok_def ran_def)

lemma client_ok_remember:
  "holds_handle h c \<Longrightarrow> tgt_principal data = p \<Longrightarrow>
    client_ok (c\<lparr>principal_tgt_map := AList.update p data (principal_tgt_map c),
      principal_cache_map := AList.update p h (principal_cache_map c)\<rparr>)"
  by (auto simp: holds_handle_def client_ok_def AList.update_conv' distinct_update ran_def split: if_splits)

lemma holds_handle_open:
  assumes "client_ok c"
  shows "holds_handle (next_handle c) (c\<lparr>open_caches := (open_caches c)(next_handle c \<mapsto> cc), next_handle := next_handle c + 1\<rparr>)"
proof -
  have bound: "h < next_handle c" if "open_caches c h \<noteq> None" for h using assms that unfolding client_ok_def by blast
  have "h \<noteq> next_handle c" if "map_of (principal_cache_map c) p = Some h" for p h
    using bound [of h] assms that unfolding client_ok_def by blast
  then have "next_handle c \<notin> ran (map_of (principal_cache_map c))" by (auto simp: ran_def)
  moreover have "client_ok (c\<lparr>open_caches := (open_caches c)(next_handle c \<mapsto> cc), next_handle := next_handle c + 1\<rparr>)"
    using assms bound unfolding client_ok_def by (simp add: less_Suc_eq)
  ultimately show ?thesis by (simp add: holds_handle_def)
qed

lemma runs_open_handle: "runs client_ok (open_handle cc) (\<lambda>h c. holds_handle h c \<and> open_caches c h = Some cc) E"
  using holds_handle_open unfolding runs_def open_handle_def by fastforce

lemma runs_close: "runs (holds_handle h) (krb5_cc_close (Some h)) (\<lambda>_. client_ok) E"
  unfolding krb5_cc_close_def option.case
  by (rule runs_kthen [OF runs_cache_of]) (simp add: holds_handle_def, rule runs_kput, blast intro: client_ok_close)

lemma runs_cleanup: "runs (holds_handle h) (cleanup (Some h)) (\<lambda>_. client_ok) E"
  by (simp add: cleanup_def runs_close)

lemma runs_throw: "(\<And>c. P c \<Longrightarrow> E c) \<Longrightarrow> runs P (throw_error api error code) Q E"
  unfolding throw_error_def by (rule runs_kthrow)

lemma runs_cleanup_throw: "(\<And>c. P c \<Longrightarrow> E c) \<Longrightarrow> runs P (cleanup_and_throw api error code None) Q E"
  unfolding cleanup_and_throw_def cleanup_def by (simp, rule runs_kdo [OF runs_kgive runs_throw])

lemma runs_cleanup_throw_handle: "runs (holds_handle h) (cleanup_and_throw api error code (Some h)) Q client_ok"
  unfolding cleanup_and_throw_def by (rule runs_kdo [OF runs_cleanup runs_throw])

section \<open>Loading caches\<close>

lemma runs_load_cache_data: "runs (holds_handle h) (load_cache_data api h sys) (\<lambda>_. client_ok) E"
  unfolding load_cache_data_def Let_def
  apply (rule runs_kthen [OF runs_cache_of])
   apply (simp add: holds_handle_def)
  apply (rule runs_kthen [where R = "\<lambda>_. holds_handle h"])
   apply (rule runs_weaken [OF runs_kcall [where P = "holds_handle h"]]; simp)
  apply (auto split: sum.split intro!: runs_cleanup)
  apply (rule runs_kthen [where R = "\<lambda>_. holds_handle h"])
   apply (rule runs_kcall, simp)
  apply (auto split: sum.split intro!: runs_cleanup)
  apply (rule runs_kdo [where R = "holds_handle h"])
   apply (rule runs_kput, simp)
  apply (rule runs_kthen [OF runs_kget])
  unfolding remember_ticket_def
  apply (rule runs_kput, rule client_ok_remember, simp_all)
  done

lemma runs_principal_from: "runs (holds_handle h) (principal_from_ccache api h) (\<lambda>_. holds_handle h) E"
  unfolding principal_from_ccache_def
  apply (rule runs_kthen [OF runs_cache_of])
   apply (simp add: holds_handle_def)
  apply (rule runs_kthen [where R = "\<lambda>_. holds_handle h"])
   apply (rule runs_weaken [OF runs_kcall [where P = "holds_handle h"]]; simp)
  apply (auto split: sum.split intro!: runs_kgive)
  done

lemma runs_open: "runs client_ok (open_handle cc) (\<lambda>h. holds_handle h) E"
  by (rule runs_weaken [OF runs_open_handle]) simp_all

lemma runs_load_custom: "runs client_ok (load_custom_cache api name) (\<lambda>_. client_ok) E"
  unfolding load_custom_cache_def
  apply (rule runs_kthen [OF runs_kcall])
   apply simp
  apply (auto split: sum.split intro!: runs_kgive)
  apply (rule runs_kthen [OF runs_open])
  apply (rule runs_kthen [OF runs_principal_from])
  apply (rule runs_kthen [OF runs_kget])
  apply (auto intro!: runs_weaken [OF runs_close] runs_weaken [OF runs_load_cache_data])
  done

text \<open>
  Loading closes a null handle when the default cache can not be resolved, so that it can is assumed.
\<close>

definition default_resolves :: "('os, 'p) krb5_api \<Rightarrow> qstring \<Rightarrow> bool" where
  "default_resolves api sys = (\<forall>w. if sys = [] then \<exists>cc. fst (krb5_cc_default api w) = Inr cc else \<exists>cc. fst (krb5_cc_resolve api sys w) = Inr cc)"

lemma runs_kcall_value:
  "(\<And>c w. P c \<Longrightarrow> P (c\<lparr>os := w\<rparr>)) \<Longrightarrow> (\<And>w. V (fst (f w))) \<Longrightarrow> runs P (kcall f) (\<lambda>x c. P c \<and> V x) E"
  by (simp add: runs_def kcall_def Let_def case_prod_beta)

lemma runs_load_default:
  assumes "default_resolves api sys"
  shows "runs (\<lambda>c. client_ok c \<and> sys_ccache c = sys) (load_default_cache api) (\<lambda>r c. \<exists>h. r = Some h \<and> holds_handle h c) E"
proof (cases "sys = []")
  case True
  have d: "\<exists>cc. fst (krb5_cc_default api w) = Inr cc" for w using assms True by (simp add: default_resolves_def)
  have "runs (\<lambda>c. client_ok c \<and> sys_ccache c = sys) (load_default_cache api) (\<lambda>r c. \<exists>h. r = Some h \<and> holds_handle h c) E" 
    unfolding runs_def
  proof (intro allI impI)
    fix c :: "'a krb5_client" assume c: "client_ok c \<and> sys_ccache c = sys"
    obtain cc w where w: "krb5_cc_default api (os c) = (Inr cc, w)" using d [of "os c"] by (metis prod.collapse)
    show "\<exists>r c'. load_default_cache api c = Inr (r, c') \<and> (case r of Inl _ \<Rightarrow> E c' | Inr r \<Rightarrow> \<exists>h. r = Some h \<and> holds_handle h c')"
      using c True w holds_handle_open [of "c\<lparr>os := w\<rparr>" cc]
      by (simp add: load_default_cache_def kthen_def kget_def kcall_def kdo_def kput_def kgive_def open_handle_def)
  qed
  then show ?thesis .
next
  case False
  have d: "\<exists>cc. fst (krb5_cc_resolve api sys w) = Inr cc" for w using assms False by (simp add: default_resolves_def)
  show ?thesis
    unfolding runs_def
  proof (intro allI impI)
    fix c :: "'a krb5_client" assume c: "client_ok c \<and> sys_ccache c = sys"
    obtain cc w where w: "krb5_cc_resolve api sys (os c) = (Inr cc, w)" using d [of "os c"] by (metis prod.collapse)
    show "\<exists>r c'. load_default_cache api c = Inr (r, c') \<and> (case r of Inl _ \<Rightarrow> E c' | Inr r \<Rightarrow> \<exists>h. r = Some h \<and> holds_handle h c')"
      using c False w holds_handle_open [of "c\<lparr>os := w\<rparr>" cc]
      by (simp add: load_default_cache_def kthen_def kget_def kcall_def kgive_def open_handle_def)
  qed
qed

lemma runs_load_caches:
  assumes "default_resolves api sys"
  shows "runs (\<lambda>c. client_ok c \<and> sys_ccache c = sys) (load_caches api) (\<lambda>_. client_ok) E"
  unfolding load_caches_def
proof (rule runs_kthen [OF runs_load_default [OF assms]])
  fix x
  have load: "runs (\<lambda>c. holds_handle h c) (kthen (cache_of h) (\<lambda>cc. load_cache_data api h (cache_is_system cc))) (\<lambda>_. client_ok) E" for h
    by (rule runs_kthen [OF runs_cache_of]) (simp add: holds_handle_def, rule runs_weaken [OF runs_load_cache_data], simp_all)
  have rest: "runs client_ok (kthen (kget (\<lambda>c. ccache_files api (os c))) (\<lambda>names. kdo (kfor (load_custom_cache api) names)
      (kput (\<lambda>c. if curr_principal c = [] then c\<lparr>curr_principal := sys_principal c\<rparr> else c)))) (\<lambda>_. client_ok) E"
    by (rule runs_kthen [OF runs_kget], rule runs_kdo [where R = client_ok],
      rule runs_weaken [OF runs_kfor [OF runs_load_custom]], simp_all, rule runs_kput, simp)
  show "runs (\<lambda>c. \<exists>h. x = Some h \<and> holds_handle h c)
      (case x of None \<Rightarrow> kgive () | Some h \<Rightarrow> kdo (kthen (cache_of h) (\<lambda>cc. load_cache_data api h (cache_is_system cc)))
        (kthen (kget (\<lambda>c. ccache_files api (os c))) (\<lambda>names. kdo (kfor (load_custom_cache api) names)
          (kput (\<lambda>c. if curr_principal c = [] then c\<lparr>curr_principal := sys_principal c\<rparr> else c))))) (\<lambda>_. client_ok) E"
    by (cases x) (simp add: runs_def, simp add: runs_kdo [OF load rest])
qed

lemma client_ok_new: "client_ok (new_client w sys)"
  by (simp add: client_ok_def new_client_def)

lemma runs_start:
  assumes "default_resolves api sys"
  shows "runs (\<lambda>c. client_ok c \<and> sys_ccache c = sys) (krb5_client_start api) (\<lambda>_. client_ok) client_ok"
  unfolding krb5_client_start_def
  by (rule runs_kthen [OF runs_kcall], simp, simp split del: if_split split: if_split, intro conjI impI runs_kthrow, simp,
    rule runs_kthen [OF runs_kcall], simp, simp, intro conjI impI runs_kthrow, simp,
    rule runs_kthen [OF runs_kcall], simp, simp, intro conjI impI runs_kthrow, simp, rule runs_load_caches [OF assms])

section \<open>Requests\<close>

definition client_maps :: "'os krb5_client \<Rightarrow> (qstring \<Rightarrow> cc_handle option) \<times> (qstring \<Rightarrow> krb5_tgt_data option)" where
  "client_maps c = (map_of (principal_cache_map c), map_of (principal_tgt_map c))"

lemma client_maps_names [simp]:
  "client_maps (c\<lparr>os := w\<rparr>) = client_maps c" "client_maps (c\<lparr>curr_principal := p\<rparr>) = client_maps c"
  by (simp_all add: client_maps_def)

lemma kinit_forget_run:
  assumes "client_ok c"
  shows "\<exists>c'. kinit_forget api who c = Inr (Inr (), c') \<and> client_ok c' \<and> sys_principal c' = sys_principal c
    \<and> client_maps c' = ((fst (client_maps c))(who := None), (snd (client_maps c))(who := None)) \<and> curr_principal c' = curr_principal c"
proof (cases "map_of (principal_cache_map c) who")
  case None
  then have "map_of (principal_tgt_map c) who = None" using assms unfolding client_ok_def by blast
  with None show ?thesis using assms
    by (simp add: kinit_forget_def kthen_def kget_def kdo_def kgive_def kput_def client_maps_def AList.delete_conv'
      client_ok_def distinct_delete fun_upd_idem)
next
  case (Some h)
  then obtain cc where cc: "open_caches c h = Some cc" using assms unfolding client_ok_def by blast
  have "p = who" if "map_of (principal_cache_map c) p = Some h" for p using assms Some that unfolding client_ok_def by blast
  then show ?thesis using assms Some cc
    by (auto simp: kinit_forget_def kthen_def kget_def kdo_def kput_def kcall_def krb5_cc_destroy_def cache_of_def client_maps_def
      AList.delete_conv' client_ok_def distinct_delete)
qed

lemma runs_forget: "runs client_ok (kinit_forget api who) (\<lambda>_. client_ok) E"
  using kinit_forget_run unfolding runs_def by fastforce

lemma runs_kinit_store: "runs (holds_handle h) (kinit_store api error princ creds name h cc) (\<lambda>_. client_ok) client_ok"
  unfolding kinit_store_def
  by (rule runs_kthen [OF runs_kcall], simp, simp, intro conjI impI runs_cleanup_throw_handle,
    rule runs_kthen [OF runs_kcall], simp, simp, intro conjI impI runs_cleanup_throw_handle,
    rule runs_kthen [OF runs_kcall], simp, simp, intro conjI impI runs_cleanup_throw_handle runs_load_cache_data)

lemma runs_kinit: "runs client_ok (kinit api who password enterprise) (\<lambda>_. client_ok) client_ok"
proof -
  have stored: "runs client_ok (kthen (open_handle cc) (\<lambda>h. kdo (kinit_store api error princ creds name h cc)
      (kput (\<lambda>c. c\<lparr>curr_principal := who\<rparr>)))) (\<lambda>_. client_ok) client_ok" for cc error princ creds name
    by (rule runs_kthen [OF runs_open], rule runs_kdo [OF runs_kinit_store], rule runs_kput, simp)
  show ?thesis unfolding kinit_def Let_def
    by (rule runs_kdo [OF runs_forget], cases "krb5_parse_name api enterprise who", simp, rule runs_cleanup_throw, assumption, simp,
      rule runs_kthen [OF runs_kcall], simp, simp split: sum.split, intro conjI allI impI, rule runs_cleanup_throw, assumption,
      rule runs_kthen [OF runs_kcall], simp, simp split: sum.split, intro conjI allI impI, rule runs_cleanup_throw, assumption,
      rule stored)
qed

lemma runs_change_password: "runs client_ok (change_password api who old new enterprise) (\<lambda>_. client_ok) client_ok"
  unfolding change_password_def Let_def
  by (cases "krb5_parse_name api enterprise who", simp, rule runs_cleanup_throw, assumption, simp,
    rule runs_kthen [OF runs_kcall], simp, simp split: sum.split, intro conjI allI impI, rule runs_cleanup_throw, assumption,
    rule runs_kthen [OF runs_kcall], simp, simp split: prod.split, intro conjI allI impI, rule runs_cleanup_throw, assumption,
    rule runs_kgive)

definition maps_to_open :: "qstring \<Rightarrow> cc_handle option \<Rightarrow> 'os krb5_client \<Rightarrow> bool" where
  "maps_to_open who h c = (client_ok c \<and> h = map_of (principal_cache_map c) who)"

lemma maps_to_open_handle: "maps_to_open who (Some h) c \<Longrightarrow> open_caches c h \<noteq> None"
  unfolding maps_to_open_def client_ok_def by metis

lemma maps_to_open_os [simp]: "maps_to_open who h (c\<lparr>os := w\<rparr>) = maps_to_open who h c"
  by (simp add: maps_to_open_def)

lemma runs_lookup: "runs client_ok (kget (\<lambda>c. map_of (principal_cache_map c) who)) (\<lambda>h. maps_to_open who h) E"
  by (rule runs_weaken [OF runs_kget]) (simp_all add: maps_to_open_def)

lemma maps_to_open_ok: "maps_to_open who h c \<Longrightarrow> client_ok c"
  by (simp add: maps_to_open_def)

lemma runs_cache_of_mapped: "runs (maps_to_open who (Some h)) (cache_of h) (\<lambda>_. maps_to_open who (Some h)) E"
  by (rule runs_weaken [OF runs_cache_of [where P = "maps_to_open who (Some h)"]]) (erule maps_to_open_handle, simp_all)

lemma runs_set_current: "runs client_ok (set_current_principal api who) (\<lambda>_. client_ok) client_ok"
  unfolding set_current_principal_def
proof (rule runs_kthen [OF runs_lookup])
  fix h
  show "runs (maps_to_open who h) (case h of None \<Rightarrow> throw_error api ''Principal is not found'' 0
      | Some h \<Rightarrow> kthen (cache_of h) (\<lambda>cc. kthen (kcall (setenv api ''KRB5CCNAME'' (full_cache_name cc)))
          (\<lambda>res. if res \<noteq> 0 then throw_error api ''Failed to switch principal'' res
            else kput (\<lambda>c. c\<lparr>curr_principal := who\<rparr>)))) (\<lambda>_. client_ok) client_ok"
    by (cases h, simp, rule runs_throw, erule maps_to_open_ok, simp, rule runs_kthen [OF runs_cache_of_mapped],
      rule runs_kthen [OF runs_kcall], simp, simp, intro conjI impI, rule runs_throw, erule maps_to_open_ok,
      rule runs_kput, simp add: maps_to_open_ok)
qed

lemma client_ok_update:
  "maps_to_open who (Some h) c \<Longrightarrow>
    client_ok (c\<lparr>principal_tgt_map := AList.update who (update_tgt_state_from_creds now (tgt_data c who) creds) (principal_tgt_map c)\<rparr>)"
proof -
  assume m: "maps_to_open who (Some h) c"
  then have "who \<in> dom (map_of (principal_tgt_map c))" unfolding maps_to_open_def client_ok_def by (metis domI)
  then obtain data where "map_of (principal_tgt_map c) who = Some data" by blast
  then show ?thesis using m
    by (auto simp: maps_to_open_def client_ok_def AList.update_conv' distinct_update update_tgt_state_from_creds_def tgt_data_def)
qed

lemma runs_refresh: "runs client_ok (refresh_tgt api who) (\<lambda>_. client_ok) client_ok"
  unfolding refresh_tgt_def Let_def
proof (rule runs_kthen [OF runs_lookup])
  fix h
  have thrown: "runs (maps_to_open who h) (throw_error api e n) Q client_ok" "runs (maps_to_open who h) (cleanup_and_throw api e n None) Q client_ok"
    for h e n and Q :: "'c \<Rightarrow> 'a krb5_client \<Rightarrow> bool"
    using maps_to_open_ok by (auto intro: runs_throw runs_cleanup_throw)
  show "runs (maps_to_open who h) (case h of None \<Rightarrow> throw_error api ''Failed to refresh TGT'' 0
      | Some h \<Rightarrow> kthen (cache_of h) (\<lambda>cc. kthen (kcall (krb5_cc_get_principal api cc)) (\<lambda>res.
          case res of Inl res \<Rightarrow> throw_error api ''Failed to refresh TGT'' res
          | Inr princ \<Rightarrow> kthen (kcall (krb5_get_renewed_creds api princ cc)) (\<lambda>res.
              case res of Inl res \<Rightarrow> throw_error api ''Failed to refresh TGT'' res
              | Inr new_creds \<Rightarrow> kthen (kcall (krb5_cc_store_cred api cc new_creds)) (\<lambda>res.
                  if res \<noteq> 0 then cleanup_and_throw api ''Failed to refresh TGT'' res None
                  else kthen (kget (\<lambda>c. current_time api (os c))) (\<lambda>now.
                    kput (\<lambda>c. c\<lparr>principal_tgt_map := AList.update who
                      (update_tgt_state_from_creds now (tgt_data c who) new_creds) (principal_tgt_map c)\<rparr>))))))) (\<lambda>_. client_ok) client_ok"
    by (cases h, simp, rule thrown, simp, rule runs_kthen [OF runs_cache_of_mapped],
      rule runs_kthen [OF runs_kcall], simp, simp split: sum.split, intro conjI allI impI, rule thrown,
      rule runs_kthen [OF runs_kcall], simp, simp split: sum.split, intro conjI allI impI, rule thrown,
      rule runs_kthen [OF runs_kcall], simp, simp, intro conjI impI, rule thrown,
      rule runs_kthen [OF runs_kget], rule runs_kput, simp add: client_ok_update)
qed

lemma runs_logout: "runs client_ok (logout api delete_creds) (\<lambda>_. client_ok) client_ok"
proof -
  have forget: "runs (\<lambda>c. client_ok c \<and> b = (curr_principal c \<noteq> sys_principal c))
      (if delete_creds \<and> b then kthen (kget curr_principal) (kinit_forget api) else kgive ()) (\<lambda>_. client_ok) client_ok" for b
    by (simp, intro conjI impI, rule runs_kthen [OF runs_kget], rule runs_weaken [OF runs_forget], simp_all, auto intro!: runs_kgive)
  show ?thesis unfolding logout_def
    by (rule runs_kthen [OF runs_kcall], simp, rule runs_kthen [OF runs_kget], rule runs_kdo [OF forget], rule runs_kput, simp)
qed

text \<open>The order of the keys of a hash is one of its keys.\<close>

definition orders_keys :: "('os, 'p) krb5_api \<Rightarrow> bool" where
  "orders_keys api = (\<forall>keys. mset (key_order api keys) = mset keys)"

lemma orders_keys_set: "orders_keys api \<Longrightarrow> set (key_order api keys) = set keys"
  unfolding orders_keys_def by (metis mset_eq_setD)

lemma active_principals_run:
  assumes "\<forall>p \<in> set ps. map_of (principal_tgt_map c) p \<noteq> None"
  shows "active_principals_of ps out c = Inr (Inr (out @ filter (\<lambda>p. tgt_state (tgt_data c p) = Krb5TgtState_Active) ps), c)"
  using assms by (induction ps arbitrary: out) (auto simp: kgive_def kdo_def kthen_def kput_def kget_def)

lemma cached_has_ticket:
  "client_ok c \<Longrightarrow> p \<in> fst ` set (principal_cache_map c) \<Longrightarrow> map_of (principal_tgt_map c) p \<noteq> None"
  unfolding client_ok_def by (metis domD domIff dom_map_of_conv_image_fst)

lemma active_run:
  assumes "client_ok c" "orders_keys api"
  shows "active_tgt_principals api c =
    Inr (Inr (filter (\<lambda>p. tgt_state (tgt_data c p) = Krb5TgtState_Active) (available_principals api c)), c)"
proof -
  have "\<forall>p \<in> set (available_principals api c). map_of (principal_tgt_map c) p \<noteq> None"
    using cached_has_ticket [OF assms(1)] by (auto simp: available_principals_def orders_keys_set [OF assms(2)])
  from active_principals_run [OF this, of "[]"] show ?thesis
    by (simp add: active_tgt_principals_def kthen_def kget_def)
qed

lemma runs_update_temp: 
  assumes "orders_keys api"
  shows "runs client_ok (update_temp_caches api remembered) (\<lambda>_. client_ok) client_ok"
proof -
  let ?step = "\<lambda>who. kthen (kget (\<lambda>c. map_of (principal_cache_map c) who)) (\<lambda>ccache. case ccache of None \<Rightarrow> kfault Null_Dereference
    | Some h \<Rightarrow> kthen (cache_of h) (\<lambda>cc. kput (\<lambda>c. c\<lparr>krb_temp_caches := krb_temp_caches c @ [cc_name cc]\<rparr>)))"
  have step: "runs (\<lambda>c. client_ok c \<and> ps \<subseteq> dom (map_of (principal_cache_map c))) (?step who)
      (\<lambda>_ c. client_ok c \<and> ps \<subseteq> dom (map_of (principal_cache_map c))) client_ok" if who: "who \<in> ps" for who ps
    unfolding runs_def
  proof (intro allI impI)
    fix c assume c: "client_ok c \<and> ps \<subseteq> dom (map_of (principal_cache_map c))"
    then obtain h where h: "map_of (principal_cache_map c) who = Some h" using who by (meson domD subsetD)
    then obtain cc where "open_caches c h = Some cc" using c unfolding client_ok_def by blast
    with h c show "\<exists>r c'. ?step who c = Inr (r, c') \<and> (case r of Inl _ \<Rightarrow> client_ok c' | Inr _ \<Rightarrow>
        client_ok c' \<and> ps \<subseteq> dom (map_of (principal_cache_map c')))"
      by (simp add: kthen_def kget_def cache_of_def kput_def)
  qed
  show ?thesis unfolding update_temp_caches_def
  proof (rule runs_kdo [where R = client_ok], rule runs_kput, simp, rule runs_kthen [OF runs_kget])
    fix ps
    have "runs (\<lambda>c. client_ok c \<and> set ps \<subseteq> dom (map_of (principal_cache_map c))) (kfor ?step ps)
        (\<lambda>_ c. client_ok c \<and> set ps \<subseteq> dom (map_of (principal_cache_map c))) client_ok"
      by (rule runs_kfor, rule step)
    then show "runs (\<lambda>c. client_ok c \<and> ps = key_order api (filter (\<lambda>p. p \<notin> set remembered) (map fst (principal_cache_map c))))
        (kfor ?step ps) (\<lambda>_. client_ok) client_ok"
      by (rule runs_weaken) (auto simp: orders_keys_set [OF assms] dom_map_of_conv_image_fst)
  qed
qed

section \<open>Reachable clients\<close>

datatype krb5_request = Authenticate qstring qstring bool | Set_Current_Principal qstring | Refresh_Tgt qstring
  | Active_Tgt_Principals | Logout bool | Update_Temp_Caches "qstring list" | Change_Password qstring qstring qstring bool

fun krb5_request_run :: "('os, 'p) krb5_api \<Rightarrow> krb5_request \<Rightarrow> ('os, unit) krb_op" where
  "krb5_request_run api (Authenticate who password enterprise) = kinit api who password enterprise"
| "krb5_request_run api (Set_Current_Principal who) = set_current_principal api who"
| "krb5_request_run api (Refresh_Tgt who) = refresh_tgt api who"
| "krb5_request_run api Active_Tgt_Principals = kthen (active_tgt_principals api) (\<lambda>_. kgive ())"
| "krb5_request_run api (Logout delete_creds) = logout api delete_creds"
| "krb5_request_run api (Update_Temp_Caches remembered) = update_temp_caches api remembered"
| "krb5_request_run api (Change_Password who old new enterprise) = change_password api who old new enterprise"

text \<open>A client that was started, after requests that returned or threw, while the outside changes.\<close>

inductive krb5_reachable :: "('os, 'p) krb5_api \<Rightarrow> qstring \<Rightarrow> 'os krb5_client \<Rightarrow> bool" for api sys where
  start: "krb5_client_start api (new_client w sys) = Inr (Inr (), c) \<Longrightarrow> krb5_reachable api sys c"
| request: "krb5_reachable api sys c \<Longrightarrow> krb5_request_run api request c = Inr (r, c') \<Longrightarrow> krb5_reachable api sys c'"
| outside: "krb5_reachable api sys c \<Longrightarrow> krb5_reachable api sys (c\<lparr>os := w\<rparr>)"

lemma runs_request:
  assumes "orders_keys api"
  shows "runs client_ok (krb5_request_run api request) (\<lambda>_. client_ok) client_ok"
proof (cases request)
  case Active_Tgt_Principals
  show ?thesis unfolding Active_Tgt_Principals krb5_request_run.simps runs_def
    using active_run [OF _ assms] by (simp add: kthen_def kgive_def)
qed (simp_all add: runs_kinit runs_set_current runs_refresh runs_logout runs_update_temp [OF assms] runs_change_password)

lemma runsE:
  assumes "runs P m Q E" "P c"
  obtains x c' where "m c = Inr (Inr x, c')" "Q x c'" | e c' where "m c = Inr (Inl e, c')" "E c'"
proof -
  obtain r c' where "m c = Inr (r, c')" "case r of Inl _ \<Rightarrow> E c' | Inr x \<Rightarrow> Q x c'" using assms unfolding runs_def by blast
  then show thesis using that by (cases r) auto
qed

lemma reachable_ok:
  assumes "default_resolves api sys" "orders_keys api" "krb5_reachable api sys c"
  shows "client_ok c"
  using assms(3)
proof induction
  case (start w c)
  have "client_ok (new_client w sys) \<and> sys_ccache (new_client w sys) = sys"
    using client_ok_new by (simp add: new_client_def)
  from runs_start [OF assms(1)] this show ?case by (rule runsE) (use start in auto)
next
  case (request c request r c')
  from runs_request [OF assms(2), of request] request.IH show ?case by (rule runsE) (use request.hyps(2) in auto)
qed simp

lemma runs_end: "client_ok c \<Longrightarrow> \<exists>c'. krb5_client_end c = Inr (Inr (), c')"
proof -
  assume ok: "client_ok c"
  define handles where "handles = map snd (principal_cache_map c)"
  have mapped: "map_of (principal_cache_map c) p = Some h \<longleftrightarrow> (p, h) \<in> set (principal_cache_map c)" for p h
    using ok by (auto simp: client_ok_def)
  have "distinct handles"
    unfolding handles_def distinct_map inj_on_def
  proof (intro conjI ballI impI)
    show "distinct (principal_cache_map c)" using ok by (simp add: client_ok_def distinct_map)
    fix x y assume "x \<in> set (principal_cache_map c)" "y \<in> set (principal_cache_map c)" "snd x = snd y"
    then show "x = y" using ok mapped unfolding client_ok_def by (metis prod.collapse)
  qed
  moreover have "\<forall>h \<in> set handles. open_caches c h \<noteq> None"
    using ok mapped unfolding client_ok_def handles_def by fastforce
  ultimately have "\<exists>c'. kfor (\<lambda>h. krb5_cc_close (Some h)) handles c = Inr (Inr (), c')"
  proof (induction handles arbitrary: c)
    case (Cons h hs)
    then have "\<forall>g \<in> set hs. open_caches (c\<lparr>open_caches := (open_caches c)(h := None)\<rparr>) g \<noteq> None" by auto
    from Cons.IH [OF _ this] Cons.prems show ?case
      by (auto simp: kdo_def kthen_def krb5_cc_close_def cache_of_def kput_def)
  qed (simp add: kgive_def)
  then show ?thesis by (simp add: krb5_client_end_def kthen_def kget_def handles_def)
qed

text \<open>
  C30. In every state that a Kerberos client can reach, by any requests that return or throw while the
  outside world changes, the same names have a cache and a ticket, each under its own name, no two
  names share a handle and every handle is open. No request, nor closing the client, then uses a null
  handle or one that was closed or destroyed.
\<close>

theorem krb5_handles_open:
  assumes "default_resolves api sys" and "orders_keys api" and "krb5_reachable api sys c"
  shows "client_ok c \<and> (\<exists>r c'. krb5_request_run api request c = Inr (r, c')) \<and> (\<exists>c'. krb5_client_end c = Inr (Inr (), c'))"
proof (intro conjI)
  show ok: "client_ok c" by (rule reachable_ok [OF assms])
  then show "\<exists>c'. krb5_client_end c = Inr (Inr (), c')" by (rule runs_end)
  from runs_request [OF assms(2)] ok show "\<exists>r c'. krb5_request_run api request c = Inr (r, c')" by (rule runsE) auto
qed

section \<open>Logging in and out\<close>

text \<open>What is forgotten, and what is recorded, by name.\<close>

definition forget_name :: "qstring \<Rightarrow> (qstring \<Rightarrow> cc_handle option) \<times> (qstring \<Rightarrow> krb5_tgt_data option) \<Rightarrow> (qstring \<Rightarrow> cc_handle option) \<times> (qstring \<Rightarrow> krb5_tgt_data option)" where
  "forget_name who maps = ((fst maps)(who := None), (snd maps)(who := None))"

definition same_but :: "qstring set \<Rightarrow> 'os krb5_client \<Rightarrow> 'os krb5_client \<Rightarrow> bool" where
  "same_but names c c' = (\<forall>q. q \<notin> names \<longrightarrow> fst (client_maps c') q = fst (client_maps c) q \<and> snd (client_maps c') q = snd (client_maps c) q)"

lemma load_cache_data_maps:
  assumes "load_cache_data api h sys c = Inr (r, c')"
  shows "(\<exists>name. same_but {name} c c') \<and> curr_principal c' = curr_principal c \<and> r = Inr ()"
  using assms
  by (auto simp: load_cache_data_def Let_def kthen_def bind_faulty_def kdo_def kcall_def kget_def kput_def cache_of_def cleanup_def
    krb5_cc_close_def remember_ticket_def same_but_def client_maps_def AList.update_conv' case_prod_beta
    split: sum.splits option.splits if_splits)

lemma kinit_store_maps:
  assumes "kinit_store api error princ creds name h cc c = Inr (r, c')"
  shows "(\<exists>p. same_but {p} c c') \<and> curr_principal c' = curr_principal c \<and> (\<forall>e. r = Inl e \<longrightarrow> client_maps c' = client_maps c)"
proof -
  have thrown: "client_maps c' = client_maps c \<and> curr_principal c' = curr_principal c"
    if "cleanup_and_throw api error code (Some h) (c\<lparr>os := w\<rparr>) = Inr (r, c')" for error code w and r :: "krb5_failure + unit"
    using that by (auto simp: cleanup_and_throw_def throw_error_def kthrow_def cleanup_def krb5_cc_close_def kdo_def kthen_def bind_faulty_def
      cache_of_def kput_def client_maps_def split: option.splits)
  have same: "client_maps (c\<lparr>os := w\<rparr>) = client_maps c" "same_but {p} (c\<lparr>os := w\<rparr>) c' = same_but {p} c c'" for w p
    by (simp_all add: client_maps_def same_but_def)
  have "same_but {p} c c'" if "client_maps c' = client_maps c" for p using that by (simp add: same_but_def)
  then show ?thesis
    using assms thrown load_cache_data_maps [of api h "cache_is_system cc" "c\<lparr>os := w\<rparr>" r c' for w] same
    by (fastforce simp: kinit_store_def kthen_def bind_faulty_def kcall_def Let_def case_prod_beta split: if_splits)
qed

lemma kthen_kcall: "f (os c) = (x, w) \<Longrightarrow> kthen (kcall f) g c = g x (c\<lparr>os := w\<rparr>)"
  by (simp add: kthen_def kcall_def)

lemma kinit_outcome:
  assumes ok: "client_ok c"
  obtains (fails) e c' where "kinit api who password enterprise c = Inr (Inl e, c')" "client_ok c'"
      "client_maps c' = forget_name who (client_maps c)" "curr_principal c' = curr_principal c"
    | (succeeds) name c' where "kinit api who password enterprise c = Inr (Inr (), c')" "client_ok c'"
      "same_but {who, name} c c'" "curr_principal c' = who"
proof -
  obtain c1 where c1: "kinit_forget api who c = Inr (Inr (), c1)" "client_ok c1"
    "client_maps c1 = forget_name who (client_maps c)" "curr_principal c1 = curr_principal c"
    using kinit_forget_run [OF ok] unfolding forget_name_def by metis
  obtain r c' where run: "kinit api who password enterprise c = Inr (r, c')" and ok': "client_ok c'"
    using runs_kinit [of api who password enterprise] ok unfolding runs_def
    by (metis (mono_tags, lifting) sum.case_eq_if)
  have forgot: "same_but {who} c c1" using c1(3) by (simp add: same_but_def forget_name_def)
  have "(\<exists>e. r = Inl e \<and> client_maps c' = client_maps c1 \<and> curr_principal c' = curr_principal c1)
      \<or> (\<exists>name c2. r = Inr () \<and> same_but {name} c1 c2 \<and> c' = c2\<lparr>curr_principal := who\<rparr>)"
  proof -
    have thrown: "\<exists>e. r = Inl e \<and> client_maps c' = client_maps c1 \<and> curr_principal c' = curr_principal c1"
      if "cleanup_and_throw api error code None (c1\<lparr>os := w\<rparr>) = Inr (r, c')" for error code w
      using that by (auto simp: cleanup_and_throw_def throw_error_def kthrow_def cleanup_def kgive_def kdo_def kthen_def client_maps_def)
    have stored: "?thesis" if opened: "kthen (open_handle cc) (\<lambda>h. kdo (kinit_store api error princ creds name h cc)
        (kput (\<lambda>c. c\<lparr>curr_principal := who\<rparr>))) (c1\<lparr>os := w\<rparr>) = Inr (r, c')" for cc error princ creds name w
    proof -
      define c2 where "c2 = c1\<lparr>os := w, open_caches := (open_caches c1)(next_handle c1 \<mapsto> cc), next_handle := next_handle c1 + 1\<rparr>"
      have c2: "client_maps c2 = client_maps c1" "curr_principal c2 = curr_principal c1" by (simp_all add: c2_def client_maps_def)
      obtain r3 c3 where c3: "kinit_store api error princ creds name (next_handle c1) cc c2 = Inr (r3, c3)"
        and r3: "(case r3 of Inl e \<Rightarrow> (Inl e, c3) | Inr _ \<Rightarrow> (Inr (), c3\<lparr>curr_principal := who\<rparr>)) = (r, c')"
        using opened by (auto simp: kthen_def kdo_def kput_def open_handle_def c2_def bind_faulty_def split: sum.splits prod.splits)
      from kinit_store_maps [OF c3] c2 r3 show ?thesis by (cases r3) (auto simp: same_but_def)
    qed
    show ?thesis
    proof (cases "krb5_parse_name api enterprise who")
      case (Inl res)
      then have "cleanup_and_throw api ''Authentication failed'' res None c1 = Inr (r, c')"
        using run c1(1) by (simp add: kinit_def kdo_def kthen_def)
      then show ?thesis using thrown [of _ _ "os c1"] by simp
    next
      case (Inr princ)
      obtain res w where res: "krb5_get_init_creds_password api princ password None (os c1) = (res, w)" by fastforce
      have run: "(case res of Inl res \<Rightarrow> cleanup_and_throw api ''Authentication failed'' res None
        | Inr creds \<Rightarrow> kthen (kcall (krb5_cc_resolve api (kinit_cache_name api who))) (\<lambda>res.
            case res of Inl res \<Rightarrow> cleanup_and_throw api ''Authentication failed'' res None
            | Inr cc \<Rightarrow> kthen (open_handle cc) (\<lambda>h. kdo (kinit_store api ''Authentication failed'' princ creds (kinit_cache_name api who) h cc)
                (kput (\<lambda>c. c\<lparr>curr_principal := who\<rparr>))))) (c1\<lparr>os := w\<rparr>) = Inr (r, c')"
        using run c1(1) Inr by (simp add: kthen_kcall [where f = "krb5_get_init_creds_password api princ password None", OF res] kinit_def Let_def kdo_def [of "kinit_forget api who"] kthen_def [of "kinit_forget api who"])
      show ?thesis
      proof (cases res)
        case (Inl code)
        then show ?thesis using run thrown by simp
      next
        case (Inr creds)
        obtain res' w' where res': "krb5_cc_resolve api (kinit_cache_name api who) (os (c1\<lparr>os := w\<rparr>)) = (res', w')" by fastforce
        from run Inr show ?thesis using thrown stored
          by (cases res') (auto simp: kthen_kcall [where f = "krb5_cc_resolve api (kinit_cache_name api who)", OF res'])
      qed
    qed
  qed
  then show thesis
  proof
    assume "\<exists>e. r = Inl e \<and> client_maps c' = client_maps c1 \<and> curr_principal c' = curr_principal c1"
    then show thesis using fails run ok' c1(3,4) by auto
  next
    assume "\<exists>name c2. r = Inr () \<and> same_but {name} c1 c2 \<and> c' = c2\<lparr>curr_principal := who\<rparr>"
    then obtain name c2 where s: "r = Inr ()" "same_but {name} c1 c2" "c' = c2\<lparr>curr_principal := who\<rparr>" by blast
    then have "same_but {who, name} c c'" using forgot by (auto simp: same_but_def client_maps_def)
    then show thesis using succeeds run ok' s by auto
  qed
qed

lemma logout_run:
  assumes "client_ok c"
  shows "\<exists>c'. logout api delete_creds c = Inr (Inr (), c') \<and> curr_principal c' = [] \<and> client_ok c'
    \<and> client_maps c' = (if delete_creds \<and> curr_principal c \<noteq> sys_principal c then forget_name (curr_principal c) (client_maps c) else client_maps c)"
proof -
  have "client_ok (c\<lparr>os := w\<rparr>)" for w using assms by simp
  note forget = kinit_forget_run [OF this, where api = api and who = "curr_principal c", unfolded forget_name_def [symmetric]]
  define w where "w = snd (setenv api ''KRB5CCNAME'' ''MEMORY:empty_ccache'' (os c))"
  obtain c1 where "kinit_forget api (curr_principal c) (c\<lparr>os := w\<rparr>) = Inr (Inr (), c1)" "client_ok c1"
      "client_maps c1 = forget_name (curr_principal c) (client_maps c)"
    using forget [of w] by auto
  then show ?thesis using assms
    by (simp add: logout_def kthen_def kcall_def kget_def kdo_def kput_def kgive_def Let_def case_prod_beta w_def [symmetric])
qed


section \<open>Tickets and passwords\<close>

text \<open>
  The users that are offered as logged in are the names that have a cache and a ticket recorded as
  active, each once, and asking changes nothing. A ticket is recorded as active when now is neither past
  its end nor past the time until which it can be renewed; a ticket that can not be renewed has zero
  there, so it is outdated from the start.
\<close>

theorem krb5_active_tickets:
  assumes "client_ok c" and "orders_keys api"
  shows "\<exists>names. active_tgt_principals api c = Inr (Inr names, c) \<and> distinct names
      \<and> set names = {p. principal_has_cache c p \<and> tgt_state (tgt_data c p) = Krb5TgtState_Active}"
    and "tgt_state_from_creds now creds = Krb5TgtState_Active \<longleftrightarrow> now \<le> creds_endtime creds \<and> now \<le> creds_renew_till creds"
    and "0 < now \<Longrightarrow> creds_renew_till creds = 0 \<Longrightarrow> tgt_state_from_creds now creds = Krb5TgtState_Outdated"
proof -
  have "distinct (available_principals api c)"
    using assms unfolding client_ok_def orders_keys_def available_principals_def by (metis mset_eq_imp_distinct_iff)
  then show "\<exists>names. active_tgt_principals api c = Inr (Inr names, c) \<and> distinct names
      \<and> set names = {p. principal_has_cache c p \<and> tgt_state (tgt_data c p) = Krb5TgtState_Active}"
    using orders_keys_set [OF assms(2)]
    by (auto simp: active_run [OF assms] available_principals_def principal_has_cache_def map_of_eq_None_iff)
qed (auto simp: tgt_state_from_creds_def)

text \<open>
  Changing a password throws exactly when the name can not be parsed, the old password gives no
  ticket for the service, or the request itself fails, with the code of that step; what the server
  answers to the request is not looked at, so a new password that it rejects counts as set.
\<close>

theorem krb5_password_answer_ignored:
  assumes "krb5_parse_name api enterprise who = Inr princ"
    and "krb5_get_init_creds_password api princ old (Some ''kadmin/changepw'') (os c) = (Inr creds, w)"
    and "krb5_change_password api creds new w = ((result, answer), w')"
  shows "change_password api who old new enterprise c =
    Inr (if result = 0 then Inr () else Inl (Kerberos_Error (''Password change failed'' @ '': '' @ krb5_get_error_message api result) result),
      c\<lparr>os := w'\<rparr>)"
  using assms
  by (simp add: change_password_def Let_def kthen_def kcall_def cleanup_and_throw_def cleanup_def kdo_def kgive_def throw_error_def kthrow_def)

section \<open>An example\<close>

text \<open>
  A Kerberos library with the caches as a list from names to principals, in which any password but the
  empty one is right, and no new password is accepted.
\<close>

definition example_creds :: krb5_creds where
  "example_creds = \<lparr>creds_starttime = 0, creds_endtime = 2000, creds_renew_till = 3000\<rparr>"

definition example_krb5 :: "((qstring \<times> qstring) list, qstring) krb5_api" where
  "example_krb5 = \<lparr>krb5_init_context = (\<lambda>w. (0, w)), make_path = (\<lambda>_ w. (True, w)), set_owner_permissions = (\<lambda>_ w. (True, w)),
     ccache_files = (\<lambda>_. []), getuid = 500, current_time = (\<lambda>_. 1000), setenv = (\<lambda>_ _ w. (0, w)),
     krb5_parse_name = (\<lambda>_ s. Inr (if CHR ''@'' \<in> set s then s else s @ ''@ALT'')), krb5_unparse_name = Inr,
     krb5_princ_realm = (\<lambda>_. ''ALT''), krb5_build_principal = (\<lambda>realm names. Inr (join ''/'' names @ ''@'' @ realm)),
     krb5_get_init_creds_password = (\<lambda>p password service w. (if password = [] then Inl 24 else Inr example_creds, w)),
     krb5_get_renewed_creds = (\<lambda>p cc w. (Inr example_creds, w)),
     krb5_change_password = (\<lambda>creds password w. ((0, 4), w)),
     krb5_cc_default = (\<lambda>w. (Inr \<lparr>cc_type = ''FILE'', cc_name = ''default''\<rparr>, w)),
     krb5_cc_resolve = (\<lambda>name w. (Inr \<lparr>cc_type = ''FILE'', cc_name = drop 5 name\<rparr>, w)),
     krb5_cc_initialize = (\<lambda>cc p w. (0, AList.update (cc_name cc) p w)), krb5_cc_store_cred = (\<lambda>cc creds w. (0, w)),
     krb5_cc_get_principal = (\<lambda>cc w. (case map_of w (cc_name cc) of None \<Rightarrow> Inl 2 | Some p \<Rightarrow> Inr p, w)),
     krb5_cc_retrieve_cred = (\<lambda>cc p w. (Inr example_creds, w)), krb5_cc_delete = (\<lambda>cc w. AList.delete (cc_name cc) w),
     krb5_get_error_message = (\<lambda>_. ''error''), key_order = id\<rparr>"

lemma example_krb5_laws: "default_resolves example_krb5 []" "orders_keys example_krb5"
  by (simp_all add: default_resolves_def orders_keys_def example_krb5_def)

definition example_client :: "(qstring \<times> qstring) list krb5_client" where
  "example_client = \<lparr>os = [], open_caches = (\<lambda>_. None), next_handle = 1, curr_principal = [], sys_principal = [],
     principal_tgt_map = [], principal_cache_map = [], sys_ccache = [], krb_temp_caches = []\<rparr>"

lemma example_started: "krb5_client_start example_krb5 (new_client [] []) = Inr (Inr (), example_client)"
  by (simp add: krb5_client_start_def new_client_def example_krb5_def kthen_def kcall_def kget_def kput_def kdo_def kgive_def load_caches_def
    load_default_cache_def open_handle_def cache_of_def load_cache_data_def cleanup_def krb5_cc_close_def cache_is_system_def
    contains_str_def starts_with_def example_client_def fun_upd_idem)

lemma example_client_ok: "client_ok example_client"
  by (rule reachable_ok [OF example_krb5_laws krb5_reachable.start [OF example_started]])

theorem krb5_handles_open_witness:
  "\<exists>r c. krb5_request_run example_krb5 (Authenticate ''user'' ''secret'' False) example_client = Inr (r, c)"
  by (rule krb5_handles_open [OF example_krb5_laws krb5_reachable.start [OF example_started], THEN conjunct2, THEN conjunct1])


text \<open>
  A login as \<open>user\<close>, which the library completes to \<open>user@ALT\<close>, and a logout that is to delete the
  credentials: the cache of \<open>user@ALT\<close> is still there.
\<close>

lemma short_name_kept:
  "\<exists>c c'. kinit example_krb5 ''user'' ''secret'' False example_client = Inr (Inr (), c)
    \<and> logout example_krb5 True c = Inr (Inr (), c') \<and> principal_has_cache c' ''user@ALT''"
  by (simp add: kinit_def kinit_forget_def kinit_store_def example_client_def example_krb5_def kthen_def kcall_def kget_def kput_def kdo_def kgive_def
    open_handle_def cache_of_def load_cache_data_def remember_ticket_def kinit_cache_name_def logout_def principal_has_cache_def Let_def)

theorem krb5_active_tickets_witness:
  "(\<exists>names. active_tgt_principals example_krb5 example_client = Inr (Inr names, example_client) \<and> distinct names
      \<and> set names = {p. principal_has_cache example_client p \<and> tgt_state (tgt_data example_client p) = Krb5TgtState_Active})
    \<and> tgt_state_from_creds 1000 (example_creds\<lparr>creds_renew_till := 0\<rparr>) = Krb5TgtState_Outdated"
  using krb5_active_tickets(1) [OF example_client_ok example_krb5_laws(2)]
    krb5_active_tickets(3) [OF example_client_ok example_krb5_laws(2), of 1000 "example_creds\<lparr>creds_renew_till := 0\<rparr>"] by simp

theorem krb5_password_answer_ignored_witness:
  "change_password example_krb5 ''user'' ''secret'' ''short'' False example_client = Inr (Inr (), example_client)"
  using krb5_password_answer_ignored [where api = example_krb5 and enterprise = False and who = "''user''" and princ = "''user@ALT''"
      and old = "''secret''" and c = example_client and creds = example_creds and w = "[]" and new = "''short''" and result = 0 and answer = 4 and w' = "[]"]
  by (simp add: example_krb5_def, simp add: example_client_def)

end
