(* ===== verification/AdmcCore.thy ===== *)
theory AdmcCore
  imports AdConnection "HOL-Library.Signed_Division"
begin

text \<open>
  The core of the application (\<open>src/admc/core\<close>) on top of the library: generating names, numbers in any
  base, the octet editor and its validation (\<open>attribute.cpp\<close>, \<open>utils.cpp\<close>), lookups in the directory
  (\<open>ad.cpp\<close>) and the roles of operation masters (\<open>fsmo.cpp\<close>). Two small files of the library on
  distinguished names and language codes (\<open>ad_ldap_utils.cpp\<close>, \<open>lcid.cpp\<close>) are here as well.
\<close>

section \<open>Place markers\<close>

text \<open>
  \<open>QString::arg\<close> replaces every place marker with the lowest number; \<open>%1\<close> to \<open>%99\<close> are markers. Text
  that an earlier \<open>arg\<close> has put in is searched as well.
\<close>

fun read_marker :: "qstring \<Rightarrow> (nat \<times> qstring) option" where
  "read_marker (c # d # s) = (case (digit_value 10 c, digit_value 10 d) of
     (None, _) \<Rightarrow> None
   | (Some m, None) \<Rightarrow> if m = 0 then None else Some (m, d # s)
   | (Some m, Some n) \<Rightarrow> if 10 * m + n = 0 then None else Some (10 * m + n, s))"
| "read_marker [c] = (case digit_value 10 c of None \<Rightarrow> None | Some m \<Rightarrow> if m = 0 then None else Some (m, []))"
| "read_marker [] = None"

fun markers :: "qstring \<Rightarrow> nat list" where
  "markers [] = []"
| "markers (c # s) = (if c = CHR ''%'' then (case read_marker s of None \<Rightarrow> markers s | Some (m, _) \<Rightarrow> m # markers s) else markers s)"

fun replace_markers :: "nat \<Rightarrow> nat \<Rightarrow> qstring \<Rightarrow> qstring \<Rightarrow> qstring" where
  "replace_markers 0 m val s = s"
| "replace_markers (Suc n) m val [] = []"
| "replace_markers (Suc n) m val (c # s) =
     (case (if c = CHR ''%'' then read_marker s else None) of
        Some (m', rest) \<Rightarrow> if m' = m then val @ replace_markers n m val rest else c # replace_markers n m val s
      | None \<Rightarrow> c # replace_markers n m val s)"

definition arg_text :: "qstring \<Rightarrow> qstring \<Rightarrow> qstring" where
  "arg_text s val = (if markers s = [] then s else replace_markers (length s) (Min (set (markers s))) val s)"

section \<open>utils.cpp\<close>

text \<open>Names are tried up to 1000, and the one after that is taken.\<close>

definition numbered_name :: "qstring \<Rightarrow> nat \<Rightarrow> qstring" where
  "numbered_name name_base n = arg_text (arg_text ''%1 (%2)'' name_base) (number (int n))"

function next_number :: "qstring list \<Rightarrow> qstring \<Rightarrow> nat \<Rightarrow> nat" where
  "next_number existing name_base n =
     (if numbered_name name_base n \<in> set existing
      then (let n = n + 1 in if n > 1000 then n else next_number existing name_base n)
      else n)"
  by auto
termination by (relation "measure (\<lambda>(existing, name_base, n). 1001 - n)") auto

declare next_number.simps [simp del]

definition generate_new_name :: "qstring list \<Rightarrow> qstring \<Rightarrow> qstring" where
  "generate_new_name existing_name_list name_base =
     (if name_base \<notin> set existing_name_list then name_base
      else numbered_name name_base (next_number existing_name_list name_base 2))"

text \<open>The bad characters are escaped and put into a class of a regular expression.\<close>

definition string_contains_bad_chars :: "qstring \<Rightarrow> qstring \<Rightarrow> bool" where
  "string_contains_bad_chars s bad_chars = list_ex (\<lambda>c. c \<in> set bad_chars) s"

definition NAME_BAD_CHARS :: qstring where
  "NAME_BAD_CHARS = '','' @ [CHR 0x5C] @ ''#+<>;'' @ [CHR 0x22] @ ''=''"

definition SAM_NAME_BAD_CHARS :: qstring where
  "SAM_NAME_BAD_CHARS = ''@'' @ [CHR 0x22] @ ''[]:;|=+*?<>/'' @ [CHR 0x5C] @ '',''"

definition is_object_name_valid :: "qstring \<Rightarrow> bool" where
  "is_object_name_valid name =
     (let some_bad_chars = string_contains_bad_chars name NAME_BAD_CHARS;
          starts_with_space = starts_with name '' '';
          ends_with_space = ends_with name '' '';
          starts_with_question_mark = starts_with name ''?''
      in \<not> (some_bad_chars \<or> starts_with_space \<or> ends_with_space \<or> starts_with_question_mark))"

text \<open>\<open>itoa\<close>: digits from the last to the first, by the table that also serves negative remainders.\<close>

definition itoa_table :: qstring where
  "itoa_table = ''zyxwvutsrqponmlkjihgfedcba9876543210123456789abcdefghijklmnopqrstuvwxyz''"

lemma abs_sdiv_less:
  fixes base val :: int
  assumes "\<not> base < 2" and "val sdiv base \<noteq> 0"
  shows "\<bar>val sdiv base\<bar> < \<bar>val\<bar>"
proof -
  have "val \<noteq> 0" using assms(2) by (cases "val = 0") (simp_all add: signed_divide_int_def)
  moreover have "\<bar>val sdiv base\<bar> = \<bar>val\<bar> div base"
    using assms(1) \<open>val \<noteq> 0\<close> by (simp add: signed_divide_int_def abs_mult pos_imp_zdiv_nonneg_iff abs_sgn_eq)
  moreover have "\<bar>val\<bar> div base < \<bar>val\<bar>" using \<open>val \<noteq> 0\<close> assms(1) by (intro int_div_less_self) auto
  ultimately show ?thesis by simp
qed

function itoa_loop :: "int \<Rightarrow> int \<Rightarrow> qstring" where
  "itoa_loop base val =
     (let tmp_value = val; val = tmp_value sdiv base; c = itoa_table ! nat (35 + (tmp_value - val * base))
      in if base < 2 then [c] else if val = 0 then c # (if tmp_value < 0 then ''-'' else []) else c # itoa_loop base val)"
  by auto
termination
  by (relation "measure (\<lambda>(base, val). nat \<bar>val\<bar>)") (use abs_sdiv_less in \<open>auto simp: nat_less_eq_zless\<close>)

declare itoa_loop.simps [simp del]

definition itoa :: "int \<Rightarrow> int \<Rightarrow> qstring" where
  "itoa val base = (if base < 2 \<or> base > 36 then [] else rev (itoa_loop base val))"

definition get_classes_filter :: "qstring list \<Rightarrow> qstring" where
  "get_classes_filter class_list = filter_OR (map (filter_CONDITION Condition_Equals ATTRIBUTE_OBJECT_CLASS) class_list)"

definition advanced_features_filter :: "bool \<Rightarrow> qstring \<Rightarrow> qstring" where
  "advanced_features_filter advanced_features_setting flt =
     (if \<not> advanced_features_setting
      then filter_AND [flt, filter_CONDITION Condition_NotEquals ATTRIBUTE_SHOW_IN_ADVANCED_VIEW_ONLY LDAP_BOOL_TRUE]
      else flt)"

definition is_container_filter :: "ad_config \<Rightarrow> qstring" where
  "is_container_filter cfg = get_classes_filter (filter_containers cfg)"

definition gpo_status_from_int :: "int \<Rightarrow> qstring" where
  "gpo_status_from_int status =
     (if status = 0 then ''Enabled'' else if status = 1 then ''User configuration disabled''
      else if status = 2 then ''Computer configuration disabled'' else if status = 3 then ''Disabled''
      else ''Undefined GPO status'')"

definition dev_mode_search_results :: "'srv ad_env \<Rightarrow> ad_config \<Rightarrow> bool \<Rightarrow> search_results \<Rightarrow> qstring \<Rightarrow> ('srv, search_results) ad_op" where
  "dev_mode_search_results env cfg dev_mode results base =
     (if \<not> dev_mode then give results
      else if base = cfg_domain_dn cfg
      then and_then (search_object env (cfg_configuration_dn cfg) [] False) (\<lambda>obj. give (AList.update (cfg_configuration_dn cfg) obj results))
      else if base = cfg_configuration_dn cfg
      then and_then (search_object env (cfg_schema_dn cfg) [] False) (\<lambda>obj. give (AList.update (cfg_schema_dn cfg) obj results))
      else give results)"

section \<open>attribute.cpp\<close>

datatype octet_display_format = OctetDisplayFormat_Hexadecimal | OctetDisplayFormat_Binary | OctetDisplayFormat_Decimal | OctetDisplayFormat_Octal

datatype list_attribute_dialog_type = ListAttributeDialogType_String | ListAttributeDialogType_Octet | ListAttributeDialogType_Datetime

fun attribute_format_base :: "octet_display_format \<Rightarrow> nat" where
  "attribute_format_base OctetDisplayFormat_Hexadecimal = 16"
| "attribute_format_base OctetDisplayFormat_Binary = 2"
| "attribute_format_base OctetDisplayFormat_Decimal = 10"
| "attribute_format_base OctetDisplayFormat_Octal = 8"

fun octet_string_length :: "octet_display_format \<Rightarrow> nat" where
  "octet_string_length OctetDisplayFormat_Hexadecimal = 2"
| "octet_string_length OctetDisplayFormat_Binary = 8"
| "octet_string_length OctetDisplayFormat_Decimal = 3"
| "octet_string_length OctetDisplayFormat_Octal = 3"

definition right_justified :: "nat \<Rightarrow> char \<Rightarrow> qstring \<Rightarrow> qstring" where
  "right_justified width fill s = replicate (width - length s) fill @ s"

definition octet_byte_to_string :: "octet_display_format \<Rightarrow> byte \<Rightarrow> qstring" where
  "octet_byte_to_string fmt b =
     right_justified (octet_string_length fmt) (CHR ''0'') (itoa (uint b) (int (attribute_format_base fmt)))"

definition octet_bytes_to_string :: "bytes \<Rightarrow> octet_display_format \<Rightarrow> qstring" where
  "octet_bytes_to_string bs fmt = join '' '' (map (octet_byte_to_string fmt) bs)"

text \<open>
  \<open>strtol\<close> in a base that is given: white space, a sign, the prefix of base 16, and as many digits as
  there are; values that do not fit are the nearest one that does.
\<close>

fun leading_digits :: "nat \<Rightarrow> qstring \<Rightarrow> nat \<Rightarrow> nat" where
  "leading_digits base [] acc = acc"
| "leading_digits base (c # s) acc =
     (case digit_value base c of None \<Rightarrow> acc | Some d \<Rightarrow> leading_digits base s (acc * base + d))"

definition strtol :: "qstring \<Rightarrow> nat \<Rightarrow> int" where
  "strtol s base =
     (let t = dropWhile is_space_char s;
          neg = (take 1 t = ''-'');
          u = (if neg \<or> take 1 t = ''+'' then drop 1 t else t);
          v = (if base = 16 \<and> take 2 (to_lower u) = ''0x'' \<and> drop 2 u \<noteq> [] \<and> digit_value 16 (u ! 2) \<noteq> None then drop 2 u else u);
          n = int (leading_digits base v 0)
      in if neg then max (- (2 ^ 63)) (- n) else min (2 ^ 63 - 1) n)"

text \<open>
  The padding is removed by reading the first character before the size is tested: \<open>past_end\<close> is what
  reading a character of an empty string gives, a fault where positions are checked.
\<close>

fun strip_padding :: "char faulty \<Rightarrow> qstring \<Rightarrow> qstring faulty" where
  "strip_padding past_end [] = bind_faulty past_end (\<lambda>_. Inr [])"
| "strip_padding past_end (c # s) = (if c = CHR ''0'' then strip_padding past_end s else Inr (c # s))"

definition octet_string_to_byte :: "char faulty \<Rightarrow> octet_display_format \<Rightarrow> qstring \<Rightarrow> byte faulty" where
  "octet_string_to_byte past_end fmt byte_string_padded =
     bind_faulty (strip_padding past_end byte_string_padded) (\<lambda>byte_string.
       Inr (word_of_int (strtol byte_string (attribute_format_base fmt))))"

definition octet_string_to_bytes :: "char faulty \<Rightarrow> qstring \<Rightarrow> octet_display_format \<Rightarrow> bytes faulty" where
  "octet_string_to_bytes past_end s fmt =
     (if s = [] then Inr []
      else fold_faulty (\<lambda>byte_string_padded out. bind_faulty (octet_string_to_byte past_end fmt byte_string_padded) (\<lambda>b. Inr (out @ [b])))
             (split_char (CHR '' '') s) [])"

text \<open>A regular expression between \<open>^\<close> and \<open>$\<close>; the end also matches before a last line feed.\<close>

definition matches_line :: "(qstring \<Rightarrow> bool) \<Rightarrow> qstring \<Rightarrow> bool" where
  "matches_line p s = (p s \<or> (s \<noteq> [] \<and> last s = CHR 0x0A \<and> p (butlast s)))"

definition chars_in :: "qstring \<Rightarrow> nat \<Rightarrow> qstring \<Rightarrow> bool" where
  "chars_in chars n s = (length s = n \<and> list_all (\<lambda>c. c \<in> set chars) s)"

definition attribute_validate_hexadecimal :: "qstring \<Rightarrow> bool" where
  "attribute_validate_hexadecimal val = matches_line (chars_in ''0123456789abcdef'' 2) val"

definition attribute_validate_binary :: "qstring \<Rightarrow> bool" where
  "attribute_validate_binary val = matches_line (chars_in ''01'' 8) val"

definition attribute_validate_decimal :: "qstring \<Rightarrow> bool" where
  "attribute_validate_decimal val =
     (if \<not> matches_line (chars_in ''0123456789'' 3) val then False
      else let number = or_zero (to_int val) in \<not> (number < 0 \<or> number > 255))"

definition attribute_validate_octal :: "qstring \<Rightarrow> bool" where
  "attribute_validate_octal val =
     (if \<not> matches_line (chars_in ''01234567'' 3) val then False
      else let number = or_zero (to_int val) in \<not> (number < 0 \<or> number > 377))"

fun validators :: "octet_display_format \<Rightarrow> qstring \<Rightarrow> bool" where
  "validators OctetDisplayFormat_Binary = attribute_validate_binary"
| "validators OctetDisplayFormat_Decimal = attribute_validate_decimal"
| "validators OctetDisplayFormat_Hexadecimal = attribute_validate_hexadecimal"
| "validators OctetDisplayFormat_Octal = attribute_validate_octal"

definition attribute_validate_input :: "octet_display_format \<Rightarrow> qstring \<Rightarrow> bool" where
  "attribute_validate_input fmt input = list_all (validators fmt) (split_char (CHR '' '') input)"

definition does_list_contain_empty_values :: "bytes list \<Rightarrow> bool" where
  "does_list_contain_empty_values value_list =
     list_ex (\<lambda>v. v = [] \<or> count_list v 0x20 = length v) value_list"

definition bytes_to_string :: "bytes \<Rightarrow> list_attribute_dialog_type \<Rightarrow> qstring" where
  "bytes_to_string bs editor_type = (case editor_type of
     ListAttributeDialogType_Octet \<Rightarrow> octet_bytes_to_string bs OctetDisplayFormat_Hexadecimal
   | _ \<Rightarrow> string_of_bytes bs)"

definition string_to_bytes :: "char faulty \<Rightarrow> qstring \<Rightarrow> list_attribute_dialog_type \<Rightarrow> bytes faulty" where
  "string_to_bytes past_end s editor_type = (case editor_type of
     ListAttributeDialogType_Octet \<Rightarrow> octet_string_to_bytes past_end s OctetDisplayFormat_Hexadecimal
   | _ \<Rightarrow> Inr (bytes_of_string s))"

fun attribute_type_to_list_dialog_type :: "attribute_type \<Rightarrow> list_attribute_dialog_type" where
  "attribute_type_to_list_dialog_type AttributeType_Octet = ListAttributeDialogType_Octet"
| "attribute_type_to_list_dialog_type AttributeType_Sid = ListAttributeDialogType_Octet"
| "attribute_type_to_list_dialog_type AttributeType_UTCTime = ListAttributeDialogType_Datetime"
| "attribute_type_to_list_dialog_type AttributeType_GeneralizedTime = ListAttributeDialogType_Datetime"
| "attribute_type_to_list_dialog_type _ = ListAttributeDialogType_String"

section \<open>ad.cpp\<close>

fun ad_search_objects_loop :: "'srv ad_env \<Rightarrow> qstring list \<Rightarrow> search_results \<Rightarrow> ('srv, search_results) ad_op" where
  "ad_search_objects_loop env [] object_map = give object_map"
| "ad_search_objects_loop env (dn # dns) object_map =
     and_then (search_object env dn [] False) (\<lambda>obj. ad_search_objects_loop env dns (AList.update dn obj object_map))"

definition ad_search_objects :: "'srv ad_env \<Rightarrow> qstring list \<Rightarrow> ('srv, search_results) ad_op" where
  "ad_search_objects env dns = ad_search_objects_loop env dns []"

fun ad_add_members_to_groups :: "'srv ad_env \<Rightarrow> qstring list \<Rightarrow> qstring list \<Rightarrow> ('srv, unit) ad_op" where
  "ad_add_members_to_groups env [] groups = give ()"
| "ad_add_members_to_groups env (target # targets) groups =
     after (foldr (\<lambda>group rest. and_then (group_add_member env group target) (\<lambda>_. rest)) groups (give ()))
       (ad_add_members_to_groups env targets groups)"

definition ad_select_changed_dn :: "(qstring \<times> qstring) list \<Rightarrow> (qstring \<times> qstring) list" where
  "ad_select_changed_dn dns = filter (\<lambda>(old_dn, new_dn). new_dn \<noteq> old_dn) dns"

definition ad_object_is_person :: "ad_object \<Rightarrow> bool" where
  "ad_object_is_person obj = (is_class obj CLASS_USER \<or> is_class obj CLASS_INET_ORG_PERSON)"

definition ad_object_get_gplink :: "ad_object \<Rightarrow> qstring" where
  "ad_object_get_gplink obj = get_string obj ATTRIBUTE_GPLINK"

definition ad_current_dc_dns_host_name :: "'srv ad_env \<Rightarrow> ('srv, qstring) ad_op" where
  "ad_current_dc_dns_host_name env =
     and_then (search_object env [] [] False) (\<lambda>rootDSE.
     and_then (search_object env (get_string rootDSE ATTRIBUTE_SERVER_NAME) [] False) (\<lambda>server.
       give (get_string server ATTRIBUTE_DNS_HOST_NAME)))"

definition ad_get_range_upper :: "ad_config \<Rightarrow> qstring \<Rightarrow> int" where
  "ad_get_range_upper cfg attribute =
     (if attribute = ATTRIBUTE_UPN_SUFFIXES
      then get_attribute_range_upper cfg ATTRIBUTE_USER_PRINCIPAL_NAME sdiv 2
      else get_attribute_range_upper cfg attribute)"

definition ad_current_master_for_role_dn :: "'srv ad_env \<Rightarrow> qstring \<Rightarrow> ('srv, qstring) ad_op" where
  "ad_current_master_for_role_dn env role_dn =
     and_then (search_object env role_dn [] False) (\<lambda>role_object.
     and_then (search_object env (dn_get_parent (get_string role_object ATTRIBUTE_FSMO_ROLE_OWNER)) [] False) (\<lambda>master_object.
       give (get_string master_object ATTRIBUTE_DNS_HOST_NAME)))"

definition ad_search_sites_container :: "'srv ad_env \<Rightarrow> ad_config \<Rightarrow> ('srv, search_results) ad_op" where
  "ad_search_sites_container env cfg =
     search env (cfg_configuration_dn cfg) SearchScope_All
       (filter_CONDITION Condition_Equals ATTRIBUTE_OBJECT_CLASS CLASS_SITES_CONTAINER) [] False"

definition ad_search_pso_container :: "'srv ad_env \<Rightarrow> ad_config \<Rightarrow> ('srv, search_results) ad_op" where
  "ad_search_pso_container env cfg =
     search env (cfg_domain_dn cfg) SearchScope_All
       (filter_CONDITION Condition_Equals ATTRIBUTE_OBJECT_CLASS CLASS_PSO_CONTAINER) [] False"

definition ad_is_pso_container_not_found :: "'srv ad_env \<Rightarrow> search_results \<Rightarrow> bool" where
  "ad_is_pso_container_not_found env results = (results = [] \<or> object_is_empty (hd (hash_values env results)))"

definition ad_search_top_dn_object :: "'srv ad_env \<Rightarrow> ad_config \<Rightarrow> ('srv, ad_object) ad_op" where
  "ad_search_top_dn_object env cfg = search_object env (cfg_domain_dn cfg) [] False"

section \<open>fsmo.cpp\<close>

datatype fsmo_role = FSMORole_DomainDNS | FSMORole_ForestDNS | FSMORole_PDCEmulation | FSMORole_Schema
  | FSMORole_DomainNaming | FSMORole_Infrastructure | FSMORole_RidAllocation | FSMORole_COUNT

definition fsmo_roles :: "fsmo_role list" where
  "fsmo_roles = [FSMORole_DomainDNS, FSMORole_ForestDNS, FSMORole_PDCEmulation, FSMORole_Schema,
     FSMORole_DomainNaming, FSMORole_Infrastructure, FSMORole_RidAllocation]"

fun fsmo_dn_from_role :: "ad_config \<Rightarrow> fsmo_role \<Rightarrow> qstring" where
  "fsmo_dn_from_role cfg FSMORole_DomainDNS = ''CN=Infrastructure,DC=DomainDnsZones,'' @ cfg_domain_dn cfg"
| "fsmo_dn_from_role cfg FSMORole_ForestDNS = ''CN=Infrastructure,DC=ForestDnsZones,'' @ cfg_domain_dn cfg"
| "fsmo_dn_from_role cfg FSMORole_PDCEmulation = cfg_domain_dn cfg"
| "fsmo_dn_from_role cfg FSMORole_Schema = cfg_schema_dn cfg"
| "fsmo_dn_from_role cfg FSMORole_DomainNaming = partitions_dn cfg"
| "fsmo_dn_from_role cfg FSMORole_Infrastructure = ''CN=Infrastructure,'' @ cfg_domain_dn cfg"
| "fsmo_dn_from_role cfg FSMORole_RidAllocation = ''CN=RID Manager$,CN=System,'' @ cfg_domain_dn cfg"
| "fsmo_dn_from_role cfg FSMORole_COUNT = []"

fun fsmo_role_to_string :: "fsmo_role \<Rightarrow> qstring" where
  "fsmo_role_to_string FSMORole_DomainDNS = ''Domain DNS''"
| "fsmo_role_to_string FSMORole_ForestDNS = ''Forest DNS''"
| "fsmo_role_to_string FSMORole_PDCEmulation = ''PDC Emulator''"
| "fsmo_role_to_string FSMORole_Schema = ''Schema master''"
| "fsmo_role_to_string FSMORole_DomainNaming = ''Domain naming master''"
| "fsmo_role_to_string FSMORole_Infrastructure = ''Infrastructure master''"
| "fsmo_role_to_string FSMORole_RidAllocation = ''RID master''"
| "fsmo_role_to_string FSMORole_COUNT = []"

definition fsmo_is_current_dc_master_for_role :: "'srv ad_env \<Rightarrow> ad_config \<Rightarrow> fsmo_role \<Rightarrow> ('srv, bool) ad_op" where
  "fsmo_is_current_dc_master_for_role env cfg role =
     and_then (ad_current_master_for_role_dn env (fsmo_dn_from_role cfg role)) (\<lambda>current_master.
     and_then (ad_current_dc_dns_host_name env) (\<lambda>current_dc. give (current_master = current_dc)))"

definition fsmo_current_master_for_role :: "'srv ad_env \<Rightarrow> ad_config \<Rightarrow> fsmo_role \<Rightarrow> ('srv, qstring) ad_op" where
  "fsmo_current_master_for_role env cfg role = ad_current_master_for_role_dn env (fsmo_dn_from_role cfg role)"

text \<open>A null \<open>QString\<close> is no custom controller. The host is also kept in the settings.\<close>

definition fsmo_connect_host_with_role :: "'srv ad_env \<Rightarrow> 'srv connect_api \<Rightarrow> ad_config \<Rightarrow> fsmo_role \<Rightarrow> ('srv, unit) ad_op" where
  "fsmo_connect_host_with_role env conn cfg role =
     and_then (fsmo_current_master_for_role env cfg role) (\<lambda>current_master.
     and_then (\<lambda>s. Inr ((), set_dc current_master (set_custom_dc None s))) (\<lambda>_. update_dc env conn))"

definition fsmo_string_from_dn :: "ad_config \<Rightarrow> qstring \<Rightarrow> qstring" where
  "fsmo_string_from_dn cfg fsmo_role_dn =
     (case find (\<lambda>role. fsmo_dn_from_role cfg role = fsmo_role_dn) fsmo_roles of
        Some role \<Rightarrow> fsmo_role_to_string role | None \<Rightarrow> [])"

definition fsmo_role_from_dn :: "ad_config \<Rightarrow> qstring \<Rightarrow> fsmo_role option" where
  "fsmo_role_from_dn cfg role_dn =
     (let domain_dn = cfg_domain_dn cfg; schema_dn = cfg_schema_dn cfg; parts_dn = partitions_dn cfg; dn_lower = to_lower role_dn
      in if dn_lower = to_lower domain_dn then Some FSMORole_PDCEmulation
         else if dn_lower = to_lower schema_dn then Some FSMORole_Schema
         else if dn_lower = to_lower parts_dn then Some FSMORole_DomainNaming
         else if dn_lower = to_lower (''cn=infrastructure,dc=domaindnszones,'' @ domain_dn) then Some FSMORole_DomainDNS
         else if dn_lower = to_lower (''cn=infrastructure,dc=forestdnszones,'' @ domain_dn) then Some FSMORole_ForestDNS
         else if dn_lower = to_lower (''cn=infrastructure,'' @ domain_dn) then Some FSMORole_Infrastructure
         else if dn_lower = to_lower (''cn=rid manager$,cn=system,'' @ domain_dn) then Some FSMORole_RidAllocation
         else None)"

definition fsmo_set_master :: "'srv ad_env \<Rightarrow> ad_object \<Rightarrow> qstring \<Rightarrow> ('srv, bool) ad_op" where
  "fsmo_set_master env root_dse role_dn =
     attribute_replace_string env role_dn ATTRIBUTE_FSMO_ROLE_OWNER (get_string root_dse ATTRIBUTE_DS_SERVICE_NAME) DoStatusMsg_Yes"

fun fsmo_role_mapping :: "fsmo_role \<Rightarrow> qstring" where
  "fsmo_role_mapping FSMORole_DomainDNS = ''Domain DNS''"
| "fsmo_role_mapping FSMORole_ForestDNS = ''Forest DNS''"
| "fsmo_role_mapping FSMORole_PDCEmulation = ''PDC Emulation''"
| "fsmo_role_mapping FSMORole_Schema = ''Schema''"
| "fsmo_role_mapping FSMORole_DomainNaming = ''Domain Naming''"
| "fsmo_role_mapping FSMORole_Infrastructure = ''Infrastructure''"
| "fsmo_role_mapping FSMORole_RidAllocation = ''Rid Allocation''"
| "fsmo_role_mapping FSMORole_COUNT = []"

definition fsmo_role_for_each :: "ad_config \<Rightarrow> (fsmo_role \<Rightarrow> qstring \<Rightarrow> qstring \<Rightarrow> 's \<Rightarrow> 's) \<Rightarrow> 's \<Rightarrow> 's" where
  "fsmo_role_for_each cfg callback s =
     fold (\<lambda>role s. callback role (fsmo_role_mapping role) (fsmo_dn_from_role cfg role) s) fsmo_roles s"

section \<open>ad_ldap_utils.cpp and lcid.cpp\<close>

text \<open>
  A parsed name is a list of relative names, each a list of attributes with values; parsing and
  printing them is of the LDAP library. The value may be missing.
\<close>

record ldap_ava =
  la_attr :: qstring
  la_value :: "bytes option"

type_synonym ldap_dn = "ldap_ava list list"

record dn_api =
  ldap_str2dn :: "qstring \<Rightarrow> ldap_dn option"
  ldap_dn2str :: "ldap_dn \<Rightarrow> qstring option"

definition ad_ldap_dn_rdn_count :: "ldap_dn option \<Rightarrow> nat" where
  "ad_ldap_dn_rdn_count dn = (case dn of None \<Rightarrow> 0 | Some rdns \<Rightarrow> length rdns)"

text \<open>The new value ends at a zero byte.\<close>

definition ad_ldap_dn_replace_value :: "ldap_dn \<Rightarrow> nat \<Rightarrow> qstring \<Rightarrow> ldap_dn option" where
  "ad_ldap_dn_replace_value dn rdn_index new_value =
     (if ad_ldap_dn_rdn_count (Some dn) \<le> rdn_index then None
      else case dn ! rdn_index of
        [] \<Rightarrow> None
      | ava # avas \<Rightarrow> if la_value ava = None then None
          else Some (dn[rdn_index := ava\<lparr>la_value := Some (takeWhile (\<lambda>b. b \<noteq> 0) (bytes_of_string new_value))\<rparr> # avas]))"

definition ad_ldap_dn_string_replace_value :: "dn_api \<Rightarrow> qstring \<Rightarrow> nat \<Rightarrow> qstring \<Rightarrow> qstring + qstring" where
  "ad_ldap_dn_string_replace_value api input rdn_index new_value =
     (case ldap_str2dn api input of
        None \<Rightarrow> Inl ''Invalid LDAP DN''
      | Some dn \<Rightarrow>
          (case ad_ldap_dn_replace_value dn rdn_index new_value of
             None \<Rightarrow> Inl ''Could not modify an LDAP RDN value''
           | Some dn \<Rightarrow>
               (case ldap_dn2str api dn of
                  None \<Rightarrow> Inl ''Could not convert a LDAP DN to a string''
                | Some result \<Rightarrow> Inr result)))"

definition lcid_from_locale :: "'locale \<Rightarrow> 'locale \<Rightarrow> 'locale \<Rightarrow> int" where
  "lcid_from_locale english russian locale =
     (case map_of [(english, 409), (russian, 419)] locale of Some lcid \<Rightarrow> lcid | None \<Rightarrow> 409)"

definition lcid_string_from_locale :: "'locale \<Rightarrow> 'locale \<Rightarrow> 'locale \<Rightarrow> qstring" where
  "lcid_string_from_locale english russian locale = number (lcid_from_locale english russian locale)"

end
