(* ===== verification/CoreFacts.thy ===== *)
theory CoreFacts
  imports AdmcCore DisplayFacts
begin

text \<open>
  The octet editor prints and reads back the same bytes; a generated name is new; the roles of
  operation masters and their names; replacing a part of a distinguished name.
\<close>

section \<open>Numbers in a base\<close>

lemma itoa_table_digit: "d < 36 \<Longrightarrow> itoa_table ! (35 + d) = digit_char d"
proof -
  have "list_all (\<lambda>d. itoa_table ! (35 + d) = digit_char d) [0..<36]" by code_simp
  then show "d < 36 \<Longrightarrow> ?thesis" by (simp add: list_all_iff)
qed

lemma sdiv_nat: "int n sdiv int b = int (n div b)"
  by (cases "b = 0") (simp_all add: signed_divide_int_def zdiv_int sgn_if)

lemma itoa_loop_digits:
  assumes "2 \<le> b" "b \<le> 36"
  shows "itoa_loop (int b) (int n) = rev (digits_of b n)"
proof (induction n rule: less_induct)
  case (less n)
  have "int n - int (n div b) * int b = int (n mod b)" by (simp add: minus_div_mult_eq_mod [symmetric] of_nat_diff algebra_simps flip: of_nat_mult)
  then have c: "itoa_table ! nat (35 + (int n - int (n div b) * int b)) = digit_char (n mod b)"
    using itoa_table_digit [of "n mod b"] assms by (simp add: nat_add_distrib order.strict_trans2 [OF mod_less_divisor])
  show ?case
  proof (cases "n < b")
    case True
    then show ?thesis using c assms by (subst itoa_loop.simps) (simp add: sdiv_nat Let_def digits_of.simps [of b n])
  next
    case False
    then have "n div b < n" "n div b \<noteq> 0" using assms by (auto simp: div_eq_0_iff)
    then show ?thesis using c assms False less.IH [of "n div b"]
      by (subst itoa_loop.simps) (simp add: sdiv_nat Let_def digits_of.simps [of b n])
  qed
qed

lemma itoa_digits: "2 \<le> b \<Longrightarrow> b \<le> 36 \<Longrightarrow> itoa (int n) (int b) = digits_of b n"
  by (simp add: itoa_def itoa_loop_digits)

lemma digit_char_zero: "d < 36 \<Longrightarrow> digit_char d = CHR ''0'' \<longleftrightarrow> d = 0"
proof -
  have "list_all (\<lambda>d. (digit_char d = CHR ''0'') = (d = 0)) [0..<36]" by code_simp
  then show "d < 36 \<Longrightarrow> ?thesis" by (simp add: list_all_iff)
qed

lemma to_lower_digit: "d < 36 \<Longrightarrow> to_lower_char (digit_char d) = digit_char d"
proof -
  assume "d < 36"
  then show ?thesis by (simp add: to_lower_char_def digit_char_code)
qed

lemma digits_of_head:
  assumes "2 \<le> b" "b \<le> 36" "0 < n"
  shows "hd (digits_of b n) \<noteq> CHR ''0''"
  using assms(3)
proof (induction n rule: less_induct)
  case (less n)
  show ?case
  proof (cases "n < b")
    case True
    then show ?thesis using less.prems assms digit_char_zero [of n] by (simp add: digits_of.simps)
  next
    case False
    then have "n div b < n" "0 < n div b" using assms by (auto simp: div_greater_zero_iff)
    then show ?thesis using less.IH False assms by (subst digits_of.simps) (simp add: hd_append)
  qed
qed

section \<open>The octet editor\<close>

lemma octet_byte_text:
  "octet_byte_to_string fmt b = arg_padded (octet_string_length fmt) (attribute_format_base fmt) (unat b)"
proof -
  have "2 \<le> attribute_format_base fmt" "attribute_format_base fmt \<le> 36" by (cases fmt; simp)+
  from itoa_digits [OF this, of "unat b"] show ?thesis
    by (simp add: octet_byte_to_string_def right_justified_def arg_padded_def Let_def)
qed

lemma leading_digits_value: "digits_value b s acc = Some n \<Longrightarrow> leading_digits b s acc = n"
  by (induction s arbitrary: acc) (auto split: option.splits)

lemma strip_padding_zeros: "strip_padding past (replicate k (CHR ''0'') @ s) = strip_padding past s"
  by (induction k) auto

lemma strtol_digits:
  assumes "2 \<le> b" "b \<le> 36" "0 < n" "n < 256"
  shows "strtol (digits_of b n) b = int n"
proof -
  obtain c s where cs: "digits_of b n = c # s" using digits_of_not_Nil by (meson neq_Nil_conv)
  have plain: "\<not> is_space_char c" "c \<noteq> CHR ''-''" "c \<noteq> CHR ''+''" using digits_of_plain [OF assms(1,2), of c n] cs by simp_all
  have "c \<noteq> CHR ''0''" using digits_of_head [OF assms(1-3)] cs by simp
  moreover obtain d where "d < b" "c = digit_char d" using digits_of_digit [OF assms(1), of c n] cs by auto
  ultimately have "to_lower_char c \<noteq> CHR ''0''" using to_lower_digit [of d] assms(2) by simp
  then have "take 2 (to_lower (c # s)) \<noteq> ''0x''" by (simp add: to_lower_def)
  moreover have "leading_digits b (c # s) 0 = n"
    using leading_digits_value [OF digits_value_digits_of [OF assms(1,2), of n]] cs by simp
  ultimately show ?thesis using plain assms(4) unfolding strtol_def cs by (simp add: Let_def)
qed

lemma octet_byte_read:
  assumes "b \<noteq> 0 \<or> (\<exists>c. past = Inr c)"
  shows "octet_string_to_byte past fmt (octet_byte_to_string fmt b) = Inr b"
proof -
  have base: "2 \<le> attribute_format_base fmt" "attribute_format_base fmt \<le> 36" by (cases fmt; simp)+
  let ?ds = "digits_of (attribute_format_base fmt) (unat b)"
  have strip: "strip_padding past (octet_byte_to_string fmt b) = strip_padding past ?ds"
    by (simp add: octet_byte_text arg_padded_def Let_def strip_padding_zeros)
  show ?thesis
  proof (cases "b = 0")
    case True
    then obtain c where "past = Inr c" using assms by blast
    moreover have "?ds = ''0''" using True base by (simp add: digits_of.simps digit_char_zero)
    ultimately show ?thesis using strip True by (simp add: octet_string_to_byte_def strtol_def)
  next
    case False
    then have n: "0 < unat b" "unat b < 256" using unsigned_less [of b, where 'a = nat] by (simp_all add: unat_gt_0)
    obtain c s where cs: "?ds = c # s" using digits_of_not_Nil by (meson neq_Nil_conv)
    then have "strip_padding past ?ds = Inr ?ds" using digits_of_head [OF base n(1)] by simp
    then show ?thesis using strip strtol_digits [OF base n] by (simp add: octet_string_to_byte_def flip: uint_nat)
  qed
qed

lemma octet_byte_zero:
  "octet_string_to_byte (Inl f) fmt (octet_byte_to_string fmt 0) = Inl f"
proof -
  have "digits_of (attribute_format_base fmt) 0 = ''0''" by (cases fmt) (simp_all add: digits_of.simps digit_char_zero)
  then show ?thesis by (simp add: octet_byte_text arg_padded_def Let_def strip_padding_zeros octet_string_to_byte_def)
qed

lemma octet_text_chars:
  "octet_byte_to_string fmt b \<noteq> []" "CHR '' '' \<notin> set (octet_byte_to_string fmt b)"
proof -
  have base: "2 \<le> attribute_format_base fmt" "attribute_format_base fmt \<le> 36" by (cases fmt; simp)+
  show "octet_byte_to_string fmt b \<noteq> []" by (simp add: octet_byte_text arg_padded_def Let_def)
  show "CHR '' '' \<notin> set (octet_byte_to_string fmt b)"
    using digits_of_plain [OF base, of "CHR '' ''" "unat b"]
    by (auto simp: octet_byte_text arg_padded_def Let_def is_space_char_def)
qed

lemma fold_reads:
  assumes "\<forall>x \<in> set bs. octet_string_to_byte past fmt (octet_byte_to_string fmt x) = Inr x"
  shows "fold_faulty (\<lambda>s out. bind_faulty (octet_string_to_byte past fmt s) (\<lambda>b. Inr (out @ [b])))
    (map (octet_byte_to_string fmt) bs) out = Inr (out @ bs)"
  using assms by (induction bs arbitrary: out) auto

lemma octet_text_split: "bs \<noteq> [] \<Longrightarrow> split_char (CHR '' '') (octet_bytes_to_string bs fmt) = map (octet_byte_to_string fmt) bs"
  unfolding octet_bytes_to_string_def by (rule split_join) (use octet_text_chars in auto)

lemma octet_text_empty: "octet_bytes_to_string bs fmt = [] \<longleftrightarrow> bs = []"
  using octet_text_chars(1) by (cases bs; cases "tl bs") (auto simp: octet_bytes_to_string_def)

section \<open>Validation\<close>

lemma octal_digits:
  assumes "n < 256"
  shows "arg_padded 3 8 n = [digit_char (n div 64), digit_char (n div 8 mod 8), digit_char (n mod 8)]"
proof -
  have z: "digit_char 0 = CHR ''0''" by (simp add: digit_char_zero)
  have "n div 8 < 8 \<or> n div 8 div 8 < 8" using assms by auto
  consider "n < 8" | "8 \<le> n" "n < 64" | "64 \<le> n" using assms by linarith
  then show ?thesis
  proof cases
    case 1
    then show ?thesis using z by (simp add: arg_padded_def Let_def digits_of.simps [of 8 n] numeral_2_eq_2)
  next
    case 2
    then have "n div 8 < 8" "n div 64 = 0" by auto
    then show ?thesis using 2 z by (simp add: arg_padded_def Let_def digits_of.simps [of 8 n] digits_of.simps [of 8 "n div 8"])
  next
    case 3
    then have "\<not> n div 8 < 8" "n div 8 div 8 < 8" "n div 8 div 8 = n div 64" using assms by (auto simp: div_mult2_eq [symmetric])
    then show ?thesis using 3
      by (simp add: arg_padded_def Let_def digits_of.simps [of 8 n] digits_of.simps [of 8 "n div 8"] digits_of.simps [of 8 "n div 64"])
  qed
qed

lemma number_of_three:
  assumes "a < 10" "b < 10" "c < 10"
  shows "or_zero (to_int [digit_char a, digit_char b, digit_char c]) = int (100 * a + 10 * b + c)"
proof -
  let ?s = "[digit_char a, digit_char b, digit_char c]"
  have plain: "\<not> is_space_char (digit_char a)" "digit_char a \<noteq> CHR ''-''" "digit_char a \<noteq> CHR ''+''" "\<not> is_space_char (digit_char c)"
    using digit_char_plain [of a] digit_char_plain [of c] assms by auto
  then have "trimmed ?s = ?s" by (simp add: trimmed_def)
  then have "parse_int 10 ?s = Some (int (100 * a + 10 * b + c))"
    using plain assms by (simp add: parse_int_def Let_def strip_base_prefix_def of_digits_def digit_value_char)
  then show ?thesis using assms by (simp add: to_int_def to_int_base_def in_range_def)
qed

lemma decimal_digits:
  assumes "n < 256"
  shows "arg_padded 3 10 n = [digit_char (n div 100), digit_char (n div 10 mod 10), digit_char (n mod 10)]"
proof -
  have z: "digit_char 0 = CHR ''0''" by (simp add: digit_char_zero)
  consider "n < 10" | "10 \<le> n" "n < 100" | "100 \<le> n" using assms by linarith
  then show ?thesis
  proof cases
    case 1
    then show ?thesis using z by (simp add: arg_padded_def Let_def digits_of.simps [of 10 n] numeral_2_eq_2)
  next
    case 2
    then have "n div 10 < 10" "n div 100 = 0" by auto
    then show ?thesis using 2 z by (simp add: arg_padded_def Let_def digits_of.simps [of 10 n] digits_of.simps [of 10 "n div 10"])
  next
    case 3
    then have "\<not> n div 10 < 10" "n div 10 div 10 < 10" "n div 10 div 10 = n div 100" using assms by (auto simp: div_mult2_eq [symmetric])
    then show ?thesis using 3
      by (simp add: arg_padded_def Let_def digits_of.simps [of 10 n] digits_of.simps [of 10 "n div 10"] digits_of.simps [of 10 "n div 100"])
  qed
qed

lemma three_digits: "100 * (n div 100) + 10 * (n div 10 mod 10) + n mod 10 = (n :: nat)"
proof -
  have "10 * (n div 10 div 10) + n div 10 mod 10 = n div 10" by simp
  moreover have "n div 10 div 10 = n div 100" by (simp add: div_mult2_eq [symmetric])
  moreover have "10 * (n div 10) + n mod 10 = n" by simp
  ultimately show ?thesis by linarith
qed

lemma padded_chars:
  assumes "2 \<le> b" "b \<le> 36" "n < b ^ w" "0 < w" "\<forall>d < b. digit_char d \<in> set chars"
  shows "chars_in chars w (arg_padded w b n)"
proof -
  have "digit_char 0 = CHR ''0''" by (simp add: digit_char_zero)
  then have "CHR ''0'' \<in> set chars" using assms(1,5) by force
  then show ?thesis using length_arg_padded [OF assms(1,3,4)] digits_of_digit [OF assms(1)] assms(5)
    by (fastforce simp: chars_in_def arg_padded_def Let_def list_all_iff)
qed

lemma hex_chars: "\<forall>d < 16. digit_char d \<in> set ''0123456789abcdef''"
proof -
  have "list_all (\<lambda>d. digit_char d \<in> set ''0123456789abcdef'') [0..<16]" by code_simp
  then show ?thesis by (simp add: list_all_iff)
qed

lemma digit_chars: "\<forall>d < 2. digit_char d \<in> set ''01''" "\<forall>d < 8. digit_char d \<in> set ''01234567''" "\<forall>d < 10. digit_char d \<in> set ''0123456789''"
proof -
  have "list_all (\<lambda>d. digit_char d \<in> set ''01'') [0..<2]" "list_all (\<lambda>d. digit_char d \<in> set ''01234567'') [0..<8]"
    "list_all (\<lambda>d. digit_char d \<in> set ''0123456789'') [0..<10]" by code_simp+
  then show "\<forall>d < 2. digit_char d \<in> set ''01''" "\<forall>d < 8. digit_char d \<in> set ''01234567''" "\<forall>d < 10. digit_char d \<in> set ''0123456789''"
    by (simp_all add: list_all_iff)
qed

lemma octet_text_valid: "validators fmt (octet_byte_to_string fmt b)"
proof -
  have n: "unat b < 256" using unsigned_less [of b, where 'a = nat] by simp
  show ?thesis
  proof (cases fmt)
    case OctetDisplayFormat_Hexadecimal
    then show ?thesis using padded_chars [OF _ _ _ _ hex_chars, of "unat b" 2] n
      by (simp add: octet_byte_text attribute_validate_hexadecimal_def matches_line_def)
  next
    case OctetDisplayFormat_Binary
    then show ?thesis using padded_chars [OF _ _ _ _ digit_chars(1), of "unat b" 8] n
      by (simp add: octet_byte_text attribute_validate_binary_def matches_line_def)
  next
    case OctetDisplayFormat_Decimal
    have "chars_in ''0123456789'' 3 (arg_padded 3 10 (unat b))" using padded_chars [OF _ _ _ _ digit_chars(3), of "unat b" 3] n by simp
    moreover have "100 * (unat b div 100) + 10 * (unat b div 10 mod 10) + unat b mod 10 \<le> 255"
      using three_digits [of "unat b"] n by simp
    then have "or_zero (to_int (arg_padded 3 10 (unat b))) \<le> 255" "0 \<le> or_zero (to_int (arg_padded 3 10 (unat b)))"
      unfolding decimal_digits [OF n] using number_of_three [of "unat b div 100" "unat b div 10 mod 10" "unat b mod 10"] n by auto
    ultimately show ?thesis using OctetDisplayFormat_Decimal
      by (simp add: octet_byte_text attribute_validate_decimal_def matches_line_def Let_def)
  next
    case OctetDisplayFormat_Octal
    have "chars_in ''01234567'' 3 (arg_padded 3 8 (unat b))" using padded_chars [OF _ _ _ _ digit_chars(2), of "unat b" 3] n by simp
    moreover have "unat b div 64 \<le> 3" "unat b div 8 mod 8 \<le> 7" "unat b mod 8 \<le> 7" using n by auto
    then have "or_zero (to_int (arg_padded 3 8 (unat b))) \<le> 377" "0 \<le> or_zero (to_int (arg_padded 3 8 (unat b)))"
      unfolding octal_digits [OF n] using number_of_three [of "unat b div 64" "unat b div 8 mod 8" "unat b mod 8"] by auto
    ultimately show ?thesis using OctetDisplayFormat_Octal
      by (simp add: octet_byte_text attribute_validate_octal_def matches_line_def Let_def)
  qed
qed

text \<open>
  C32. In each of its four formats the octet editor shows bytes as a text that it accepts, unless there
  are none, and reads the same bytes back. A zero byte depends on what reading the first character of an
  empty string gives, as its text is all padding: where that is an error, so is reading the text.
\<close>

theorem octet_editor_round_trip:
  "(bs \<noteq> [] \<longrightarrow> attribute_validate_input fmt (octet_bytes_to_string bs fmt))
    \<and> (0 \<notin> set bs \<or> (\<exists>c. past = Inr c) \<longrightarrow> octet_string_to_bytes past (octet_bytes_to_string bs fmt) fmt = Inr bs)
    \<and> octet_string_to_bytes (Inl f) (octet_bytes_to_string [0] fmt) fmt = Inl f"
proof (intro conjI impI)
  assume "bs \<noteq> []"
  then show "attribute_validate_input fmt (octet_bytes_to_string bs fmt)"
    by (simp add: attribute_validate_input_def octet_text_split list_all_iff octet_text_valid)
next
  assume "0 \<notin> set bs \<or> (\<exists>c. past = Inr c)"
  then have "\<forall>x \<in> set bs. octet_string_to_byte past fmt (octet_byte_to_string fmt x) = Inr x" using octet_byte_read by metis
  from fold_reads [OF this, of "[]"] show "octet_string_to_bytes past (octet_bytes_to_string bs fmt) fmt = Inr bs"
    unfolding octet_string_to_bytes_def octet_text_empty using octet_text_split [of bs fmt] by simp
next
  show "octet_string_to_bytes (Inl f) (octet_bytes_to_string [0] fmt) fmt = Inl f"
    using octet_text_split [of "[0]" fmt] by (simp add: octet_string_to_bytes_def octet_text_empty octet_byte_zero)
qed

theorem octet_editor_round_trip_witness:
  "attribute_validate_input OctetDisplayFormat_Octal (octet_bytes_to_string [7, 255] OctetDisplayFormat_Octal)
    \<and> octet_string_to_bytes (Inl Index_Out_Of_Range) (octet_bytes_to_string [7, 255] OctetDisplayFormat_Octal) OctetDisplayFormat_Octal = Inr [7, 255]"
  using octet_editor_round_trip [of "[7, 255]" OctetDisplayFormat_Octal "Inl Index_Out_Of_Range" Index_Out_Of_Range] by simp

section \<open>New names\<close>

lemma markers_plain: "CHR ''%'' \<notin> set s \<Longrightarrow> markers (s @ t) = markers t"
  by (induction s) auto

lemma replace_plain: "CHR ''%'' \<notin> set s \<Longrightarrow> replace_markers (length s + n) m v (s @ t) = s @ replace_markers n m v t"
  by (induction s) auto

lemma replace_nothing: "replace_markers n m v [] = []"
  by (cases n) simp_all

lemma numbered_name_plain:
  assumes "CHR ''%'' \<notin> set name_base"
  shows "numbered_name name_base n = name_base @ '' ('' @ number (int n) @ '')''"
proof -
  have digits: "digit_value 10 (CHR ''1'') = Some 1" "digit_value 10 (CHR ''2'') = Some 2" "digit_value 10 (CHR '' '') = None"
      "digit_value 10 (CHR '')'') = None" by (simp_all add: digit_value_def Let_def)
  have first: "arg_text ''%1 (%2)'' name_base = name_base @ '' (%2)''"
    using digits by (simp add: arg_text_def)
  have ms: "markers (name_base @ '' (%2)'') = [2]" using digits by (simp add: markers_plain [OF assms])
  have "arg_text (name_base @ '' (%2)'') (number (int n)) = name_base @ '' ('' @ number (int n) @ '')''"
    using replace_plain [OF assms, of 5 2 "number (int n)" "'' (%2)''"] digits
    by (simp add: arg_text_def ms numeral_eq_Suc replace_nothing)
  then show ?thesis by (simp add: numbered_name_def first)
qed

lemma number_inject: "number (int m) = number (int n) \<longleftrightarrow> m = n"
proof
  assume "number (int m) = number (int n)"
  then have "digits_of 10 m = digits_of 10 n" by (simp add: number_def)
  then have "digits_value 10 (digits_of 10 m) 0 = digits_value 10 (digits_of 10 n) 0" by simp
  then have "Some m = Some n" by (simp add: digits_value_digits_of)
  then show "m = n" by simp
qed simp

lemma next_number_stops:
  "n \<le> 1000 \<Longrightarrow> n \<le> next_number existing base n \<and> next_number existing base n \<le> 1001
    \<and> (\<forall>k. n \<le> k \<longrightarrow> k < next_number existing base n \<longrightarrow> numbered_name base k \<in> set existing)
    \<and> (next_number existing base n < 1001 \<longrightarrow> numbered_name base (next_number existing base n) \<notin> set existing)"
proof (induction existing base n rule: next_number.induct)
  case (1 existing base n)
  show ?case
  proof (cases "numbered_name base n \<in> set existing \<and> n < 1000")
    case True
    then have step: "next_number existing base n = next_number existing base (n + 1)" by (subst next_number.simps) simp
    have "numbered_name base k \<in> set existing" if "n \<le> k" "k < next_number existing base (n + 1)" for k
      using that 1(1) True by (cases "k = n") auto
    then show ?thesis using 1(1) True step by auto
  next
    case False
    have "next_number existing base n = (if numbered_name base n \<in> set existing then n + 1 else n)"
      using False 1(2) by (subst next_number.simps) auto
    then show ?thesis using 1(2) False
      by (cases "numbered_name base n \<in> set existing") (auto simp: less_Suc_eq_le dest: le_antisym)
  qed
qed



text \<open>The number takes the place of a marker that the base contains.\<close>

lemma marker_in_base: "generate_new_name [''New %1''] ''New %1'' = ''New 2 (%2)''"
proof -
  have digit_two: "digit_char 2 = CHR ''2''" by code_simp
  have "next_number [''New %1''] ''New %1'' 2 = 2"
    by (subst next_number.simps) (simp add: numbered_name_def arg_text_def digit_value_def Let_def numeral_eq_Suc)
  then show ?thesis
    by (simp add: generate_new_name_def numbered_name_def arg_text_def digit_value_def Let_def number_def digits_of.simps digit_two)
qed

section \<open>Operation masters\<close>

text \<open>
  When the seven objects that hold the roles have different names, case aside, the role that is read
  from a name, in any case, is the one whose object has that name, and there is none for other names.
\<close>

theorem fsmo_role_round_trip:
  assumes "distinct (map (\<lambda>role. to_lower (fsmo_dn_from_role cfg role)) fsmo_roles)"
  shows "fsmo_role_from_dn cfg role_dn = Some role \<longleftrightarrow> role \<noteq> FSMORole_COUNT \<and> to_lower role_dn = to_lower (fsmo_dn_from_role cfg role)"
proof -
  have lower: "to_lower ''CN=Infrastructure,DC=DomainDnsZones,'' = ''cn=infrastructure,dc=domaindnszones,''"
    "to_lower ''CN=Infrastructure,DC=ForestDnsZones,'' = ''cn=infrastructure,dc=forestdnszones,''"
    "to_lower ''CN=Infrastructure,'' = ''cn=infrastructure,''" "to_lower ''CN=RID Manager$,CN=System,'' = ''cn=rid manager$,cn=system,''"
    "to_lower ''cn=infrastructure,dc=domaindnszones,'' = ''cn=infrastructure,dc=domaindnszones,''"
    "to_lower ''cn=infrastructure,dc=forestdnszones,'' = ''cn=infrastructure,dc=forestdnszones,''"
    "to_lower ''cn=infrastructure,'' = ''cn=infrastructure,''" "to_lower ''cn=rid manager$,cn=system,'' = ''cn=rid manager$,cn=system,''"
    by code_simp+
  define a b c d where "a = ''cn=infrastructure,dc=domaindnszones,'' @ to_lower (cfg_domain_dn cfg)"
    and "b = ''cn=infrastructure,dc=forestdnszones,'' @ to_lower (cfg_domain_dn cfg)"
    and "c = ''cn=infrastructure,'' @ to_lower (cfg_domain_dn cfg)" and "d = ''cn=rid manager$,cn=system,'' @ to_lower (cfg_domain_dn cfg)"
  have dns: "to_lower (fsmo_dn_from_role cfg FSMORole_DomainDNS) = a" "to_lower (fsmo_dn_from_role cfg FSMORole_ForestDNS) = b"
    "to_lower (fsmo_dn_from_role cfg FSMORole_Infrastructure) = c" "to_lower (fsmo_dn_from_role cfg FSMORole_RidAllocation) = d"
    "fsmo_dn_from_role cfg FSMORole_PDCEmulation = cfg_domain_dn cfg" "fsmo_dn_from_role cfg FSMORole_Schema = cfg_schema_dn cfg"
    "fsmo_dn_from_role cfg FSMORole_DomainNaming = partitions_dn cfg"
    unfolding fsmo_dn_from_role.simps to_lower_append lower a_def b_def c_def d_def by (rule refl)+
  have from_dn: "fsmo_role_from_dn cfg role_dn =
      (if to_lower role_dn = to_lower (cfg_domain_dn cfg) then Some FSMORole_PDCEmulation
       else if to_lower role_dn = to_lower (cfg_schema_dn cfg) then Some FSMORole_Schema
       else if to_lower role_dn = to_lower (partitions_dn cfg) then Some FSMORole_DomainNaming
       else if to_lower role_dn = a then Some FSMORole_DomainDNS
       else if to_lower role_dn = b then Some FSMORole_ForestDNS
       else if to_lower role_dn = c then Some FSMORole_Infrastructure
       else if to_lower role_dn = d then Some FSMORole_RidAllocation else None)"
    unfolding fsmo_role_from_dn_def Let_def to_lower_append lower a_def b_def c_def d_def by (rule refl)
  have "distinct [a, b, to_lower (cfg_domain_dn cfg), to_lower (cfg_schema_dn cfg), to_lower (partitions_dn cfg), c, d]"
    using assms unfolding fsmo_roles_def list.map dns .
  then show ?thesis unfolding from_dn by (cases role) (auto simp only: dns distinct.simps list.set if_splits option.inject fsmo_role.simps refl
    insert_iff empty_iff simp_thms split: if_splits)
qed

definition example_domain :: ad_config where
  "example_domain = empty_config\<lparr>cfg_domain_dn := ''DC=alt'', cfg_schema_dn := ''CN=Schema,CN=Configuration,DC=alt'',
     cfg_configuration_dn := ''CN=Configuration,DC=alt''\<rparr>"

theorem fsmo_role_round_trip_witness:
  "fsmo_role_from_dn example_domain ''cn=rid manager$,cn=system,dc=ALT'' = Some FSMORole_RidAllocation"
proof -
  have "distinct (map (\<lambda>role. to_lower (fsmo_dn_from_role example_domain role)) fsmo_roles)" by code_simp
  moreover have "to_lower ''cn=rid manager$,cn=system,dc=ALT'' = to_lower (fsmo_dn_from_role example_domain FSMORole_RidAllocation)"
    by code_simp
  ultimately show ?thesis using fsmo_role_round_trip [of example_domain "''cn=rid manager$,cn=system,dc=ALT''" FSMORole_RidAllocation] by blast
qed

section \<open>Names\<close>

text \<open>
  When the library reads back the names it prints, replacing the value of one relative name gives a
  name that reads as the old one with that value, up to a zero byte, and nothing else changed; it fails
  when the name can not be read or has no such part with a value.
\<close>

theorem dn_value_replaced:
  assumes "ldap_str2dn api input = Some dn" and "\<And>dn s. ldap_dn2str api dn = Some s \<Longrightarrow> ldap_str2dn api s = Some dn"
    and "ad_ldap_dn_string_replace_value api input i new_value = Inr result"
  shows "i < length dn \<and> (\<exists>ava avas. dn ! i = ava # avas \<and> ldap_str2dn api result =
    Some (dn[i := ava\<lparr>la_value := Some (takeWhile (\<lambda>b. b \<noteq> 0) (bytes_of_string new_value))\<rparr> # avas]))"
  using assms(1,3)
  by (auto simp: ad_ldap_dn_string_replace_value_def ad_ldap_dn_replace_value_def ad_ldap_dn_rdn_count_def
    split: option.splits if_splits list.splits dest: assms(2))

end
