(* ===== verification/ScheduleHours.thy ===== *)
theory ScheduleHours
  imports AdUtils "HOL-Library.Signed_Division"
begin

text \<open>
  The dialog of logon hours and of the schedules of site links
  (\<open>src/admc/ui/attribute_edit/schedule_hours_dialog.cpp\<close>): a value of bytes as a week of hours, shifted
  to the local time, and the edits between loading a value and getting it back.
\<close>

section \<open>Weeks and bytes\<close>

definition DAYS_IN_WEEK :: nat where "DAYS_IN_WEEK = 7"
definition HOURS_IN_DAY :: nat where "HOURS_IN_DAY = 24"
definition LOGON_HOURS_SIZE :: nat where "LOGON_HOURS_SIZE = 21"
definition SITE_LINK_SCHEDULE_TOTAL_SIZE :: nat where "SITE_LINK_SCHEDULE_TOTAL_SIZE = 188"
definition SITE_LINK_SCHEDULE_HEADER_SIZE :: nat where "SITE_LINK_SCHEDULE_HEADER_SIZE = 20"
definition SITE_LINK_SCHEDULE_DATA_SIZE :: nat where "SITE_LINK_SCHEDULE_DATA_SIZE = 168"
definition SITE_LINK_SCHEDULE_ALLOWED :: byte where "SITE_LINK_SCHEDULE_ALLOWED = 0xFF"
definition SITE_LINK_SCHEDULE_DENIED :: byte where "SITE_LINK_SCHEDULE_DENIED = 0xF0"

definition shift_list :: "bool list \<Rightarrow> int \<Rightarrow> bool list" where
  "shift_list xs shift_amount =
     (if \<bar>shift_amount\<bar> > int (length xs) then xs
      else map (\<lambda>i. let shifted_i = int i - shift_amount
             in xs ! nat (if shifted_i < 0 then shifted_i + int (length xs)
                          else if int (length xs) \<le> shifted_i then shifted_i - int (length xs) else shifted_i))
           [0..<length xs])"

text \<open>\<open>QList::mid\<close> from each multiple of a size.\<close>

function chunks :: "nat \<Rightarrow> 'a list \<Rightarrow> 'a list list" where
  "chunks n xs = (if xs = [] \<or> n = 0 then [] else take n xs # chunks n (drop n xs))"
  by auto
termination by (relation "measure (\<lambda>(n, xs). length xs)") auto

declare chunks.simps [simp del]

text \<open>The bits of a byte from the lowest on; a byte is a signed number when it is widened, which keeps its bits.\<close>

definition byte_bits :: "byte \<Rightarrow> bool list" where
  "byte_bits b = map (\<lambda>bit_i. bitmask_is_set (scast b) (push_bit bit_i 1)) [0..<8]"

definition logon_hours_to_bools :: "bytes \<Rightarrow> int \<Rightarrow> bool list list" where
  "logon_hours_to_bools byte_list_arg time_offset =
     (let byte_list = (if length byte_list_arg = LOGON_HOURS_SIZE then byte_list_arg else replicate LOGON_HOURS_SIZE 0xFF);
          joined = shift_list (concat (map byte_bits byte_list)) time_offset
      in chunks HOURS_IN_DAY joined)"

text \<open>Eight bools as a byte; \<open>append\<close> takes the lowest byte of the number.\<close>

definition bits_byte :: "bool list \<Rightarrow> byte" where
  "bits_byte bits = ucast (fold (\<lambda>bit_i b. bitmask_set b (push_bit bit_i 1) (bits ! bit_i)) [0..<8] 0)"

definition logon_hours_to_bytes :: "bool list list \<Rightarrow> int \<Rightarrow> bytes" where
  "logon_hours_to_bytes bool_list time_offset = map bits_byte (chunks 8 (shift_list (concat bool_list) (- time_offset)))"

definition site_schedule_bytes_to_bools :: "bytes \<Rightarrow> int \<Rightarrow> bool list list" where
  "site_schedule_bytes_to_bools byte_list_arg time_offset =
     (let byte_list = (if length byte_list_arg = SITE_LINK_SCHEDULE_DATA_SIZE then byte_list_arg
                       else replicate SITE_LINK_SCHEDULE_DATA_SIZE SITE_LINK_SCHEDULE_ALLOWED);
          joined = shift_list (map (\<lambda>b. b = SITE_LINK_SCHEDULE_ALLOWED) byte_list) time_offset
      in chunks HOURS_IN_DAY joined)"

definition bools_to_site_schedule_bytes :: "bool list list \<Rightarrow> int \<Rightarrow> bytes" where
  "bools_to_site_schedule_bytes bool_list time_offset =
     map (\<lambda>is_allowed. if is_allowed then SITE_LINK_SCHEDULE_ALLOWED else SITE_LINK_SCHEDULE_DENIED)
       (shift_list (concat bool_list) (- time_offset))"

section \<open>The dialog\<close>

datatype schedule_type = ScheduleType_SiteLink | ScheduleType_UserLogon

text \<open>Every schedule of a site link starts with the same bytes.\<close>

definition sitelink_schedule_header_bytes :: bytes where
  "sitelink_schedule_header_bytes =
     [0xBC, 0x00, 0x00, 0x00, 0x00, 0x00, 0x00, 0x00, 0x01, 0x00, 0x00, 0x00, 0x00, 0x00, 0x00, 0x00, 0x14, 0x00, 0x00, 0x00]"

text \<open>
  The selection is a set of cells, as days and hours. \<open>offset_s\<close> is the offset of the system's time zone
  from UTC in seconds.
\<close>

record schedule_dialog =
  schedule_kind :: schedule_type
  original_value :: bytes
  is_local_time :: bool
  selected :: "(nat \<times> nat) set"

definition get_current_utc_offset :: "int \<Rightarrow> int" where
  "get_current_utc_offset offset_s = (offset_s sdiv 60) sdiv 60"

definition get_offset :: "int \<Rightarrow> schedule_dialog \<Rightarrow> int" where
  "get_offset offset_s d = (if is_local_time d then get_current_utc_offset offset_s else 0)"

definition site_link_payload :: "bytes \<Rightarrow> bytes" where
  "site_link_payload val = take SITE_LINK_SCHEDULE_DATA_SIZE (drop SITE_LINK_SCHEDULE_HEADER_SIZE val)"

text \<open>The grid that a value shows.\<close>

definition value_bools :: "schedule_type \<Rightarrow> bytes \<Rightarrow> int \<Rightarrow> bool list list" where
  "value_bools kind val offset = (case kind of
     ScheduleType_SiteLink \<Rightarrow> site_schedule_bytes_to_bools (site_link_payload val) offset
   | ScheduleType_UserLogon \<Rightarrow> logon_hours_to_bools val offset)"

definition load :: "int \<Rightarrow> bytes \<Rightarrow> schedule_dialog \<Rightarrow> schedule_dialog" where
  "load offset_s val d =
     (let original = (if schedule_kind d = ScheduleType_SiteLink \<and> (val = [] \<or> length val < SITE_LINK_SCHEDULE_TOTAL_SIZE)
                      then sitelink_schedule_header_bytes @ replicate SITE_LINK_SCHEDULE_DATA_SIZE 0xFF else val);
          bools = value_bools (schedule_kind d) original (get_offset offset_s d)
      in d\<lparr>original_value := original,
           selected := set (filter (\<lambda>(day, h). bools ! day ! h) (List.product [0..<DAYS_IN_WEEK] [0..<HOURS_IN_DAY]))\<rparr>)"

text \<open>A grid of nothing allowed, with every selected cell set.\<close>

definition selection_bools :: "schedule_dialog \<Rightarrow> bool list list" where
  "selection_bools d =
     (let bools = (case schedule_kind d of
        ScheduleType_SiteLink \<Rightarrow> site_schedule_bytes_to_bools (replicate SITE_LINK_SCHEDULE_DATA_SIZE 0) 0
      | ScheduleType_UserLogon \<Rightarrow> logon_hours_to_bools (replicate LOGON_HOURS_SIZE 0) 0)
      in map (\<lambda>day. map (\<lambda>h. (day, h) \<in> selected d \<or> bools ! day ! h) [0..<length (bools ! day)]) [0..<length bools])"

definition get_schedule :: "int \<Rightarrow> schedule_dialog \<Rightarrow> bytes" where
  "get_schedule offset_s d =
     (let bools = selection_bools d;
          original_bools = value_bools (schedule_kind d) (original_value d) (get_offset offset_s d)
      in if bools = original_bools then original_value d
         else case schedule_kind d of
             ScheduleType_SiteLink \<Rightarrow> sitelink_schedule_header_bytes @ bools_to_site_schedule_bytes bools (get_offset offset_s d)
           | ScheduleType_UserLogon \<Rightarrow> logon_hours_to_bytes bools (get_offset offset_s d))"

definition open_dialog :: "int \<Rightarrow> schedule_type \<Rightarrow> bytes \<Rightarrow> schedule_dialog" where
  "open_dialog offset_s kind val =
     load offset_s val \<lparr>schedule_kind = kind, original_value = [], is_local_time = True, selected = {}\<rparr>"

definition on_local_time_button_toggled :: "int \<Rightarrow> bool \<Rightarrow> schedule_dialog \<Rightarrow> schedule_dialog" where
  "on_local_time_button_toggled offset_s checked d =
     (let current_value = get_schedule offset_s d
      in load offset_s current_value (d\<lparr>is_local_time := checked\<rparr>))"

text \<open>Selecting and deselecting cells of the table, which has a row for each day and a column for each hour.\<close>

definition select_cells :: "(nat \<times> nat) set \<Rightarrow> schedule_dialog \<Rightarrow> schedule_dialog" where
  "select_cells cells d = d\<lparr>selected := cells \<inter> set (List.product [0..<DAYS_IN_WEEK] [0..<HOURS_IN_DAY])\<rparr>"

end
