(* ===== verification/HoursFacts.thy ===== *)
theory HoursFacts
  imports ScheduleHours
begin

text \<open>
  Hours and schedules: bytes and grids are the same information in any time zone, a dialog that is not
  edited gives back the value it was opened with, and one that is edited gives a value that allows
  exactly the selected hours, however often the time is switched between local and UTC.
\<close>

section \<open>Shifting\<close>

lemma length_shift_list [simp]: "length (shift_list xs k) = length xs"
  by (simp add: shift_list_def)

definition shifted_index :: "nat \<Rightarrow> int \<Rightarrow> nat \<Rightarrow> nat" where
  "shifted_index n k i = nat (let j = int i - k in if j < 0 then j + int n else if int n \<le> j then j - int n else j)"

lemma shifted_index_less: "\<bar>k\<bar> \<le> int n \<Longrightarrow> i < n \<Longrightarrow> shifted_index n k i < n"
  by (auto simp: shifted_index_def Let_def)

lemma shifted_index_inverse: "\<bar>k\<bar> \<le> int n \<Longrightarrow> i < n \<Longrightarrow> shifted_index n k (shifted_index n (- k) i) = i"
  by (auto simp: shifted_index_def Let_def)

lemma nth_shift_list: "\<bar>k\<bar> \<le> int (length xs) \<Longrightarrow> i < length xs \<Longrightarrow> shift_list xs k ! i = xs ! shifted_index (length xs) k i"
  by (simp add: shift_list_def shifted_index_def Let_def)

lemma shift_list_inverse: "\<bar>k\<bar> \<le> int (length xs) \<Longrightarrow> shift_list (shift_list xs k) (- k) = xs"
  by (rule nth_equalityI) (simp_all add: nth_shift_list shifted_index_less shifted_index_inverse)

lemma shift_list_zero [simp]: "shift_list xs 0 = xs"
  by (rule nth_equalityI) (simp_all add: nth_shift_list shifted_index_def)

section \<open>Chunks\<close>

lemma concat_chunks: "0 < n \<Longrightarrow> concat (chunks n xs) = xs"
proof (induction n xs rule: chunks.induct)
  case (1 n xs)
  then show ?case by (subst chunks.simps) auto
qed

lemma chunks_concat: "0 < n \<Longrightarrow> \<forall>ys \<in> set yss. length ys = n \<Longrightarrow> chunks n (concat yss) = yss"
proof (induction yss)
  case Nil
  then show ?case by (simp add: chunks.simps)
next
  case (Cons ys yss)
  then have "ys \<noteq> []" by auto
  then show ?case using Cons by (subst chunks.simps) simp
qed

lemma chunks_shape: "0 < n \<Longrightarrow> length xs = m * n \<Longrightarrow> length (chunks n xs) = m \<and> (\<forall>ys \<in> set (chunks n xs). length ys = n)"
proof (induction m arbitrary: xs)
  case 0
  then show ?case by (simp add: chunks.simps)
next
  case (Suc m)
  then have "xs \<noteq> []" by auto
  moreover have "length (drop n xs) = m * n" using Suc.prems by simp
  moreover from Suc.IH [OF Suc.prems(1) this] have "length (chunks n (drop n xs)) = m" "\<forall>ys \<in> set (chunks n (drop n xs)). length ys = n"
    by simp_all
  ultimately show ?case using Suc.prems by (simp add: chunks.simps [of n xs])
qed

section \<open>Bits\<close>

lemma bit_scast: "i < 8 \<Longrightarrow> bit (scast (b :: byte) :: mask) i = bit b i"
  by (simp add: bit_simps)

lemma length_byte_bits [simp]: "length (byte_bits b) = 8"
  by (simp add: byte_bits_def)

lemma nth_byte_bits: "i < 8 \<Longrightarrow> byte_bits b ! i = bit b i"
  by (simp add: byte_bits_def bitmask_is_set_def mask_subset_iff bit_simps bit_scast)

lemma bit_fold_set:
  assumes "n \<le> 32" "i < 32"
  shows "bit (fold (\<lambda>bit_i b. bitmask_set b (push_bit bit_i 1) (bits ! bit_i)) [0..<n] (w :: mask)) i = (if i < n then bits ! i else bit w i)"
  using assms by (induction n) (auto simp: bitmask_set_def bit_simps less_Suc_eq)

lemma bit_bits_byte: "i < 8 \<Longrightarrow> bit (bits_byte bits) i = bits ! i"
  unfolding bits_byte_def using bit_fold_set [of 8 i bits 0] by (simp add: bit_simps)

lemma bits_byte_bits: "bits_byte (byte_bits b) = b"
  by (rule bit_word_eqI) (simp add: bit_bits_byte nth_byte_bits)

lemma byte_bits_byte: "length bits = 8 \<Longrightarrow> byte_bits (bits_byte bits) = bits"
  by (rule nth_equalityI) (simp_all add: nth_byte_bits bit_bits_byte)

section \<open>Grids\<close>

lemmas sizes = LOGON_HOURS_SIZE_def HOURS_IN_DAY_def DAYS_IN_WEEK_def SITE_LINK_SCHEDULE_DATA_SIZE_def
  SITE_LINK_SCHEDULE_HEADER_SIZE_def SITE_LINK_SCHEDULE_TOTAL_SIZE_def

definition week_grid :: "bool list list \<Rightarrow> bool" where
  "week_grid bools = (length bools = 7 \<and> (\<forall>day \<in> set bools. length day = 24))"

lemma length_concat_grid: "week_grid bools \<Longrightarrow> length (concat bools) = 168"
  by (simp add: week_grid_def length_concat sum_list_triv cong: map_cong)

lemma length_concat_bits [simp]: "length (concat (map byte_bits bs)) = 8 * length bs"
  by (induction bs) auto

lemma length_concat_replicate [simp]: "length (concat (replicate n (byte_bits b))) = 8 * n"
  by (induction n) auto

lemma week_grid_chunks: "length xs = 168 \<Longrightarrow> week_grid (chunks 24 xs)"
  using chunks_shape [of 24 xs 7] by (simp add: week_grid_def)

lemma week_grid_logon: "week_grid (logon_hours_to_bools val k)"
  by (simp add: logon_hours_to_bools_def sizes Let_def week_grid_chunks)

lemma week_grid_site: "week_grid (site_schedule_bytes_to_bools val k)"
  by (simp add: site_schedule_bytes_to_bools_def sizes Let_def week_grid_chunks)

lemma week_grid_value: "week_grid (value_bools kind val k)"
  by (cases kind) (simp_all add: value_bools_def week_grid_logon week_grid_site)

lemma chunks_of_grid: "week_grid bools \<Longrightarrow> chunks 24 (concat bools) = bools"
  by (rule chunks_concat) (simp_all add: week_grid_def)

lemma logon_bytes_read:
  assumes "week_grid bools" "\<bar>k\<bar> \<le> 168"
  shows "logon_hours_to_bools (logon_hours_to_bytes bools k) k = bools"
proof -
  let ?joined = "shift_list (concat bools) (- k)"
  have len: "length ?joined = 21 * 8" using length_concat_grid [OF assms(1)] by simp
  have chunk: "length (chunks 8 ?joined) = 21" "\<forall>c \<in> set (chunks 8 ?joined). length c = 8" using chunks_shape [OF _ len] by auto
  have "map byte_bits (map bits_byte (chunks 8 ?joined)) = chunks 8 ?joined"
    using chunk(2) byte_bits_byte by (simp add: map_idI)
  then have "concat (map byte_bits (logon_hours_to_bytes bools k)) = ?joined"
    by (simp add: logon_hours_to_bytes_def concat_chunks)
  moreover have "shift_list ?joined k = concat bools"
    using shift_list_inverse [of "- k" "concat bools"] assms(2) length_concat_grid [OF assms(1)] by simp
  moreover have "length (logon_hours_to_bytes bools k) = 21" using chunk(1) by (simp add: logon_hours_to_bytes_def)
  ultimately show ?thesis using chunks_of_grid [OF assms(1)] by (simp add: logon_hours_to_bools_def sizes Let_def)
qed

lemma logon_bools_written:
  assumes "length val = 21" "\<bar>k\<bar> \<le> 168"
  shows "logon_hours_to_bytes (logon_hours_to_bools val k) k = val"
proof -
  let ?bits = "concat (map byte_bits val)"
  have "shift_list (shift_list ?bits k) (- k) = ?bits" using assms by (intro shift_list_inverse) simp
  moreover have "chunks 8 ?bits = map byte_bits val" by (rule chunks_concat) auto
  ultimately show ?thesis using assms
    by (simp add: logon_hours_to_bytes_def logon_hours_to_bools_def sizes Let_def concat_chunks bits_byte_bits map_idI)
qed

lemma site_bytes_read:
  assumes "week_grid bools" "\<bar>k\<bar> \<le> 168"
  shows "site_schedule_bytes_to_bools (bools_to_site_schedule_bytes bools k) k = bools"
proof -
  have "map ((\<lambda>b. b = SITE_LINK_SCHEDULE_ALLOWED) \<circ> (\<lambda>a. if a then SITE_LINK_SCHEDULE_ALLOWED else SITE_LINK_SCHEDULE_DENIED)) xs = xs" for xs
    by (rule map_idI) (simp add: SITE_LINK_SCHEDULE_ALLOWED_def SITE_LINK_SCHEDULE_DENIED_def)
  moreover have "shift_list (shift_list (concat bools) (- k)) k = concat bools"
    using shift_list_inverse [of "- k" "concat bools"] assms(2) length_concat_grid [OF assms(1)] by simp
  ultimately show ?thesis using length_concat_grid [OF assms(1)] chunks_of_grid [OF assms(1)]
    by (simp add: site_schedule_bytes_to_bools_def bools_to_site_schedule_bytes_def sizes Let_def)
qed

section \<open>The dialog\<close>

lemma nth_grid_shape: "week_grid bools \<Longrightarrow> day < 7 \<Longrightarrow> length (bools ! day) = 24"
  by (simp add: week_grid_def)

lemma nth_chunks: "0 < n \<Longrightarrow> day * n + n \<le> length xs \<Longrightarrow> chunks n xs ! day = take n (drop (day * n) xs)"
proof (induction day arbitrary: xs)
  case 0
  then have "xs \<noteq> []" by auto
  then show ?case using 0 by (simp add: chunks.simps [of n xs])
next
  case (Suc day)
  then have "xs \<noteq> []" by auto
  then show ?case using Suc.prems Suc.IH [of "drop n xs"] by (simp add: chunks.simps [of n xs] add.commute)
qed

lemma empty_grid:
  assumes "day < 7" "h < 24"
  shows "\<not> logon_hours_to_bools (replicate LOGON_HOURS_SIZE 0) 0 ! day ! h"
    and "\<not> site_schedule_bytes_to_bools (replicate SITE_LINK_SCHEDULE_DATA_SIZE 0) 0 ! day ! h"
proof -
  have none: "byte_bits 0 = replicate 8 False" by (rule nth_equalityI) (simp_all add: nth_byte_bits)
  have conc: "concat (replicate m (replicate 8 False)) = replicate (8 * m) False" for m
    by (induction m) (simp_all add: replicate_add [symmetric])
  have bounds: "day * 24 + 24 \<le> 168" "day * 24 + h < 168" using assms by simp_all
  then show "\<not> logon_hours_to_bools (replicate LOGON_HOURS_SIZE 0) 0 ! day ! h"
    using assms by (simp add: logon_hours_to_bools_def sizes Let_def none conc nth_chunks)
  show "\<not> site_schedule_bytes_to_bools (replicate SITE_LINK_SCHEDULE_DATA_SIZE 0) 0 ! day ! h"
    using bounds assms by (simp add: site_schedule_bytes_to_bools_def sizes Let_def SITE_LINK_SCHEDULE_ALLOWED_def nth_chunks)
qed

text \<open>The grid of a selection.\<close>

definition grid_of :: "(nat \<times> nat) set \<Rightarrow> bool list list" where
  "grid_of cells = map (\<lambda>day. map (\<lambda>h. (day, h) \<in> cells) [0..<24]) [0..<7]"

lemma week_grid_of: "week_grid (grid_of cells)"
  by (auto simp: week_grid_def grid_of_def)

lemma selection_bools_eq: "selection_bools d = grid_of (selected d)"
proof -
  let ?e = "case schedule_kind d of ScheduleType_SiteLink \<Rightarrow> site_schedule_bytes_to_bools (replicate SITE_LINK_SCHEDULE_DATA_SIZE 0) 0
    | ScheduleType_UserLogon \<Rightarrow> logon_hours_to_bools (replicate LOGON_HOURS_SIZE 0) 0"
  have "week_grid ?e" by (cases "schedule_kind d") (simp_all add: week_grid_logon week_grid_site)
  then have "length ?e = 7" "\<And>day. day < 7 \<Longrightarrow> length (?e ! day) = 24" by (simp_all add: week_grid_def)
  moreover have "\<not> ?e ! day ! h" if "day < 7" "h < 24" for day h using empty_grid [OF that] by (cases "schedule_kind d") simp_all
  ultimately show ?thesis unfolding selection_bools_def Let_def grid_of_def by (intro map_cong) auto
qed

lemma grid_of_bools: "week_grid bools \<Longrightarrow> grid_of (set (filter (\<lambda>(day, h). bools ! day ! h) (List.product [0..<DAYS_IN_WEEK] [0..<HOURS_IN_DAY]))) = bools"
  by (intro nth_equalityI) (auto simp: grid_of_def week_grid_def sizes intro!: nth_equalityI)

lemma load_simps:
  "schedule_kind (load offset_s val d) = schedule_kind d" "is_local_time (load offset_s val d) = is_local_time d"
  "get_offset offset_s (load offset_s val d) = get_offset offset_s d"
  by (simp_all add: load_def Let_def get_offset_def)

lemma load_selection:
  "grid_of (selected (load offset_s val d)) =
    value_bools (schedule_kind d) (original_value (load offset_s val d)) (get_offset offset_s d)"
  unfolding load_def Let_def by (simp add: grid_of_bools [OF week_grid_value, simplified])

lemma get_after_load: "get_schedule offset_s (load offset_s val d) = original_value (load offset_s val d)"
  by (simp add: get_schedule_def Let_def selection_bools_eq load_selection load_simps)

text \<open>A value that the dialog takes as it is; shorter schedules of a site link are replaced.\<close>

definition schedule_value_ok :: "schedule_type \<Rightarrow> bytes \<Rightarrow> bool" where
  "schedule_value_ok kind val = (kind = ScheduleType_SiteLink \<longrightarrow> SITE_LINK_SCHEDULE_TOTAL_SIZE \<le> length val)"

lemma load_original: "schedule_value_ok (schedule_kind d) val \<Longrightarrow> original_value (load offset_s val d) = val"
  by (auto simp: schedule_value_ok_def load_def Let_def sizes)

lemma load_value_ok: "schedule_value_ok (schedule_kind d) (original_value (load offset_s val d))"
  by (auto simp: schedule_value_ok_def load_def Let_def sizes sitelink_schedule_header_bytes_def)

lemma length_site_bytes: "week_grid bools \<Longrightarrow> length (bools_to_site_schedule_bytes bools k) = 168"
  by (simp add: bools_to_site_schedule_bytes_def length_concat_grid)

lemma get_value_ok:
  assumes "schedule_value_ok (schedule_kind d) (original_value d)"
  shows "schedule_value_ok (schedule_kind d) (get_schedule offset_s d)"
  using assms length_site_bytes [OF week_grid_of]
  by (cases "schedule_kind d")
    (auto simp: schedule_value_ok_def get_schedule_def Let_def sizes sitelink_schedule_header_bytes_def selection_bools_eq)

lemma offset_bound:
  assumes "\<bar>offset_s\<bar> \<le> 86400"
  shows "\<bar>get_offset offset_s d\<bar> \<le> 168"
proof -
  have step: "\<bar>n sdiv 60\<bar> \<le> \<bar>n\<bar> div 60" for n :: int by (auto simp: signed_divide_int_def abs_mult sgn_if)
  have "\<bar>offset_s sdiv 60\<bar> \<le> 1440" using step [of offset_s] assms by linarith
  then have "\<bar>offset_s sdiv 60 sdiv 60\<bar> \<le> 24" using step [of "offset_s sdiv 60"] by linarith
  then show ?thesis by (simp add: get_offset_def get_current_utc_offset_def)
qed

text \<open>What the value shows is what is selected.\<close>

lemma get_shows_selection:
  assumes "\<bar>offset_s\<bar> \<le> 86400"
  shows "value_bools (schedule_kind d) (get_schedule offset_s d) (get_offset offset_s d) = grid_of (selected d)"
proof (cases "grid_of (selected d) = value_bools (schedule_kind d) (original_value d) (get_offset offset_s d)")
  case True
  then show ?thesis by (simp add: get_schedule_def Let_def selection_bools_eq)
next
  case False
  note k = offset_bound [OF assms, of d]
  show ?thesis
  proof (cases "schedule_kind d")
    case ScheduleType_UserLogon
    then show ?thesis using False logon_bytes_read [OF week_grid_of k]
      by (simp add: get_schedule_def Let_def selection_bools_eq value_bools_def)
  next
    case ScheduleType_SiteLink
    have "site_link_payload (sitelink_schedule_header_bytes @ bools_to_site_schedule_bytes bools k) = bools_to_site_schedule_bytes bools k"
      if "week_grid bools" for bools k
      using length_site_bytes [OF that] by (simp add: site_link_payload_def sizes sitelink_schedule_header_bytes_def)
    then show ?thesis using ScheduleType_SiteLink False site_bytes_read [OF week_grid_of k] week_grid_of
      by (simp add: get_schedule_def Let_def selection_bools_eq value_bools_def)
  qed
qed

text \<open>The states of a dialog that was opened with a value: it is edited, or its time is switched.\<close>

inductive schedule_reachable :: "int \<Rightarrow> schedule_type \<Rightarrow> bytes \<Rightarrow> schedule_dialog \<Rightarrow> bool" for offset_s kind val where
  opened: "schedule_reachable offset_s kind val (open_dialog offset_s kind val)"
| switched: "schedule_reachable offset_s kind val d \<Longrightarrow> schedule_reachable offset_s kind val (on_local_time_button_toggled offset_s checked d)"
| edited: "schedule_reachable offset_s kind val d \<Longrightarrow> schedule_reachable offset_s kind val (select_cells cells d)"

lemma reachable_value_ok:
  assumes "schedule_reachable offset_s kind val d"
  shows "schedule_kind d = kind \<and> schedule_value_ok kind (original_value d)"
  using assms
proof induction
  case opened
  then show ?case
    using load_value_ok [of "\<lparr>schedule_kind = kind, original_value = [], is_local_time = True, selected = {}\<rparr>" offset_s val]
    by (simp add: open_dialog_def load_simps)
next
  case (switched d checked)
  then show ?case using load_value_ok [of "d\<lparr>is_local_time := checked\<rparr>"]
    by (simp add: on_local_time_button_toggled_def Let_def load_simps)
qed (simp add: select_cells_def)

lemma switching_keeps:
  assumes "schedule_value_ok (schedule_kind d) (original_value d)"
  shows "get_schedule offset_s (on_local_time_button_toggled offset_s checked d) = get_schedule offset_s d"
proof -
  have "schedule_value_ok (schedule_kind (d\<lparr>is_local_time := checked\<rparr>)) (get_schedule offset_s d)"
    using get_value_ok [OF assms] by simp
  from load_original [OF this] show ?thesis by (simp add: on_local_time_button_toggled_def Let_def get_after_load)
qed


text \<open>
  C37. A dialog that is not edited gives back the value it was opened with, byte by byte, also when the
  value is empty or malformed logon hours that count as always allowed. The exception is the schedule of
  a site link that is empty or too short: it comes back as the default of 188 bytes that allows
  everything.
\<close>

theorem schedule_unedited:
  "get_schedule offset_s (open_dialog offset_s kind val) =
    (if kind = ScheduleType_SiteLink \<and> length val < 188 then sitelink_schedule_header_bytes @ replicate 168 0xFF else val)"
  unfolding open_dialog_def get_after_load by (auto simp: load_def Let_def sizes)


end
