(* ===== verification/Membership.thy ===== *)
theory Membership
  imports AdOperations
begin

text \<open>
  The tabs \<open>Members\<close> and \<open>Member of\<close> (\<open>src/admc/ui/widget/tab/membership.cpp\<close>): the memberships that were
  loaded and the ones after edits, the primary group apart, and applying the difference. A \<open>QSet\<close> is a
  list without duplicates; the order it is traversed in is the one of \<open>hash_keys\<close>.
\<close>

section \<open>State\<close>

datatype membership_tab_type = MembershipTabType_Members | MembershipTabType_MemberOf

record membership_tab =
  tab_type :: membership_tab_type
  original_values :: "qstring list"
  original_primary_values :: "qstring list"
  current_values :: "qstring list"
  current_primary_values :: "qstring list"

definition set_contains :: "qstring list \<Rightarrow> qstring \<Rightarrow> bool" where
  "set_contains xs x = (x \<in> set xs)"

fun set_unite :: "qstring list \<Rightarrow> qstring list \<Rightarrow> qstring list" where
  "set_unite xs [] = xs"
| "set_unite xs (y # ys) = set_unite (List.insert y xs) ys"

definition membership_attribute :: "membership_tab_type \<Rightarrow> qstring" where
  "membership_attribute type = (case type of
     MembershipTabType_Members \<Rightarrow> ATTRIBUTE_MEMBER | MembershipTabType_MemberOf \<Rightarrow> ATTRIBUTE_MEMBER_OF)"

section \<open>Loading\<close>

text \<open>The users whose primary group is a group.\<close>

definition load_primary_members :: "'srv ad_env \<Rightarrow> ad_config \<Rightarrow> ad_object \<Rightarrow> ('srv, qstring list) ad_op" where
  "load_primary_members env cfg obj =
     (let group_sid = get_value obj ATTRIBUTE_OBJECT_SID;
          group_rid = extract_rid_from_sid (display env) (Some cfg) group_sid
      in and_then (search env (cfg_domain_dn cfg) SearchScope_All
             (filter_CONDITION Condition_Equals ATTRIBUTE_PRIMARY_GROUP_ID group_rid) [] False) (\<lambda>results.
           give (hash_keys env (map fst results))))"

text \<open>The identifier of the primary group: the one of the user with the last number replaced.\<close>

definition primary_group_sid :: "'srv ad_env \<Rightarrow> ad_config \<Rightarrow> ad_object \<Rightarrow> qstring" where
  "primary_group_sid env cfg obj =
     (let group_rid = get_string obj ATTRIBUTE_PRIMARY_GROUP_ID;
          user_sid = get_value obj ATTRIBUTE_OBJECT_SID;
          user_sid_string = attribute_display_value (display env) (Some cfg) ATTRIBUTE_OBJECT_SID user_sid;
          cut_index = last_index_of_char user_sid_string (CHR ''-'') + 1
      in left user_sid_string cut_index @ group_rid)"

definition load_primary_group :: "'srv ad_env \<Rightarrow> ad_config \<Rightarrow> ad_object \<Rightarrow> ('srv, qstring list) ad_op" where
  "load_primary_group env cfg obj =
     (let obj_category = get_string obj ATTRIBUTE_OBJECT_CATEGORY;
          is_group = (dn_get_name obj_category = OBJECT_CATEGORY_GROUP)
      in if obj_category = [] \<or> is_group then give []
         else and_then (search env (cfg_domain_dn cfg) SearchScope_All
                (filter_CONDITION Condition_Equals ATTRIBUTE_OBJECT_SID (primary_group_sid env cfg obj)) [] False) (\<lambda>results.
              if results \<noteq> [] then give [object_dn (hd (hash_values env results))] else give []))"

definition membership_load :: "'srv ad_env \<Rightarrow> ad_config \<Rightarrow> membership_tab_type \<Rightarrow> ad_object \<Rightarrow> ('srv, membership_tab) ad_op" where
  "membership_load env cfg type obj =
     (let values = remdups (get_strings obj (membership_attribute type))
      in and_then (case type of
             MembershipTabType_Members \<Rightarrow> load_primary_members env cfg obj
           | MembershipTabType_MemberOf \<Rightarrow> load_primary_group env cfg obj) (\<lambda>primary.
           give \<lparr>tab_type = type, original_values = values, original_primary_values = primary,
             current_values = values, current_primary_values = primary\<rparr>))"

section \<open>Editing\<close>

definition add_values :: "qstring list \<Rightarrow> membership_tab \<Rightarrow> membership_tab" where
  "add_values values tab = tab\<lparr>current_values := set_unite (current_values tab) values\<rparr>"

definition remove_values :: "qstring list \<Rightarrow> membership_tab \<Rightarrow> membership_tab" where
  "remove_values values tab = tab\<lparr>current_values := filter (\<lambda>v. v \<notin> set values) (current_values tab)\<rparr>"

text \<open>A selection with a primary group is refused with a warning.\<close>

definition on_remove_button :: "qstring list \<Rightarrow> membership_tab \<Rightarrow> qstring option \<times> membership_tab" where
  "on_remove_button removed_values tab =
     (if list_ex (set_contains (current_primary_values tab)) removed_values
      then (Some (case tab_type tab of
          MembershipTabType_Members \<Rightarrow> ''Can'' @ [CHR 0x27] @ ''t remove because this group is a primary group to selected user.''
        | MembershipTabType_MemberOf \<Rightarrow> ''Can'' @ [CHR 0x27] @ ''t remove because selected group is a primary group to this user.''), tab)
      else (None, remove_values removed_values tab))"

definition on_primary_button :: "qstring list \<Rightarrow> membership_tab \<Rightarrow> membership_tab faulty" where
  "on_primary_button selecteds tab =
     (case selecteds of [] \<Rightarrow> Inl Index_Out_Of_Range
      | group_dn # _ \<Rightarrow> Inr (tab\<lparr>
          current_values := removeAll group_dn (set_unite (current_values tab) (current_primary_values tab)),
          current_primary_values := [group_dn]\<rparr>))"

definition primary_button_enabled :: "qstring list \<Rightarrow> membership_tab \<Rightarrow> bool" where
  "primary_button_enabled selecteds tab =
     (case remdups selecteds of [dn] \<Rightarrow> \<not> set_contains (current_primary_values tab) dn | _ \<Rightarrow> False)"

definition primary_group_label_text :: "'srv ad_env \<Rightarrow> membership_tab \<Rightarrow> qstring" where
  "primary_group_label_text env tab =
     ''Primary group: '' @ (case hash_keys env (current_primary_values tab) of [] \<Rightarrow> [] | dn # _ \<Rightarrow> dn_get_name dn)"

text \<open>The rows of the table before they are sorted by name; the second column is the canonical parent.\<close>

definition membership_rows :: "'srv ad_env \<Rightarrow> (qstring \<Rightarrow> qstring) \<Rightarrow> membership_tab \<Rightarrow> (qstring \<times> qstring \<times> qstring) list" where
  "membership_rows env canonical tab =
     map (\<lambda>dn. (dn_get_name dn, dn_get_parent_canonical canonical dn, dn))
       (hash_keys env (set_unite (current_values tab) (current_primary_values tab)))"

definition add_button_classes :: "membership_tab_type \<Rightarrow> qstring list" where
  "add_button_classes type = (case type of
     MembershipTabType_Members \<Rightarrow> [CLASS_USER, CLASS_GROUP, CLASS_CONTACT, CLASS_COMPUTER]
   | MembershipTabType_MemberOf \<Rightarrow> [CLASS_GROUP])"

section \<open>Applying\<close>

text \<open>One loop: the operation on every value that is picked, all of them, also after a failure.\<close>

fun apply_each :: "(qstring \<Rightarrow> bool) \<Rightarrow> (qstring \<Rightarrow> ('srv, bool) ad_op) \<Rightarrow> qstring list \<Rightarrow> bool \<Rightarrow> ('srv, bool) ad_op" where
  "apply_each picked f [] total_success = give total_success"
| "apply_each picked f (x # xs) total_success =
     (if picked x then and_then (f x) (\<lambda>success. apply_each picked f xs (if success then total_success else False))
      else apply_each picked f xs total_success)"

definition apply_members :: "'srv ad_env \<Rightarrow> membership_tab \<Rightarrow> qstring \<Rightarrow> ('srv, bool) ad_op" where
  "apply_members env tab grp =
     and_then (apply_each (\<lambda>user. \<not> set_contains (current_values tab) user) (\<lambda>user. group_remove_member env grp user)
        (hash_keys env (original_values tab)) True) (\<lambda>total_success.
     apply_each (\<lambda>user. \<not> set_contains (original_values tab) user) (\<lambda>user. group_add_member env grp user)
        (hash_keys env (current_values tab)) total_success)"

definition group_is_or_was_primary :: "membership_tab \<Rightarrow> qstring \<Rightarrow> bool" where
  "group_is_or_was_primary tab grp =
     (set_contains (original_primary_values tab) grp \<or> set_contains (current_primary_values tab) grp)"

definition apply_primary :: "'srv ad_env \<Rightarrow> membership_tab \<Rightarrow> qstring \<Rightarrow> ('srv, bool) ad_op" where
  "apply_primary env tab user =
     (if set (current_primary_values tab) \<noteq> set (original_primary_values tab)
      then (case hash_keys env (current_primary_values tab) of
              [] \<Rightarrow> lift (Inl Index_Out_Of_Range)
            | group_dn # _ \<Rightarrow> user_set_primary_group env group_dn user)
      else give True)"

definition apply_member_of :: "'srv ad_env \<Rightarrow> membership_tab \<Rightarrow> qstring \<Rightarrow> ('srv, bool) ad_op" where
  "apply_member_of env tab user =
     and_then (apply_primary env tab user) (\<lambda>total_success.
     and_then (apply_each (\<lambda>grp. \<not> group_is_or_was_primary tab grp \<and> \<not> set_contains (current_values tab) grp)
        (\<lambda>grp. group_remove_member env grp user) (hash_keys env (original_values tab)) total_success) (\<lambda>total_success.
     apply_each (\<lambda>grp. \<not> group_is_or_was_primary tab grp \<and> \<not> set_contains (original_values tab) grp)
        (\<lambda>grp. group_add_member env grp user) (hash_keys env (current_values tab)) total_success))"

definition membership_apply :: "'srv ad_env \<Rightarrow> membership_tab \<Rightarrow> qstring \<Rightarrow> ('srv, bool) ad_op" where
  "membership_apply env tab target = (case tab_type tab of
     MembershipTabType_Members \<Rightarrow> apply_members env tab target
   | MembershipTabType_MemberOf \<Rightarrow> apply_member_of env tab target)"

end
