(* ===== verification/MembershipFacts.thy ===== *)
theory MembershipFacts
  imports Membership AccountFacts
begin

text \<open>
  What the tabs \<open>Members\<close> and \<open>Member of\<close> do to the memberships that the server stores, seen as the
  set of pairs of a group and a member. The server is abstract: \<open>stores_members\<close> and
  \<open>moves_primary\<close> are what it promises about \<open>member\<close> and \<open>primaryGroupID\<close>.
\<close>

section \<open>The server\<close>

type_synonym memberships = "(qstring \<times> qstring) set"

definition change :: "bool \<Rightarrow> qstring \<times> qstring \<Rightarrow> memberships \<Rightarrow> memberships" where
  "change on p r = (if on then insert p r else r - {p})"

definition member_mod :: "bool \<Rightarrow> qstring \<Rightarrow> ldap_mod list" where
  "member_mod on user = [\<lparr>mod_op = (if on then LDAP_MOD_ADD else LDAP_MOD_DELETE), mod_type = ATTRIBUTE_MEMBER,
     mod_values = [bytes_of_string user]\<rparr>]"

text \<open>
  A value that is absent can be added, one that is present deleted; the primary group of a user is not
  touched by that.
\<close>

definition stores_members :: "'srv ad_env \<Rightarrow> ('srv \<Rightarrow> memberships) \<Rightarrow> ('srv \<Rightarrow> qstring \<Rightarrow> qstring) \<Rightarrow> bool" where
  "stores_members env members primary =
     (\<forall>on grp user srv. ((grp, user) \<in> members srv) = (\<not> on) \<longrightarrow>
        (\<exists>srv'. ldap_modify_ext (ldap env) grp (member_mod on user) [] srv = (LDAP_SUCCESS, srv')
          \<and> members srv' = change on (grp, user) (members srv) \<and> primary srv' = primary srv))"

text \<open>
  Setting the primary group of a user to a group that it is a member of: it stops being one of its
  members and becomes a member of the old primary group.
\<close>

definition moves_primary ::
  "'srv ad_env \<Rightarrow> ('srv \<Rightarrow> memberships) \<Rightarrow> ('srv \<Rightarrow> qstring \<Rightarrow> qstring) \<Rightarrow> qstring \<Rightarrow> bytes \<Rightarrow> qstring \<Rightarrow> bool" where
  "moves_primary env members primary grp sid user =
     ((\<forall>s. \<not> s_log_searches s \<longrightarrow> (\<exists>obj. search_object env grp [ATTRIBUTE_OBJECT_SID, ATTRIBUTE_MEMBER] False s = Inr (obj, s)
          \<and> get_value obj ATTRIBUTE_OBJECT_SID = sid \<and> set (get_strings obj ATTRIBUTE_MEMBER) = {u. (grp, u) \<in> members (server s)}))
      \<and> (\<forall>srv. \<exists>obj. reads env srv user ATTRIBUTE_PRIMARY_GROUP_ID obj)
      \<and> extract_rid_from_sid (display env) (adconfig env) sid \<noteq> []
      \<and> (\<forall>srv. (grp, user) \<in> members srv \<longrightarrow> primary srv user \<noteq> grp \<longrightarrow>
          (\<exists>srv'. ldap_modify_ext (ldap env) user [\<lparr>mod_op = LDAP_MOD_REPLACE, mod_type = ATTRIBUTE_PRIMARY_GROUP_ID,
              mod_values = [bytes_of_string (extract_rid_from_sid (display env) (adconfig env) sid)]\<rparr>] [] srv = (LDAP_SUCCESS, srv')
            \<and> members srv' = insert (primary srv user, user) (members srv - {(grp, user)}))))"

section \<open>Single operations\<close>

lemma report_ok:
  "server s = srv \<Longrightarrow> \<not> s_log_searches s \<Longrightarrow> \<exists>t. report env True a b do_msg s = Inr (True, t) \<and> server t = srv \<and> \<not> s_log_searches t"
  using report_run [of env True a b do_msg s] by auto

lemma report_last:
  assumes "\<exists>t. m s = Inr (True, t) \<and> server t = srv \<and> \<not> s_log_searches t"
  shows "\<exists>t. and_then m (\<lambda>success. report env success a b do_msg) s = Inr (True, t) \<and> server t = srv \<and> \<not> s_log_searches t"
proof -
  from assms obtain t where "m s = Inr (True, t)" and "server t = srv" "\<not> s_log_searches t" by blast
  then show ?thesis using report_ok [of t srv env a b do_msg] by (simp add: and_then_run)
qed

lemma member_server_run:
  assumes "ldap_modify_ext (ldap env) grp (member_mod on user) [] (server s) = (LDAP_SUCCESS, srv')" and "\<not> s_log_searches s"
  shows "\<exists>t. (if on then group_add_member env grp user else group_remove_member env grp user) s = Inr (True, t)
    \<and> server t = srv' \<and> \<not> s_log_searches t"
proof (cases on)
  case True
  then have "call (ldap_modify_ext (ldap env) grp [\<lparr>mod_op = LDAP_MOD_ADD, mod_type = ATTRIBUTE_MEMBER, mod_values = [bytes_of_string user]\<rparr>] []) s
      = Inr (LDAP_SUCCESS, s\<lparr>server := srv'\<rparr>)" using assms(1) by (simp add: call_run member_mod_def)
  then show ?thesis unfolding group_add_member_def attribute_add_value_def Let_def if_P [OF True]
    by (intro report_last) (simp only: and_then_run sum.case prod.case simp_thms, rule report_ok, simp_all add: assms(2))
next
  case False
  then have "call (ldap_modify_ext (ldap env) grp [\<lparr>mod_op = LDAP_MOD_DELETE, mod_type = ATTRIBUTE_MEMBER, mod_values = [bytes_of_string user]\<rparr>] []) s
      = Inr (LDAP_SUCCESS, s\<lparr>server := srv'\<rparr>)" using assms(1) by (simp add: call_run member_mod_def)
  then show ?thesis unfolding group_remove_member_def attribute_delete_value_def Let_def if_not_P [OF False]
    by (intro report_last) (simp only: and_then_run sum.case prod.case simp_thms, rule report_ok, simp_all add: assms(2))
qed

lemma member_run:
  assumes "stores_members env members primary" and "\<not> s_log_searches s" and "((grp, user) \<in> members (server s)) = (\<not> on)"
  shows "\<exists>t. (if on then group_add_member env grp user else group_remove_member env grp user) s = Inr (True, t)
    \<and> members (server t) = change on (grp, user) (members (server s)) \<and> primary (server t) = primary (server s) \<and> \<not> s_log_searches t"
proof -
  from assms(1,3) obtain srv' where srv': "ldap_modify_ext (ldap env) grp (member_mod on user) [] (server s) = (LDAP_SUCCESS, srv')"
    "members srv' = change on (grp, user) (members (server s))" "primary srv' = primary (server s)"
    unfolding stores_members_def by blast
  from member_server_run [OF srv'(1) assms(2)] srv'(2,3) show ?thesis by metis
qed

lemma replace_string_run:
  assumes "reads env (server s) dn a obj" and "val \<noteq> []" and "\<not> s_log_searches s"
    and "ldap_modify_ext (ldap env) dn [\<lparr>mod_op = LDAP_MOD_REPLACE, mod_type = a, mod_values = [bytes_of_string val]\<rparr>] [] (server s) = (LDAP_SUCCESS, srv')"
  shows "\<exists>t. attribute_replace_string env dn a val do_msg s = Inr (True, t) \<and> server t = srv' \<and> \<not> s_log_searches t"
proof -
  have "bytes_of_string val \<noteq> []" using assms(2) by (simp add: bytes_of_string_def)
  then have "attribute_replace_string env dn a val do_msg s = attribute_replace_values env dn a [bytes_of_string val] do_msg False s"
    by (simp add: attribute_replace_string_def attribute_replace_value_def value_to_list_def)
  then show ?thesis using replace_values_run [OF assms(1,3) disjI1 [OF list.distinct(2)], of "bytes_of_string val" "[]" do_msg, unfolded assms(4) fst_conv snd_conv simp_thms] by simp
qed

lemma primary_run:
  assumes "stores_members env members primary" and "moves_primary env members primary grp sid user"
    and "\<not> s_log_searches s" and "primary (server s) user \<noteq> grp"
  shows "\<exists>t. user_set_primary_group env grp user s = Inr (True, t) \<and> \<not> s_log_searches t
    \<and> members (server t) = insert (primary (server s) user, user) (members (server s) - {(grp, user)})"
proof -
  let ?rid = "extract_rid_from_sid (display env) (adconfig env) sid"
  let ?was = "(grp, user) \<in> members (server s)"
  note moves = assms(2) [unfolded moves_primary_def]
  from moves [THEN conjunct1, rule_format, OF assms(3)]
  obtain obj where obj: "search_object env grp [ATTRIBUTE_OBJECT_SID, ATTRIBUTE_MEMBER] False s = Inr (obj, s)"
    "get_value obj ATTRIBUTE_OBJECT_SID = sid" "set (get_strings obj ATTRIBUTE_MEMBER) = {u. (grp, u) \<in> members (server s)}" by auto
  from obj(3) have was: "(user \<in> set (get_strings obj ATTRIBUTE_MEMBER)) = ?was" by simp
  obtain b t where t: "(if ?was then give True else group_add_member env grp user) s = Inr (b, t)" "\<not> s_log_searches t"
    "members (server t) = insert (grp, user) (members (server s))" "primary (server t) = primary (server s)"
    using member_run [OF assms(1,3), of grp user True] assms(3)
    by (cases ?was) (auto simp: change_def insert_absorb give_run)
  have "(grp, user) \<in> members (server t)" "primary (server t) user \<noteq> grp" using t(3,4) assms(4) by simp_all
  from moves [THEN conjunct2, THEN conjunct2, THEN conjunct2, rule_format, OF this] obtain srv' where srv': "ldap_modify_ext (ldap env) user [\<lparr>mod_op = LDAP_MOD_REPLACE, mod_type = ATTRIBUTE_PRIMARY_GROUP_ID,
      mod_values = [bytes_of_string ?rid]\<rparr>] [] (server t) = (LDAP_SUCCESS, srv')"
    "members srv' = insert (primary (server t) user, user) (members (server t) - {(grp, user)})" by auto
  from moves [THEN conjunct2, THEN conjunct1] obtain obj' where obj': "reads env (server t) user ATTRIBUTE_PRIMARY_GROUP_ID obj'" by blast
  from replace_string_run [OF obj' moves [THEN conjunct2, THEN conjunct2, THEN conjunct1] t(2) srv'(1)]
  have "\<exists>t'. attribute_replace_string env user ATTRIBUTE_PRIMARY_GROUP_ID ?rid DoStatusMsg_No t = Inr (True, t') \<and> server t' = srv' \<and> \<not> s_log_searches t'" .
  from report_last [where m = "attribute_replace_string env user ATTRIBUTE_PRIMARY_GROUP_ID ?rid DoStatusMsg_No", OF this]
  have "\<exists>t'. user_set_primary_group env grp user s = Inr (True, t') \<and> server t' = srv' \<and> \<not> s_log_searches t'"
    unfolding user_set_primary_group_def and_then_run obj(1) sum.case prod.case Let_def obj(2) was t(1) .
  then show ?thesis using srv'(2) t(3,4) by auto
qed

section \<open>The loops\<close>

lemma apply_each_run:
  assumes "distinct xs" and "inj p" and "\<not> s_log_searches s"
    and "\<forall>x. x \<in> set xs \<longrightarrow> picked x \<longrightarrow> (p x \<in> members (server s)) = (\<not> on)"
    and step: "\<And>x s. \<not> s_log_searches s \<Longrightarrow> (p x \<in> members (server s)) = (\<not> on) \<Longrightarrow>
      \<exists>t. f x s = Inr (True, t) \<and> members (server t) = change on (p x) (members (server s)) \<and> \<not> s_log_searches t"
  shows "\<exists>t. apply_each picked f xs b s = Inr (b, t) \<and> \<not> s_log_searches t
    \<and> members (server t) = (if on then members (server s) \<union> p ` set (filter picked xs) else members (server s) - p ` set (filter picked xs))"
  using assms(1,3,4)
proof (induction xs arbitrary: s)
  case Nil
  then show ?case by (simp add: give_run)
next
  case (Cons x xs)
  show ?case
  proof (cases "picked x")
    case True
    with step [OF Cons.prems(2), of x] Cons.prems(3) obtain t where
      t: "f x s = Inr (True, t)" "members (server t) = change on (p x) (members (server s))" "\<not> s_log_searches t" by auto
    have "\<forall>y. y \<in> set xs \<longrightarrow> picked y \<longrightarrow> (p y \<in> members (server t)) = (\<not> on)"
      using Cons.prems(1,3) True t(2) inj_eq [OF assms(2)] by (fastforce simp: change_def)
    with Cons.IH [OF _ t(3)] Cons.prems(1) True show ?thesis
      by (auto simp: and_then_run t(1,2) change_def split: if_splits)
  next
    case False
    with Cons show ?thesis by auto
  qed
qed

section \<open>Edited tabs\<close>

text \<open>A tab as it is after loading, and the tabs that its buttons lead to.\<close>

definition loaded_tab :: "membership_tab \<Rightarrow> bool" where
  "loaded_tab tab = (distinct (original_values tab) \<and> distinct (original_primary_values tab)
     \<and> current_values tab = original_values tab \<and> current_primary_values tab = original_primary_values tab
     \<and> (tab_type tab = MembershipTabType_MemberOf \<longrightarrow> length (original_primary_values tab) \<le> 1))"

inductive edited :: "membership_tab \<Rightarrow> membership_tab \<Rightarrow> bool" for tab0 where
  edited_loaded: "edited tab0 tab0"
| edited_add: "edited tab0 tab \<Longrightarrow> edited tab0 (add_values vs tab)"
| edited_remove: "edited tab0 tab \<Longrightarrow> edited tab0 (snd (on_remove_button selecteds tab))"
| edited_primary: "edited tab0 tab \<Longrightarrow> tab_type tab = MembershipTabType_MemberOf \<Longrightarrow> primary_button_enabled selecteds tab \<Longrightarrow>
    on_primary_button selecteds tab = Inr tab' \<Longrightarrow> edited tab0 tab'"

lemma set_unite_props: "set (set_unite xs ys) = set xs \<union> set ys" "distinct xs \<Longrightarrow> distinct (set_unite xs ys)"
  by (induction xs ys rule: set_unite.induct) auto

definition tab_ok :: "membership_tab \<Rightarrow> membership_tab \<Rightarrow> bool" where
  "tab_ok tab0 tab = (tab_type tab = tab_type tab0 \<and> original_values tab = original_values tab0
     \<and> original_primary_values tab = original_primary_values tab0 \<and> distinct (current_values tab)
     \<and> (if tab_type tab0 = MembershipTabType_Members then current_primary_values tab = original_primary_values tab0
        else current_primary_values tab = original_primary_values tab0 \<or> (\<exists>dn. current_primary_values tab = [dn])))"

lemma edited_ok:
  assumes "edited tab0 tab" and "loaded_tab tab0"
  shows "tab_ok tab0 tab"
  using assms(1)
proof (induction rule: edited.induct)
  case edited_loaded
  then show ?case using assms(2) by (simp add: tab_ok_def loaded_tab_def)
next
  case (edited_add tab vs)
  then show ?case by (simp add: tab_ok_def add_values_def set_unite_props)
next
  case (edited_remove tab selecteds)
  then show ?case by (simp add: tab_ok_def on_remove_button_def remove_values_def)
next
  case (edited_primary tab selecteds tab')
  then obtain dn dns where "selecteds = dn # dns" by (cases selecteds) (auto simp: on_primary_button_def)
  then show ?case using edited_primary by (auto simp: tab_ok_def on_primary_button_def set_unite_props intro!: distinct_removeAll)
qed

lemma membership_load_loaded:
  assumes "\<And>ks. mset (hash_keys env ks) = mset ks" and "membership_load env cfg type obj s = Inr (tab, t)"
  shows "loaded_tab tab \<and> tab_type tab = type \<and> set (original_values tab) = set (get_strings obj (membership_attribute type))"
proof -
  from assms(2) obtain vs t' where tab: "tab = \<lparr>tab_type = type, original_values = remdups (get_strings obj (membership_attribute type)),
      original_primary_values = vs, current_values = remdups (get_strings obj (membership_attribute type)), current_primary_values = vs\<rparr>"
    and vs: "(case type of MembershipTabType_Members \<Rightarrow> load_primary_members env cfg obj
      | MembershipTabType_MemberOf \<Rightarrow> load_primary_group env cfg obj) s = Inr (vs, t')"
    by (auto simp: membership_load_def Let_def ad_simps split: sum.splits)
  have "distinct vs \<and> (type = MembershipTabType_MemberOf \<longrightarrow> length vs \<le> 1)"
  proof (cases type)
    case MembershipTabType_Members
    with vs obtain results where found: "search env (cfg_domain_dn cfg) SearchScope_All
        (filter_CONDITION Condition_Equals ATTRIBUTE_PRIMARY_GROUP_ID (extract_rid_from_sid (display env) (Some cfg) (get_value obj ATTRIBUTE_OBJECT_SID)))
        [] False s = Inr (results, t')" and "vs = hash_keys env (map fst results)"
      by (auto simp: load_primary_members_def Let_def ad_simps split: sum.splits)
    then show ?thesis using MembershipTabType_Members search_keyed [OF found] permuted_keys(2) [OF assms(1)] by (simp add: keyed_def)
  next
    case MembershipTabType_MemberOf
    with vs show ?thesis by (auto simp: load_primary_group_def Let_def ad_simps split: sum.splits if_splits)
  qed
  then show ?thesis by (simp add: tab loaded_tab_def)
qed

section \<open>Both loops\<close>

lemma set_change_run:
  assumes "stores_members env members primary" and "\<And>ks. mset (hash_keys env ks) = mset ks" and "distinct old" and "distinct new"
    and "inj (\<lambda>x. (g x, u x))" and "\<not> s_log_searches s"
    and "\<And>x. \<not> skip x \<Longrightarrow> ((g x, u x) \<in> members (server s)) = (x \<in> set old)"
  shows "\<exists>t. and_then (apply_each (\<lambda>x. \<not> skip x \<and> x \<notin> set new) (\<lambda>x. group_remove_member env (g x) (u x)) (hash_keys env old) b)
      (\<lambda>b. apply_each (\<lambda>x. \<not> skip x \<and> x \<notin> set old) (\<lambda>x. group_add_member env (g x) (u x)) (hash_keys env new) b) s = Inr (b, t)
    \<and> (\<forall>x. (g x, u x) \<in> members (server t) \<longleftrightarrow> (if skip x then (g x, u x) \<in> members (server s) else x \<in> set new))
    \<and> (\<forall>q. q \<notin> range (\<lambda>x. (g x, u x)) \<longrightarrow> (q \<in> members (server t)) = (q \<in> members (server s)))"
proof -
  let ?p = "\<lambda>x. (g x, u x)" and ?gone = "\<lambda>x. \<not> skip x \<and> x \<notin> set new" and ?new = "\<lambda>x. \<not> skip x \<and> x \<notin> set old"
  note keys = permuted_keys [OF assms(2)]
  have runs: "\<exists>t. (if on then group_add_member env (g x) (u x) else group_remove_member env (g x) (u x)) s = Inr (True, t)
      \<and> members (server t) = change on (?p x) (members (server s)) \<and> \<not> s_log_searches t"
    if "\<not> s_log_searches s" "(?p x \<in> members (server s)) = (\<not> on)" for on x s
    using member_run [OF assms(1) that] by blast
  note removes = runs [where on = False, simplified if_False] and adds = runs [where on = True, simplified if_True]
  have "\<exists>t. apply_each ?gone (\<lambda>x. group_remove_member env (g x) (u x)) (hash_keys env old) b s = Inr (b, t) \<and> \<not> s_log_searches t
      \<and> members (server t) = members (server s) - ?p ` {x \<in> set old. ?gone x}"
    using apply_each_run [where picked = ?gone and on = False and b = b and members = members, OF _ assms(5,6) _ removes, of "hash_keys env old"] assms(3,7)
    by (simp add: keys)
  then obtain t where t: "apply_each ?gone (\<lambda>x. group_remove_member env (g x) (u x)) (hash_keys env old) b s = Inr (b, t)"
    "\<not> s_log_searches t" "members (server t) = members (server s) - ?p ` {x \<in> set old. ?gone x}" by blast
  have "?p x \<notin> members (server t)" if "x \<in> set new" "?new x" for x using that assms(7) by (simp add: t(3))
  then have "\<exists>t'. apply_each ?new (\<lambda>x. group_add_member env (g x) (u x)) (hash_keys env new) b t = Inr (b, t') \<and> \<not> s_log_searches t'
      \<and> members (server t') = members (server t) \<union> ?p ` {x \<in> set new. ?new x}"
    using apply_each_run [where picked = ?new and on = True and b = b and members = members, OF _ assms(5) t(2) _ adds, of "hash_keys env new"] assms(4)
    by (simp add: keys)
  then obtain t' where t': "apply_each ?new (\<lambda>x. group_add_member env (g x) (u x)) (hash_keys env new) b t = Inr (b, t')"
    "members (server t') = members (server s) - ?p ` {x \<in> set old. ?gone x} \<union> ?p ` {x \<in> set new. ?new x}"
    unfolding t(3) by blast
  have "?p x \<in> members (server t') \<longleftrightarrow> (if skip x then ?p x \<in> members (server s) else x \<in> set new)" for x
  proof -
    have "?p x \<in> ?p ` {y \<in> set ys. f y} \<longleftrightarrow> x \<in> set ys \<and> f x" for ys f using inj_image_mem_iff [OF assms(5)] by simp
    then show ?thesis unfolding t'(2) using assms(7) [of x] by auto
  qed
  moreover have "\<forall>q. q \<notin> range ?p \<longrightarrow> (q \<in> members (server t')) = (q \<in> members (server s))" unfolding t'(2) by blast
  ultimately show ?thesis using t(1) t'(1) by (auto simp: and_then_run)
qed


text \<open>
  C35. Applying the tab \<open>Member of\<close> after any edits, the primary group included: the user is then a
  member of the groups that the tab shows and of no others, but always of the group that was its primary
  group before, also when that was removed after it had been replaced; the members of the primary
  group do not list it. The memberships of other users are as they were, and the operation succeeds.
\<close>

theorem member_of_tab_applied:
  assumes "stores_members env members primary" and "\<And>ks. mset (hash_keys env ks) = mset ks"
    and "loaded_tab tab0" and "edited tab0 tab" and "tab_type tab0 = MembershipTabType_MemberOf"
    and "set (original_values tab0) = {grp. (grp, user) \<in> members (server s)}" and "\<not> s_log_searches s"
    and "original_primary_values tab0 = [primary (server s) user]" and "(primary (server s) user, user) \<notin> members (server s)"
    and "\<And>grp. grp \<in> set (current_primary_values tab) \<Longrightarrow> \<exists>sid. moves_primary env members primary grp sid user"
  shows "\<exists>t. membership_apply env tab user s = Inr (True, t) \<and>
    members (server t) = {(g, u). if u = user
      then g \<notin> set (current_primary_values tab) \<and> (g \<in> set (current_values tab) \<or> g = primary (server s) user)
      else (g, u) \<in> members (server s)}"
proof -
  let ?old = "primary (server s) user"
  from edited_ok [OF assms(4,3)] assms(3,5,8) obtain new where tab: "tab_type tab = MembershipTabType_MemberOf" "original_values tab = original_values tab0"
    "distinct (current_values tab)" "distinct (original_values tab)" "original_primary_values tab = [?old]" "current_primary_values tab = [new]"
    by (auto simp: tab_ok_def loaded_tab_def)
  have one: "hash_keys env [new] = [new]" using assms(2) [of "[new]"] by simp
  have "\<exists>t. apply_primary env tab user s = Inr (True, t) \<and> \<not> s_log_searches t
      \<and> members (server t) = (if new = ?old then members (server s) else insert (?old, user) (members (server s) - {(new, user)}))"
  proof (cases "new = ?old")
    case True
    then show ?thesis using assms(7) by (simp add: apply_primary_def tab give_run)
  next
    case False
    from assms(10) [of new] obtain sid where "moves_primary env members primary new sid user" by (auto simp: tab(6))
    from primary_run [OF assms(1) this assms(7)] False show ?thesis by (auto simp: apply_primary_def tab one)
  qed
  then obtain t where t: "apply_primary env tab user s = Inr (True, t)" "\<not> s_log_searches t"
    "members (server t) = (if new = ?old then members (server s) else insert (?old, user) (members (server s) - {(new, user)}))" by blast
  let ?skip = "group_is_or_was_primary tab"
  have skip: "?skip g \<longleftrightarrow> g = ?old \<or> g = new" for g by (auto simp: group_is_or_was_primary_def set_contains_def tab)
  have "(g, user) \<in> members (server t) \<longleftrightarrow> g \<in> set (original_values tab)" if "\<not> ?skip g" for g
    using that assms(6) tab(2) by (auto simp: skip t(3))
  with set_change_run [where g = "\<lambda>g. g" and u = "\<lambda>_. user" and skip = ?skip and b = True, OF assms(1,2) tab(4,3) _ t(2)]
  obtain t' where t': "membership_apply env tab user s = Inr (True, t')"
    "\<forall>g. (g, user) \<in> members (server t') \<longleftrightarrow> (if ?skip g then (g, user) \<in> members (server t) else g \<in> set (current_values tab))"
    "\<forall>q. q \<notin> range (\<lambda>g. (g, user)) \<longrightarrow> (q \<in> members (server t')) = (q \<in> members (server t))"
    by (auto simp: membership_apply_def apply_member_of_def tab(1) set_contains_def inj_def and_then_run t(1))
  have "(g, u) \<in> members (server t') \<longleftrightarrow> (if u = user then g \<noteq> new \<and> (g \<in> set (current_values tab) \<or> g = ?old)
      else (g, u) \<in> members (server s))" for g u
  proof (cases "u = user")
    case True
    then show ?thesis using t'(2) assms(9) by (auto simp: skip t(3))
  next
    case False
    then have "(g, u) \<notin> range (\<lambda>g. (g, user))" by auto
    with t'(3) False show ?thesis by (auto simp: t(3))
  qed
  then show ?thesis using t'(1) by (intro exI [of _ t']) (auto simp: tab(6))
qed

section \<open>Examples\<close>

text \<open>
  A server of groups: the members of every group, and the primary group of every user. The number of
  a group is its name.
\<close>

record group_server =
  gs_members :: "qstring \<Rightarrow> qstring list"
  gs_primary :: "qstring \<Rightarrow> qstring"

definition gs_memberships :: "group_server \<Rightarrow> memberships" where
  "gs_memberships srv = {(g, u). u \<in> set (gs_members srv g)}"

definition gs_sid :: "qstring \<Rightarrow> bytes" where
  "gs_sid dn = bytes_of_string (''S-1-'' @ dn)"

definition gs_values :: "group_server \<Rightarrow> qstring \<Rightarrow> (qstring \<times> bytes list option) list" where
  "gs_values srv dn = [(ATTRIBUTE_OBJECT_SID, Some [gs_sid dn]),
     (ATTRIBUTE_MEMBER, Some (map bytes_of_string (gs_members srv dn)))]"

definition gs_search :: "qstring \<Rightarrow> ldap_scope \<Rightarrow> qstring option \<Rightarrow> qstring list option \<Rightarrow> ldap_control list \<Rightarrow> group_server \<Rightarrow> ldap_reply \<times> group_server" where
  "gs_search base scope flt attributes controls srv =
     (\<lparr>reply_code = LDAP_SUCCESS, reply_entries = [(base, gs_values srv base)], parse_code = LDAP_SUCCESS,
       page_response = Some (LDAP_SUCCESS, [])\<rparr>, srv)"

definition gs_set_primary :: "qstring \<Rightarrow> qstring \<Rightarrow> group_server \<Rightarrow> group_server" where
  "gs_set_primary new user srv =
     (let old = gs_primary srv user;
          without = (gs_members srv)(new := removeAll user (gs_members srv new))
      in srv\<lparr>gs_members := without(old := user # without old), gs_primary := (gs_primary srv)(user := new)\<rparr>)"

definition gs_modify :: "qstring \<Rightarrow> ldap_mod list \<Rightarrow> ldap_control list \<Rightarrow> group_server \<Rightarrow> ldap_code \<times> group_server" where
  "gs_modify dn mods controls srv =
     (case mods of [m] \<Rightarrow> (case mod_values m of [v] \<Rightarrow> (LDAP_SUCCESS,
        (case mod_op m of
           LDAP_MOD_ADD \<Rightarrow> srv\<lparr>gs_members := (gs_members srv)(dn := string_of_bytes v # gs_members srv dn)\<rparr>
         | LDAP_MOD_DELETE \<Rightarrow> srv\<lparr>gs_members := (gs_members srv)(dn := removeAll (string_of_bytes v) (gs_members srv dn))\<rparr>
         | LDAP_MOD_REPLACE \<Rightarrow> gs_set_primary (string_of_bytes v) dn srv)) | _ \<Rightarrow> (LDAP_UNWILLING_TO_PERFORM, srv))
      | _ \<Rightarrow> (LDAP_UNWILLING_TO_PERFORM, srv))"

definition gs_ldap :: "group_server ldap_api" where
  "gs_ldap = \<lparr>ldap_search_ext = gs_search, ldap_modify_ext = gs_modify, ldap_add_ext = (\<lambda>dn mods srv. (LDAP_UNWILLING_TO_PERFORM, srv)),
     ldap_delete_ext = (\<lambda>dn controls srv. (LDAP_UNWILLING_TO_PERFORM, srv)), ldap_rename = (\<lambda>dn rdn parent srv. (LDAP_UNWILLING_TO_PERFORM, srv)),
     ldap_option_result_code = (\<lambda>_. LDAP_SUCCESS), ldap_err2string = (\<lambda>_. ''error''), ldap_create_page_control = LDAP_SUCCESS,
     ldap_control_create = (\<lambda>_. LDAP_SUCCESS), LDAP_CONTROL_X_TREE_DELETE = ''1.2.840.113556.1.4.805''\<rparr>"

definition gs_smb :: "group_server smb_api" where
  "gs_smb = \<lparr>smb_context_valid = False, smbc_stat = (\<lambda>path srv. (None, srv)), smbc_mkdir = (\<lambda>path srv. (-1, srv)),
     smbc_create = (\<lambda>path srv. (-1, srv)), smbc_open = (\<lambda>path srv. (-1, srv)), smbc_write = (\<lambda>fd txt srv. (-1, srv)),
     smbc_read = (\<lambda>fd n srv. (None, srv)), smbc_close = (\<lambda>fd srv. srv), smbc_opendir = (\<lambda>path srv. (-1, srv)),
     smbc_readdir = (\<lambda>fd srv. (None, srv)), smbc_closedir = (\<lambda>fd srv. srv), smbc_rmdir = (\<lambda>path srv. (-1, srv)),
     smbc_unlink = (\<lambda>path srv. (-1, srv)), smbc_setxattr = (\<lambda>path txt srv. (-1, srv)), smbc_getxattr = (\<lambda>path size srv. (None, srv)),
     smb_errno = (\<lambda>srv. 1), clear_errno = (\<lambda>srv. srv), ERANGE = 34, strerror = (\<lambda>n. ''error''),
     uuid_generate_random = (\<lambda>srv. ([], srv))\<rparr>"

definition gs_env :: "group_server ad_env" where
  "gs_env = \<lparr>ldap = gs_ldap, smb = gs_smb, adconfig = None, display = example_display, sec = example_api, gpt = example_gpt,
     decode_sd_header = decode_sd_header example_env, decode_sd = decode_sd example_env, encode_sd = encode_sd example_env,
     hash_keys = id, writes_bom = False, fuel = 10\<rparr>"

lemma gs_env_fields [simp]:
  "ldap gs_env = gs_ldap" "ldap_search_ext gs_ldap = gs_search" "ldap_modify_ext gs_ldap = gs_modify" "hash_keys gs_env = id"
  "fuel gs_env = 10" "controls_ok gs_env" "adconfig gs_env = None"
  by (simp_all add: gs_env_def gs_ldap_def controls_ok_def)

definition gs_object :: "group_server \<Rightarrow> qstring \<Rightarrow> ad_object" where
  "gs_object srv dn = object_load dn (object_attributes_to_bytes (gs_values srv dn)) empty_object"

lemma gs_search_object:
  assumes "\<not> s_log_searches s"
  shows "search_object gs_env dn attributes False s = Inr (gs_object (server s) dn, s)"
proof -
  have reply: "page_reply gs_env (make_query dn SearchScope_Object [] attributes False) None (server s) =
      (\<lparr>reply_code = LDAP_SUCCESS, reply_entries = [(dn, gs_values (server s) dn)], parse_code = LDAP_SUCCESS,
        page_response = Some (LDAP_SUCCESS, [])\<rparr>, server s)"
    by (simp add: page_reply_def make_query_def gs_search_def)
  from search_loop_pages [OF serves_last [OF reply] gs_env_fields(6) refl assms, of 10 "[]"]
  show ?thesis
    by (simp add: page_ok_def next_cookie_def search_object_def search_def ad_simps destroy_cookie_def cookie_of_def
        load_entry_def search_object_of_def gs_object_def object_load_def)
qed

lemma gs_stores: "stores_members gs_env gs_memberships gs_primary"
  by (auto simp: stores_members_def member_mod_def gs_modify_def gs_memberships_def change_def split: if_splits)

lemma rid_of_text:
  assumes "CHR ''-'' \<notin> set grp"
  shows "extract_rid_from_sid env None (gs_sid grp) = grp"
proof -
  have "last_index_of_char (''S-1-'' @ grp) (CHR ''-'') = 3"
    using assms by (simp add: last_index_of_char_def Let_def list_index_append)
  then show ?thesis by (simp add: extract_rid_from_sid_def attribute_display_value_def mid_from_def gs_sid_def numeral_eq_Suc)
qed

lemma gs_object_values:
  "get_value (gs_object srv dn) ATTRIBUTE_OBJECT_SID = gs_sid dn"
  "get_strings (gs_object srv dn) ATTRIBUTE_MEMBER = gs_members srv dn"
  by (simp_all add: gs_object_def object_load_def object_attributes_to_bytes_def gs_values_def values_to_bytes_def
      get_value_def get_strings_def get_values_def comp_def)

lemma gs_moves:
  assumes "grp \<noteq> []" and "CHR ''-'' \<notin> set grp"
  shows "moves_primary gs_env gs_memberships gs_primary grp (gs_sid grp) user"
  using assms
  by (auto simp: moves_primary_def gs_search_object gs_object_values gs_memberships_def reads_def rid_of_text gs_modify_def
      gs_set_primary_def Let_def split: if_splits)

text \<open>A group with two members, of which one is replaced.\<close>

definition gs_state :: "(qstring \<Rightarrow> qstring list) \<Rightarrow> group_server ad_interface" where
  "gs_state ms = \<lparr>server = \<lparr>gs_members = ms, gs_primary = (\<lambda>_. ''CN=d'')\<rparr>,
     ad_messages = [], is_connected = True, ad_domain = ''domain.alt'', ad_dc = ''dc.domain.alt'', client_user = ''administrator@domain.alt'',
     s_log_searches = False, s_dc = [], s_custom_dc = None, s_domain_is_default = True, s_custom_domain = [],
     s_sasl_nocanon = True, s_port = 0, s_cert_strat = CertStrategy_Never\<rparr>"

definition members_tab :: membership_tab where
  "members_tab = \<lparr>tab_type = MembershipTabType_Members, original_values = [''CN=a'', ''CN=b''], original_primary_values = [],
     current_values = [''CN=a'', ''CN=b''], current_primary_values = []\<rparr>"

definition replaced_member_tab :: membership_tab where
  "replaced_member_tab = snd (on_remove_button [''CN=a''] (add_values [''CN=c''] members_tab))"

lemma replaced_member:
  "current_values replaced_member_tab = [''CN=c'', ''CN=b'']" "edited members_tab replaced_member_tab"
proof -
  show "current_values replaced_member_tab = [''CN=c'', ''CN=b'']"
    by (simp add: replaced_member_tab_def on_remove_button_def add_values_def remove_values_def members_tab_def set_contains_def)
  show "edited members_tab replaced_member_tab" unfolding replaced_member_tab_def by (intro edited_remove edited_add edited_loaded)
qed

definition one_group :: "group_server ad_interface" where
  "one_group = gs_state ((\<lambda>_. [])(''CN=g'' := [''CN=a'', ''CN=b'']))"

lemma one_group_fields: "gs_memberships (server one_group) = {(''CN=g'', ''CN=a''), (''CN=g'', ''CN=b'')}" "\<not> s_log_searches one_group"
  by (auto simp: one_group_def gs_state_def gs_memberships_def split: if_splits)


text \<open>
  A user whose primary group \<open>d\<close> is replaced by \<open>g\<close> and then removed: the tab shows \<open>h\<close> only,
  and the user is a member of \<open>d\<close> all the same.
\<close>

definition member_of_tab :: membership_tab where
  "member_of_tab = \<lparr>tab_type = MembershipTabType_MemberOf, original_values = [''CN=g'', ''CN=h''], original_primary_values = [''CN=d''],
     current_values = [''CN=g'', ''CN=h''], current_primary_values = [''CN=d'']\<rparr>"

definition demoted_tab :: membership_tab where
  "demoted_tab = snd (on_remove_button [''CN=d''] (member_of_tab\<lparr>current_values := [''CN=d'', ''CN=h''], current_primary_values := [''CN=g'']\<rparr>))"

lemma demoted:
  "current_values demoted_tab = [''CN=h'']" "current_primary_values demoted_tab = [''CN=g'']" "edited member_of_tab demoted_tab"
proof -
  have set_primary: "on_primary_button [''CN=g''] member_of_tab = Inr (member_of_tab\<lparr>current_values := [''CN=d'', ''CN=h''], current_primary_values := [''CN=g'']\<rparr>)"
    by (simp add: on_primary_button_def member_of_tab_def)
  show "current_values demoted_tab = [''CN=h'']" "current_primary_values demoted_tab = [''CN=g'']"
    by (simp_all add: demoted_tab_def on_remove_button_def remove_values_def set_contains_def)
  show "edited member_of_tab demoted_tab" unfolding demoted_tab_def
    by (rule edited_remove, rule edited_primary [OF edited_loaded _ _ set_primary])
      (simp_all add: primary_button_enabled_def member_of_tab_def set_contains_def)
qed

definition two_groups :: "group_server ad_interface" where
  "two_groups = gs_state ((\<lambda>_. [])(''CN=g'' := [''CN=u''], ''CN=h'' := [''CN=u'']))"

lemma two_groups_fields:
  "gs_memberships (server two_groups) = {(''CN=g'', ''CN=u''), (''CN=h'', ''CN=u'')}" "\<not> s_log_searches two_groups"
  "gs_primary (server two_groups) user = ''CN=d''"
  by (auto simp: two_groups_def gs_state_def gs_memberships_def split: if_splits)

theorem member_of_tab_applied_witness:
  "current_values demoted_tab = [''CN=h''] \<and> (\<exists>t. membership_apply gs_env demoted_tab ''CN=u'' two_groups = Inr (True, t)
    \<and> gs_memberships (server t) = {(''CN=h'', ''CN=u''), (''CN=d'', ''CN=u'')})"
proof -
  have "loaded_tab member_of_tab" "tab_type member_of_tab = MembershipTabType_MemberOf"
    "original_primary_values member_of_tab = [gs_primary (server two_groups) ''CN=u'']"
    "set (original_values member_of_tab) = {grp. (grp, ''CN=u'') \<in> gs_memberships (server two_groups)}"
    "(gs_primary (server two_groups) ''CN=u'', ''CN=u'') \<notin> gs_memberships (server two_groups)"
    by (auto simp: loaded_tab_def member_of_tab_def two_groups_fields)
  moreover have "\<exists>sid. moves_primary gs_env gs_memberships gs_primary grp sid ''CN=u''" if "grp \<in> set (current_primary_values demoted_tab)" for grp
    using gs_moves [of "''CN=g''" "''CN=u''"] that by (auto simp: demoted)
  ultimately obtain t where t: "membership_apply gs_env demoted_tab ''CN=u'' two_groups = Inr (True, t)"
    "gs_memberships (server t) = {(g, u). if u = ''CN=u''
      then g \<notin> set (current_primary_values demoted_tab) \<and> (g \<in> set (current_values demoted_tab) \<or> g = gs_primary (server two_groups) ''CN=u'')
      else (g, u) \<in> gs_memberships (server two_groups)}"
    using member_of_tab_applied [OF gs_stores _ _ demoted(3) _ _ two_groups_fields(2), of "''CN=u''"] by auto
  have "gs_memberships (server t) = {(''CN=h'', ''CN=u''), (''CN=d'', ''CN=u'')}"
    unfolding t(2) demoted two_groups_fields by (auto split: if_splits)
  with t(1) show ?thesis by (simp add: demoted)
qed

end
