(* ===== verification/PsoEdit.thy ===== *)
theory PsoEdit
  imports AdmcCore AdOperations
begin

text \<open>
  Password settings (\<open>src/admc/ui/widget/result/pso\<close> and \<open>ui/dialog/create/pso.cpp\<close>): the form that
  shows a password settings object or the settings of the domain, the values that it gives back, and
  what applying them writes. A number field holds a number in its range; a range that the form does
  not set is the one that \<open>QSpinBox\<close> starts with, 0 to 99.
\<close>

section \<open>Time\<close>

text \<open>The conversion of a 64-bit number to an \<open>int\<close>.\<close>

definition narrow_int :: "int \<Rightarrow> int" where
  "narrow_int n = signed_take_bit 31 n"

definition ad_time_units_to_miliseconds :: "bytes \<Rightarrow> int faulty" where
  "ad_time_units_to_miliseconds val =
     (let n = or_zero (to_long_long (string_of_bytes val))
      in if n = - (2 ^ 63) then Inl Signed_Overflow else Inr (cdiv (- n) MILLIS_TO_100_NANOS))"

definition ad_time_units_to_mintes :: "bytes \<Rightarrow> int faulty" where
  "ad_time_units_to_mintes val = bind_faulty (ad_time_units_to_miliseconds val) (\<lambda>ms. Inr (narrow_int (cdiv ms 60000)))"

definition ad_time_units_to_days :: "bytes \<Rightarrow> int faulty" where
  "ad_time_units_to_days val = bind_faulty (ad_time_units_to_miliseconds val) (\<lambda>ms. Inr (narrow_int (cdiv (cdiv ms 3600000) 24)))"

definition miliseconds_to_ad_time_units :: "int \<Rightarrow> bytes" where
  "miliseconds_to_ad_time_units n = bytes_of_string (number (- n * MILLIS_TO_100_NANOS))"

definition minutes_to_ad_time_units :: "int \<Rightarrow> bytes" where
  "minutes_to_ad_time_units n = miliseconds_to_ad_time_units (n * 60000)"

definition days_to_ad_time_units :: "int \<Rightarrow> bytes" where
  "days_to_ad_time_units n = miliseconds_to_ad_time_units (24 * n * 3600000)"

section \<open>The form\<close>

record pso_edit =
  is_global :: bool
  name_edit :: qstring
  precedence_spinbox :: int
  min_passwd_len_spinbox :: int
  history_length_spinbox :: int
  logon_attempts_spinbox :: int
  lockout_duration_spinbox :: int
  reset_lockout_spinbox :: int
  min_age_spinbox :: int
  max_age_spinbox :: int
  complexity_req_checkbox :: bool
  store_passwd_checkbox :: bool
  dn_applied_list :: "qstring list"
  applied_list_widget :: "qstring list"

definition spin_value :: "int \<Rightarrow> int \<Rightarrow> int" where
  "spin_value lowest n = max lowest (min 99 n)"

definition SAM_MASK_DOMAIN_PASSWORD_COMPLEX :: int where
  "SAM_MASK_DOMAIN_PASSWORD_COMPLEX = 1"

definition SAM_MASK_DOMAIN_PASSWORD_STORE_CLEARTEXT :: int where
  "SAM_MASK_DOMAIN_PASSWORD_STORE_CLEARTEXT = 16"

definition pso_attributes_to_global_attributes :: "(qstring \<times> qstring) list" where
  "pso_attributes_to_global_attributes =
     [(ATTRIBUTE_MS_DS_MIN_PASSWORD_LENGTH, ATTRIBUTE_MIN_PWD_LENGTH),
      (ATTRIBUTE_MS_DS_PASSWORD_HISTORY_LENGTH, ATTRIBUTE_PWD_HISTORY_LENGTH),
      (ATTRIBUTE_MS_DS_LOCKOUT_THRESHOLD, ATTRIBUTE_LOCKOUT_THRESHOLD),
      (ATTRIBUTE_MS_DS_LOCKOUT_DURATION, ATTRIBUTE_LOCKOUT_DURATION),
      (ATTRIBUTE_MS_DS_LOCKOUT_OBSERVATION_WINDOW, ATTRIBUTE_LOCKOUT_OBSERVATION_WINDOW),
      (ATTRIBUTE_MS_DS_MIN_PASSWORD_AGE, ATTRIBUTE_MIN_PWD_AGE),
      (ATTRIBUTE_MS_DS_MAX_PASSWORD_AGE, ATTRIBUTE_MAX_PWD_AGE)]"

definition replace_attribute :: "qstring \<Rightarrow> bool \<Rightarrow> qstring" where
  "replace_attribute attribute_name global =
     (if \<not> global then attribute_name
      else case map_of pso_attributes_to_global_attributes attribute_name of Some a \<Rightarrow> a | None \<Rightarrow> [])"

text \<open>The fields that an object sets. A time that is the least number of 64 bits can not be negated.\<close>

definition update_values :: "ad_object \<Rightarrow> bool \<Rightarrow> pso_edit \<Rightarrow> pso_edit faulty" where
  "update_values obj global w =
     bind_faulty (ad_time_units_to_mintes (get_value obj (replace_attribute ATTRIBUTE_MS_DS_LOCKOUT_DURATION global))) (\<lambda>duration.
     bind_faulty (ad_time_units_to_mintes (get_value obj (replace_attribute ATTRIBUTE_MS_DS_LOCKOUT_OBSERVATION_WINDOW global))) (\<lambda>window.
     bind_faulty (ad_time_units_to_days (get_value obj (replace_attribute ATTRIBUTE_MS_DS_MIN_PASSWORD_AGE global))) (\<lambda>min_age.
     bind_faulty (ad_time_units_to_days (get_value obj (replace_attribute ATTRIBUTE_MS_DS_MAX_PASSWORD_AGE global))) (\<lambda>max_age.
       let pwd_properties = get_int obj ATTRIBUTE_PWD_PROPERTIES
       in Inr (w\<lparr>name_edit := get_string obj (replace_attribute ATTRIBUTE_CN global),
            precedence_spinbox := spin_value 1 (get_int obj (replace_attribute ATTRIBUTE_MS_DS_PASSWORD_SETTINGS_PRECEDENCE global)),
            min_passwd_len_spinbox := spin_value 0 (get_int obj (replace_attribute ATTRIBUTE_MS_DS_MIN_PASSWORD_LENGTH global)),
            history_length_spinbox := spin_value 0 (get_int obj (replace_attribute ATTRIBUTE_MS_DS_PASSWORD_HISTORY_LENGTH global)),
            logon_attempts_spinbox := spin_value 0 (get_int obj (replace_attribute ATTRIBUTE_MS_DS_LOCKOUT_THRESHOLD global)),
            lockout_duration_spinbox := spin_value 0 duration, reset_lockout_spinbox := spin_value 0 window,
            min_age_spinbox := spin_value 0 min_age, max_age_spinbox := spin_value 0 max_age,
            complexity_req_checkbox := (if global then pwd_properties AND SAM_MASK_DOMAIN_PASSWORD_COMPLEX \<noteq> 0
              else get_bool obj ATTRIBUTE_MS_DS_PASSWORD_COMPLEXITY_ENABLED),
            store_passwd_checkbox := (if global then \<not> pwd_properties AND SAM_MASK_DOMAIN_PASSWORD_STORE_CLEARTEXT \<noteq> 0
              else get_bool obj ATTRIBUTE_MS_DS_PASSWORD_REVERSIBLE_ENCRYPTION_ENABLED),
            applied_list_widget := [], dn_applied_list := get_strings obj ATTRIBUTE_PSO_APPLIES_TO\<rparr>)))))"

text \<open>The rows of the list: one for every user or group that is found.\<close>

fun load_applied :: "'srv ad_env \<Rightarrow> qstring list \<Rightarrow> ('srv, qstring list) ad_op" where
  "load_applied env [] = give []"
| "load_applied env (dn # dns) =
     and_then (search_object env dn [ATTRIBUTE_OBJECT_CATEGORY] False) (\<lambda>applied_object.
     and_then (load_applied env dns) (\<lambda>rows. give (if object_is_empty applied_object then rows else dn # rows)))"

definition update_fields :: "'srv ad_env \<Rightarrow> ad_object \<Rightarrow> bool \<Rightarrow> pso_edit \<Rightarrow> ('srv, pso_edit) ad_op" where
  "update_fields env obj global w =
     and_then (lift (update_values obj global w)) (\<lambda>w.
       if dn_applied_list w = [] then give w
       else and_then (get_state is_connected) (\<lambda>connected. if \<not> connected then give w
         else and_then (load_applied env (dn_applied_list w)) (\<lambda>rows. give (w\<lparr>applied_list_widget := rows\<rparr>))))"

definition update_form :: "'srv ad_env \<Rightarrow> ad_object \<Rightarrow> pso_edit \<Rightarrow> ('srv, pso_edit) ad_op" where
  "update_form env obj w =
     (let global = object_contains obj ATTRIBUTE_PWD_PROPERTIES in update_fields env obj global (w\<lparr>is_global := global\<rparr>))"

definition on_add :: "qstring list \<Rightarrow> pso_edit \<Rightarrow> pso_edit" where
  "on_add dns w = w\<lparr>applied_list_widget := applied_list_widget w @ dns, dn_applied_list := dn_applied_list w @ dns\<rparr>"

text \<open>The rows that are selected are given by their positions.\<close>

definition on_remove :: "nat set \<Rightarrow> pso_edit \<Rightarrow> pso_edit" where
  "on_remove rows w =
     w\<lparr>dn_applied_list := filter (\<lambda>dn. dn \<notin> set (nths (applied_list_widget w) rows)) (dn_applied_list w),
       applied_list_widget := nths (applied_list_widget w) (- rows)\<rparr>"

section \<open>The values of the form\<close>

definition bool_value :: "bool \<Rightarrow> bytes" where
  "bool_value b = bytes_of_string (if b then LDAP_BOOL_TRUE else LDAP_BOOL_FALSE)"

definition number_value :: "int \<Rightarrow> bytes" where
  "number_value n = bytes_of_string (number n)"

definition pwd_properties_value :: "pso_edit \<Rightarrow> bytes" where
  "pwd_properties_value w =
     number_value ((if complexity_req_checkbox w then 1 else 0) * SAM_MASK_DOMAIN_PASSWORD_COMPLEX
       + (if \<not> store_passwd_checkbox w then 1 else 0) * SAM_MASK_DOMAIN_PASSWORD_STORE_CLEARTEXT)"

definition pso_settings :: "pso_edit \<Rightarrow> (qstring \<times> bytes list) list" where
  "pso_settings w =
     (let key = (\<lambda>attribute. replace_attribute attribute (is_global w))
      in [(key ATTRIBUTE_CN, [bytes_of_string (trimmed (name_edit w))]),
          (key ATTRIBUTE_MS_DS_PASSWORD_SETTINGS_PRECEDENCE, [number_value (precedence_spinbox w)]),
          (key ATTRIBUTE_MS_DS_MIN_PASSWORD_LENGTH, [number_value (min_passwd_len_spinbox w)]),
          (key ATTRIBUTE_MS_DS_PASSWORD_HISTORY_LENGTH, [number_value (history_length_spinbox w)]),
          (key ATTRIBUTE_MS_DS_LOCKOUT_THRESHOLD, [number_value (logon_attempts_spinbox w)]),
          (key ATTRIBUTE_MS_DS_LOCKOUT_DURATION, [minutes_to_ad_time_units (lockout_duration_spinbox w)]),
          (key ATTRIBUTE_MS_DS_LOCKOUT_OBSERVATION_WINDOW, [minutes_to_ad_time_units (reset_lockout_spinbox w)]),
          (key ATTRIBUTE_MS_DS_MIN_PASSWORD_AGE, [days_to_ad_time_units (min_age_spinbox w)]),
          (key ATTRIBUTE_MS_DS_MAX_PASSWORD_AGE, [days_to_ad_time_units (max_age_spinbox w)])]
         @ (if is_global w then [(ATTRIBUTE_PWD_PROPERTIES, [pwd_properties_value w])]
            else [(ATTRIBUTE_MS_DS_PASSWORD_COMPLEXITY_ENABLED, [bool_value (complexity_req_checkbox w)]),
                  (ATTRIBUTE_MS_DS_PASSWORD_REVERSIBLE_ENCRYPTION_ENABLED, [bool_value (store_passwd_checkbox w)])])
         @ [(ATTRIBUTE_PSO_APPLIES_TO, map bytes_of_string (dn_applied_list w))])"

text \<open>The hash that is filled in this order: a key that is there keeps the later value.\<close>

definition pso_settings_values :: "pso_edit \<Rightarrow> (qstring \<times> bytes list) list" where
  "pso_settings_values w = fold (\<lambda>(attribute, vals). AList.update attribute vals) (pso_settings w) []"

definition pso_settings_string_values :: "pso_edit \<Rightarrow> (qstring \<times> qstring list) list" where
  "pso_settings_string_values w = map (\<lambda>(attribute, vals). (attribute, map string_of_bytes vals)) (pso_settings_values w)"

definition setting :: "pso_edit \<Rightarrow> qstring \<Rightarrow> bytes list" where
  "setting w attribute = (case map_of (pso_settings_values w) attribute of Some vals \<Rightarrow> vals | None \<Rightarrow> [])"

definition excluded_attrs :: "qstring list" where
  "excluded_attrs = [ATTRIBUTE_CN, ATTRIBUTE_MS_DS_PASSWORD_SETTINGS_PRECEDENCE, ATTRIBUTE_PSO_APPLIES_TO,
     ATTRIBUTE_MS_DS_PASSWORD_COMPLEXITY_ENABLED, ATTRIBUTE_MS_DS_PASSWORD_REVERSIBLE_ENCRYPTION_ENABLED]"

text \<open>Whether the form of a new object has the settings of the domain; the first values of lists are read without a test.\<close>

definition settings_are_default :: "ad_object \<Rightarrow> pso_edit \<Rightarrow> bool faulty" where
  "settings_are_default defaults w =
     (if list_ex (\<lambda>(attribute, vals). attribute \<notin> set excluded_attrs \<and> get_values defaults (replace_attribute attribute True) \<noteq> vals)
          (pso_settings_values w) then Inr False
      else case get_values defaults ATTRIBUTE_PWD_PROPERTIES of [] \<Rightarrow> Inl Index_Out_Of_Range
        | v # _ \<Rightarrow>
          let pwd_properties = or_zero (to_int (string_of_bytes v))
          in case setting w ATTRIBUTE_MS_DS_PASSWORD_COMPLEXITY_ENABLED of [] \<Rightarrow> Inl Index_Out_Of_Range
             | complexity # _ \<Rightarrow>
               if (pwd_properties AND SAM_MASK_DOMAIN_PASSWORD_COMPLEX \<noteq> 0) \<noteq> (string_of_bytes complexity = LDAP_BOOL_TRUE) then Inr False
               else case setting w ATTRIBUTE_MS_DS_PASSWORD_REVERSIBLE_ENCRYPTION_ENABLED of [] \<Rightarrow> Inl Index_Out_Of_Range
                 | store # _ \<Rightarrow> Inr ((\<not> pwd_properties AND SAM_MASK_DOMAIN_PASSWORD_STORE_CLEARTEXT \<noteq> 0) = (string_of_bytes store = LDAP_BOOL_TRUE)))"

section \<open>Showing and editing an object\<close>

record pso_results =
  edit_widget :: pso_edit
  saved_object :: ad_object
  editable :: bool

definition pso_update :: "'srv ad_env \<Rightarrow> ad_object \<Rightarrow> pso_results \<Rightarrow> ('srv, pso_results) ad_op" where
  "pso_update env pso r =
     and_then (update_form env pso (edit_widget r)) (\<lambda>w. give \<lparr>edit_widget = w, saved_object = pso, editable = False\<rparr>)"

definition on_edit :: "pso_results \<Rightarrow> pso_results" where
  "on_edit r = r\<lparr>editable := True\<rparr>"

definition on_cancel_edit :: "'srv ad_env \<Rightarrow> pso_results \<Rightarrow> ('srv, pso_results) ad_op" where
  "on_cancel_edit env r =
     and_then (update_form env (saved_object r) (edit_widget r)) (\<lambda>w. give (r\<lparr>edit_widget := w, editable := False\<rparr>))"

definition changed_attrs :: "'srv ad_env \<Rightarrow> pso_results \<Rightarrow> qstring list" where
  "changed_attrs env r =
     filter (\<lambda>attribute. get_values (saved_object r) attribute \<noteq> setting (edit_widget r) attribute)
       (hash_keys env (map fst (pso_settings_values (edit_widget r))))"

fun replace_settings :: "'srv ad_env \<Rightarrow> qstring \<Rightarrow> pso_edit \<Rightarrow> qstring list \<Rightarrow> ('srv, unit) ad_op" where
  "replace_settings env dn w [] = give ()"
| "replace_settings env dn w (attribute # attributes) =
     (if attribute = ATTRIBUTE_CN then replace_settings env dn w attributes
      else and_then (attribute_replace_values env dn attribute (setting w attribute) DoStatusMsg_Yes False) (\<lambda>_.
        replace_settings env dn w attributes))"

text \<open>The name is used as the name of the object from here on.\<close>

definition rename_pso :: "'srv ad_env \<Rightarrow> pso_results \<Rightarrow> ('srv, qstring) ad_op" where
  "rename_pso env r =
     (let pso_dn = object_dn (saved_object r)
      in if ATTRIBUTE_CN \<notin> set (changed_attrs env r) then give pso_dn
         else case setting (edit_widget r) ATTRIBUTE_CN of [] \<Rightarrow> lift (Inl Index_Out_Of_Range)
           | v # _ \<Rightarrow> let new_dn = string_of_bytes v
              in if new_dn \<noteq> pso_dn then and_then (object_rename env pso_dn new_dn) (\<lambda>_. give new_dn) else give new_dn)"

definition on_apply :: "'srv ad_env \<Rightarrow> pso_results \<Rightarrow> ('srv, pso_results) ad_op" where
  "on_apply env r =
     (if changed_attrs env r = [] then give (r\<lparr>editable := False\<rparr>)
      else and_then (get_state is_connected) (\<lambda>connected.
        if \<not> connected then on_cancel_edit env r
        else and_then (replace_settings env (object_dn (saved_object r)) (edit_widget r) (changed_attrs env r)) (\<lambda>_.
             and_then (rename_pso env r) (\<lambda>pso_dn.
             and_then (search_object env pso_dn [] False) (\<lambda>obj.
               give (r\<lparr>saved_object := obj, editable := False\<rparr>))))))"

section \<open>A new object\<close>

definition global_password_settings :: "'srv ad_env \<Rightarrow> ad_config \<Rightarrow> ('srv, ad_object) ad_op" where
  "global_password_settings env cfg =
     and_then (get_state is_connected) (\<lambda>connected. if \<not> connected then give empty_object
       else search_object env (cfg_domain_dn cfg) [ATTRIBUTE_PWD_PROPERTIES, ATTRIBUTE_PWD_HISTORY_LENGTH, ATTRIBUTE_MIN_PWD_LENGTH,
              ATTRIBUTE_MIN_PWD_AGE, ATTRIBUTE_MAX_PWD_AGE, ATTRIBUTE_LOCKOUT_DURATION, ATTRIBUTE_LOCKOUT_THRESHOLD,
              ATTRIBUTE_LOCKOUT_OBSERVATION_WINDOW] False)"

text \<open>A form starts with the settings of the domain.\<close>

definition new_pso_edit :: "'srv ad_env \<Rightarrow> ad_config \<Rightarrow> ('srv, pso_edit) ad_op" where
  "new_pso_edit env cfg =
     and_then (global_password_settings env cfg) (\<lambda>obj.
       update_fields env obj True \<lparr>is_global = False, name_edit = [], precedence_spinbox = 1, min_passwd_len_spinbox = 0,
         history_length_spinbox = 0, logon_attempts_spinbox = 0, lockout_duration_spinbox = 0, reset_lockout_spinbox = 0,
         min_age_spinbox = 0, max_age_spinbox = 0, complexity_req_checkbox = False, store_passwd_checkbox = False,
         dn_applied_list = [], applied_list_widget = []\<rparr>)"

datatype create_outcome = Name_Refused | Not_Connected | Settings_Are_Default | Creation_Failed | Created

definition create_pso_settings :: "pso_edit \<Rightarrow> (qstring \<times> qstring list) list" where
  "create_pso_settings w =
     (let settings = AList.update ATTRIBUTE_OBJECT_CLASS [CLASS_PSO] (pso_settings_string_values w)
      in if dn_applied_list w = [] then AList.delete ATTRIBUTE_PSO_APPLIES_TO settings else settings)"

definition create_pso :: "'srv ad_env \<Rightarrow> ad_config \<Rightarrow> qstring \<Rightarrow> pso_edit \<Rightarrow> bool \<Rightarrow> ('srv, create_outcome) ad_op" where
  "create_pso env cfg parent_dn w protected =
     (let name = trimmed (name_edit w)
      in if \<not> is_object_name_valid name then give Name_Refused
         else and_then (get_state is_connected) (\<lambda>connected. if \<not> connected then give Not_Connected
         else and_then (global_password_settings env cfg) (\<lambda>defaults.
           and_then (lift (settings_are_default defaults w)) (\<lambda>default.
             if default then give Settings_Are_Default
             else let dn = dn_from_name_and_parent name parent_dn CLASS_PSO; settings = create_pso_settings w
               in and_then (object_add_attributes env dn (map (\<lambda>k. (k, the (map_of settings k))) (hash_keys env (map fst settings)))) (\<lambda>success.
                  if \<not> success then give Creation_Failed
                  else and_then (ad_security_set_protected_against_deletion env dn protected) (\<lambda>_. give Created))))))"

end
