(* ===== verification/PsoFacts.thy ===== *)
theory PsoFacts
  imports PsoEdit AccountFacts
begin

text \<open>
  What the form of password settings shows and writes back: which attributes of an object that nobody
  has edited are changed all the same when it is applied, for a settings object and for the domain, and
  what is stored after applying.
\<close>

section \<open>Times\<close>

lemma bytes_of_string_of_bytes [simp]: "bytes_of_string (string_of_bytes b) = b"
proof -
  have "word_of_nat (unat x mod 256) = x" for x :: byte
  proof -
    have "unat x < 2 ^ LENGTH(8)" by (rule unsigned_less)
    then show ?thesis by simp
  qed
  then show ?thesis by (simp add: bytes_of_string_def string_of_bytes_def comp_def map_idI)
qed

lemma narrow_small: "0 \<le> n \<Longrightarrow> n \<le> 10000 \<Longrightarrow> narrow_int n = n"
  by (simp add: narrow_int_def signed_take_bit_int_eq_self)

lemma miliseconds_read:
  assumes "0 \<le> n" and "n \<le> 10000 * 86400000"
  shows "ad_time_units_to_miliseconds (miliseconds_to_ad_time_units n) = Inr n"
proof -
  have "in_range 64 (- (n * 10000))" using assms by (simp add: in_range_def)
  from to_long_long_number [OF this] show ?thesis
    using assms by (simp add: ad_time_units_to_miliseconds_def miliseconds_to_ad_time_units_def or_zero_def cdiv_def)
qed

lemma minutes_read: "0 \<le> n \<Longrightarrow> n \<le> 10000 \<Longrightarrow> ad_time_units_to_mintes (minutes_to_ad_time_units n) = Inr n"
  by (simp add: ad_time_units_to_mintes_def minutes_to_ad_time_units_def miliseconds_read cdiv_def narrow_small)

lemma days_read: "0 \<le> n \<Longrightarrow> n \<le> 10000 \<Longrightarrow> ad_time_units_to_days (days_to_ad_time_units n) = Inr n"
  by (simp add: ad_time_units_to_days_def days_to_ad_time_units_def miliseconds_read cdiv_def narrow_small)

lemma trimmed_trimmed: "trimmed (trimmed s) = trimmed s"
proof -
  have first: "dropWhile is_space_char t = t" if "t = [] \<or> \<not> is_space_char (hd t)" for t using that by (cases t) auto
  have rest: "dropWhile is_space_char t = [] \<or> \<not> is_space_char (hd (dropWhile is_space_char t))" for t using hd_dropWhile by blast
  have keep: "t = [] \<or> \<not> is_space_char (hd t) \<Longrightarrow> rev (dropWhile is_space_char (rev t)) = [] \<or> \<not> is_space_char (hd (rev (dropWhile is_space_char (rev t))))" for t
    by (cases t) (auto simp: dropWhile_append)
  from first [OF keep [OF rest]] have "dropWhile is_space_char (trimmed s) = trimmed s" by (simp add: trimmed_def)
  then show ?thesis unfolding trimmed_def [of "trimmed s"] by (simp add: trimmed_def first [OF rest])
qed

lemma spin_value_range: "lowest \<le> 99 \<Longrightarrow> lowest \<le> spin_value lowest n \<and> spin_value lowest n \<le> 99"
  by (simp add: spin_value_def)

lemma spin_value_same: "lowest \<le> n \<Longrightarrow> n \<le> 99 \<Longrightarrow> spin_value lowest n = n"
  by (simp add: spin_value_def)

section \<open>Settings\<close>

lemma fold_update_new:
  "distinct (map fst kvs) \<Longrightarrow> fst ` set kvs \<inter> fst ` set al = {} \<Longrightarrow> fold (\<lambda>(k, v). AList.update k v) kvs al = al @ kvs"
proof (induction kvs arbitrary: al)
  case (Cons kv kvs)
  obtain k v where kv: "kv = (k, v)" by (cases kv)
  have "AList.update k v al = al @ [(k, v)]" using Cons.prems(2) kv by (induction al) auto
  then show ?case using Cons.IH [of "al @ [(k, v)]"] Cons.prems kv by auto
qed simp

definition pso_attributes :: "qstring list" where
  "pso_attributes = [ATTRIBUTE_CN, ATTRIBUTE_MS_DS_PASSWORD_SETTINGS_PRECEDENCE, ATTRIBUTE_MS_DS_MIN_PASSWORD_LENGTH,
     ATTRIBUTE_MS_DS_PASSWORD_HISTORY_LENGTH, ATTRIBUTE_MS_DS_LOCKOUT_THRESHOLD, ATTRIBUTE_MS_DS_LOCKOUT_DURATION,
     ATTRIBUTE_MS_DS_LOCKOUT_OBSERVATION_WINDOW, ATTRIBUTE_MS_DS_MIN_PASSWORD_AGE, ATTRIBUTE_MS_DS_MAX_PASSWORD_AGE,
     ATTRIBUTE_MS_DS_PASSWORD_COMPLEXITY_ENABLED, ATTRIBUTE_MS_DS_PASSWORD_REVERSIBLE_ENCRYPTION_ENABLED, ATTRIBUTE_PSO_APPLIES_TO]"

lemma pso_keys:
  assumes "\<not> is_global w"
  shows "map fst (pso_settings w) = pso_attributes" and "pso_settings_values w = pso_settings w" and "distinct pso_attributes"
proof -
  show keys: "map fst (pso_settings w) = pso_attributes"
    using assms by (simp add: pso_settings_def Let_def replace_attribute_def pso_attributes_def)
  show distinct: "distinct pso_attributes" by (simp add: pso_attributes_def)
  show "pso_settings_values w = pso_settings w"
    using fold_update_new [of "pso_settings w" "[]"] keys distinct by (simp add: pso_settings_values_def)
qed

section \<open>Values that the form can hold\<close>

text \<open>The values of an attribute that the form shows as they are.\<close>

definition field_fits :: "qstring \<Rightarrow> bytes list \<Rightarrow> bool" where
  "field_fits attribute vals =
     (if attribute = ATTRIBUTE_CN then \<exists>name. vals = [bytes_of_string name] \<and> trimmed name = name
      else if attribute = ATTRIBUTE_MS_DS_PASSWORD_SETTINGS_PRECEDENCE then \<exists>n. 1 \<le> n \<and> n \<le> 99 \<and> vals = [number_value n]
      else if attribute \<in> {ATTRIBUTE_MS_DS_MIN_PASSWORD_LENGTH, ATTRIBUTE_MS_DS_PASSWORD_HISTORY_LENGTH, ATTRIBUTE_MS_DS_LOCKOUT_THRESHOLD}
        then \<exists>n. 0 \<le> n \<and> n \<le> 99 \<and> vals = [number_value n]
      else if attribute \<in> {ATTRIBUTE_MS_DS_LOCKOUT_DURATION, ATTRIBUTE_MS_DS_LOCKOUT_OBSERVATION_WINDOW}
        then \<exists>n. 0 \<le> n \<and> n \<le> 99 \<and> vals = [minutes_to_ad_time_units n]
      else if attribute \<in> {ATTRIBUTE_MS_DS_MIN_PASSWORD_AGE, ATTRIBUTE_MS_DS_MAX_PASSWORD_AGE}
        then \<exists>n. 0 \<le> n \<and> n \<le> 99 \<and> vals = [days_to_ad_time_units n]
      else if attribute \<in> {ATTRIBUTE_MS_DS_PASSWORD_COMPLEXITY_ENABLED, ATTRIBUTE_MS_DS_PASSWORD_REVERSIBLE_ENCRYPTION_ENABLED}
        then \<exists>b. vals = [bool_value b]
      else True)"

lemma number_field:
  assumes "0 \<le> lowest" and "lowest \<le> 99"
  shows "get_values obj a = [number_value (spin_value lowest (get_int obj a))] \<longleftrightarrow> (\<exists>n. lowest \<le> n \<and> n \<le> 99 \<and> get_values obj a = [number_value n])"
proof -
  have "get_int obj a = n" if "lowest \<le> n" "n \<le> 99" "get_values obj a = [number_value n]" for n
  proof -
    have "in_range 32 n" using that assms by (simp add: in_range_def)
    then show ?thesis using that(3) by (simp add: get_int_def get_ints_def get_strings_def number_value_def to_int_number or_zero_def)
  qed
  then show ?thesis using spin_value_range [OF assms(2)] spin_value_same by metis
qed

lemma time_field:
  assumes "\<And>n. 0 \<le> n \<Longrightarrow> n \<le> 10000 \<Longrightarrow> time (units n) = Inr n" and "time (get_value obj a) = Inr m"
  shows "get_values obj a = [units (spin_value 0 m)] \<longleftrightarrow> (\<exists>n. 0 \<le> n \<and> n \<le> 99 \<and> get_values obj a = [units n])"
proof -
  have "m = n" if "0 \<le> n" "n \<le> 99" "get_values obj a = [units n]" for n
    using that assms(1) [OF that(1)] assms(2) by (simp add: get_value_def)
  then show ?thesis using spin_value_range [of 0 m] spin_value_same [of 0 m] by (metis zero_le_numeral)
qed

lemma bool_field: "get_values obj a = [bool_value (get_bool obj a)] \<longleftrightarrow> (\<exists>b. get_values obj a = [bool_value b])"
  by (auto simp: get_bool_def get_bools_def get_strings_def bool_value_def ad_string_to_bool_def)

lemma name_field:
  "get_values obj ATTRIBUTE_CN = [bytes_of_string (trimmed (get_string obj ATTRIBUTE_CN))] \<longleftrightarrow>
     (\<exists>name. get_values obj ATTRIBUTE_CN = [bytes_of_string name] \<and> trimmed name = name)"
  by (auto simp: get_string_def get_strings_def trimmed_trimmed Let_def)

lemma list_set_cases: "a \<in> set (x # xs) \<Longrightarrow> (a = x \<Longrightarrow> P) \<Longrightarrow> (a \<in> set xs \<Longrightarrow> P) \<Longrightarrow> P" "a \<in> set [] \<Longrightarrow> P"
  by auto

text \<open>The form after an object was shown that is no domain.\<close>

lemma shown_settings:
  assumes "update_values obj False w = Inr w'" and "is_global w' = False" and "a \<in> set pso_attributes"
  shows "get_values obj a = setting w' a \<longleftrightarrow> field_fits a (get_values obj a)"
proof -
  from assms(1) obtain duration window min_age max_age where times:
    "ad_time_units_to_mintes (get_value obj ATTRIBUTE_MS_DS_LOCKOUT_DURATION) = Inr duration"
    "ad_time_units_to_mintes (get_value obj ATTRIBUTE_MS_DS_LOCKOUT_OBSERVATION_WINDOW) = Inr window"
    "ad_time_units_to_days (get_value obj ATTRIBUTE_MS_DS_MIN_PASSWORD_AGE) = Inr min_age"
    "ad_time_units_to_days (get_value obj ATTRIBUTE_MS_DS_MAX_PASSWORD_AGE) = Inr max_age"
    and w': "name_edit w' = get_string obj ATTRIBUTE_CN"
      "precedence_spinbox w' = spin_value 1 (get_int obj ATTRIBUTE_MS_DS_PASSWORD_SETTINGS_PRECEDENCE)"
      "min_passwd_len_spinbox w' = spin_value 0 (get_int obj ATTRIBUTE_MS_DS_MIN_PASSWORD_LENGTH)"
      "history_length_spinbox w' = spin_value 0 (get_int obj ATTRIBUTE_MS_DS_PASSWORD_HISTORY_LENGTH)"
      "logon_attempts_spinbox w' = spin_value 0 (get_int obj ATTRIBUTE_MS_DS_LOCKOUT_THRESHOLD)"
      "lockout_duration_spinbox w' = spin_value 0 duration" "reset_lockout_spinbox w' = spin_value 0 window"
      "min_age_spinbox w' = spin_value 0 min_age" "max_age_spinbox w' = spin_value 0 max_age"
      "complexity_req_checkbox w' = get_bool obj ATTRIBUTE_MS_DS_PASSWORD_COMPLEXITY_ENABLED"
      "store_passwd_checkbox w' = get_bool obj ATTRIBUTE_MS_DS_PASSWORD_REVERSIBLE_ENCRYPTION_ENABLED"
      "dn_applied_list w' = get_strings obj ATTRIBUTE_PSO_APPLIES_TO"
    by (auto simp: update_values_def replace_attribute_def Let_def bind_faulty_eq_Inr)
  have setting: "setting w' a = (case map_of (pso_settings w') a of Some vals \<Rightarrow> vals | None \<Rightarrow> [])"
    using pso_keys(2) [of w'] assms(2) by (simp add: setting_def)
  note fields = number_field [of 1] number_field [of 0] time_field [where units = minutes_to_ad_time_units, OF minutes_read times(1)]
    time_field [where units = minutes_to_ad_time_units, OF minutes_read times(2)]
    time_field [where units = days_to_ad_time_units, OF days_read times(3)]
    time_field [where units = days_to_ad_time_units, OF days_read times(4)] bool_field name_field
  show ?thesis using assms(3) unfolding setting pso_attributes_def
    by (elim list_set_cases) (simp_all add: pso_settings_def replace_attribute_def assms(2) w' field_fits_def fields get_strings_def comp_def)
qed

section \<open>Objects that nobody edits\<close>

lemma update_fields_values:
  assumes "update_fields env obj global w s = Inr (w', t)"
  shows "\<exists>w0 rows. update_values obj global w = Inr w0 \<and> w' = w0\<lparr>applied_list_widget := rows\<rparr>"
proof -
  from assms obtain w0 where w0: "update_values obj global w = Inr w0"
    by (auto simp: update_fields_def ad_simps split: sum.splits)
  have same: "w0 = w0\<lparr>applied_list_widget := applied_list_widget w0\<rparr>" by simp
  have "w' = w0 \<or> (\<exists>rows. w' = w0\<lparr>applied_list_widget := rows\<rparr>)"
    using assms by (auto simp: update_fields_def ad_simps w0 split: sum.splits if_splits)
  then show ?thesis
  proof
    assume "w' = w0"
    then have "w' = w0\<lparr>applied_list_widget := applied_list_widget w0\<rparr>" by (rule trans [OF _ same])
    with w0 show ?thesis by blast
  next
    assume "\<exists>rows. w' = w0\<lparr>applied_list_widget := rows\<rparr>"
    with w0 show ?thesis by blast
  qed
qed

lemma update_values_global: "update_values obj global w = Inr w0 \<Longrightarrow> is_global w0 = is_global w"
  by (auto simp: update_values_def Let_def bind_faulty_eq_Inr)

lemma update_form_values:
  assumes "update_form env obj w s = Inr (w', t)" and "g = object_contains obj ATTRIBUTE_PWD_PROPERTIES"
  shows "\<exists>w0 rows. update_values obj g (w\<lparr>is_global := g\<rparr>) = Inr w0 \<and> w' = w0\<lparr>applied_list_widget := rows\<rparr> \<and> is_global w' = g"
proof -
  from assms have "update_fields env obj g (w\<lparr>is_global := g\<rparr>) s = Inr (w', t)" by (simp add: update_form_def Let_def)
  from update_fields_values [OF this] obtain w0 rows where
    "update_values obj g (w\<lparr>is_global := g\<rparr>) = Inr w0" "w' = w0\<lparr>applied_list_widget := rows\<rparr>" by blast
  moreover from update_values_global [OF this(1)] this(2) have "is_global w' = g" by simp
  ultimately show ?thesis by blast
qed

lemma pso_settings_rows: "pso_settings (w\<lparr>applied_list_widget := rows\<rparr>) = pso_settings w"
  by (simp add: pso_settings_def pwd_properties_value_def Let_def)

lemma setting_rows: "setting (w\<lparr>applied_list_widget := rows\<rparr>) a = setting w a"
  by (simp add: setting_def pso_settings_values_def pso_settings_rows)


section \<open>The settings of a domain\<close>

lemma map_of_updates: "map_of (fold (\<lambda>(k, v). AList.update k v) kvs al) = map_of al ++ map_of (rev kvs)"
proof (induction kvs arbitrary: al)
  case (Cons kv kvs)
  then show ?case by (cases kv) (auto simp: update_conv' fun_eq_iff map_add_def split: option.splits)
qed simp

lemma keys_of_updates: "fst ` set (fold (\<lambda>(k, v). AList.update k v) kvs al) = fst ` set kvs \<union> fst ` set al"
proof (induction kvs arbitrary: al)
  case (Cons kv kvs)
  then show ?case by (cases kv) (simp add: set_update_keys)
qed simp

lemma mask_parts: "(if n AND 1 \<noteq> 0 then 1 else 0) * 1 + (if n AND 16 \<noteq> 0 then 1 else 0) * 16 = n AND 17" for n :: int
proof -
  have part: "n AND 2 ^ k = (if bit n k then 2 ^ k else 0)" for k
    by (rule bit_eqI) (auto simp: bit_and_iff bit_exp_iff)
  have "n AND 17 = n AND (1 OR 16)" by simp
  also have "\<dots> = (n AND 1) OR (n AND 16)" by (rule bit.conj_disj_distrib)
  finally show ?thesis using part [of 0] part [of 4] by (cases "bit n 0"; cases "bit n 4") simp_all
qed

text \<open>
  C40. The settings of a domain are shown, and nobody edits the form: applying would try to write an
  attribute without a name, and of the options of the domain it would keep only the ones for complex
  passwords and for reversible encryption, clearing the others. The form shows reversible encryption as
  on when it is off.
\<close>

theorem domain_unedited:
  assumes "\<And>ks. mset (hash_keys env ks) = mset ks" and "object_contains obj ATTRIBUTE_PWD_PROPERTIES" and "get_values obj [] = []"
    and "pso_update env obj r s = Inr (r', t)"
  shows "[] \<in> set (changed_attrs env r')
    \<and> setting (edit_widget r') ATTRIBUTE_PWD_PROPERTIES = [number_value (get_int obj ATTRIBUTE_PWD_PROPERTIES AND 17)]
    \<and> store_passwd_checkbox (edit_widget r') = (get_int obj ATTRIBUTE_PWD_PROPERTIES AND SAM_MASK_DOMAIN_PASSWORD_STORE_CLEARTEXT = 0)"
proof -
  from assms(4) obtain w where w: "update_form env obj (edit_widget r) s = Inr (w, t)"
    and r': "r' = \<lparr>edit_widget = w, saved_object = obj, editable = False\<rparr>" by (auto simp: pso_update_def ad_simps split: sum.splits)
  have "True = object_contains obj ATTRIBUTE_PWD_PROPERTIES" using assms(2) by simp
  from update_form_values [OF w this] obtain w0 rows where
    w0: "update_values obj True ((edit_widget r)\<lparr>is_global := True\<rparr>) = Inr w0" "w = w0\<lparr>applied_list_widget := rows\<rparr>" "is_global w = True" by blast
  from w0(1) have boxes: "complexity_req_checkbox w0 = (get_int obj ATTRIBUTE_PWD_PROPERTIES AND 1 \<noteq> 0)"
    "store_passwd_checkbox w0 = (get_int obj ATTRIBUTE_PWD_PROPERTIES AND 16 = 0)"
    by (auto simp: update_values_def Let_def bind_faulty_eq_Inr SAM_MASK_DOMAIN_PASSWORD_COMPLEX_def SAM_MASK_DOMAIN_PASSWORD_STORE_CLEARTEXT_def)
  have keys: "map_of (pso_settings_values w) = map_of (rev (pso_settings w))" by (simp add: pso_settings_values_def map_of_updates)
  have "setting w [] \<noteq> []" "setting w ATTRIBUTE_PWD_PROPERTIES = [pwd_properties_value w]"
    unfolding setting_def keys using w0(3) by (simp_all add: pso_settings_def Let_def replace_attribute_def pso_attributes_to_global_attributes_def)
  moreover have "[] \<in> fst ` set (pso_settings_values w)"
    unfolding pso_settings_values_def keys_of_updates using w0(3)
    by (simp add: pso_settings_def Let_def replace_attribute_def pso_attributes_to_global_attributes_def)
  moreover have "pwd_properties_value w = number_value (get_int obj ATTRIBUTE_PWD_PROPERTIES AND 17)"
    unfolding pwd_properties_value_def w0(2) using boxes mask_parts [of "get_int obj ATTRIBUTE_PWD_PROPERTIES"]
    by (simp add: SAM_MASK_DOMAIN_PASSWORD_COMPLEX_def SAM_MASK_DOMAIN_PASSWORD_STORE_CLEARTEXT_def)
  ultimately show ?thesis
    using permuted_keys(1) [OF assms(1)] assms(3) boxes
    by (auto simp: changed_attrs_def r' w0(2) SAM_MASK_DOMAIN_PASSWORD_STORE_CLEARTEXT_def)
qed

section \<open>What is stored after applying\<close>

text \<open>
  A server that keeps the attributes of one object: it finds them, and it replaces the values of an
  attribute of password settings.
\<close>

definition stores_values :: "'srv ad_env \<Rightarrow> ('srv \<Rightarrow> bool) \<Rightarrow> ('srv \<Rightarrow> qstring \<Rightarrow> bytes list) \<Rightarrow> qstring \<Rightarrow> bool" where
  "stores_values env ok stored dn =
     (\<forall>srv. ok srv \<longrightarrow>
       (\<forall>attributes. \<exists>obj. (\<forall>s. server s = srv \<longrightarrow> \<not> s_log_searches s \<longrightarrow> search_object env dn attributes False s = Inr (obj, s))
          \<and> (\<forall>a. attributes = [] \<or> a \<in> set attributes \<longrightarrow> get_values obj a = stored srv a))
       \<and> (\<forall>a vals. \<exists>srv'. ldap_modify_ext (ldap env) dn [\<lparr>mod_op = LDAP_MOD_REPLACE, mod_type = a, mod_values = vals\<rparr>] [] srv = (LDAP_SUCCESS, srv')
          \<and> ok srv' \<and> stored srv' = (stored srv)(a := vals)))"

lemma replace_setting_run:
  assumes "stores_values env ok stored dn" and "ok (server s)" and "\<not> s_log_searches s"
  shows "\<exists>b t. attribute_replace_values env dn a vals DoStatusMsg_Yes False s = Inr (b, t) \<and> ok (server t) \<and> \<not> s_log_searches t
    \<and> stored (server t) = (stored (server s))(a := vals)"
proof -
  from assms(1,2) have finds: "\<forall>attributes. \<exists>obj. (\<forall>s'. server s' = server s \<longrightarrow> \<not> s_log_searches s' \<longrightarrow> search_object env dn attributes False s' = Inr (obj, s'))
      \<and> (\<forall>a. attributes = [] \<or> a \<in> set attributes \<longrightarrow> get_values obj a = stored (server s) a)"
    and modifies: "\<exists>srv'. ldap_modify_ext (ldap env) dn [\<lparr>mod_op = LDAP_MOD_REPLACE, mod_type = a, mod_values = vals\<rparr>] [] (server s) = (LDAP_SUCCESS, srv')
      \<and> ok srv' \<and> stored srv' = (stored (server s))(a := vals)"
    unfolding stores_values_def by blast+
  from finds [rule_format, of "[a]"] obtain obj where obj: "reads env (server s) dn a obj" "get_values obj a = stored (server s) a"
    unfolding reads_def by auto
  from modifies obtain srv' where srv': "ldap_modify_ext (ldap env) dn [\<lparr>mod_op = LDAP_MOD_REPLACE, mod_type = a, mod_values = vals\<rparr>] [] (server s) = (LDAP_SUCCESS, srv')"
    "ok srv'" "stored srv' = (stored (server s))(a := vals)" by blast
  show ?thesis
  proof (cases "vals = [] \<and> get_values obj a = []")
    case True
    have "search_object env dn [a] False s = Inr (obj, s)" using obj(1) assms(3) by (simp add: reads_def)
    then have "attribute_replace_values env dn a vals DoStatusMsg_Yes False s = Inr (True, s)"
      using True by (simp add: attribute_replace_values_def and_then_run create_sd_control_def give_run)
    moreover have "(stored (server s))(a := vals) = stored (server s)" using True obj(2) by auto
    ultimately show ?thesis using assms(2,3) by auto
  next
    case False
    then have "vals \<noteq> [] \<or> get_values obj a \<noteq> []" by blast
    from replace_values_run [OF obj(1) assms(3) this, of DoStatusMsg_Yes, unfolded srv'(1) fst_conv snd_conv] srv'(2,3) show ?thesis by metis
  qed
qed

lemma replace_settings_run:
  assumes "stores_values env ok stored dn" and "ok (server s)" and "\<not> s_log_searches s"
  shows "\<exists>t. replace_settings env dn w attributes s = Inr ((), t) \<and> ok (server t) \<and> \<not> s_log_searches t
    \<and> (\<forall>a. stored (server t) a = (if a \<in> set attributes \<and> a \<noteq> ATTRIBUTE_CN then setting w a else stored (server s) a))"
  using assms(2,3)
proof (induction attributes arbitrary: s)
  case (Cons attribute attributes)
  show ?case
  proof (cases "attribute = ATTRIBUTE_CN")
    case True
    then show ?thesis using Cons.IH [OF Cons.prems] by auto
  next
    case False
    obtain b t where t: "attribute_replace_values env dn attribute (setting w attribute) DoStatusMsg_Yes False s = Inr (b, t)"
      "ok (server t)" "\<not> s_log_searches t" "stored (server t) = (stored (server s))(attribute := setting w attribute)"
      using replace_setting_run [OF assms(1) Cons.prems] by blast
    from Cons.IH [OF t(2,3)] obtain t' where "replace_settings env dn w attributes t = Inr ((), t')" "ok (server t')" "\<not> s_log_searches t'"
      "\<forall>a. stored (server t') a = (if a \<in> set attributes \<and> a \<noteq> ATTRIBUTE_CN then setting w a else stored (server t) a)" by blast
    then show ?thesis using False t by (auto simp: and_then_run)
  qed
qed (simp add: give_run)

text \<open>
  C38. Applying the form of a settings object whose name is not edited, on a server that accepts the
  values: afterwards every attribute of the form is stored as the form shows it, every other attribute is
  as it was, and a second apply would write nothing.
\<close>

theorem pso_applied:
  assumes "\<And>ks. mset (hash_keys env ks) = mset ks" and "stores_values env ok stored dn" and "ok (server s)"
    and "\<not> s_log_searches s" and "is_connected s" and "\<not> is_global (edit_widget r)"
    and "object_dn (saved_object r) = dn" and "\<And>a. get_values (saved_object r) a = stored (server s) a"
    and "setting (edit_widget r) ATTRIBUTE_CN = get_values (saved_object r) ATTRIBUTE_CN"
  shows "\<exists>r' t. on_apply env r s = Inr (r', t) \<and> edit_widget r' = edit_widget r \<and> changed_attrs env r' = []
    \<and> (\<forall>a. stored (server t) a = (if a \<in> set pso_attributes then setting (edit_widget r) a else stored (server s) a))"
proof -
  let ?w = "edit_widget r"
  have keys: "set (hash_keys env (map fst (pso_settings_values ?w))) = set pso_attributes"
    using permuted_keys(1) [OF assms(1)] pso_keys(1,2) [OF assms(6)] by simp
  have changed: "a \<in> set (changed_attrs env r) \<longleftrightarrow> a \<in> set pso_attributes \<and> stored (server s) a \<noteq> setting ?w a" for a
    by (simp add: changed_attrs_def keys assms(8))
  have unnamed: "ATTRIBUTE_CN \<notin> set (changed_attrs env r)" using assms(8,9) unfolding changed by metis
  show ?thesis
  proof (cases "changed_attrs env r = []")
    case True
    then have "stored (server s) a = setting ?w a" if "a \<in> set pso_attributes" for a
      using changed [of a] that by simp
    moreover have "changed_attrs env (r\<lparr>editable := False\<rparr>) = []" using True by (simp add: changed_attrs_def)
    ultimately show ?thesis using True by (auto simp: on_apply_def give_run)
  next
    case False
    obtain t where t: "replace_settings env dn ?w (changed_attrs env r) s = Inr ((), t)" "ok (server t)" "\<not> s_log_searches t"
      "\<forall>a. stored (server t) a = (if a \<in> set (changed_attrs env r) \<and> a \<noteq> ATTRIBUTE_CN then setting ?w a else stored (server s) a)"
      using replace_settings_run [OF assms(2-4)] by blast
    from assms(2) t(2,3) obtain obj where obj: "search_object env dn [] False t = Inr (obj, t)" "\<And>a. get_values obj a = stored (server t) a"
      unfolding stores_values_def by (metis (no_types))
    have after: "stored (server t) a = (if a \<in> set pso_attributes then setting ?w a else stored (server s) a)" for a
      using t(4) changed [of a] unnamed by (cases "a \<in> set (changed_attrs env r)") (metis, metis)
    let ?r = "r\<lparr>saved_object := obj, editable := False\<rparr>"
    have "on_apply env r s = Inr (?r, t)"
      using False t(1) obj(1) unnamed assms(5,7) by (simp add: on_apply_def ad_simps rename_pso_def)
    moreover have "changed_attrs env ?r = []"
      using keys by (auto simp: changed_attrs_def obj(2) after filter_empty_conv)
    ultimately show ?thesis using after by auto
  qed
qed

section \<open>Examples\<close>

text \<open>A settings object with passwords that last 120 days, more than the form can show.\<close>

definition example_pso_values :: "(qstring \<times> bytes list) list" where
  "example_pso_values = [(ATTRIBUTE_CN, [bytes_of_string ''staff'']), (ATTRIBUTE_MS_DS_PASSWORD_SETTINGS_PRECEDENCE, [number_value 1]),
     (ATTRIBUTE_MS_DS_MIN_PASSWORD_LENGTH, [number_value 7]), (ATTRIBUTE_MS_DS_PASSWORD_HISTORY_LENGTH, [number_value 24]),
     (ATTRIBUTE_MS_DS_LOCKOUT_THRESHOLD, [number_value 0]), (ATTRIBUTE_MS_DS_LOCKOUT_DURATION, [minutes_to_ad_time_units 30]),
     (ATTRIBUTE_MS_DS_LOCKOUT_OBSERVATION_WINDOW, [minutes_to_ad_time_units 30]), (ATTRIBUTE_MS_DS_MIN_PASSWORD_AGE, [days_to_ad_time_units 1]),
     (ATTRIBUTE_MS_DS_MAX_PASSWORD_AGE, [days_to_ad_time_units 120]), (ATTRIBUTE_MS_DS_PASSWORD_COMPLEXITY_ENABLED, [bool_value True]),
     (ATTRIBUTE_MS_DS_PASSWORD_REVERSIBLE_ENCRYPTION_ENABLED, [bool_value False])]"

definition object_of :: "(qstring \<times> bytes list) list \<Rightarrow> ad_object" where
  "object_of kvs = \<lparr>object_dn = ''CN=staff'', attributes_data = map_of kvs\<rparr>"

definition empty_form :: pso_edit where
  "empty_form = \<lparr>is_global = False, name_edit = [], precedence_spinbox = 1, min_passwd_len_spinbox = 0, history_length_spinbox = 0,
     logon_attempts_spinbox = 0, lockout_duration_spinbox = 0, reset_lockout_spinbox = 0, min_age_spinbox = 0, max_age_spinbox = 0,
     complexity_req_checkbox = False, store_passwd_checkbox = False, dn_applied_list = [], applied_list_widget = []\<rparr>"

definition empty_results :: pso_results where
  "empty_results = \<lparr>edit_widget = empty_form, saved_object = empty_object, editable = False\<rparr>"

lemma object_of_values: "get_values (object_of kvs) a = (case map_of kvs a of Some vs \<Rightarrow> vs | None \<Rightarrow> [])"
  by (simp add: get_values_def object_of_def)

lemma pso_update_runs:
  assumes "update_values obj (object_contains obj ATTRIBUTE_PWD_PROPERTIES) (empty_form\<lparr>is_global := object_contains obj ATTRIBUTE_PWD_PROPERTIES\<rparr>) = Inr w"
    and "dn_applied_list w = []"
  shows "pso_update env obj empty_results s = Inr (\<lparr>edit_widget = w, saved_object = obj, editable = False\<rparr>, s)"
  using assms by (simp add: pso_update_def update_form_def update_fields_def Let_def ad_simps empty_results_def)

lemma example_pso_shown: "\<exists>r'. pso_update example_env (object_of example_pso_values) empty_results s = Inr (r', s)"
proof -
  have "\<exists>w. update_values (object_of example_pso_values) False (empty_form\<lparr>is_global := False\<rparr>) = Inr w \<and> dn_applied_list w = []"
    by (simp add: update_values_def replace_attribute_def Let_def get_value_def object_of_values example_pso_values_def minutes_read days_read
        get_strings_def)
  moreover have "\<not> object_contains (object_of example_pso_values) ATTRIBUTE_PWD_PROPERTIES"
    by (simp add: object_contains_def object_of_def example_pso_values_def)
  ultimately show ?thesis using pso_update_runs [of "object_of example_pso_values"] by force
qed

lemma example_pso_fits:
  "{a \<in> set pso_attributes. \<not> field_fits a (get_values (object_of example_pso_values) a)} = {ATTRIBUTE_MS_DS_MAX_PASSWORD_AGE}"
proof -
  have fits: "1 \<le> n \<Longrightarrow> n \<le> 99 \<Longrightarrow> field_fits ATTRIBUTE_MS_DS_PASSWORD_SETTINGS_PRECEDENCE [number_value n]"
    "0 \<le> n \<Longrightarrow> n \<le> 99 \<Longrightarrow> field_fits ATTRIBUTE_MS_DS_MIN_PASSWORD_LENGTH [number_value n]"
    "0 \<le> n \<Longrightarrow> n \<le> 99 \<Longrightarrow> field_fits ATTRIBUTE_MS_DS_PASSWORD_HISTORY_LENGTH [number_value n]"
    "0 \<le> n \<Longrightarrow> n \<le> 99 \<Longrightarrow> field_fits ATTRIBUTE_MS_DS_LOCKOUT_THRESHOLD [number_value n]"
    "0 \<le> n \<Longrightarrow> n \<le> 99 \<Longrightarrow> field_fits ATTRIBUTE_MS_DS_LOCKOUT_DURATION [minutes_to_ad_time_units n]"
    "0 \<le> n \<Longrightarrow> n \<le> 99 \<Longrightarrow> field_fits ATTRIBUTE_MS_DS_LOCKOUT_OBSERVATION_WINDOW [minutes_to_ad_time_units n]"
    "0 \<le> n \<Longrightarrow> n \<le> 99 \<Longrightarrow> field_fits ATTRIBUTE_MS_DS_MIN_PASSWORD_AGE [days_to_ad_time_units n]"
    "field_fits ATTRIBUTE_MS_DS_PASSWORD_COMPLEXITY_ENABLED [bool_value b]"
    "field_fits ATTRIBUTE_MS_DS_PASSWORD_REVERSIBLE_ENCRYPTION_ENABLED [bool_value b]" "field_fits ATTRIBUTE_PSO_APPLIES_TO []" for n b
    by (auto simp: field_fits_def)
  have name: "field_fits ATTRIBUTE_CN [bytes_of_string ''staff'']" by (auto simp: field_fits_def trimmed_def is_space_char_def)
  have "days_to_ad_time_units 120 \<noteq> days_to_ad_time_units n" if "0 \<le> n" "n \<le> 99" for n
    using days_read [of 120] days_read [of n] that by auto
  then have age: "\<not> field_fits ATTRIBUTE_MS_DS_MAX_PASSWORD_AGE [days_to_ad_time_units 120]" by (auto simp: field_fits_def)
  have "{a \<in> set pso_attributes. \<not> field_fits a (get_values (object_of example_pso_values) a)} =
      set (filter (\<lambda>a. \<not> field_fits a (get_values (object_of example_pso_values) a)) pso_attributes)" by simp
  also have "\<dots> = {ATTRIBUTE_MS_DS_MAX_PASSWORD_AGE}"
    by (simp add: pso_attributes_def object_of_values example_pso_values_def fits name age)
  finally show ?thesis .
qed


text \<open>The options of a domain for complex passwords and against anonymous changes: the second is lost.\<close>

definition example_domain_values :: "(qstring \<times> bytes list) list" where
  "example_domain_values = [(ATTRIBUTE_PWD_PROPERTIES, [number_value 3])]"

lemma no_time: "ad_time_units_to_mintes [] = Inr 0" "ad_time_units_to_days [] = Inr 0"
proof -
  have "to_long_long [] = None" by code_simp
  then have "ad_time_units_to_miliseconds [] = Inr 0" by (simp add: ad_time_units_to_miliseconds_def string_of_bytes_def or_zero_def cdiv_def)
  then show "ad_time_units_to_mintes [] = Inr 0" "ad_time_units_to_days [] = Inr 0"
    by (simp_all add: ad_time_units_to_mintes_def ad_time_units_to_days_def cdiv_def narrow_small)
qed

theorem domain_unedited_witness:
  "\<exists>r'. pso_update example_env (object_of example_domain_values) empty_results (example_state [] []) = Inr (r', example_state [] [])
    \<and> setting (edit_widget r') ATTRIBUTE_PWD_PROPERTIES = [number_value 1] \<and> store_passwd_checkbox (edit_widget r')"
proof -
  let ?obj = "object_of example_domain_values"
  have "get_int ?obj ATTRIBUTE_PWD_PROPERTIES = 3"
    by (simp add: get_int_def get_ints_def get_strings_def object_of_values example_domain_values_def number_value_def to_int_number in_range_def or_zero_def)
  moreover have global: "object_contains ?obj ATTRIBUTE_PWD_PROPERTIES"
    by (simp add: object_contains_def object_of_def example_domain_values_def)
  moreover have "get_values ?obj [] = []" by (simp add: object_of_values example_domain_values_def)
  moreover have "\<exists>w. update_values ?obj True (empty_form\<lparr>is_global := True\<rparr>) = Inr w \<and> dn_applied_list w = []"
    by (simp add: update_values_def replace_attribute_def Let_def get_value_def object_of_values example_domain_values_def no_time
        pso_attributes_to_global_attributes_def get_strings_def)
  then obtain w where "update_values ?obj True (empty_form\<lparr>is_global := True\<rparr>) = Inr w" "dn_applied_list w = []" by blast
  with pso_update_runs [of ?obj w example_env "example_state [] []"] global obtain r' where
    r': "pso_update example_env ?obj empty_results (example_state [] []) = Inr (r', example_state [] [])" by auto
  ultimately show ?thesis using domain_unedited [OF _ global _ r'] r' by (auto simp: SAM_MASK_DOMAIN_PASSWORD_STORE_CLEARTEXT_def)
qed

text \<open>A server with one object, whose attributes have different names.\<close>

definition one_object :: "qstring \<Rightarrow> example_server \<Rightarrow> bool" where
  "one_object dn srv = (\<exists>attrs. ex_objects srv = [(dn, attrs)] \<and> distinct (map fst attrs))"

definition stored_values :: "example_server \<Rightarrow> qstring \<Rightarrow> bytes list" where
  "stored_values srv a = (case ex_objects srv of [(_, attrs)] \<Rightarrow> (case map_of attrs a of Some vals \<Rightarrow> vals | None \<Rightarrow> []) | _ \<Rightarrow> [])"

lemma object_attributes_map: "distinct (map fst attrs) \<Longrightarrow>
    fold (\<lambda>(attribute, vals) m. m(attribute \<mapsto> values_to_bytes vals)) (map (\<lambda>(a, vals). (a, Some vals)) attrs) m = m ++ map_of attrs"
proof (induction attrs arbitrary: m)
  case (Cons kv kvs)
  obtain k v where kv: "kv = (k, v)" by (cases kv)
  from Cons have "map_of kvs k = None" by (auto simp: kv map_of_eq_None_iff)
  then show ?case using Cons by (auto simp: kv values_to_bytes_def fun_eq_iff map_add_def split: option.splits)
qed simp

lemma one_object_search:
  assumes "one_object dn (server s)" and "\<not> s_log_searches s"
  shows "search_object example_env dn attributes False s =
    Inr (\<lparr>object_dn = dn, attributes_data = map_of (snd (hd (ex_objects (server s))))\<rparr>, s)"
proof -
  from assms(1) obtain attrs where attrs: "ex_objects (server s) = [(dn, attrs)]" "distinct (map fst attrs)" by (auto simp: one_object_def)
  have reply: "page_reply example_env (make_query dn SearchScope_Object [] attributes False) None (server s) =
      (\<lparr>reply_code = LDAP_SUCCESS, reply_entries = [(dn, map (\<lambda>(a, vals). (a, Some vals)) attrs)],
        parse_code = LDAP_SUCCESS, page_response = Some (LDAP_SUCCESS, [])\<rparr>, server s)"
    by (simp add: page_reply_def make_query_def ex_search_def ex_matches_def ex_position_def Let_def attrs(1))
  from search_loop_pages [OF serves_last [OF reply] example_controls refl assms(2), of 10 "[]"]
  show ?thesis
    by (simp add: page_ok_def next_cookie_def search_object_def search_def ad_simps destroy_cookie_def cookie_of_def
        load_entry_def search_object_of_def object_load_def empty_object_def object_attributes_to_bytes_def object_attributes_map [OF attrs(2)] attrs(1))
qed

lemma one_object_stores: "stores_values example_env (one_object dn) stored_values dn"
proof -
  have "\<exists>obj. (\<forall>s. server s = srv \<longrightarrow> \<not> s_log_searches s \<longrightarrow> search_object example_env dn attributes False s = Inr (obj, s))
      \<and> (\<forall>a. attributes = [] \<or> a \<in> set attributes \<longrightarrow> get_values obj a = stored_values srv a)" if "one_object dn srv" for srv attributes
    using one_object_search [of dn] that
    by (intro exI [of _ "\<lparr>object_dn = dn, attributes_data = map_of (snd (hd (ex_objects srv)))\<rparr>"])
      (auto simp: one_object_def stored_values_def get_values_def)
  moreover have "\<exists>srv'. ex_modify dn [\<lparr>mod_op = LDAP_MOD_REPLACE, mod_type = a, mod_values = vals\<rparr>] [] srv = (LDAP_SUCCESS, srv')
      \<and> one_object dn srv' \<and> stored_values srv' = (stored_values srv)(a := vals)" if "one_object dn srv" for srv a vals
    using that by (auto simp: one_object_def ex_modify_def stored_values_def update_conv' distinct_update fun_eq_iff)
  ultimately show ?thesis by (simp add: stores_values_def)
qed

text \<open>The form as it is after the object was shown, with 120 days cut to 99, and 10 characters typed in for the length.\<close>

definition example_form :: pso_edit where
  "example_form = empty_form\<lparr>name_edit := ''staff'', min_passwd_len_spinbox := 10, history_length_spinbox := 24,
     lockout_duration_spinbox := 30, reset_lockout_spinbox := 30, min_age_spinbox := 1, max_age_spinbox := 99, complexity_req_checkbox := True\<rparr>"

lemma example_settings:
  "setting example_form ATTRIBUTE_CN = [bytes_of_string ''staff'']"
  "setting example_form ATTRIBUTE_MS_DS_MIN_PASSWORD_LENGTH = [number_value 10]"
  "setting example_form ATTRIBUTE_MS_DS_MAX_PASSWORD_AGE = [days_to_ad_time_units 99]"
  using pso_keys(2) [of example_form]
  by (simp_all add: setting_def pso_settings_def replace_attribute_def Let_def example_form_def empty_form_def trimmed_def is_space_char_def)

theorem pso_applied_witness:
  "\<exists>r' t. on_apply example_env \<lparr>edit_widget = example_form, saved_object = object_of example_pso_values, editable = True\<rparr>
      (example_state [(''CN=staff'', example_pso_values)] []) = Inr (r', t)
    \<and> stored_values (server t) ATTRIBUTE_MS_DS_MIN_PASSWORD_LENGTH = [number_value 10]
    \<and> stored_values (server t) ATTRIBUTE_MS_DS_MAX_PASSWORD_AGE = [days_to_ad_time_units 99]"
proof -
  let ?s = "example_state [(''CN=staff'', example_pso_values)] []"
  let ?r = "\<lparr>edit_widget = example_form, saved_object = object_of example_pso_values, editable = True\<rparr>"
  have "one_object ''CN=staff'' (server ?s)" by (simp add: one_object_def example_pso_values_def)
  moreover have "\<not> is_global (edit_widget ?r)" "is_connected ?s" "object_dn (saved_object ?r) = ''CN=staff''"
    by (simp_all add: example_form_def empty_form_def example_state_def object_of_def)
  moreover have "get_values (saved_object ?r) a = stored_values (server ?s) a" for a
    by (simp add: object_of_values stored_values_def)
  moreover have "setting (edit_widget ?r) ATTRIBUTE_CN = get_values (saved_object ?r) ATTRIBUTE_CN"
    by (simp add: example_settings object_of_values example_pso_values_def)
  ultimately obtain r' t where "on_apply example_env ?r ?s = Inr (r', t)"
    "\<forall>a. stored_values (server t) a = (if a \<in> set pso_attributes then setting (edit_widget ?r) a else stored_values (server ?s) a)"
    using pso_applied [OF _ one_object_stores, of "''CN=staff''" ?s ?r] by auto
  moreover have "ATTRIBUTE_MS_DS_MIN_PASSWORD_LENGTH \<in> set pso_attributes" "ATTRIBUTE_MS_DS_MAX_PASSWORD_AGE \<in> set pso_attributes"
    by (simp_all add: pso_attributes_def)
  ultimately show ?thesis by (simp add: example_settings)
qed

end
