(* ===== verification/Spec2Isabelle.thy ===== *)
theory Spec2Isabelle
  imports AdDefines AdUtils Gplink AdFilter AdObject Directory SecurityDescriptor DaclFacts AdConfig SecurityRights RightsFacts AclSettings AdDisplay QtDateTime DisplayFacts AdConnection DeleteFacts AccountFacts GptFacts DnsFacts Krb5Facts CoreFacts HoursFacts MembershipFacts PsoFacts
begin

text \<open>
  A verification library for ADMC, a Qt program that administers Active Directory domains. The
  program's own logic is in the library \<open>src/src/adldap\<close>: it reads and writes a directory over LDAP and
  the folders of Group Policy over SMB, and it has the rules of access control lists, Group Policy
  links, filters, names, dates and display texts. The dialogs of \<open>src/src/admc\<close> are built on it.

  Numbers and memory. Masks and option bits are \<open>32 word\<close>, bytes \<open>8 word\<close>, 64-bit times are \<open>int\<close> with
  their bounds written out; \<open>QString\<close> is a list of characters. A computation that may read past an
  array, through a null pointer, twice free or read freed memory has the type \<open>fault + 'a\<close> (\<open>Prelude\<close>),
  so that being free of such faults is something that is proved. An operation of \<open>AdInterface\<close> is a function
  from its state to a result and a new state, or a fault (\<open>LdapClient\<close>); its failures are values, as in
  the code, and messages are appended to the state.

  Values and strings:
    \<^item> \<open>Prelude\<close>: computations that may fault, loops over lists, \<open>QList\<close> operations, masks as flag sets.
    \<^item> \<open>QtCore\<close>, \<open>QtDateTime\<close>: the operations of \<open>QString\<close>, \<open>QDateTime\<close> and the calendar that the code uses.
    \<^item> \<open>AdDefines\<close>: \<open>ad_defines.h\<close>.
    \<^item> \<open>AdUtils\<close>: \<open>ad_utils.cpp\<close>; names of objects as distinguished names, \<open>gpt.ini\<close>, account options and
      group types as bits, and the ring of C strings that \<open>cstr\<close> hands out.
    \<^item> \<open>AdFilter\<close>: \<open>ad_filter.cpp\<close>, with the meaning of the filters that are printed.
    \<^item> \<open>AdObject\<close>: \<open>ad_object.cpp\<close>, the typed getters of an object.
    \<^item> \<open>AdDisplay\<close>, \<open>DisplayFacts\<close>: \<open>ad_display.cpp\<close> and the dates of \<open>ad_utils.cpp\<close>, with round trips.
    \<^item> \<open>Gplink\<close>: \<open>gplink.cpp\<close>, with the invariant of every state that is reachable, parsing and printing.

  Access control:
    \<^item> \<open>SecurityDescriptor\<close>, \<open>DaclFacts\<close>: lists of entries (\<open>ad_security.cpp\<close>): matching, adding and removing
      rights, sorting and the test of the order. The facts say which rights remain after each operation.
    \<^item> \<open>SecurityRights\<close>, \<open>RightsFacts\<close>: superior and subordinate rights, and the tasks of delegation
      (\<open>common_task_manager.cpp\<close>).
    \<^item> \<open>AclSettings\<close>: protection against deletion, changing the password, removing a trustee.

  The directory:
    \<^item> \<open>Directory\<close>: searching as a parameter, for \<open>AdConfig\<close>: \<open>ad_config.cpp\<close>, loading the schema and the
      display specifiers, and every getter.
    \<^item> \<open>LdapClient\<close>: the state of \<open>AdInterface\<close>, messages and searching in pages; \<open>AdOperations\<close>: attributes,
      objects, groups and users; \<open>GpoOperations\<close>: creating, deleting, checking and synchronising policies;
      \<open>AdConnection\<close>: name servers and the options of a connection (\<open>ad_interface.cpp\<close>).
    \<^item> \<open>SearchFacts\<close>: a search over pages gives what the server holds; \<open>ReportFacts\<close>, \<open>ReportedErrors\<close>: an
      operation that fails leaves an error message, stated once as the locale \<open>reporting\<close> and interpreted
      for each operation; \<open>DeleteFacts\<close>: deleting a tree without the control for it; \<open>AccountFacts\<close>: account
      options and scopes of groups on a server; \<open>GptFacts\<close>: walking the folder of a policy; \<open>DnsFacts\<close>: the
      bounds of parsing replies. \<open>ExampleServer\<close> is the server on which these theorems are tried out.

  Parameters. The LDAP client library, libsmbclient, the resolver, SASL, Kerberos, NDR coding, the
  system time zone and the order of a \<open>QHash\<close> are fields of records (\<open>ldap_api\<close>, \<open>smb_api\<close>, \<open>dns_api\<close>,
  \<open>sec_api\<close>, \<open>gpt_api\<close>, \<open>display_env\<close>, \<open>ad_env\<close>); what a theorem needs of them is a hypothesis with a name,
  and its witness has an instance of it.

  Bounds. Loops that end for a reason outside of the code take a number of steps (\<open>fuel\<close> of \<open>ad_env\<close>):
  pages of a search, entries of a folder and folders of a policy, and doubling the buffer of an extended
  attribute. Running out is the fault \<open>Out_Of_Fuel\<close>, and the theorems show that as many steps as there
  are pages, or folders and entries, are enough. The chain of base classes is a \<open>partial_function\<close> and
  shown to end.

  Not modelled. Widgets, models and dialogs of Qt (\<open>src/src/admc/ui\<close>): layout, signals, settings. The
  copies of Samba's NDR code (\<open>samba/\<close>) are third-party; only \<open>gp_manage.c\<close> and the text of a SID are
  modelled, because the program changes or calls them. Translations are the identity.
\<close>

end
